(* ===== verification/Prelude.thy ===== *)
theory Prelude
  imports Main "HOL-Library.Word"
begin

text \<open>
  Shared vocabulary of the development: the machine types of the Rust sources, the
  \<open>errno\<close> values they use, \<open>Result<T, c_int>\<close>, little-endian byte strings
  (\<open>to_le_bytes\<close>) and the generic facts on lists, options and words that the
  component theories share.
\<close>

unbundle bit_operations_syntax

section \<open>Collections of rules\<close>

named_theorems wp_simps
named_theorems cell_simps
named_theorems decoder_defs

section \<open>Machine types\<close>

type_synonym u8 = "8 word"
type_synonym u16 = "16 word"
type_synonym u32 = "32 word"
type_synonym u64 = "64 word"
type_synonym ptr = "64 word"
type_synonym c_int = int
type_synonym ssize_t = int

abbreviation NULL :: ptr where
  "NULL \<equiv> 0"

text \<open>The Linux values of the \<open>errno\<close> and \<open>open(2)\<close> constants the sources name.\<close>

definition EIO :: c_int where "EIO = 5"
definition ENOMEM :: c_int where "ENOMEM = 12"
definition EINVAL :: c_int where "EINVAL = 22"
definition EBADMSG :: c_int where "EBADMSG = 74"
definition EOVERFLOW :: c_int where "EOVERFLOW = 75"
definition O_RDWR :: c_int where "O_RDWR = 2"
definition O_CLOEXEC :: c_int where "O_CLOEXEC = 524288"

lemmas errno_defs = EIO_def ENOMEM_def EINVAL_def EBADMSG_def EOVERFLOW_def

lemma errno_distinct [simp]:
  "EINVAL \<noteq> EBADMSG" "EBADMSG \<noteq> EINVAL" "EINVAL \<noteq> ENOMEM" "ENOMEM \<noteq> EINVAL"
  "EINVAL \<noteq> EOVERFLOW" "EOVERFLOW \<noteq> EINVAL" "ENOMEM \<noteq> EOVERFLOW" "EOVERFLOW \<noteq> ENOMEM"
  "EBADMSG \<noteq> ENOMEM" "ENOMEM \<noteq> EBADMSG" "EBADMSG \<noteq> EOVERFLOW" "EOVERFLOW \<noteq> EBADMSG"
  "EIO \<noteq> EBADMSG" "EBADMSG \<noteq> EIO"
  "EIO \<noteq> EINVAL" "EINVAL \<noteq> EIO" "EIO \<noteq> ENOMEM" "ENOMEM \<noteq> EIO" "EIO \<noteq> EOVERFLOW" "EOVERFLOW \<noteq> EIO"
  by (simp_all add: errno_defs)

section \<open>Result\<close>

text \<open>Rust's \<open>Result<T, c_int>\<close>: a value or an \<open>errno\<close>.\<close>

datatype 'a result = Ok 'a | Err c_int

section \<open>Little-endian byte strings\<close>

text \<open>\<open>le_bytes n x\<close> is the \<open>n\<close> low bytes of \<open>x\<close>, least significant first.\<close>

definition le_bytes :: "nat \<Rightarrow> 'a::len word \<Rightarrow> u8 list" where
  "le_bytes n x = map (\<lambda>i. ucast (drop_bit (8 * i) x)) [0..<n]"

abbreviation le16 :: "u16 \<Rightarrow> u8 list" where "le16 x \<equiv> le_bytes 2 x"
abbreviation le32 :: "u32 \<Rightarrow> u8 list" where "le32 x \<equiv> le_bytes 4 x"
abbreviation le64 :: "u64 \<Rightarrow> u8 list" where "le64 x \<equiv> le_bytes 8 x"

fun from_le :: "u8 list \<Rightarrow> 'a::len word" where
  "from_le [] = 0"
| "from_le (b # bs) = ucast b OR push_bit 8 (from_le bs)"

lemma length_le_bytes [simp]: "length (le_bytes n x) = n"
  by (simp add: le_bytes_def)

lemma le_bytes_nth: "i < n \<Longrightarrow> le_bytes n x ! i = ucast (drop_bit (8 * i) x)"
  by (simp add: le_bytes_def)

lemma le_bytes_Suc: "le_bytes (Suc n) x = ucast x # le_bytes n (drop_bit 8 x)"
  by (rule nth_equalityI) (auto simp: le_bytes_nth nth_Cons' drop_bit_drop_bit add.commute
      simp flip: mult_Suc_right)

lemma bit_from_le_le_bytes:
  "bit (from_le (le_bytes n x) :: 'a::len word) k \<longleftrightarrow> k < 8 * n \<and> bit (x :: 'a word) k"
proof (induction n arbitrary: x k)
  case 0
  then show ?case by (simp add: le_bytes_def)
next
  case (Suc n)
  have "bit x k \<Longrightarrow> k < LENGTH('a)" by (simp add: bit_imp_le_length)
  then show ?case
    by (auto simp: le_bytes_Suc Suc.IH bit_or_iff bit_push_bit_iff bit_ucast_iff bit_drop_bit_eq
        dest: bit_imp_le_length)
qed

lemma from_le_le_bytes:
  "LENGTH('a) \<le> 8 * n \<Longrightarrow> from_le (le_bytes n x) = (x :: 'a::len word)"
  by (rule bit_word_eqI) (simp add: bit_from_le_le_bytes)

lemma from_le_roundtrip [simp]:
  "from_le (le16 x) = x" "from_le (le32 y) = y" "from_le (le64 z) = z"
  by (simp_all add: from_le_le_bytes)

section \<open>Lists\<close>

lemma unat_of_nat_u32: "n < 2 ^ 32 \<Longrightarrow> unat (of_nat n :: u32) = n"
  by (simp add: unat_of_nat take_bit_nat_eq_self)

lemma unat_of_nat_u64: "n < 2 ^ 64 \<Longrightarrow> unat (of_nat n :: u64) = n"
  by (simp add: unat_of_nat take_bit_nat_eq_self)

lemma unat_u32_bound [simp]: "unat (x :: u32) < 4294967296"
  using unsigned_less [of x] by simp

lemma unat_ucast_u32_u64 [simp]: "unat (ucast (x :: u32) :: u64) = unat x"
proof -
  have "unat x < 2 ^ 64" using unat_u32_bound [of x] by (simp del: unat_u32_bound)
  then show ?thesis by (simp add: unsigned_ucast_eq take_bit_nat_eq_self)
qed

lemma unat_ucast_u64_u32: "unat (x :: u64) < 2 ^ 32 \<Longrightarrow> unat (ucast x :: u32) = unat x"
  by (simp add: unsigned_ucast_eq take_bit_nat_eq_self)

lemma sorted_distinct_eq_iff:
  "sorted xs \<Longrightarrow> distinct xs \<Longrightarrow> sorted ys \<Longrightarrow> distinct ys \<Longrightarrow>
    xs = ys \<longleftrightarrow> set xs = set (ys :: 'a::linorder list)"
  by (auto intro: sorted_distinct_set_unique)

end
