(* ===== verification/Guid.thy ===== *)
theory Guid
  imports Prelude "HOL-Library.List_Lexorder"
begin

text \<open>
  The 16-byte arrays \<open>[u8; 16]\<close> of the sources as a type of their own, with Rust's
  lexicographic array order as an instance of \<open>linorder\<close>, and the slice operations the
  sources apply to vectors of GUIDs: \<open>sort_unstable\<close>, \<open>dedup\<close>,
  \<open>windows(2)\<close> and \<open>chunks_exact(16)\<close>.
\<close>

section \<open>Sixteen-byte arrays\<close>

typedef guid = "{bs :: u8 list. length bs = 16}"
  morphisms guid_bytes Abs_guid
  by (rule exI [of _ "replicate 16 0"]) simp

declare guid_bytes_inverse [code abstype]

text \<open>\<open>guid_of\<close> reads an array off a byte list; on exactly 16 bytes it is the identity.\<close>

definition guid_of :: "u8 list \<Rightarrow> guid" where
  "guid_of bs = Abs_guid (take 16 (bs @ replicate 16 0))"

lemma guid_bytes_guid_of_code [code abstract]:
  "guid_bytes (guid_of bs) = take 16 (bs @ replicate 16 0)"
  by (simp add: guid_of_def Abs_guid_inverse)

definition nil_guid :: guid where
  "nil_guid = guid_of (replicate 16 0)"

lemma length_guid_bytes [simp]: "length (guid_bytes g) = 16"
  using guid_bytes [of g] by simp

lemma guid_bytes_guid_of [simp]: "length bs = 16 \<Longrightarrow> guid_bytes (guid_of bs) = bs"
  by (simp add: guid_bytes_guid_of_code)

lemma guid_of_guid_bytes [simp]: "guid_of (guid_bytes g) = g"
  by (simp add: guid_of_def guid_bytes_inverse)

lemma guid_eq_iff: "g = h \<longleftrightarrow> guid_bytes g = guid_bytes h"
  by (simp add: guid_bytes_inject)

lemma guid_bytes_nil [simp]: "guid_bytes nil_guid = replicate 16 0"
  by (simp add: nil_guid_def)

instantiation guid :: equal
begin

definition equal_guid :: "guid \<Rightarrow> guid \<Rightarrow> bool" where
  "equal_guid g h \<longleftrightarrow> guid_bytes g = guid_bytes h"

instance
  by standard (simp add: equal_guid_def guid_eq_iff)

end

instantiation guid :: linorder
begin

definition less_eq_guid :: "guid \<Rightarrow> guid \<Rightarrow> bool" where
  "less_eq_guid g h \<longleftrightarrow> guid_bytes g \<le> guid_bytes h"

definition less_guid :: "guid \<Rightarrow> guid \<Rightarrow> bool" where
  "less_guid g h \<longleftrightarrow> guid_bytes g < guid_bytes h"

instance
  by standard (auto simp: less_eq_guid_def less_guid_def guid_eq_iff)

end

lemma replicate_zero_le: "length (bs :: u8 list) = n \<Longrightarrow> replicate n 0 \<le> bs"
proof (induction n arbitrary: bs)
  case 0
  then show ?case by simp
next
  case (Suc n)
  then obtain b cs where "bs = b # cs" and "length cs = n"
    by (cases bs) auto
  with Suc.IH [of cs] show ?case
    by (auto simp: order.order_iff_strict word_gt_0)
qed

lemma nil_guid_least [simp]: "nil_guid \<le> g"
  by (simp add: less_eq_guid_def replicate_zero_le)

section \<open>Slice operations\<close>

text \<open>
  \<open>sort_unstable\<close> on values whose equality is identity gives the one sorted permutation,
  whatever the algorithm: it is \<open>sort\<close>. \<open>dedup\<close> drops consecutive repetitions.
\<close>

definition sort_unstable :: "guid list \<Rightarrow> guid list" where
  "sort_unstable gs = sort gs"

definition dedup :: "guid list \<Rightarrow> guid list" where
  "dedup gs = remdups_adj gs"

text \<open>\<open>windows(2).any(|pair| pair[0] == pair[1])\<close>\<close>

fun any_equal_pair :: "guid list \<Rightarrow> bool" where
  "any_equal_pair (a # b # gs) = (a = b \<or> any_equal_pair (b # gs))"
| "any_equal_pair _ = False"

text \<open>\<open>chunks_exact(16)\<close> with each chunk copied into an array.\<close>

fun chunks_exact_16 :: "u8 list \<Rightarrow> guid list" where
  "chunks_exact_16 bs = (if length bs < 16 then [] else guid_of (take 16 bs) # chunks_exact_16 (drop 16 bs))"

declare chunks_exact_16.simps [simp del]

lemma sort_unstable_simps [simp]:
  "set (sort_unstable gs) = set gs"
  "sorted (sort_unstable gs)"
  "length (sort_unstable gs) = length gs"
  "distinct (sort_unstable gs) = distinct gs"
  by (simp_all add: sort_unstable_def)

lemma sorted_any_equal_pair: "sorted gs \<Longrightarrow> any_equal_pair gs \<longleftrightarrow> \<not> distinct gs"
  by (induction gs rule: any_equal_pair.induct) auto

lemma sorted_nil_first:
  "sorted gs \<Longrightarrow> nil_guid \<in> set gs \<longleftrightarrow> gs \<noteq> [] \<and> hd gs = nil_guid"
  by (cases gs) (auto intro: antisym)

lemma dedup_sorted:
  "sorted gs \<Longrightarrow> sorted (dedup gs)"
  "sorted gs \<Longrightarrow> distinct (dedup gs)"
  by (simp_all add: dedup_def sorted_remdups_adj)
    (induction gs rule: remdups_adj.induct, auto)

lemma set_dedup [simp]: "set (dedup gs) = set gs"
  by (simp add: dedup_def)

lemma chunks_exact_16_Nil [simp]: "chunks_exact_16 [] = []"
  by (simp add: chunks_exact_16.simps)

lemma chunks_exact_16_guid_bytes:
  "chunks_exact_16 (guid_bytes g @ bs) = g # chunks_exact_16 bs"
  by (simp add: chunks_exact_16.simps [of "guid_bytes g @ bs"])

lemma chunks_exact_16_concat [simp]: "chunks_exact_16 (concat (map guid_bytes gs)) = gs"
  by (induction gs) (simp_all add: chunks_exact_16_guid_bytes)

lemma length_concat_guid_bytes [simp]: "length (concat (map guid_bytes gs)) = 16 * length gs"
  by (induction gs) simp_all

end
