(* ===== verification/Abi.thy ===== *)
theory Abi
  imports Guid
begin

text \<open>
  The \<open>#[repr(C)]\<close> structs of the library's C interface, one record per struct with the
  fields in source order (a prefix per struct keeps the field names apart), the
  \<open>repr(C)\<close> size that pointer arithmetic on arrays of them uses, and the memory they
  live in. Memory maps an address to a typed cell; reading an address that holds no cell
  of the expected type is undefined behaviour in the sources and has no value here.
\<close>

section \<open>Structs of request.rs, response.rs and source.rs\<close>

record rsi_request =
  request_id :: u64
  txn_id :: u64
  payload :: ptr
  payload_len :: u32
  op_code :: u16

record rsi_lookup =
  lk_parent_guid :: guid
  lk_child_name :: ptr
  lk_child_name_len :: u32

record rsi_create_entry =
  ce_parent_guid :: guid
  ce_child_guid :: guid
  ce_child_name :: ptr
  ce_child_name_len :: u32
  ce_layer_name :: ptr
  ce_layer_name_len :: u32
  ce_sequence :: u64

record rsi_hide_entry =
  he_parent_guid :: guid
  he_child_name :: ptr
  he_child_name_len :: u32
  he_layer_name :: ptr
  he_layer_name_len :: u32
  he_sequence :: u64

record rsi_delete_entry =
  de_parent_guid :: guid
  de_child_name :: ptr
  de_child_name_len :: u32
  de_layer_name :: ptr
  de_layer_name_len :: u32

record rsi_enum_children =
  ec_parent_guid :: guid

record rsi_create_key =
  ck_guid :: guid
  ck_parent_guid :: guid
  ck_name :: ptr
  ck_name_len :: u32
  ck_sd :: ptr
  ck_sd_len :: u32
  ck_volatile_key :: u8
  ck_symlink :: u8

record rsi_key_guid =
  kg_guid :: guid

record rsi_write_key =
  wk_guid :: guid
  wk_field_mask :: u32
  wk_sd :: ptr
  wk_sd_len :: u32
  wk_last_write_time :: u64

record rsi_query_values =
  qv_guid :: guid
  qv_value_name :: ptr
  qv_value_name_len :: u32
  qv_query_all :: u8

record rsi_set_value =
  sv_guid :: guid
  sv_value_name :: ptr
  sv_value_name_len :: u32
  sv_layer_name :: ptr
  sv_layer_name_len :: u32
  sv_value_type :: u32
  sv_data :: ptr
  sv_data_len :: u32
  sv_sequence :: u64
  sv_expected_sequence :: u64

record rsi_delete_value_entry =
  dv_guid :: guid
  dv_value_name :: ptr
  dv_value_name_len :: u32
  dv_layer_name :: ptr
  dv_layer_name_len :: u32

record rsi_set_blanket_tombstone =
  bt_guid :: guid
  bt_layer_name :: ptr
  bt_layer_name_len :: u32
  bt_set :: u8
  bt_sequence :: u64

record rsi_begin_transaction =
  bx_transaction_id :: u64
  bx_mode :: u32

record rsi_transaction =
  tx_transaction_id :: u64

record rsi_name =
  nm_name :: ptr
  nm_name_len :: u32


text \<open>Arrays the caller hands to the response builders.\<close>

record rsi_path_entry =
  pe_layer :: ptr
  pe_layer_len :: u32
  pe_target_type :: u8
  pe_target_guid :: guid
  pe_sequence :: u64

record rsi_key_metadata =
  km_guid :: guid
  km_sd :: ptr
  km_sd_len :: u32
  km_volatile_key :: u8
  km_symlink :: u8
  km_last_write_time :: u64

record rsi_child_entry =
  ch_child_name :: ptr
  ch_child_name_len :: u32
  ch_entries :: ptr
  ch_entry_count :: u32

record rsi_value_entry =
  ve_value_name :: ptr
  ve_value_name_len :: u32
  ve_layer_name :: ptr
  ve_layer_name_len :: u32
  ve_value_type :: u32
  ve_data :: ptr
  ve_data_len :: u32
  ve_sequence :: u64

record rsi_blanket_entry =
  be_layer_name :: ptr
  be_layer_name_len :: u32
  be_sequence :: u64


text \<open>Registration: the caller's hive and the entry the kernel reads.\<close>

record rsi_hive =
  hv_name :: ptr
  hv_name_len :: u32
  hv_flags :: u32
  hv_root_guid :: guid
  hv_scope_guid :: guid

record reg_src_hive_entry =
  re_name_len :: u32
  re_pad0 :: u32
  re_name_ptr :: u64
  re_root_guid :: guid
  re_flags :: u32
  re_pad1 :: u32
  re_scope_guid :: guid

record reg_src_register_args =
  ra_hive_count :: u32
  ra_pad :: u32
  ra_max_sequence :: u64
  ra_hives_ptr :: u64

section \<open>Sizes\<close>

text \<open>
  \<open>repr(C)\<close> places each field at the next multiple of its alignment and rounds the size
  up to the largest alignment. A field is given as (size, alignment).
\<close>

definition align_up :: "nat \<Rightarrow> nat \<Rightarrow> nat" where
  "align_up a n = (n + a - 1) div a * a"

fun c_end :: "nat \<Rightarrow> (nat \<times> nat) list \<Rightarrow> nat" where
  "c_end n [] = n"
| "c_end n ((sz, al) # fs) = c_end (align_up al n + sz) fs"

definition c_sizeof :: "(nat \<times> nat) list \<Rightarrow> nat" where
  "c_sizeof fs = align_up (foldr (max \<circ> snd) fs 1) (c_end 0 fs)"

definition sizeof_rsi_path_entry :: nat where
  "sizeof_rsi_path_entry = c_sizeof [(8, 8), (4, 4), (1, 1), (16, 1), (8, 8)]"

definition sizeof_rsi_key_metadata :: nat where
  "sizeof_rsi_key_metadata = c_sizeof [(16, 1), (8, 8), (4, 4), (1, 1), (1, 1), (8, 8)]"

definition sizeof_rsi_child_entry :: nat where
  "sizeof_rsi_child_entry = c_sizeof [(8, 8), (4, 4), (8, 8), (4, 4)]"

definition sizeof_rsi_value_entry :: nat where
  "sizeof_rsi_value_entry = c_sizeof [(8, 8), (4, 4), (8, 8), (4, 4), (4, 4), (8, 8), (4, 4), (8, 8)]"

definition sizeof_rsi_blanket_entry :: nat where
  "sizeof_rsi_blanket_entry = c_sizeof [(8, 8), (4, 4), (8, 8)]"

definition sizeof_rsi_hive :: nat where
  "sizeof_rsi_hive = c_sizeof [(8, 8), (4, 4), (4, 4), (16, 1), (16, 1)]"

definition sizeof_reg_src_hive_entry :: nat where
  "sizeof_reg_src_hive_entry = c_sizeof [(4, 4), (4, 4), (8, 8), (16, 1), (4, 4), (4, 4), (16, 1)]"

lemma sizeof_eqs [code]:
  "sizeof_rsi_path_entry = 40"
  "sizeof_rsi_key_metadata = 40"
  "sizeof_rsi_child_entry = 32"
  "sizeof_rsi_value_entry = 56"
  "sizeof_rsi_blanket_entry = 24"
  "sizeof_rsi_hive = 48"
  "sizeof_reg_src_hive_entry = 56"
  by (simp_all add: c_sizeof_def align_up_def sizeof_rsi_path_entry_def sizeof_rsi_key_metadata_def sizeof_rsi_child_entry_def sizeof_rsi_value_entry_def sizeof_rsi_blanket_entry_def sizeof_rsi_hive_def sizeof_reg_src_hive_entry_def)

section \<open>Memory\<close>

datatype cell =
    Byte u8
  | Request rsi_request
  | Lookup rsi_lookup
  | CreateEntry rsi_create_entry
  | HideEntry rsi_hide_entry
  | DeleteEntry rsi_delete_entry
  | EnumChildren rsi_enum_children
  | CreateKey rsi_create_key
  | KeyGuid rsi_key_guid
  | WriteKey rsi_write_key
  | QueryValues rsi_query_values
  | SetValue rsi_set_value
  | DeleteValueEntry rsi_delete_value_entry
  | SetBlanketTombstone rsi_set_blanket_tombstone
  | BeginTransaction rsi_begin_transaction
  | Transaction rsi_transaction
  | Name rsi_name
  | PathEntry rsi_path_entry
  | KeyMetadata rsi_key_metadata
  | ChildEntry rsi_child_entry
  | ValueEntry rsi_value_entry
  | BlanketEntry rsi_blanket_entry
  | Hive rsi_hive
  | HiveEntry reg_src_hive_entry

type_synonym heap = "ptr \<Rightarrow> cell option"

text \<open>The typed view of a cell: the value when the cell has the type, else nothing.\<close>

definition as_Byte :: "cell \<Rightarrow> u8 option" where
  "as_Byte c = (case c of Byte x \<Rightarrow> Some x | _ \<Rightarrow> None)"

definition as_Request :: "cell \<Rightarrow> rsi_request option" where
  "as_Request c = (case c of Request x \<Rightarrow> Some x | _ \<Rightarrow> None)"

definition as_Lookup :: "cell \<Rightarrow> rsi_lookup option" where
  "as_Lookup c = (case c of Lookup x \<Rightarrow> Some x | _ \<Rightarrow> None)"

definition as_CreateEntry :: "cell \<Rightarrow> rsi_create_entry option" where
  "as_CreateEntry c = (case c of CreateEntry x \<Rightarrow> Some x | _ \<Rightarrow> None)"

definition as_HideEntry :: "cell \<Rightarrow> rsi_hide_entry option" where
  "as_HideEntry c = (case c of HideEntry x \<Rightarrow> Some x | _ \<Rightarrow> None)"

definition as_DeleteEntry :: "cell \<Rightarrow> rsi_delete_entry option" where
  "as_DeleteEntry c = (case c of DeleteEntry x \<Rightarrow> Some x | _ \<Rightarrow> None)"

definition as_EnumChildren :: "cell \<Rightarrow> rsi_enum_children option" where
  "as_EnumChildren c = (case c of EnumChildren x \<Rightarrow> Some x | _ \<Rightarrow> None)"

definition as_CreateKey :: "cell \<Rightarrow> rsi_create_key option" where
  "as_CreateKey c = (case c of CreateKey x \<Rightarrow> Some x | _ \<Rightarrow> None)"

definition as_KeyGuid :: "cell \<Rightarrow> rsi_key_guid option" where
  "as_KeyGuid c = (case c of KeyGuid x \<Rightarrow> Some x | _ \<Rightarrow> None)"

definition as_WriteKey :: "cell \<Rightarrow> rsi_write_key option" where
  "as_WriteKey c = (case c of WriteKey x \<Rightarrow> Some x | _ \<Rightarrow> None)"

definition as_QueryValues :: "cell \<Rightarrow> rsi_query_values option" where
  "as_QueryValues c = (case c of QueryValues x \<Rightarrow> Some x | _ \<Rightarrow> None)"

definition as_SetValue :: "cell \<Rightarrow> rsi_set_value option" where
  "as_SetValue c = (case c of SetValue x \<Rightarrow> Some x | _ \<Rightarrow> None)"

definition as_DeleteValueEntry :: "cell \<Rightarrow> rsi_delete_value_entry option" where
  "as_DeleteValueEntry c = (case c of DeleteValueEntry x \<Rightarrow> Some x | _ \<Rightarrow> None)"

definition as_SetBlanketTombstone :: "cell \<Rightarrow> rsi_set_blanket_tombstone option" where
  "as_SetBlanketTombstone c = (case c of SetBlanketTombstone x \<Rightarrow> Some x | _ \<Rightarrow> None)"

definition as_BeginTransaction :: "cell \<Rightarrow> rsi_begin_transaction option" where
  "as_BeginTransaction c = (case c of BeginTransaction x \<Rightarrow> Some x | _ \<Rightarrow> None)"

definition as_Transaction :: "cell \<Rightarrow> rsi_transaction option" where
  "as_Transaction c = (case c of Transaction x \<Rightarrow> Some x | _ \<Rightarrow> None)"

definition as_Name :: "cell \<Rightarrow> rsi_name option" where
  "as_Name c = (case c of Name x \<Rightarrow> Some x | _ \<Rightarrow> None)"

definition as_PathEntry :: "cell \<Rightarrow> rsi_path_entry option" where
  "as_PathEntry c = (case c of PathEntry x \<Rightarrow> Some x | _ \<Rightarrow> None)"

definition as_KeyMetadata :: "cell \<Rightarrow> rsi_key_metadata option" where
  "as_KeyMetadata c = (case c of KeyMetadata x \<Rightarrow> Some x | _ \<Rightarrow> None)"

definition as_ChildEntry :: "cell \<Rightarrow> rsi_child_entry option" where
  "as_ChildEntry c = (case c of ChildEntry x \<Rightarrow> Some x | _ \<Rightarrow> None)"

definition as_ValueEntry :: "cell \<Rightarrow> rsi_value_entry option" where
  "as_ValueEntry c = (case c of ValueEntry x \<Rightarrow> Some x | _ \<Rightarrow> None)"

definition as_BlanketEntry :: "cell \<Rightarrow> rsi_blanket_entry option" where
  "as_BlanketEntry c = (case c of BlanketEntry x \<Rightarrow> Some x | _ \<Rightarrow> None)"

definition as_Hive :: "cell \<Rightarrow> rsi_hive option" where
  "as_Hive c = (case c of Hive x \<Rightarrow> Some x | _ \<Rightarrow> None)"

definition as_HiveEntry :: "cell \<Rightarrow> reg_src_hive_entry option" where
  "as_HiveEntry c = (case c of HiveEntry x \<Rightarrow> Some x | _ \<Rightarrow> None)"

lemma as_Some_iff [cell_simps]:
  "as_Byte c = Some xByte \<longleftrightarrow> c = Byte xByte"
  "as_Request c = Some xRequest \<longleftrightarrow> c = Request xRequest"
  "as_Lookup c = Some xLookup \<longleftrightarrow> c = Lookup xLookup"
  "as_CreateEntry c = Some xCreateEntry \<longleftrightarrow> c = CreateEntry xCreateEntry"
  "as_HideEntry c = Some xHideEntry \<longleftrightarrow> c = HideEntry xHideEntry"
  "as_DeleteEntry c = Some xDeleteEntry \<longleftrightarrow> c = DeleteEntry xDeleteEntry"
  "as_EnumChildren c = Some xEnumChildren \<longleftrightarrow> c = EnumChildren xEnumChildren"
  "as_CreateKey c = Some xCreateKey \<longleftrightarrow> c = CreateKey xCreateKey"
  "as_KeyGuid c = Some xKeyGuid \<longleftrightarrow> c = KeyGuid xKeyGuid"
  "as_WriteKey c = Some xWriteKey \<longleftrightarrow> c = WriteKey xWriteKey"
  "as_QueryValues c = Some xQueryValues \<longleftrightarrow> c = QueryValues xQueryValues"
  "as_SetValue c = Some xSetValue \<longleftrightarrow> c = SetValue xSetValue"
  "as_DeleteValueEntry c = Some xDeleteValueEntry \<longleftrightarrow> c = DeleteValueEntry xDeleteValueEntry"
  "as_SetBlanketTombstone c = Some xSetBlanketTombstone \<longleftrightarrow> c = SetBlanketTombstone xSetBlanketTombstone"
  "as_BeginTransaction c = Some xBeginTransaction \<longleftrightarrow> c = BeginTransaction xBeginTransaction"
  "as_Transaction c = Some xTransaction \<longleftrightarrow> c = Transaction xTransaction"
  "as_Name c = Some xName \<longleftrightarrow> c = Name xName"
  "as_PathEntry c = Some xPathEntry \<longleftrightarrow> c = PathEntry xPathEntry"
  "as_KeyMetadata c = Some xKeyMetadata \<longleftrightarrow> c = KeyMetadata xKeyMetadata"
  "as_ChildEntry c = Some xChildEntry \<longleftrightarrow> c = ChildEntry xChildEntry"
  "as_ValueEntry c = Some xValueEntry \<longleftrightarrow> c = ValueEntry xValueEntry"
  "as_BlanketEntry c = Some xBlanketEntry \<longleftrightarrow> c = BlanketEntry xBlanketEntry"
  "as_Hive c = Some xHive \<longleftrightarrow> c = Hive xHive"
  "as_HiveEntry c = Some xHiveEntry \<longleftrightarrow> c = HiveEntry xHiveEntry"
  by (cases c; simp add: as_Byte_def as_Request_def as_Lookup_def as_CreateEntry_def as_HideEntry_def as_DeleteEntry_def as_EnumChildren_def as_CreateKey_def as_KeyGuid_def as_WriteKey_def as_QueryValues_def as_SetValue_def as_DeleteValueEntry_def as_SetBlanketTombstone_def as_BeginTransaction_def as_Transaction_def as_Name_def as_PathEntry_def as_KeyMetadata_def as_ChildEntry_def as_ValueEntry_def as_BlanketEntry_def as_Hive_def as_HiveEntry_def)+

lemma as_con [simp]:
  "as_Byte (Byte xByte) = Some xByte"
  "as_Request (Request xRequest) = Some xRequest"
  "as_Lookup (Lookup xLookup) = Some xLookup"
  "as_CreateEntry (CreateEntry xCreateEntry) = Some xCreateEntry"
  "as_HideEntry (HideEntry xHideEntry) = Some xHideEntry"
  "as_DeleteEntry (DeleteEntry xDeleteEntry) = Some xDeleteEntry"
  "as_EnumChildren (EnumChildren xEnumChildren) = Some xEnumChildren"
  "as_CreateKey (CreateKey xCreateKey) = Some xCreateKey"
  "as_KeyGuid (KeyGuid xKeyGuid) = Some xKeyGuid"
  "as_WriteKey (WriteKey xWriteKey) = Some xWriteKey"
  "as_QueryValues (QueryValues xQueryValues) = Some xQueryValues"
  "as_SetValue (SetValue xSetValue) = Some xSetValue"
  "as_DeleteValueEntry (DeleteValueEntry xDeleteValueEntry) = Some xDeleteValueEntry"
  "as_SetBlanketTombstone (SetBlanketTombstone xSetBlanketTombstone) = Some xSetBlanketTombstone"
  "as_BeginTransaction (BeginTransaction xBeginTransaction) = Some xBeginTransaction"
  "as_Transaction (Transaction xTransaction) = Some xTransaction"
  "as_Name (Name xName) = Some xName"
  "as_PathEntry (PathEntry xPathEntry) = Some xPathEntry"
  "as_KeyMetadata (KeyMetadata xKeyMetadata) = Some xKeyMetadata"
  "as_ChildEntry (ChildEntry xChildEntry) = Some xChildEntry"
  "as_ValueEntry (ValueEntry xValueEntry) = Some xValueEntry"
  "as_BlanketEntry (BlanketEntry xBlanketEntry) = Some xBlanketEntry"
  "as_Hive (Hive xHive) = Some xHive"
  "as_HiveEntry (HiveEntry xHiveEntry) = Some xHiveEntry"
  by (simp_all add: as_Byte_def as_Request_def as_Lookup_def as_CreateEntry_def as_HideEntry_def as_DeleteEntry_def as_EnumChildren_def as_CreateKey_def as_KeyGuid_def as_WriteKey_def as_QueryValues_def as_SetValue_def as_DeleteValueEntry_def as_SetBlanketTombstone_def as_BeginTransaction_def as_Transaction_def as_Name_def as_PathEntry_def as_KeyMetadata_def as_ChildEntry_def as_ValueEntry_def as_BlanketEntry_def as_Hive_def as_HiveEntry_def)
subsection \<open>Byte ranges\<close>

text \<open>\<open>slice::from_raw_parts(p, n)\<close>: the \<open>n\<close> bytes from \<open>p\<close>, when all are there.\<close>

fun read_bytes :: "heap \<Rightarrow> ptr \<Rightarrow> nat \<Rightarrow> u8 list option" where
  "read_bytes h p 0 = Some []"
| "read_bytes h p (Suc n) =
     (case Option.bind (h p) as_Byte of
        Some b \<Rightarrow> map_option ((#) b) (read_bytes h (p + 1) n)
      | None \<Rightarrow> None)"

text \<open>The store a system call makes into a caller's buffer.\<close>

fun put_bytes :: "heap \<Rightarrow> ptr \<Rightarrow> u8 list \<Rightarrow> heap" where
  "put_bytes h p [] = h"
| "put_bytes h p (b # bs) = (put_bytes h (p + 1) bs)(p \<mapsto> Byte b)"

lemma read_bytes_length: "read_bytes h p n = Some bs \<Longrightarrow> length bs = n"
  by (induction n arbitrary: p bs) (auto split: option.splits)

lemma read_bytes_split:
  "read_bytes h p (m + n) = Some bs \<Longrightarrow>
    read_bytes h p m = Some (take m bs) \<and> read_bytes h (p + of_nat m) n = Some (drop m bs)"
proof (induction m arbitrary: p bs)
  case 0
  then show ?case by simp
next
  case (Suc m)
  have "p + of_nat (Suc m) = p + 1 + of_nat m" by simp
  with Suc.prems Suc.IH [of "p + 1"] show ?case
    by (auto split: option.splits simp: add.assoc)
qed

lemma read_bytes_sub:
  assumes "read_bytes h p n = Some bs" and "i + m \<le> n"
  shows "read_bytes h (p + of_nat i) m = Some (take m (drop i bs))"
proof -
  have "n = i + (m + (n - i - m))" using assms(2) by simp
  with assms(1) have "read_bytes h p (i + (m + (n - i - m))) = Some bs" by simp
  from read_bytes_split [OF this] have "read_bytes h (p + of_nat i) (m + (n - i - m)) = Some (drop i bs)"
    by blast
  from read_bytes_split [OF this] show ?thesis by blast
qed

lemma read_bytes_cong:
  "(\<And>i. i < n \<Longrightarrow> h (p + of_nat i) = h' (p + of_nat i)) \<Longrightarrow> read_bytes h p n = read_bytes h' p n"
proof (induction n arbitrary: p)
  case 0
  then show ?case by simp
next
  case (Suc n)
  from Suc.prems [of 0] have "h p = h' p" by simp
  moreover have "read_bytes h (p + 1) n = read_bytes h' (p + 1) n"
    by (rule Suc.IH) (use Suc.prems [of "Suc _"] in \<open>simp add: ac_simps\<close>)
  ultimately show ?case by (simp split: option.splits)
qed

text \<open>Bytes stored at an address are read back there, as long as they do not wrap around onto themselves.\<close>

lemma put_bytes_other:
  "(\<And>i. i < length bs \<Longrightarrow> q \<noteq> p + of_nat i) \<Longrightarrow> put_bytes h p bs q = h q"
proof (induction bs arbitrary: p)
  case (Cons b bs)
  have "q \<noteq> p" using Cons.prems [of 0] by simp
  moreover have "put_bytes h (p + 1) bs q = h q"
    by (rule Cons.IH) (use Cons.prems [of "Suc _"] in \<open>auto simp: ac_simps\<close>)
  ultimately show ?case by simp
qed simp

lemma read_put_bytes:
  "length bs \<le> 2 ^ 64 \<Longrightarrow> read_bytes (put_bytes h p bs) p (length bs) = Some bs"
proof (induction bs arbitrary: h p)
  case (Cons b bs)
  have "read_bytes ((put_bytes h (p + 1) bs)(p \<mapsto> Byte b)) (p + 1) (length bs) =
      read_bytes (put_bytes h (p + 1) bs) (p + 1) (length bs)"
  proof (rule read_bytes_cong)
    fix i assume i: "i < length bs"
    have "p + 1 + of_nat i \<noteq> p"
    proof
      assume "p + 1 + of_nat i = p"
      then have "of_nat (Suc i) = (0 :: ptr)" by (simp add: add.assoc)
      then have "unat (of_nat (Suc i) :: ptr) = 0" by simp
      with i Cons.prems show False by (simp add: unat_of_nat_u64 del: of_nat_Suc)
    qed
    then show "((put_bytes h (p + 1) bs)(p \<mapsto> Byte b)) (p + 1 + of_nat i) = put_bytes h (p + 1) bs (p + 1 + of_nat i)"
      by simp
  qed
  with Cons show ?case by (simp add: fun_upd_def)
qed simp

subsection \<open>Arrays\<close>

text \<open>\<open>ptr.add(i)\<close> on elements of size \<open>sz\<close>.\<close>

definition ptr_add :: "nat \<Rightarrow> ptr \<Rightarrow> nat \<Rightarrow> ptr" where
  "ptr_add sz p i = p + of_nat (i * sz)"

text \<open>\<open>array_at prj sz h p xs\<close>: memory holds the elements \<open>xs\<close> at \<open>p\<close>.\<close>

definition array_at :: "(cell \<Rightarrow> 'a option) \<Rightarrow> nat \<Rightarrow> heap \<Rightarrow> ptr \<Rightarrow> 'a list \<Rightarrow> bool" where
  "array_at prj sz h p xs \<longleftrightarrow>
     list_all (\<lambda>i. Option.bind (h (ptr_add sz p i)) prj = Some (xs ! i)) [0..<length xs]"

lemma array_at_nth:
  "array_at prj sz h p xs \<Longrightarrow> i < length xs \<Longrightarrow>
    \<exists>c. h (ptr_add sz p i) = Some c \<and> prj c = Some (xs ! i)"
  by (auto simp: array_at_def list_all_iff Option.bind_eq_Some_conv)

lemma array_at_Nil [simp]: "array_at prj sz h p []"
  by (simp add: array_at_def)

text \<open>The cells of a vector's buffer: one element every \<open>sz\<close> bytes.\<close>

fun put_cells :: "('a \<Rightarrow> cell) \<Rightarrow> nat \<Rightarrow> heap \<Rightarrow> ptr \<Rightarrow> 'a list \<Rightarrow> heap" where
  "put_cells con sz h p [] = h"
| "put_cells con sz h p (x # xs) = (put_cells con sz h (p + of_nat sz) xs)(p \<mapsto> con x)"

lemma ptr_add_Suc: "ptr_add sz p (Suc i) = ptr_add sz (p + of_nat sz) i"
  by (simp add: ptr_add_def algebra_simps)

lemma ptr_add_neq:
  assumes "0 < i * sz" "i * sz < 2 ^ 64"
  shows "ptr_add sz p i \<noteq> p"
proof
  assume "ptr_add sz p i = p"
  then have "of_nat (i * sz) = (0 :: ptr)" by (simp add: ptr_add_def)
  then have "unat (of_nat (i * sz) :: ptr) = 0" by simp
  with assms show False by (simp add: unat_of_nat_u64 del: of_nat_mult)
qed

lemma put_cells_nth:
  "0 < sz \<Longrightarrow> length xs * sz < 2 ^ 64 \<Longrightarrow> i < length xs \<Longrightarrow>
    put_cells con sz h p xs (ptr_add sz p i) = Some (con (xs ! i))"
proof (induction xs arbitrary: p i)
  case (Cons x xs)
  show ?case
  proof (cases i)
    case 0
    then show ?thesis by (simp add: ptr_add_def)
  next
    case (Suc j)
    have "i * sz < 2 ^ 64"
      using Cons.prems by (meson le_less_trans less_imp_le mult_le_mono1)
    then have "ptr_add sz p i \<noteq> p" using Suc Cons.prems(1) by (intro ptr_add_neq) auto
    with Suc Cons show ?thesis by (simp add: ptr_add_Suc)
  qed
qed simp

lemma put_cells_array:
  assumes "0 < sz" "length xs * sz < 2 ^ 64" "\<And>x. prj (con x) = Some x"
  shows "array_at prj sz (put_cells con sz h p xs) p xs"
  using assms by (simp add: array_at_def list_all_iff put_cells_nth)

text \<open>Cells put where memory held nothing leave every readable byte range as it was.\<close>

lemma put_cells_other:
  "(\<And>i. i < length xs \<Longrightarrow> q \<noteq> ptr_add sz p i) \<Longrightarrow> put_cells con sz h p xs q = h q"
proof (induction xs arbitrary: p)
  case (Cons x xs)
  have "q \<noteq> p" using Cons.prems [of 0] by (simp add: ptr_add_def)
  moreover have "put_cells con sz h (p + of_nat sz) xs q = h q"
    by (rule Cons.IH) (use Cons.prems [of "Suc _"] in \<open>auto simp: ptr_add_Suc\<close>)
  ultimately show ?case by simp
qed simp

lemma read_bytes_present: "read_bytes h p n = Some bs \<Longrightarrow> i < n \<Longrightarrow> h (p + of_nat i) \<noteq> None"
  using read_bytes_sub [of h p n bs i 1] by (auto simp: Option.bind_eq_Some_conv split: option.splits)

lemma put_cells_read_bytes:
  assumes "\<And>i. i < length xs \<Longrightarrow> h (ptr_add sz p i) = None" "read_bytes h q n = Some bs"
  shows "read_bytes (put_cells con sz h p xs) q n = Some bs"
proof -
  have "put_cells con sz h p xs (q + of_nat i) = h (q + of_nat i)" if "i < n" for i
    using read_bytes_present [OF assms(2) that] assms(1) by (intro put_cells_other) metis
  then show ?thesis using assms(2) read_bytes_cong [of n "put_cells con sz h p xs" q h] by simp
qed

end
