(* ===== verification/External.thy ===== *)
theory External
  imports Abi
begin

text \<open>
  What librsi calls but does not contain, as the parameters of the model: the constants of
  \<open>peios-uapi\<close>, the request parsers and status vocabulary of \<open>lcs-core\<close>,
  \<open>try_extend\<close> of \<open>peios-cabi\<close>, the allocator and the kernel. They are the fields of
  one record \<open>env\<close> that every definition using them takes as an argument. What the
  sources document of them is stated as named predicates on \<open>env\<close>, which the theorems
  that rely on them carry as hypotheses.
\<close>

section \<open>Op-codes\<close>

text \<open>The 18 request kinds by the names the sources import from \<open>peios-uapi\<close>.\<close>

datatype rsi_op =
    RSI_LOOKUP | RSI_CREATE_ENTRY | RSI_HIDE_ENTRY | RSI_DELETE_ENTRY | RSI_ENUM_CHILDREN
  | RSI_CREATE_KEY | RSI_READ_KEY | RSI_DROP_KEY | RSI_WRITE_KEY | RSI_QUERY_VALUES
  | RSI_SET_VALUE | RSI_DELETE_VALUE_ENTRY | RSI_SET_BLANKET_TOMBSTONE | RSI_BEGIN_TRANSACTION
  | RSI_COMMIT_TRANSACTION | RSI_ABORT_TRANSACTION | RSI_DELETE_LAYER | RSI_FLUSH

section \<open>Slices and the values lcs-core returns\<close>

text \<open>A borrowed \<open>&[u8]\<close>: its address and the bytes it denotes.\<close>

record slice =
  as_ptr :: ptr
  bytes_of :: "u8 list"

record RsiLengthPrefixedField =
  field_data :: slice

record RsiRequestHeader =
  hd_request_id :: u64
  hd_txn_id :: u64
  hd_op_code :: u16

datatype RsiStatus = StatusOk | StatusOther u32

datatype RsiTransactionMode = ReadWrite | ReadOnly

record RsiLookupRequest =
  plk_parent_guid :: guid
  plk_child_name :: RsiLengthPrefixedField

record RsiCreateEntryRequest =
  pce_parent_guid :: guid
  pce_child_guid :: guid
  pce_child_name :: RsiLengthPrefixedField
  pce_layer_name :: RsiLengthPrefixedField
  pce_sequence :: u64

record RsiHideEntryRequest =
  phe_parent_guid :: guid
  phe_child_name :: RsiLengthPrefixedField
  phe_layer_name :: RsiLengthPrefixedField
  phe_sequence :: u64

record RsiDeleteEntryRequest =
  pde_parent_guid :: guid
  pde_child_name :: RsiLengthPrefixedField
  pde_layer_name :: RsiLengthPrefixedField

record RsiEnumChildrenRequest =
  pec_parent_guid :: guid

record RsiCreateKeyRequest =
  pck_guid :: guid
  pck_parent_guid :: guid
  pck_name :: RsiLengthPrefixedField
  pck_sd :: RsiLengthPrefixedField
  pck_volatile :: bool
  pck_symlink :: bool

record RsiKeyGuidRequest =
  pkg_guid :: guid

record RsiWriteKeyRequest =
  pwk_guid :: guid
  pwk_field_mask :: u32
  pwk_sd :: "RsiLengthPrefixedField option"
  pwk_last_write_time :: "u64 option"

record RsiQueryValuesRequest =
  pqv_guid :: guid
  pqv_value_name :: RsiLengthPrefixedField
  pqv_query_all :: bool

record RsiSetValueRequest =
  psv_guid :: guid
  psv_value_name :: RsiLengthPrefixedField
  psv_layer_name :: RsiLengthPrefixedField
  psv_value_type :: u32
  psv_data :: RsiLengthPrefixedField
  psv_sequence :: u64
  psv_expected_sequence :: u64

record RsiDeleteValueEntryRequest =
  pdv_guid :: guid
  pdv_value_name :: RsiLengthPrefixedField
  pdv_layer_name :: RsiLengthPrefixedField

record RsiSetBlanketTombstoneRequest =
  pbt_guid :: guid
  pbt_layer_name :: RsiLengthPrefixedField
  pbt_set :: bool
  pbt_sequence :: u64

record RsiBeginTransactionRequest =
  pbx_transaction_id :: u64
  pbx_mode :: RsiTransactionMode

record RsiTransactionRequest =
  ptx_transaction_id :: u64

record RsiNameRequest =
  pnm_name :: RsiLengthPrefixedField

section \<open>System calls\<close>

text \<open>
  A system call as the kernel sees it. \<open>write\<close> carries the bytes it is given; \<open>ioctl\<close>
  carries the argument struct and the memory its pointers refer to.
\<close>

datatype syscall =
    Sys_read c_int ptr u64
  | Sys_write c_int "u8 list"
  | Sys_open "u8 list" c_int
  | Sys_ioctl c_int u64 reg_src_register_args heap
  | Sys_close c_int

text \<open>
  The kernel's answer: the return value, the value of \<open>errno\<close> after the call (any value,
  also after a successful call) and the bytes stored into the caller's buffer.
\<close>

record sysret =
  sys_ret :: int
  sys_errno :: c_int
  sys_data :: "u8 list"

type_synonym systrace = "(syscall \<times> sysret) list"

section \<open>The environment\<close>

record uapi =
  code_of :: "rsi_op \<Rightarrow> u32"
  RSI_OK :: u32
  RSI_PATH_TARGET_GUID :: u32
  RSI_PATH_TARGET_HIDDEN :: u32
  RSI_REQUEST_HEADER_SIZE :: u32
  REG_SRC_REGISTER :: u64

text \<open>
  The parsers of \<open>lcs-core\<close>. Their error values are discarded by librsi (\<open>Err(_)\<close>), so
  failure is \<open>None\<close>.
\<close>

record lcs_core = uapi +
  parse_rsi_request_header :: "slice \<Rightarrow> RsiRequestHeader option"
  parse_rsi_lookup_request_payload :: "slice \<Rightarrow> RsiLookupRequest option"
  parse_rsi_create_entry_request_payload :: "slice \<Rightarrow> RsiCreateEntryRequest option"
  parse_rsi_hide_entry_request_payload :: "slice \<Rightarrow> RsiHideEntryRequest option"
  parse_rsi_delete_entry_request_payload :: "slice \<Rightarrow> RsiDeleteEntryRequest option"
  parse_rsi_enum_children_request_payload :: "slice \<Rightarrow> RsiEnumChildrenRequest option"
  parse_rsi_create_key_request_payload :: "slice \<Rightarrow> RsiCreateKeyRequest option"
  parse_rsi_read_key_request_payload :: "slice \<Rightarrow> RsiKeyGuidRequest option"
  parse_rsi_drop_key_request_payload :: "slice \<Rightarrow> RsiKeyGuidRequest option"
  parse_rsi_write_key_request_payload :: "slice \<Rightarrow> RsiWriteKeyRequest option"
  parse_rsi_query_values_request_payload :: "slice \<Rightarrow> RsiQueryValuesRequest option"
  parse_rsi_set_value_request_payload :: "slice \<Rightarrow> RsiSetValueRequest option"
  parse_rsi_delete_value_entry_request_payload :: "slice \<Rightarrow> RsiDeleteValueEntryRequest option"
  parse_rsi_set_blanket_tombstone_request_payload :: "slice \<Rightarrow> RsiSetBlanketTombstoneRequest option"
  parse_rsi_begin_transaction_request_payload :: "slice \<Rightarrow> RsiBeginTransactionRequest option"
  parse_rsi_commit_transaction_request_payload :: "slice \<Rightarrow> RsiTransactionRequest option"
  parse_rsi_abort_transaction_request_payload :: "slice \<Rightarrow> RsiTransactionRequest option"
  parse_rsi_delete_layer_request_payload :: "slice \<Rightarrow> RsiNameRequest option"
  parse_rsi_flush_request_payload :: "slice \<Rightarrow> RsiNameRequest option"
  parse_rsi_status :: "u32 \<Rightarrow> RsiStatus option"
  rsi_request_has_status_only_response :: "u16 \<Rightarrow> bool option"
  rsi_response_op_code :: "u16 \<Rightarrow> u16 option"
  txn_mode_code :: "RsiTransactionMode \<Rightarrow> u32"

text \<open>
  \<open>try_extend t buf bs\<close> is the buffer after the \<open>t\<close>-th allocator request, made to
  extend \<open>buf\<close> by \<open>bs\<close>, and whether it succeeded. \<open>vec_grow t\<close> is the answer to
  the \<open>t\<close>-th request made by a \<open>Vec\<close>: \<open>None\<close> on failure, else a capacity the
  allocator offers. \<open>vec_addr t\<close> is where the buffer obtained by the \<open>t\<close>-th request
  lives. The request
  number makes every pattern of success and failure possible.
\<close>

record env = lcs_core +
  try_extend :: "nat \<Rightarrow> u8 list \<Rightarrow> u8 list \<Rightarrow> u8 list \<times> bool"
  vec_grow :: "nat \<Rightarrow> nat option"
  vec_addr :: "nat \<Rightarrow> ptr"
  dangling :: ptr
  kernel :: "systrace \<Rightarrow> syscall \<Rightarrow> sysret"

section \<open>What the sources rely on\<close>

text \<open>\<open>peios_cabi::abi::try_extend\<close> appends on success.\<close>

definition try_extend_appends :: "env \<Rightarrow> bool" where
  "try_extend_appends E \<longleftrightarrow>
     (\<forall>t buf bs. snd (try_extend E t buf bs) \<longrightarrow> fst (try_extend E t buf bs) = buf @ bs)"

text \<open>
  \<open>parse_rsi_request_header\<close> "already enforces \<open>len >= RSI_REQUEST_HEADER_SIZE\<close> and a
  known op-code" (request.rs, comment in \<open>rsi_parse_request\<close>).
\<close>

definition header_parser_checks :: "env \<Rightarrow> bool" where
  "header_parser_checks E \<longleftrightarrow>
     (\<forall>f h. parse_rsi_request_header E f = Some h \<longrightarrow>
        unat (RSI_REQUEST_HEADER_SIZE E) \<le> length (bytes_of f) \<and>
        (\<exists>op. hd_op_code h = ucast (code_of E op)))"

text \<open>
  A parsed field borrows from the payload it was parsed from: it denotes the bytes at some
  offset of that payload ("zero-copy; names/data borrow into the frame").
\<close>

definition borrows_from :: "slice \<Rightarrow> RsiLengthPrefixedField \<Rightarrow> bool" where
  "borrows_from p f \<longleftrightarrow>
     (\<exists>i \<le> length (bytes_of p).
        i + length (bytes_of (field_data f)) \<le> length (bytes_of p) \<and>
        as_ptr (field_data f) = as_ptr p + of_nat i \<and>
        bytes_of (field_data f) = take (length (bytes_of (field_data f))) (drop i (bytes_of p)))"

text \<open>The op-codes fit in the 16-bit header field and are pairwise different.\<close>

definition op_codes_distinct :: "env \<Rightarrow> bool" where
  "op_codes_distinct E \<longleftrightarrow> inj (\<lambda>op. ucast (code_of E op) :: u16)"

end
