(* ===== verification/Machine.thy ===== *)
theory Machine
  imports External
begin

text \<open>
  The machine the library runs on. A computation takes the world (memory, \<open>errno\<close>, the
  system calls made so far, the number of allocator requests made so far) and either
  finishes with a value and a new world, or is undefined behaviour, or aborts the process
  (a Rust panic or an infallible allocation that failed; the crate is built with
  \<open>panic = "abort"\<close>). The rules for \<open>wp\<close> reduce "finishes in a state with \<open>Q\<close>" to
  facts about the parts of a computation; a proved \<open>wp\<close> excludes undefined behaviour and
  abort.
\<close>

section \<open>The world and computations\<close>

record world =
  mem :: heap
  errno :: c_int
  trace :: systrace
  ticks :: nat

datatype 'a outcome = Done 'a world | Undef | Abort

type_synonym 'a M = "world \<Rightarrow> 'a outcome"

definition ret :: "'a \<Rightarrow> 'a M" where
  "ret x = (\<lambda>s. Done x s)"

definition bindM :: "'a M \<Rightarrow> ('a \<Rightarrow> 'b M) \<Rightarrow> 'b M" where
  "bindM m f = (\<lambda>s. case m s of Done x s' \<Rightarrow> f x s' | Undef \<Rightarrow> Undef | Abort \<Rightarrow> Abort)"

text \<open>\<open>abort(3)\<close>, and the crate's panic handler (\<open>src/src/lib.rs\<close>), which calls it.\<close>

definition abort :: "'a M" where
  "abort = (\<lambda>s. Abort)"

definition panic :: "'a M" where
  "panic = abort"

text \<open>The \<open>?\<close> operator: continue on \<open>Ok\<close>, return the error on \<open>Err\<close>.\<close>

definition tryM :: "'a result M \<Rightarrow> ('a \<Rightarrow> 'b result M) \<Rightarrow> 'b result M" where
  "tryM m f = bindM m (\<lambda>r. case r of Ok x \<Rightarrow> f x | Err e \<Rightarrow> ret (Err e))"

text \<open>A \<open>for\<close> loop over a list of values whose body may return an error early.\<close>

fun for_in :: "'i list \<Rightarrow> ('i \<Rightarrow> 'a \<Rightarrow> 'a result M) \<Rightarrow> 'a \<Rightarrow> 'a result M" where
  "for_in [] body a = ret (Ok a)"
| "for_in (x # xs) body a = tryM (body x a) (\<lambda>a'. for_in xs body a')"

text \<open>A \<open>for\<close> loop whose body cannot return early.\<close>

fun for_each :: "'i list \<Rightarrow> ('i \<Rightarrow> 'a \<Rightarrow> 'a M) \<Rightarrow> 'a \<Rightarrow> 'a M" where
  "for_each [] body a = ret a"
| "for_each (x # xs) body a = bindM (body x a) (\<lambda>a'. for_each xs body a')"

section \<open>Memory, errno, system calls\<close>

definition deref :: "(cell \<Rightarrow> 'a option) \<Rightarrow> ptr \<Rightarrow> 'a M" where
  "deref prj p = (\<lambda>s. case Option.bind (mem s p) prj of Some v \<Rightarrow> Done v s | None \<Rightarrow> Undef)"

definition store :: "ptr \<Rightarrow> cell \<Rightarrow> unit M" where
  "store p c = (\<lambda>s. Done () (s\<lparr>mem := (mem s)(p \<mapsto> c)\<rparr>))"

definition from_raw_parts :: "ptr \<Rightarrow> nat \<Rightarrow> slice M" where
  "from_raw_parts p n = (\<lambda>s. case read_bytes (mem s) p n of
      Some bs \<Rightarrow> Done \<lparr>as_ptr = p, bytes_of = bs\<rparr> s | None \<Rightarrow> Undef)"

text \<open>
  \<open>pointer::add\<close> on the start of a slice: undefined when it leaves the slice. The subtraction of
  \<open>usize\<close> values panics on underflow.
\<close>

definition slice_add :: "slice \<Rightarrow> u64 \<Rightarrow> ptr M" where
  "slice_add b n = (\<lambda>s. if unat n \<le> length (bytes_of b) then Done (as_ptr b + n) s else Undef)"

definition usize_sub :: "u64 \<Rightarrow> u64 \<Rightarrow> u64 M" where
  "usize_sub a b = (if b \<le> a then ret (a - b) else panic)"

definition set_errno :: "c_int \<Rightarrow> unit M" where
  "set_errno e = (\<lambda>s. Done () (s\<lparr>errno := e\<rparr>))"

definition get_errno :: "c_int M" where
  "get_errno = (\<lambda>s. Done (errno s) s)"

definition syscall :: "env \<Rightarrow> syscall \<Rightarrow> sysret M" where
  "syscall E c = (\<lambda>s. let r = kernel E (trace s) c in
      Done r (s\<lparr>errno := sys_errno r, trace := trace s @ [(c, r)]\<rparr>))"

text \<open>\<open>read(2)\<close>: the kernel stores the bytes it delivers into the caller's buffer.\<close>

definition sys_read :: "env \<Rightarrow> c_int \<Rightarrow> ptr \<Rightarrow> u64 \<Rightarrow> ssize_t M" where
  "sys_read E fd buf n = bindM (syscall E (Sys_read fd buf n)) (\<lambda>r s.
      Done (sys_ret r) (s\<lparr>mem := put_bytes (mem s) buf (sys_data r)\<rparr>))"

section \<open>Vectors\<close>

text \<open>
  \<open>Vec<T>\<close> as its elements, its capacity and the allocator request its buffer came from
  (none for a vector that has not allocated). \<open>try_reserve\<close> asks the allocator only when
  the spare capacity is too small, and on success leaves room for the elements asked for.
  \<open>push\<close> on a full vector allocates infallibly: a refusal aborts the process.
\<close>

record 'a vec =
  items :: "'a list"
  capacity :: nat
  alloc :: "nat option"

definition vec_new :: "'a vec" where
  "vec_new = \<lparr>items = [], capacity = 0, alloc = None\<rparr>"

definition tick :: "nat M" where
  "tick = (\<lambda>s. Done (ticks s) (s\<lparr>ticks := Suc (ticks s)\<rparr>))"

definition try_reserve :: "env \<Rightarrow> nat \<Rightarrow> 'a vec \<Rightarrow> 'a vec option M" where
  "try_reserve E n v =
     (if n \<le> capacity v - length (items v) then ret (Some v)
      else bindM tick (\<lambda>t. ret (case vec_grow E t of
          Some c \<Rightarrow> Some (v\<lparr>capacity := max c (length (items v) + n), alloc := Some t\<rparr>)
        | None \<Rightarrow> None)))"

definition vec_push :: "env \<Rightarrow> 'a vec \<Rightarrow> 'a \<Rightarrow> 'a vec M" where
  "vec_push E v x =
     (if length (items v) < capacity v then ret (v\<lparr>items := items v @ [x]\<rparr>)
      else bindM tick (\<lambda>t. case vec_grow E t of
          Some c \<Rightarrow> ret \<lparr>items = items v @ [x], capacity = max c (length (items v) + 1), alloc = Some t\<rparr>
        | None \<Rightarrow> panic))"

text \<open>\<open>as_ptr()\<close>: where the buffer lives, a dangling pointer when there is none.\<close>

definition vec_as_ptr :: "env \<Rightarrow> 'a vec \<Rightarrow> ptr" where
  "vec_as_ptr E v = (case alloc v of None \<Rightarrow> dangling E | Some t \<Rightarrow> vec_addr E t)"

section \<open>Weakest preconditions\<close>

definition wp :: "'a M \<Rightarrow> ('a \<Rightarrow> world \<Rightarrow> bool) \<Rightarrow> world \<Rightarrow> bool" where
  "wp m Q s = (case m s of Done x s' \<Rightarrow> Q x s' | Undef \<Rightarrow> False | Abort \<Rightarrow> False)"

lemma wp_iff: "wp m Q s \<longleftrightarrow> (\<exists>x s'. m s = Done x s' \<and> Q x s')"
  by (auto simp: wp_def split: outcome.splits)

lemma wpD: "wp m Q s \<Longrightarrow> \<exists>x s'. m s = Done x s' \<and> Q x s'"
  by (simp add: wp_iff)

lemma wp_Done: "m s = Done x s' \<Longrightarrow> wp m Q s \<longleftrightarrow> Q x s'"
  by (simp add: wp_def)

lemma wp_mono: "wp m P s \<Longrightarrow> (\<And>x s'. P x s' \<Longrightarrow> Q x s') \<Longrightarrow> wp m Q s"
  by (auto simp: wp_iff)

lemma wp_conj: "wp m P s \<Longrightarrow> wp m Q s \<Longrightarrow> wp m (\<lambda>x s'. P x s' \<and> Q x s') s"
  by (auto simp: wp_iff)

lemma wp_ret [wp_simps]: "wp (ret x) Q s \<longleftrightarrow> Q x s"
  by (simp add: wp_def ret_def)

lemma wp_bindM [wp_simps]: "wp (bindM m f) Q s \<longleftrightarrow> wp m (\<lambda>x. wp (f x) Q) s"
  by (simp add: wp_def bindM_def split: outcome.splits)

lemma wp_panic [wp_simps]: "\<not> wp panic Q s"
  by (simp add: wp_def panic_def abort_def)

lemma wp_tryM [wp_simps]:
  "wp (tryM m f) Q s \<longleftrightarrow> wp m (\<lambda>r. case r of Ok x \<Rightarrow> wp (f x) Q | Err e \<Rightarrow> Q (Err e)) s"
  by (simp add: wp_def tryM_def bindM_def ret_def split: outcome.splits result.splits)

lemma wp_deref: "wp (deref prj p) Q s \<longleftrightarrow> (\<exists>c v. mem s p = Some c \<and> prj c = Some v \<and> Q v s)"
  by (auto simp: wp_def deref_def Option.bind_eq_Some_conv split: option.splits)

lemma wp_deref_at [wp_simps]:
  "mem s p = Some c \<Longrightarrow> prj c = Some v \<Longrightarrow> wp (deref prj p) Q s \<longleftrightarrow> Q v s"
  by (simp add: wp_deref)

lemma wp_store [wp_simps]: "wp (store p c) Q s \<longleftrightarrow> Q () (s\<lparr>mem := (mem s)(p \<mapsto> c)\<rparr>)"
  by (simp add: wp_def store_def)

lemma wp_from_raw_parts [wp_simps]:
  "read_bytes (mem s) p n = Some bs \<Longrightarrow>
    wp (from_raw_parts p n) Q s \<longleftrightarrow> Q \<lparr>as_ptr = p, bytes_of = bs\<rparr> s"
  by (simp add: wp_def from_raw_parts_def)

lemma wp_set_errno [wp_simps]: "wp (set_errno e) Q s \<longleftrightarrow> Q () (s\<lparr>errno := e\<rparr>)"
  by (simp add: wp_def set_errno_def)

lemma wp_get_errno [wp_simps]: "wp get_errno Q s \<longleftrightarrow> Q (errno s) s"
  by (simp add: wp_def get_errno_def)

lemma wp_syscall [wp_simps]:
  "wp (syscall E c) Q s \<longleftrightarrow>
    Q (kernel E (trace s) c)
      (s\<lparr>errno := sys_errno (kernel E (trace s) c), trace := trace s @ [(c, kernel E (trace s) c)]\<rparr>)"
  by (simp add: wp_def syscall_def Let_def)

lemma wp_tick [wp_simps]: "wp tick Q s \<longleftrightarrow> Q (ticks s) (s\<lparr>ticks := Suc (ticks s)\<rparr>)"
  by (simp add: wp_def tick_def)

lemma wp_if [wp_simps]: "wp (if b then m else m') Q s \<longleftrightarrow> (if b then wp m Q s else wp m' Q s)"
  by simp

subsection \<open>Loops\<close>

text \<open>The rule for a loop over a list: an invariant indexed by the iteration.\<close>

lemma wp_for_list:
  assumes "I 0 a s"
    and "\<And>i a s. i < length xs \<Longrightarrow> I i a s \<Longrightarrow>
      wp (body (xs ! i) a) (\<lambda>r s'. case r of Ok a' \<Rightarrow> I (Suc i) a' s' | Err e \<Rightarrow> Q (Err e) s') s"
    and "\<And>a s. I (length xs) a s \<Longrightarrow> Q (Ok a) s"
  shows "wp (for_in xs body a) Q s"
  using assms
proof (induction xs arbitrary: I a s)
  case Nil
  then show ?case by (simp add: wp_simps)
next
  case (Cons x xs)
  have step: "wp (body x a) (\<lambda>r s'. case r of Ok a' \<Rightarrow> I (Suc 0) a' s' | Err e \<Rightarrow> Q (Err e) s') s"
    using Cons.prems(2) [of 0 a s] Cons.prems(1) by simp
  have rest: "wp (for_in xs body a') Q s'" if "I (Suc 0) a' s'" for a' s'
    by (rule Cons.IH [of "\<lambda>i. I (Suc i)"]) (use that Cons.prems(2) [of "Suc _"] Cons.prems(3) in auto)
  from step show ?case
    by (auto simp: wp_simps elim!: wp_mono intro!: rest split: result.splits)
qed

text \<open>The instance for \<open>for i in 0..n\<close>.\<close>

lemma wp_for_in:
  assumes "I 0 a s"
    and "\<And>i a s. i < n \<Longrightarrow> I i a s \<Longrightarrow>
      wp (body i a) (\<lambda>r s'. case r of Ok a' \<Rightarrow> I (Suc i) a' s' | Err e \<Rightarrow> Q (Err e) s') s"
    and "\<And>a s. I n a s \<Longrightarrow> Q (Ok a) s"
  shows "wp (for_in [0..<n] body a) Q s"
  by (rule wp_for_list [where I = I]) (use assms in auto)

lemma wp_for_each_list:
  assumes "I 0 a s"
    and "\<And>i a s. i < length xs \<Longrightarrow> I i a s \<Longrightarrow> wp (body (xs ! i) a) (I (Suc i)) s"
    and "\<And>a s. I (length xs) a s \<Longrightarrow> Q a s"
  shows "wp (for_each xs body a) Q s"
  using assms
proof (induction xs arbitrary: I a s)
  case Nil
  then show ?case by (simp add: wp_simps)
next
  case (Cons x xs)
  have step: "wp (body x a) (I (Suc 0)) s"
    using Cons.prems(2) [of 0 a s] Cons.prems(1) by simp
  have rest: "wp (for_each xs body a') Q s'" if "I (Suc 0) a' s'" for a' s'
    by (rule Cons.IH [of "\<lambda>i. I (Suc i)"]) (use that Cons.prems(2) [of "Suc _"] Cons.prems(3) in auto)
  from step show ?case by (auto simp: wp_simps elim!: wp_mono intro!: rest)
qed

lemma wp_for_each:
  assumes "I 0 a s"
    and "\<And>i a s. i < n \<Longrightarrow> I i a s \<Longrightarrow> wp (body i a) (I (Suc i)) s"
    and "\<And>a s. I n a s \<Longrightarrow> Q a s"
  shows "wp (for_each [0..<n] body a) Q s"
  by (rule wp_for_each_list [where I = I]) (use assms in auto)

section \<open>Quiet steps\<close>

text \<open>A quiet step leaves everything but the count of allocator requests as it was.\<close>

definition quiet :: "world \<Rightarrow> world \<Rightarrow> bool" where
  "quiet s s' \<longleftrightarrow> mem s' = mem s \<and> errno s' = errno s \<and> trace s' = trace s"

lemma quiet_refl [simp, intro]: "quiet s s"
  by (simp add: quiet_def)

lemma quiet_trans: "quiet s s' \<Longrightarrow> quiet s' s'' \<Longrightarrow> quiet s s''"
  by (simp add: quiet_def)

lemma quiet_fields:
  "quiet s s' \<Longrightarrow> mem s' = mem s" "quiet s s' \<Longrightarrow> errno s' = errno s"
  "quiet s s' \<Longrightarrow> trace s' = trace s"
  by (simp_all add: quiet_def)

lemma quiet_ticks [simp]: "quiet s (s'\<lparr>ticks := t\<rparr>) \<longleftrightarrow> quiet s s'"
  by (simp add: quiet_def)

lemma wp_try_reserve:
  "(\<And>s' v'. quiet s s' \<Longrightarrow> items v' = items v \<Longrightarrow> length (items v) + n \<le> capacity v' \<Longrightarrow>
      length (items v) \<le> capacity v \<Longrightarrow> Q (Some v') s') \<Longrightarrow>
   (\<And>s' t. quiet s s' \<Longrightarrow> vec_grow E t = None \<Longrightarrow> Q None s') \<Longrightarrow>
   length (items v) \<le> capacity v \<Longrightarrow> wp (try_reserve E n v) Q s"
  by (auto simp: try_reserve_def wp_simps split: option.splits)

lemma wp_vec_push_spare:
  "length (items v) < capacity v \<Longrightarrow> wp (vec_push E v x) Q s \<longleftrightarrow> Q (v\<lparr>items := items v @ [x]\<rparr>) s"
  by (simp add: vec_push_def wp_simps)

section \<open>Array loops\<close>

text \<open>One element of an array that memory holds.\<close>

lemma wp_deref_array:
  assumes "array_at prj sz (mem s) p xs" and "i < length xs"
  shows "wp (deref prj (ptr_add sz p i)) Q s \<longleftrightarrow> Q (xs ! i) s"
  using array_at_nth [OF assms] by (auto simp: wp_deref)

text \<open>
  The caller's side of a (pointer, count) pair: \<open>xs\<close> are the \<open>count\<close> elements, and memory
  holds them when the pointer is not NULL. A NULL pointer with a nonzero count is allowed
  here: the library refuses it itself.
\<close>

definition carray :: "(cell \<Rightarrow> 'a option) \<Rightarrow> nat \<Rightarrow> heap \<Rightarrow> ptr \<Rightarrow> u32 \<Rightarrow> 'a list \<Rightarrow> bool" where
  "carray prj sz h p c xs \<longleftrightarrow> length xs = unat c \<and> (p \<noteq> NULL \<longrightarrow> array_at prj sz h p xs)"

definition nonnull :: "ptr \<Rightarrow> u32 \<Rightarrow> bool" where
  "nonnull p c \<longleftrightarrow> c = 0 \<or> p \<noteq> NULL"

lemma carray_length: "carray prj sz h p c xs \<Longrightarrow> length xs = unat c"
  by (simp add: carray_def)

lemma wp_deref_carray:
  assumes "carray prj sz (mem s) p c xs" "nonnull p c" "i < unat c"
  shows "wp (deref prj (ptr_add sz p i)) Q s \<longleftrightarrow> Q (xs ! i) s"
  using assms wp_deref_array [of prj sz s p xs i Q] by (auto simp: carray_def nonnull_def)

end
