(* ===== verification/Instances.thy ===== *)
theory Instances
  imports External
begin

text \<open>
  A concrete environment: op-codes 1 to 18, executable parsers of the request header and of
  the LOOKUP and SET_VALUE payloads in the documented layout (little-endian, 16-byte GUIDs,
  length-prefixed fields), an allocator that never refuses and a kernel that accepts every
  call. It shows that the assumptions the theorems make about the outside can hold together,
  and the witnesses of the theorems run on it.
\<close>

fun ex_code :: "rsi_op \<Rightarrow> u32" where
  "ex_code RSI_LOOKUP = 1"
| "ex_code RSI_CREATE_ENTRY = 2"
| "ex_code RSI_HIDE_ENTRY = 3"
| "ex_code RSI_DELETE_ENTRY = 4"
| "ex_code RSI_ENUM_CHILDREN = 5"
| "ex_code RSI_CREATE_KEY = 6"
| "ex_code RSI_READ_KEY = 7"
| "ex_code RSI_DROP_KEY = 8"
| "ex_code RSI_WRITE_KEY = 9"
| "ex_code RSI_QUERY_VALUES = 10"
| "ex_code RSI_SET_VALUE = 11"
| "ex_code RSI_DELETE_VALUE_ENTRY = 12"
| "ex_code RSI_SET_BLANKET_TOMBSTONE = 13"
| "ex_code RSI_BEGIN_TRANSACTION = 14"
| "ex_code RSI_COMMIT_TRANSACTION = 15"
| "ex_code RSI_ABORT_TRANSACTION = 16"
| "ex_code RSI_DELETE_LAYER = 17"
| "ex_code RSI_FLUSH = 18"

text \<open>The sub-slice of \<open>n\<close> bytes at offset \<open>i\<close>, and a length-prefixed field there.\<close>

definition subslice :: "slice \<Rightarrow> nat \<Rightarrow> nat \<Rightarrow> slice" where
  "subslice p i n = \<lparr>as_ptr = as_ptr p + of_nat i, bytes_of = take n (drop i (bytes_of p))\<rparr>"

definition u32_at :: "slice \<Rightarrow> nat \<Rightarrow> u32" where
  "u32_at p i = from_le (take 4 (drop i (bytes_of p)))"

definition u64_at :: "slice \<Rightarrow> nat \<Rightarrow> u64" where
  "u64_at p i = from_le (take 8 (drop i (bytes_of p)))"

definition field_at :: "slice \<Rightarrow> nat \<Rightarrow> (RsiLengthPrefixedField \<times> nat) option" where
  "field_at p i =
     (let n = unat (u32_at p i) in
      if i + 4 + n \<le> length (bytes_of p) then Some (\<lparr>field_data = subslice p (i + 4) n\<rparr>, i + 4 + n)
      else None)"

definition ex_parse_header :: "slice \<Rightarrow> RsiRequestHeader option" where
  "ex_parse_header f =
     (let op = from_le (take 2 (drop 12 (bytes_of f))) :: u16 in
      if 22 \<le> length (bytes_of f) \<and> 1 \<le> op \<and> op \<le> 18
      then Some \<lparr>hd_request_id = u64_at f 4, hd_txn_id = u64_at f 14, hd_op_code = op\<rparr>
      else None)"

definition ex_parse_lookup :: "slice \<Rightarrow> RsiLookupRequest option" where
  "ex_parse_lookup p = Option.bind (field_at p 16) (\<lambda>(name, i).
     if i = length (bytes_of p)
     then Some \<lparr>plk_parent_guid = guid_of (take 16 (bytes_of p)), plk_child_name = name\<rparr> else None)"

definition ex_parse_set_value :: "slice \<Rightarrow> RsiSetValueRequest option" where
  "ex_parse_set_value p =
     Option.bind (field_at p 16) (\<lambda>(name, i).
     Option.bind (field_at p i) (\<lambda>(layer, j).
     Option.bind (field_at p (j + 4)) (\<lambda>(dat, k).
     if k + 16 = length (bytes_of p)
     then Some \<lparr>psv_guid = guid_of (take 16 (bytes_of p)), psv_value_name = name,
            psv_layer_name = layer, psv_value_type = u32_at p j, psv_data = dat,
            psv_sequence = u64_at p k, psv_expected_sequence = u64_at p (k + 8)\<rparr> else None)))"

text \<open>The READ_KEY, DELETE_LAYER and FLUSH payloads: a GUID, or one length-prefixed name.\<close>

definition ex_parse_guid :: "slice \<Rightarrow> RsiKeyGuidRequest option" where
  "ex_parse_guid p = (if length (bytes_of p) = 16 then Some \<lparr>pkg_guid = guid_of (bytes_of p)\<rparr> else None)"

definition ex_parse_name :: "slice \<Rightarrow> RsiNameRequest option" where
  "ex_parse_name p = Option.bind (field_at p 0) (\<lambda>(name, i).
     if i = length (bytes_of p) then Some \<lparr>pnm_name = name\<rparr> else None)"

definition ex_payload_op :: "u16 \<Rightarrow> bool" where
  "ex_payload_op op \<longleftrightarrow> op = 1 \<or> op = 5 \<or> op = 7 \<or> op = 10 \<or> op = 17"

fun ex_kernel :: "systrace \<Rightarrow> syscall \<Rightarrow> sysret" where
  "ex_kernel tr (Sys_read fd p n) = \<lparr>sys_ret = 0, sys_errno = 0, sys_data = []\<rparr>"
| "ex_kernel tr (Sys_write fd bs) = \<lparr>sys_ret = int (length bs), sys_errno = 0, sys_data = []\<rparr>"
| "ex_kernel tr (Sys_open path flags) = \<lparr>sys_ret = 3, sys_errno = 0, sys_data = []\<rparr>"
| "ex_kernel tr (Sys_ioctl fd c args h) = \<lparr>sys_ret = 0, sys_errno = 0, sys_data = []\<rparr>"
| "ex_kernel tr (Sys_close fd) = \<lparr>sys_ret = 0, sys_errno = 9, sys_data = []\<rparr>"

definition ex_env :: env where
  "ex_env = \<lparr>code_of = ex_code, RSI_OK = 0, RSI_PATH_TARGET_GUID = 0, RSI_PATH_TARGET_HIDDEN = 1,
     RSI_REQUEST_HEADER_SIZE = 22, REG_SRC_REGISTER = 1075335680,
     parse_rsi_request_header = ex_parse_header,
     parse_rsi_lookup_request_payload = ex_parse_lookup,
     parse_rsi_create_entry_request_payload = (\<lambda>_. None),
     parse_rsi_hide_entry_request_payload = (\<lambda>_. None),
     parse_rsi_delete_entry_request_payload = (\<lambda>_. None),
     parse_rsi_enum_children_request_payload = (\<lambda>_. None),
     parse_rsi_create_key_request_payload = (\<lambda>_. None),
     parse_rsi_read_key_request_payload = ex_parse_guid,
     parse_rsi_drop_key_request_payload = ex_parse_guid,
     parse_rsi_write_key_request_payload = (\<lambda>_. None),
     parse_rsi_query_values_request_payload = (\<lambda>_. None),
     parse_rsi_set_value_request_payload = ex_parse_set_value,
     parse_rsi_delete_value_entry_request_payload = (\<lambda>_. None),
     parse_rsi_set_blanket_tombstone_request_payload = (\<lambda>_. None),
     parse_rsi_begin_transaction_request_payload = (\<lambda>_. None),
     parse_rsi_commit_transaction_request_payload = (\<lambda>_. None),
     parse_rsi_abort_transaction_request_payload = (\<lambda>_. None),
     parse_rsi_delete_layer_request_payload = ex_parse_name,
     parse_rsi_flush_request_payload = ex_parse_name,
     parse_rsi_status = (\<lambda>c. if c = 0 then Some StatusOk else if c < 8 then Some (StatusOther c) else None),
     rsi_request_has_status_only_response =
       (\<lambda>op. if 1 \<le> op \<and> op \<le> 18 then Some (\<not> ex_payload_op op) else None),
     rsi_response_op_code = (\<lambda>op. if 1 \<le> op \<and> op \<le> 18 then Some (op OR 0x8000) else None),
     txn_mode_code = (\<lambda>m. case m of ReadWrite \<Rightarrow> 0 | ReadOnly \<Rightarrow> 1),
     try_extend = (\<lambda>t buf bs. (buf @ bs, True)),
     vec_grow = (\<lambda>t. Some 4),
     vec_addr = (\<lambda>t. 0x7F0000),
     dangling = 1,
     kernel = ex_kernel\<rparr>"

lemma ex_env_simps [simp]:
  "code_of ex_env = ex_code" "RSI_OK ex_env = 0" "RSI_PATH_TARGET_GUID ex_env = 0"
  "RSI_PATH_TARGET_HIDDEN ex_env = 1" "RSI_REQUEST_HEADER_SIZE ex_env = 22"
  "parse_rsi_request_header ex_env = ex_parse_header"
  "parse_rsi_lookup_request_payload ex_env = ex_parse_lookup"
  "parse_rsi_set_value_request_payload ex_env = ex_parse_set_value"
  "parse_rsi_read_key_request_payload ex_env = ex_parse_guid"
  "parse_rsi_delete_layer_request_payload ex_env = ex_parse_name"
  "parse_rsi_flush_request_payload ex_env = ex_parse_name"
  "try_extend ex_env = (\<lambda>t buf bs. (buf @ bs, True))" "vec_grow ex_env = (\<lambda>t. Some 4)"
  "vec_addr ex_env = (\<lambda>t. 0x7F0000)" "dangling ex_env = 1" "kernel ex_env = ex_kernel"
  "REG_SRC_REGISTER ex_env = 1075335680"
  "parse_rsi_status ex_env = (\<lambda>c. if c = 0 then Some StatusOk else if c < 8 then Some (StatusOther c) else None)"
  "rsi_request_has_status_only_response ex_env =
    (\<lambda>op. if 1 \<le> op \<and> op \<le> 18 then Some (\<not> ex_payload_op op) else None)"
  "rsi_response_op_code ex_env = (\<lambda>op. if 1 \<le> op \<and> op \<le> 18 then Some (op OR 0x8000) else None)"
  "txn_mode_code ex_env = (\<lambda>m. case m of ReadWrite \<Rightarrow> 0 | ReadOnly \<Rightarrow> 1)"
  by (simp_all add: ex_env_def)

lemma ex_env_try_extend: "try_extend_appends ex_env"
  by (simp add: try_extend_appends_def)

lemma ex_env_op_codes: "op_codes_distinct ex_env"
proof (unfold op_codes_distinct_def, rule injI)
  fix x y
  assume "(ucast (code_of ex_env x) :: u16) = ucast (code_of ex_env y)"
  then show "x = y" by (cases x; cases y; simp)
qed

lemma ex_codes:
  "map of_nat [1..<19] = map (\<lambda>op. ucast (ex_code op) :: u16)
     [RSI_LOOKUP, RSI_CREATE_ENTRY, RSI_HIDE_ENTRY, RSI_DELETE_ENTRY, RSI_ENUM_CHILDREN,
      RSI_CREATE_KEY, RSI_READ_KEY, RSI_DROP_KEY, RSI_WRITE_KEY, RSI_QUERY_VALUES, RSI_SET_VALUE,
      RSI_DELETE_VALUE_ENTRY, RSI_SET_BLANKET_TOMBSTONE, RSI_BEGIN_TRANSACTION,
      RSI_COMMIT_TRANSACTION, RSI_ABORT_TRANSACTION, RSI_DELETE_LAYER, RSI_FLUSH]"
  by (simp add: upt_rec)

lemma small_code:
  assumes "1 \<le> (op :: u16)" "op \<le> 18"
  shows "\<exists>o'. op = ucast (ex_code o')"
proof -
  from assms have "unat op \<in> set [1..<19]" by (auto simp: word_le_nat_alt)
  then have "of_nat (unat op) \<in> set (map of_nat [1..<19] :: u16 list)" by (metis image_eqI set_map)
  then have "op \<in> set (map of_nat [1..<19])" by (simp only: of_nat_unat ucast_id)
  then show ?thesis unfolding ex_codes set_map by blast
qed

lemma ex_env_header: "header_parser_checks ex_env"
  by (auto simp: header_parser_checks_def ex_parse_header_def Let_def small_code split: if_splits)

lemma subslice_borrows:
  "i + n \<le> length (bytes_of p) \<Longrightarrow> borrows_from p \<lparr>field_data = subslice p i n\<rparr>"
  unfolding borrows_from_def subslice_def by (rule exI [of _ i]) (auto simp: min_def)

lemma field_at_borrows: "field_at p i = Some (f, j) \<Longrightarrow> borrows_from p f"
  by (auto simp: field_at_def Let_def intro!: subslice_borrows split: if_splits)

end
