(* ===== verification/Request.thy ===== *)
theory Request
  imports Machine Instances
begin

text \<open>
  Receiving and decoding requests (\<open>src/src/request.rs\<close>): the frame header, the guard
  every decoder starts with, and the 18 per-op decoders. The decoders share one contract,
  the locale \<open>op_decoder\<close>; it is interpreted on all of them at once through the table
  \<open>decoder_of\<close>.
\<close>

section \<open>Shared plumbing\<close>

definition fail_errno :: "c_int \<Rightarrow> c_int M" where
  "fail_errno e = bindM (set_errno e) (\<lambda>_. ret (-1))"

definition bad_msg :: "c_int M" where
  "bad_msg = fail_errno EBADMSG"

definition einval :: "c_int M" where
  "einval = fail_errno EINVAL"

definition req_payload_for :: "env \<Rightarrow> ptr \<Rightarrow> u32 \<Rightarrow> slice result M" where
  "req_payload_for E req expected_op =
     (if req = NULL then ret (Err EINVAL)
      else bindM (deref as_Request req) (\<lambda>r.
        if op_code r \<noteq> ucast expected_op then ret (Err EINVAL)
        else if payload r = NULL then
          (if payload_len r = 0 then ret (Ok \<lparr>as_ptr = dangling E, bytes_of = []\<rparr>)
           else ret (Err EINVAL))
        else bindM (from_raw_parts (payload r) (unat (payload_len r))) (\<lambda>p. ret (Ok p))))"

text \<open>
  The macro \<open>req_payload_and_out!\<close> with the rest of the decoder as its continuation, which
  receives the payload and the struct behind \<open>out\<close>.
\<close>

definition req_payload_and_out ::
  "env \<Rightarrow> ptr \<Rightarrow> ptr \<Rightarrow> u32 \<Rightarrow> (cell \<Rightarrow> 'o option) \<Rightarrow> (slice \<Rightarrow> 'o \<Rightarrow> c_int M) \<Rightarrow> c_int M" where
  "req_payload_and_out E req out expected_op prj k =
     bindM (req_payload_for E req expected_op) (\<lambda>r. case r of
         Err e \<Rightarrow> fail_errno e
       | Ok p \<Rightarrow>
           if out = NULL then einval
           else bindM (deref prj out) (\<lambda>out_val. k p out_val))"

text \<open>A length-prefixed field as a C pair; the length is cast to 32 bits.\<close>

definition lpf :: "RsiLengthPrefixedField \<Rightarrow> ptr \<times> u32" where
  "lpf f = (as_ptr (field_data f), of_nat (length (bytes_of (field_data f))))"

section \<open>Frame header\<close>

definition rsi_read_request :: "env \<Rightarrow> c_int \<Rightarrow> ptr \<Rightarrow> u64 \<Rightarrow> ssize_t M" where
  "rsi_read_request E fd buf cap = sys_read E fd buf cap"

definition rsi_parse_request :: "env \<Rightarrow> ptr \<Rightarrow> u64 \<Rightarrow> ptr \<Rightarrow> c_int M" where
  "rsi_parse_request E frame len out =
     (if out = NULL then einval
      else bindM (deref as_Request out) (\<lambda>out_val.
        if frame = NULL then einval
        else bindM (from_raw_parts frame (unat len)) (\<lambda>frame_slice.
          case parse_rsi_request_header E frame_slice of
            Some h \<Rightarrow>
              (let hdr = ucast (RSI_REQUEST_HEADER_SIZE E) :: u64 in
               bindM (slice_add frame_slice hdr) (\<lambda>rest.
               bindM (usize_sub len hdr) (\<lambda>rest_len.
               bindM (store out (Request (out_val\<lparr>
                   request_id := hd_request_id h,
                   txn_id := hd_txn_id h,
                   op_code := hd_op_code h,
                   payload := rest,
                   payload_len := ucast rest_len\<rparr>))) (\<lambda>_. ret 0))))
          | None \<Rightarrow> bad_msg)))"

section \<open>Per-op decoders\<close>

text \<open>
  For each op, \<open>out_<op>\<close> is the assignments of the \<open>Ok(v)\<close> arm to the fields of
  \<open>*out\<close>, and \<open>rsi_request_<op>\<close> is the exported function.
\<close>

definition out_lookup :: "RsiLookupRequest \<Rightarrow> rsi_lookup \<Rightarrow> rsi_lookup" where
  "out_lookup v out =
     (let (child_name, child_name_len) = lpf (plk_child_name v)
      in out\<lparr>lk_parent_guid := plk_parent_guid v, lk_child_name := child_name,
          lk_child_name_len := child_name_len\<rparr>)"

definition rsi_request_lookup :: "env \<Rightarrow> ptr \<Rightarrow> ptr \<Rightarrow> c_int M" where
  [decoder_defs]: "rsi_request_lookup E req out =
     req_payload_and_out E req out (code_of E RSI_LOOKUP) as_Lookup (\<lambda>p out_val.
       case parse_rsi_lookup_request_payload E p of
         Some v \<Rightarrow> bindM (store out (Lookup (out_lookup v out_val))) (\<lambda>_. ret 0)
       | None \<Rightarrow> bad_msg)"

definition out_create_entry :: "RsiCreateEntryRequest \<Rightarrow> rsi_create_entry \<Rightarrow> rsi_create_entry" where
  "out_create_entry v out =
     (let (child_name, child_name_len) = lpf (pce_child_name v);
          (layer_name, layer_name_len) = lpf (pce_layer_name v)
      in out\<lparr>ce_parent_guid := pce_parent_guid v, ce_child_guid := pce_child_guid v,
          ce_child_name := child_name, ce_child_name_len := child_name_len,
          ce_layer_name := layer_name, ce_layer_name_len := layer_name_len,
          ce_sequence := pce_sequence v\<rparr>)"

definition rsi_request_create_entry :: "env \<Rightarrow> ptr \<Rightarrow> ptr \<Rightarrow> c_int M" where
  [decoder_defs]: "rsi_request_create_entry E req out =
     req_payload_and_out E req out (code_of E RSI_CREATE_ENTRY) as_CreateEntry (\<lambda>p out_val.
       case parse_rsi_create_entry_request_payload E p of
         Some v \<Rightarrow> bindM (store out (CreateEntry (out_create_entry v out_val))) (\<lambda>_. ret 0)
       | None \<Rightarrow> bad_msg)"

definition out_hide_entry :: "RsiHideEntryRequest \<Rightarrow> rsi_hide_entry \<Rightarrow> rsi_hide_entry" where
  "out_hide_entry v out =
     (let (child_name, child_name_len) = lpf (phe_child_name v);
          (layer_name, layer_name_len) = lpf (phe_layer_name v)
      in out\<lparr>he_parent_guid := phe_parent_guid v, he_child_name := child_name,
          he_child_name_len := child_name_len, he_layer_name := layer_name,
          he_layer_name_len := layer_name_len, he_sequence := phe_sequence v\<rparr>)"

definition rsi_request_hide_entry :: "env \<Rightarrow> ptr \<Rightarrow> ptr \<Rightarrow> c_int M" where
  [decoder_defs]: "rsi_request_hide_entry E req out =
     req_payload_and_out E req out (code_of E RSI_HIDE_ENTRY) as_HideEntry (\<lambda>p out_val.
       case parse_rsi_hide_entry_request_payload E p of
         Some v \<Rightarrow> bindM (store out (HideEntry (out_hide_entry v out_val))) (\<lambda>_. ret 0)
       | None \<Rightarrow> bad_msg)"

definition out_delete_entry :: "RsiDeleteEntryRequest \<Rightarrow> rsi_delete_entry \<Rightarrow> rsi_delete_entry" where
  "out_delete_entry v out =
     (let (child_name, child_name_len) = lpf (pde_child_name v);
          (layer_name, layer_name_len) = lpf (pde_layer_name v)
      in out\<lparr>de_parent_guid := pde_parent_guid v, de_child_name := child_name,
          de_child_name_len := child_name_len, de_layer_name := layer_name,
          de_layer_name_len := layer_name_len\<rparr>)"

definition rsi_request_delete_entry :: "env \<Rightarrow> ptr \<Rightarrow> ptr \<Rightarrow> c_int M" where
  [decoder_defs]: "rsi_request_delete_entry E req out =
     req_payload_and_out E req out (code_of E RSI_DELETE_ENTRY) as_DeleteEntry (\<lambda>p out_val.
       case parse_rsi_delete_entry_request_payload E p of
         Some v \<Rightarrow> bindM (store out (DeleteEntry (out_delete_entry v out_val))) (\<lambda>_. ret 0)
       | None \<Rightarrow> bad_msg)"

definition out_enum_children :: "RsiEnumChildrenRequest \<Rightarrow> rsi_enum_children \<Rightarrow> rsi_enum_children" where
  "out_enum_children v out =
     out\<lparr>ec_parent_guid := pec_parent_guid v\<rparr>"

definition rsi_request_enum_children :: "env \<Rightarrow> ptr \<Rightarrow> ptr \<Rightarrow> c_int M" where
  [decoder_defs]: "rsi_request_enum_children E req out =
     req_payload_and_out E req out (code_of E RSI_ENUM_CHILDREN) as_EnumChildren (\<lambda>p out_val.
       case parse_rsi_enum_children_request_payload E p of
         Some v \<Rightarrow> bindM (store out (EnumChildren (out_enum_children v out_val))) (\<lambda>_. ret 0)
       | None \<Rightarrow> bad_msg)"

definition out_create_key :: "RsiCreateKeyRequest \<Rightarrow> rsi_create_key \<Rightarrow> rsi_create_key" where
  "out_create_key v out =
     (let (name, name_len) = lpf (pck_name v);
          (sd, sd_len) = lpf (pck_sd v)
      in out\<lparr>ck_guid := pck_guid v, ck_parent_guid := pck_parent_guid v,
          ck_name := name, ck_name_len := name_len, ck_sd := sd,
          ck_sd_len := sd_len, ck_volatile_key := of_bool (pck_volatile v),
          ck_symlink := of_bool (pck_symlink v)\<rparr>)"

definition rsi_request_create_key :: "env \<Rightarrow> ptr \<Rightarrow> ptr \<Rightarrow> c_int M" where
  [decoder_defs]: "rsi_request_create_key E req out =
     req_payload_and_out E req out (code_of E RSI_CREATE_KEY) as_CreateKey (\<lambda>p out_val.
       case parse_rsi_create_key_request_payload E p of
         Some v \<Rightarrow> bindM (store out (CreateKey (out_create_key v out_val))) (\<lambda>_. ret 0)
       | None \<Rightarrow> bad_msg)"

definition out_read_key :: "RsiKeyGuidRequest \<Rightarrow> rsi_key_guid \<Rightarrow> rsi_key_guid" where
  "out_read_key v out =
     out\<lparr>kg_guid := pkg_guid v\<rparr>"

definition rsi_request_read_key :: "env \<Rightarrow> ptr \<Rightarrow> ptr \<Rightarrow> c_int M" where
  [decoder_defs]: "rsi_request_read_key E req out =
     req_payload_and_out E req out (code_of E RSI_READ_KEY) as_KeyGuid (\<lambda>p out_val.
       case parse_rsi_read_key_request_payload E p of
         Some v \<Rightarrow> bindM (store out (KeyGuid (out_read_key v out_val))) (\<lambda>_. ret 0)
       | None \<Rightarrow> bad_msg)"

definition out_drop_key :: "RsiKeyGuidRequest \<Rightarrow> rsi_key_guid \<Rightarrow> rsi_key_guid" where
  "out_drop_key v out =
     out\<lparr>kg_guid := pkg_guid v\<rparr>"

definition rsi_request_drop_key :: "env \<Rightarrow> ptr \<Rightarrow> ptr \<Rightarrow> c_int M" where
  [decoder_defs]: "rsi_request_drop_key E req out =
     req_payload_and_out E req out (code_of E RSI_DROP_KEY) as_KeyGuid (\<lambda>p out_val.
       case parse_rsi_drop_key_request_payload E p of
         Some v \<Rightarrow> bindM (store out (KeyGuid (out_drop_key v out_val))) (\<lambda>_. ret 0)
       | None \<Rightarrow> bad_msg)"

definition out_write_key :: "RsiWriteKeyRequest \<Rightarrow> rsi_write_key \<Rightarrow> rsi_write_key" where
  "out_write_key v out =
     (let out = out\<lparr>wk_guid := pwk_guid v, wk_field_mask := pwk_field_mask v\<rparr>;
          out = (case pwk_sd v of
              Some f \<Rightarrow> (let (sd, sd_len) = lpf f in out\<lparr>wk_sd := sd, wk_sd_len := sd_len\<rparr>)
            | None \<Rightarrow> out\<lparr>wk_sd := NULL, wk_sd_len := 0\<rparr>)
      in out\<lparr>wk_last_write_time := (case pwk_last_write_time v of Some t \<Rightarrow> t | None \<Rightarrow> 0)\<rparr>)"

definition rsi_request_write_key :: "env \<Rightarrow> ptr \<Rightarrow> ptr \<Rightarrow> c_int M" where
  [decoder_defs]: "rsi_request_write_key E req out =
     req_payload_and_out E req out (code_of E RSI_WRITE_KEY) as_WriteKey (\<lambda>p out_val.
       case parse_rsi_write_key_request_payload E p of
         Some v \<Rightarrow> bindM (store out (WriteKey (out_write_key v out_val))) (\<lambda>_. ret 0)
       | None \<Rightarrow> bad_msg)"

definition out_query_values :: "RsiQueryValuesRequest \<Rightarrow> rsi_query_values \<Rightarrow> rsi_query_values" where
  "out_query_values v out =
     (let (value_name, value_name_len) = lpf (pqv_value_name v)
      in out\<lparr>qv_guid := pqv_guid v, qv_value_name := value_name,
          qv_value_name_len := value_name_len,
          qv_query_all := of_bool (pqv_query_all v)\<rparr>)"

definition rsi_request_query_values :: "env \<Rightarrow> ptr \<Rightarrow> ptr \<Rightarrow> c_int M" where
  [decoder_defs]: "rsi_request_query_values E req out =
     req_payload_and_out E req out (code_of E RSI_QUERY_VALUES) as_QueryValues (\<lambda>p out_val.
       case parse_rsi_query_values_request_payload E p of
         Some v \<Rightarrow> bindM (store out (QueryValues (out_query_values v out_val))) (\<lambda>_. ret 0)
       | None \<Rightarrow> bad_msg)"

definition out_set_value :: "RsiSetValueRequest \<Rightarrow> rsi_set_value \<Rightarrow> rsi_set_value" where
  "out_set_value v out =
     (let (value_name, value_name_len) = lpf (psv_value_name v);
          (layer_name, layer_name_len) = lpf (psv_layer_name v);
          (data, data_len) = lpf (psv_data v)
      in out\<lparr>sv_guid := psv_guid v, sv_value_name := value_name,
          sv_value_name_len := value_name_len, sv_layer_name := layer_name,
          sv_layer_name_len := layer_name_len, sv_value_type := psv_value_type v,
          sv_data := data, sv_data_len := data_len,
          sv_sequence := psv_sequence v,
          sv_expected_sequence := psv_expected_sequence v\<rparr>)"

definition rsi_request_set_value :: "env \<Rightarrow> ptr \<Rightarrow> ptr \<Rightarrow> c_int M" where
  [decoder_defs]: "rsi_request_set_value E req out =
     req_payload_and_out E req out (code_of E RSI_SET_VALUE) as_SetValue (\<lambda>p out_val.
       case parse_rsi_set_value_request_payload E p of
         Some v \<Rightarrow> bindM (store out (SetValue (out_set_value v out_val))) (\<lambda>_. ret 0)
       | None \<Rightarrow> bad_msg)"

definition out_delete_value_entry :: "RsiDeleteValueEntryRequest \<Rightarrow> rsi_delete_value_entry \<Rightarrow> rsi_delete_value_entry" where
  "out_delete_value_entry v out =
     (let (value_name, value_name_len) = lpf (pdv_value_name v);
          (layer_name, layer_name_len) = lpf (pdv_layer_name v)
      in out\<lparr>dv_guid := pdv_guid v, dv_value_name := value_name,
          dv_value_name_len := value_name_len, dv_layer_name := layer_name,
          dv_layer_name_len := layer_name_len\<rparr>)"

definition rsi_request_delete_value_entry :: "env \<Rightarrow> ptr \<Rightarrow> ptr \<Rightarrow> c_int M" where
  [decoder_defs]: "rsi_request_delete_value_entry E req out =
     req_payload_and_out E req out (code_of E RSI_DELETE_VALUE_ENTRY) as_DeleteValueEntry (\<lambda>p out_val.
       case parse_rsi_delete_value_entry_request_payload E p of
         Some v \<Rightarrow> bindM (store out (DeleteValueEntry (out_delete_value_entry v out_val))) (\<lambda>_. ret 0)
       | None \<Rightarrow> bad_msg)"

definition out_set_blanket_tombstone :: "RsiSetBlanketTombstoneRequest \<Rightarrow> rsi_set_blanket_tombstone \<Rightarrow> rsi_set_blanket_tombstone" where
  "out_set_blanket_tombstone v out =
     (let (layer_name, layer_name_len) = lpf (pbt_layer_name v)
      in out\<lparr>bt_guid := pbt_guid v, bt_layer_name := layer_name,
          bt_layer_name_len := layer_name_len, bt_set := of_bool (pbt_set v),
          bt_sequence := pbt_sequence v\<rparr>)"

definition rsi_request_set_blanket_tombstone :: "env \<Rightarrow> ptr \<Rightarrow> ptr \<Rightarrow> c_int M" where
  [decoder_defs]: "rsi_request_set_blanket_tombstone E req out =
     req_payload_and_out E req out (code_of E RSI_SET_BLANKET_TOMBSTONE) as_SetBlanketTombstone (\<lambda>p out_val.
       case parse_rsi_set_blanket_tombstone_request_payload E p of
         Some v \<Rightarrow> bindM (store out (SetBlanketTombstone (out_set_blanket_tombstone v out_val))) (\<lambda>_. ret 0)
       | None \<Rightarrow> bad_msg)"

definition out_begin_transaction :: "env \<Rightarrow> RsiBeginTransactionRequest \<Rightarrow> rsi_begin_transaction \<Rightarrow> rsi_begin_transaction" where
  "out_begin_transaction E v out =
     out\<lparr>bx_transaction_id := pbx_transaction_id v,
          bx_mode := txn_mode_code E (pbx_mode v)\<rparr>"

definition rsi_request_begin_transaction :: "env \<Rightarrow> ptr \<Rightarrow> ptr \<Rightarrow> c_int M" where
  [decoder_defs]: "rsi_request_begin_transaction E req out =
     req_payload_and_out E req out (code_of E RSI_BEGIN_TRANSACTION) as_BeginTransaction (\<lambda>p out_val.
       case parse_rsi_begin_transaction_request_payload E p of
         Some v \<Rightarrow> bindM (store out (BeginTransaction (out_begin_transaction E v out_val))) (\<lambda>_. ret 0)
       | None \<Rightarrow> bad_msg)"

definition out_commit_transaction :: "RsiTransactionRequest \<Rightarrow> rsi_transaction \<Rightarrow> rsi_transaction" where
  "out_commit_transaction v out =
     out\<lparr>tx_transaction_id := ptx_transaction_id v\<rparr>"

definition rsi_request_commit_transaction :: "env \<Rightarrow> ptr \<Rightarrow> ptr \<Rightarrow> c_int M" where
  [decoder_defs]: "rsi_request_commit_transaction E req out =
     req_payload_and_out E req out (code_of E RSI_COMMIT_TRANSACTION) as_Transaction (\<lambda>p out_val.
       case parse_rsi_commit_transaction_request_payload E p of
         Some v \<Rightarrow> bindM (store out (Transaction (out_commit_transaction v out_val))) (\<lambda>_. ret 0)
       | None \<Rightarrow> bad_msg)"

definition out_abort_transaction :: "RsiTransactionRequest \<Rightarrow> rsi_transaction \<Rightarrow> rsi_transaction" where
  "out_abort_transaction v out =
     out\<lparr>tx_transaction_id := ptx_transaction_id v\<rparr>"

definition rsi_request_abort_transaction :: "env \<Rightarrow> ptr \<Rightarrow> ptr \<Rightarrow> c_int M" where
  [decoder_defs]: "rsi_request_abort_transaction E req out =
     req_payload_and_out E req out (code_of E RSI_ABORT_TRANSACTION) as_Transaction (\<lambda>p out_val.
       case parse_rsi_abort_transaction_request_payload E p of
         Some v \<Rightarrow> bindM (store out (Transaction (out_abort_transaction v out_val))) (\<lambda>_. ret 0)
       | None \<Rightarrow> bad_msg)"

definition out_delete_layer :: "RsiNameRequest \<Rightarrow> rsi_name \<Rightarrow> rsi_name" where
  "out_delete_layer v out =
     (let (name, name_len) = lpf (pnm_name v)
      in out\<lparr>nm_name := name, nm_name_len := name_len\<rparr>)"

definition rsi_request_delete_layer :: "env \<Rightarrow> ptr \<Rightarrow> ptr \<Rightarrow> c_int M" where
  [decoder_defs]: "rsi_request_delete_layer E req out =
     req_payload_and_out E req out (code_of E RSI_DELETE_LAYER) as_Name (\<lambda>p out_val.
       case parse_rsi_delete_layer_request_payload E p of
         Some v \<Rightarrow> bindM (store out (Name (out_delete_layer v out_val))) (\<lambda>_. ret 0)
       | None \<Rightarrow> bad_msg)"

definition out_flush :: "RsiNameRequest \<Rightarrow> rsi_name \<Rightarrow> rsi_name" where
  "out_flush v out =
     (let (name, name_len) = lpf (pnm_name v)
      in out\<lparr>nm_name := name, nm_name_len := name_len\<rparr>)"

definition rsi_request_flush :: "env \<Rightarrow> ptr \<Rightarrow> ptr \<Rightarrow> c_int M" where
  [decoder_defs]: "rsi_request_flush E req out =
     req_payload_and_out E req out (code_of E RSI_FLUSH) as_Name (\<lambda>p out_val.
       case parse_rsi_flush_request_payload E p of
         Some v \<Rightarrow> bindM (store out (Name (out_flush v out_val))) (\<lambda>_. ret 0)
       | None \<Rightarrow> bad_msg)"

section \<open>The table of decoders\<close>

text \<open>
  Which decoder serves an op, whether a cell has the type its \<open>out\<close> points to, and the
  value it leaves there when the parser accepts the payload.
\<close>

fun decoder_of :: "rsi_op \<Rightarrow> env \<Rightarrow> ptr \<Rightarrow> ptr \<Rightarrow> c_int M" where
  "decoder_of RSI_LOOKUP = rsi_request_lookup"
| "decoder_of RSI_CREATE_ENTRY = rsi_request_create_entry"
| "decoder_of RSI_HIDE_ENTRY = rsi_request_hide_entry"
| "decoder_of RSI_DELETE_ENTRY = rsi_request_delete_entry"
| "decoder_of RSI_ENUM_CHILDREN = rsi_request_enum_children"
| "decoder_of RSI_CREATE_KEY = rsi_request_create_key"
| "decoder_of RSI_READ_KEY = rsi_request_read_key"
| "decoder_of RSI_DROP_KEY = rsi_request_drop_key"
| "decoder_of RSI_WRITE_KEY = rsi_request_write_key"
| "decoder_of RSI_QUERY_VALUES = rsi_request_query_values"
| "decoder_of RSI_SET_VALUE = rsi_request_set_value"
| "decoder_of RSI_DELETE_VALUE_ENTRY = rsi_request_delete_value_entry"
| "decoder_of RSI_SET_BLANKET_TOMBSTONE = rsi_request_set_blanket_tombstone"
| "decoder_of RSI_BEGIN_TRANSACTION = rsi_request_begin_transaction"
| "decoder_of RSI_COMMIT_TRANSACTION = rsi_request_commit_transaction"
| "decoder_of RSI_ABORT_TRANSACTION = rsi_request_abort_transaction"
| "decoder_of RSI_DELETE_LAYER = rsi_request_delete_layer"
| "decoder_of RSI_FLUSH = rsi_request_flush"

fun out_typed :: "rsi_op \<Rightarrow> cell \<Rightarrow> bool" where
  "out_typed RSI_LOOKUP c = (as_Lookup c \<noteq> None)"
| "out_typed RSI_CREATE_ENTRY c = (as_CreateEntry c \<noteq> None)"
| "out_typed RSI_HIDE_ENTRY c = (as_HideEntry c \<noteq> None)"
| "out_typed RSI_DELETE_ENTRY c = (as_DeleteEntry c \<noteq> None)"
| "out_typed RSI_ENUM_CHILDREN c = (as_EnumChildren c \<noteq> None)"
| "out_typed RSI_CREATE_KEY c = (as_CreateKey c \<noteq> None)"
| "out_typed RSI_READ_KEY c = (as_KeyGuid c \<noteq> None)"
| "out_typed RSI_DROP_KEY c = (as_KeyGuid c \<noteq> None)"
| "out_typed RSI_WRITE_KEY c = (as_WriteKey c \<noteq> None)"
| "out_typed RSI_QUERY_VALUES c = (as_QueryValues c \<noteq> None)"
| "out_typed RSI_SET_VALUE c = (as_SetValue c \<noteq> None)"
| "out_typed RSI_DELETE_VALUE_ENTRY c = (as_DeleteValueEntry c \<noteq> None)"
| "out_typed RSI_SET_BLANKET_TOMBSTONE c = (as_SetBlanketTombstone c \<noteq> None)"
| "out_typed RSI_BEGIN_TRANSACTION c = (as_BeginTransaction c \<noteq> None)"
| "out_typed RSI_COMMIT_TRANSACTION c = (as_Transaction c \<noteq> None)"
| "out_typed RSI_ABORT_TRANSACTION c = (as_Transaction c \<noteq> None)"
| "out_typed RSI_DELETE_LAYER c = (as_Name c \<noteq> None)"
| "out_typed RSI_FLUSH c = (as_Name c \<noteq> None)"

fun decoded :: "rsi_op \<Rightarrow> env \<Rightarrow> slice \<Rightarrow> cell \<Rightarrow> cell option" where
  "decoded RSI_LOOKUP E p c = Option.bind (as_Lookup c) (\<lambda>out. map_option
     (\<lambda>v. Lookup (out_lookup v out)) (parse_rsi_lookup_request_payload E p))"
| "decoded RSI_CREATE_ENTRY E p c = Option.bind (as_CreateEntry c) (\<lambda>out. map_option
     (\<lambda>v. CreateEntry (out_create_entry v out)) (parse_rsi_create_entry_request_payload E p))"
| "decoded RSI_HIDE_ENTRY E p c = Option.bind (as_HideEntry c) (\<lambda>out. map_option
     (\<lambda>v. HideEntry (out_hide_entry v out)) (parse_rsi_hide_entry_request_payload E p))"
| "decoded RSI_DELETE_ENTRY E p c = Option.bind (as_DeleteEntry c) (\<lambda>out. map_option
     (\<lambda>v. DeleteEntry (out_delete_entry v out)) (parse_rsi_delete_entry_request_payload E p))"
| "decoded RSI_ENUM_CHILDREN E p c = Option.bind (as_EnumChildren c) (\<lambda>out. map_option
     (\<lambda>v. EnumChildren (out_enum_children v out)) (parse_rsi_enum_children_request_payload E p))"
| "decoded RSI_CREATE_KEY E p c = Option.bind (as_CreateKey c) (\<lambda>out. map_option
     (\<lambda>v. CreateKey (out_create_key v out)) (parse_rsi_create_key_request_payload E p))"
| "decoded RSI_READ_KEY E p c = Option.bind (as_KeyGuid c) (\<lambda>out. map_option
     (\<lambda>v. KeyGuid (out_read_key v out)) (parse_rsi_read_key_request_payload E p))"
| "decoded RSI_DROP_KEY E p c = Option.bind (as_KeyGuid c) (\<lambda>out. map_option
     (\<lambda>v. KeyGuid (out_drop_key v out)) (parse_rsi_drop_key_request_payload E p))"
| "decoded RSI_WRITE_KEY E p c = Option.bind (as_WriteKey c) (\<lambda>out. map_option
     (\<lambda>v. WriteKey (out_write_key v out)) (parse_rsi_write_key_request_payload E p))"
| "decoded RSI_QUERY_VALUES E p c = Option.bind (as_QueryValues c) (\<lambda>out. map_option
     (\<lambda>v. QueryValues (out_query_values v out)) (parse_rsi_query_values_request_payload E p))"
| "decoded RSI_SET_VALUE E p c = Option.bind (as_SetValue c) (\<lambda>out. map_option
     (\<lambda>v. SetValue (out_set_value v out)) (parse_rsi_set_value_request_payload E p))"
| "decoded RSI_DELETE_VALUE_ENTRY E p c = Option.bind (as_DeleteValueEntry c) (\<lambda>out. map_option
     (\<lambda>v. DeleteValueEntry (out_delete_value_entry v out)) (parse_rsi_delete_value_entry_request_payload E p))"
| "decoded RSI_SET_BLANKET_TOMBSTONE E p c = Option.bind (as_SetBlanketTombstone c) (\<lambda>out. map_option
     (\<lambda>v. SetBlanketTombstone (out_set_blanket_tombstone v out)) (parse_rsi_set_blanket_tombstone_request_payload E p))"
| "decoded RSI_BEGIN_TRANSACTION E p c = Option.bind (as_BeginTransaction c) (\<lambda>out. map_option
     (\<lambda>v. BeginTransaction (out_begin_transaction E v out)) (parse_rsi_begin_transaction_request_payload E p))"
| "decoded RSI_COMMIT_TRANSACTION E p c = Option.bind (as_Transaction c) (\<lambda>out. map_option
     (\<lambda>v. Transaction (out_commit_transaction v out)) (parse_rsi_commit_transaction_request_payload E p))"
| "decoded RSI_ABORT_TRANSACTION E p c = Option.bind (as_Transaction c) (\<lambda>out. map_option
     (\<lambda>v. Transaction (out_abort_transaction v out)) (parse_rsi_abort_transaction_request_payload E p))"
| "decoded RSI_DELETE_LAYER E p c = Option.bind (as_Name c) (\<lambda>out. map_option
     (\<lambda>v. Name (out_delete_layer v out)) (parse_rsi_delete_layer_request_payload E p))"
| "decoded RSI_FLUSH E p c = Option.bind (as_Name c) (\<lambda>out. map_option
     (\<lambda>v. Name (out_flush v out)) (parse_rsi_flush_request_payload E p))"

text \<open>
  "Every decoded name/data field borrows into the caller's frame buffer": what the sources
  document of the fields the parsers return.
\<close>

definition parsers_borrow :: "env \<Rightarrow> bool" where
  "parsers_borrow E \<longleftrightarrow>
     (\<forall>p v. parse_rsi_lookup_request_payload E p = Some v \<longrightarrow> borrows_from p (plk_child_name v)) \<and>
     (\<forall>p v. parse_rsi_create_entry_request_payload E p = Some v \<longrightarrow> borrows_from p (pce_child_name v) \<and> borrows_from p (pce_layer_name v)) \<and>
     (\<forall>p v. parse_rsi_hide_entry_request_payload E p = Some v \<longrightarrow> borrows_from p (phe_child_name v) \<and> borrows_from p (phe_layer_name v)) \<and>
     (\<forall>p v. parse_rsi_delete_entry_request_payload E p = Some v \<longrightarrow> borrows_from p (pde_child_name v) \<and> borrows_from p (pde_layer_name v)) \<and>
     (\<forall>p v. parse_rsi_create_key_request_payload E p = Some v \<longrightarrow> borrows_from p (pck_name v) \<and> borrows_from p (pck_sd v)) \<and>
     (\<forall>p v f. parse_rsi_write_key_request_payload E p = Some v \<longrightarrow> pwk_sd v = Some f \<longrightarrow> borrows_from p f) \<and>
     (\<forall>p v. parse_rsi_query_values_request_payload E p = Some v \<longrightarrow> borrows_from p (pqv_value_name v)) \<and>
     (\<forall>p v. parse_rsi_set_value_request_payload E p = Some v \<longrightarrow> borrows_from p (psv_value_name v) \<and> borrows_from p (psv_layer_name v) \<and> borrows_from p (psv_data v)) \<and>
     (\<forall>p v. parse_rsi_delete_value_entry_request_payload E p = Some v \<longrightarrow> borrows_from p (pdv_value_name v) \<and> borrows_from p (pdv_layer_name v)) \<and>
     (\<forall>p v. parse_rsi_set_blanket_tombstone_request_payload E p = Some v \<longrightarrow> borrows_from p (pbt_layer_name v)) \<and>
     (\<forall>p v. parse_rsi_delete_layer_request_payload E p = Some v \<longrightarrow> borrows_from p (pnm_name v)) \<and>
     (\<forall>p v. parse_rsi_flush_request_payload E p = Some v \<longrightarrow> borrows_from p (pnm_name v))"

section \<open>Rules for the shared plumbing\<close>

lemma fail_errno_eq: "fail_errno e s = Done (-1) (s\<lparr>errno := e\<rparr>)"
  by (simp add: fail_errno_def bindM_def set_errno_def ret_def)

lemma wp_fail_errno [wp_simps]: "wp (fail_errno e) Q s \<longleftrightarrow> Q (-1) (s\<lparr>errno := e\<rparr>)"
  by (simp add: fail_errno_def wp_simps)

lemma wp_bad_msg [wp_simps]: "wp bad_msg Q s \<longleftrightarrow> Q (-1) (s\<lparr>errno := EBADMSG\<rparr>)"
  by (simp add: bad_msg_def wp_simps)

lemma wp_einval [wp_simps]: "wp einval Q s \<longleftrightarrow> Q (-1) (s\<lparr>errno := EINVAL\<rparr>)"
  by (simp add: einval_def wp_simps)

text \<open>
  The caller's side of the contract: \<open>req\<close> is NULL or points to a request whose payload
  is NULL or readable for its length ("\<open>req\<close> must be NULL or a valid \<open>rsi_request\<close>").
\<close>

definition request_valid :: "heap \<Rightarrow> ptr \<Rightarrow> bool" where
  "request_valid h req \<longleftrightarrow> req = NULL \<or>
     (case Option.bind (h req) as_Request of
        Some r \<Rightarrow> payload r = NULL \<or> read_bytes h (payload r) (unat (payload_len r)) \<noteq> None
      | None \<Rightarrow> False)"

text \<open>The payload a request designates for \<open>op\<close>, or nothing when the guard refuses it.\<close>

definition payload_for :: "env \<Rightarrow> heap \<Rightarrow> ptr \<Rightarrow> u32 \<Rightarrow> slice option" where
  "payload_for E h req op =
     (if req = NULL then None
      else Option.bind (Option.bind (h req) as_Request) (\<lambda>r.
        if op_code r \<noteq> ucast op then None
        else if payload r = NULL then
          (if payload_len r = 0 then Some \<lparr>as_ptr = dangling E, bytes_of = []\<rparr> else None)
        else map_option (\<lambda>bs. \<lparr>as_ptr = payload r, bytes_of = bs\<rparr>)
               (read_bytes h (payload r) (unat (payload_len r)))))"

lemma req_payload_for_eq:
  assumes "request_valid (mem s) req"
  shows "req_payload_for E req op s =
    Done (case payload_for E (mem s) req op of Some p \<Rightarrow> Ok p | None \<Rightarrow> Err EINVAL) s"
  using assms
  by (auto simp: req_payload_for_def payload_for_def request_valid_def ret_def bindM_def deref_def
      from_raw_parts_def Option.bind_eq_Some_conv split: option.splits if_splits)

text \<open>
  The complete behaviour of the header split under its contract; it is undefined exactly when
  lcs-core accepts a frame that is shorter than the header.
\<close>

lemma rsi_parse_request_eq:
  assumes "out \<noteq> NULL \<longrightarrow> mem s out = Some (Request old)"
    and "frame \<noteq> NULL \<longrightarrow> read_bytes (mem s) frame (unat len) = Some bs"
  shows "rsi_parse_request E frame len out s =
    (if out = NULL \<or> frame = NULL then Done (-1) (s\<lparr>errno := EINVAL\<rparr>)
     else (case parse_rsi_request_header E \<lparr>as_ptr = frame, bytes_of = bs\<rparr> of
         None \<Rightarrow> Done (-1) (s\<lparr>errno := EBADMSG\<rparr>)
       | Some h \<Rightarrow> if unat (RSI_REQUEST_HEADER_SIZE E) \<le> unat len
           then Done 0 (s\<lparr>mem := (mem s)(out \<mapsto> Request
             \<lparr>request_id = hd_request_id h, txn_id = hd_txn_id h,
              payload = frame + ucast (RSI_REQUEST_HEADER_SIZE E),
              payload_len = ucast (len - ucast (RSI_REQUEST_HEADER_SIZE E)),
              op_code = hd_op_code h\<rparr>)\<rparr>)
           else Undef))"
  using assms read_bytes_length [of "mem s" frame "unat len" bs]
  by (cases old) (simp add: rsi_parse_request_def einval_def bad_msg_def fail_errno_eq bindM_def deref_def
      from_raw_parts_def slice_add_def usize_sub_def word_le_nat_alt store_def ret_def Let_def split: option.splits)

text \<open>The length check lcs-core documents excludes that case.\<close>

lemma header_fits:
  assumes "header_parser_checks E" "read_bytes h frame (unat len) = Some bs"
    and "parse_rsi_request_header E \<lparr>as_ptr = frame, bytes_of = bs\<rparr> = Some rh"
  shows "unat (RSI_REQUEST_HEADER_SIZE E) \<le> unat len"
  using assms(1,3) read_bytes_length [OF assms(2)] by (fastforce simp: header_parser_checks_def)

section \<open>The contract of a decoder\<close>

text \<open>
  What a decoder promises for its op: it fails with the guard's error, with \<open>EINVAL\<close> on a
  NULL \<open>out\<close>, with \<open>EBADMSG\<close> when the parser refuses the payload, and otherwise it
  stores the decoded struct and returns 0.
\<close>

locale op_decoder =
  fixes op :: rsi_op
    and dec :: "env \<Rightarrow> ptr \<Rightarrow> ptr \<Rightarrow> c_int M"
    and typed :: "cell \<Rightarrow> bool"
    and out_value :: "env \<Rightarrow> slice \<Rightarrow> cell \<Rightarrow> cell option"
  assumes dec_guard:
      "req_payload_for E req (code_of E op) s = Done (Err e) s' \<Longrightarrow> dec E req out s = fail_errno e s'"
    and dec_null_out:
      "req_payload_for E req (code_of E op) s = Done (Ok p) s' \<Longrightarrow> dec E req NULL s = fail_errno EINVAL s'"
    and dec_refused:
      "req_payload_for E req (code_of E op) s = Done (Ok p) s' \<Longrightarrow> out \<noteq> NULL \<Longrightarrow>
        mem s' out = Some c \<Longrightarrow> typed c \<Longrightarrow> out_value E p c = None \<Longrightarrow> dec E req out s = fail_errno EBADMSG s'"
    and dec_stored:
      "req_payload_for E req (code_of E op) s = Done (Ok p) s' \<Longrightarrow> out \<noteq> NULL \<Longrightarrow>
        mem s' out = Some c \<Longrightarrow> typed c \<Longrightarrow> out_value E p c = Some c' \<Longrightarrow>
        dec E req out s = Done 0 (s'\<lparr>mem := (mem s')(out \<mapsto> c')\<rparr>)"
begin

text \<open>The complete behaviour under the caller's contract.\<close>

lemma dec_eq:
  assumes "request_valid (mem s) req"
    and "out = NULL \<or> (\<exists>c. mem s out = Some c \<and> typed c)"
  shows "dec E req out s =
    (case payload_for E (mem s) req (code_of E op) of
       None \<Rightarrow> Done (-1) (s\<lparr>errno := EINVAL\<rparr>)
     | Some p \<Rightarrow>
         if out = NULL then Done (-1) (s\<lparr>errno := EINVAL\<rparr>)
         else (case out_value E p (the (mem s out)) of
             None \<Rightarrow> Done (-1) (s\<lparr>errno := EBADMSG\<rparr>)
           | Some c' \<Rightarrow> Done 0 (s\<lparr>mem := (mem s)(out \<mapsto> c')\<rparr>)))"
proof (cases "payload_for E (mem s) req (code_of E op)")
  case None
  then show ?thesis
    using dec_guard [OF req_payload_for_eq [OF assms(1), of E "code_of E op", unfolded None option.case]]
    by (simp add: fail_errno_eq)
next
  case (Some p)
  note guard = req_payload_for_eq [OF assms(1), of E "code_of E op", unfolded Some option.case]
  show ?thesis
    using assms(2) dec_null_out [OF guard] dec_refused [OF guard] dec_stored [OF guard] Some
    by (auto simp: fail_errno_eq split: option.splits)
qed

lemma dec_returns:
  assumes "request_valid (mem s) req"
    and "out = NULL \<or> (\<exists>c. mem s out = Some c \<and> typed c)"
  obtains (stored) p c' where "payload_for E (mem s) req (code_of E op) = Some p" "out \<noteq> NULL"
      "out_value E p (the (mem s out)) = Some c'" "dec E req out s = Done 0 (s\<lparr>mem := (mem s)(out \<mapsto> c')\<rparr>)"
  | (failed) e where "e \<in> {EINVAL, EBADMSG}" "dec E req out s = Done (-1) (s\<lparr>errno := e\<rparr>)"
  using dec_eq [OF assms, of E] that by (auto split: option.splits if_splits)

lemma dec_wrong_op:
  assumes "req \<noteq> NULL" and "mem s req = Some (Request r)" and "op_code r \<noteq> ucast (code_of E op)"
  shows "dec E req out s = Done (-1) (s\<lparr>errno := EINVAL\<rparr>)"
proof -
  have "req_payload_for E req (code_of E op) s = Done (Err EINVAL) s"
    using assms by (simp add: req_payload_for_def bindM_def deref_def ret_def)
  from dec_guard [OF this] show ?thesis by (simp add: fail_errno_eq)
qed

end

text \<open>Every exported decoder keeps the contract.\<close>

lemma req_payload_and_out_cases:
  "req_payload_for E req op s = Done (Err e) s' \<Longrightarrow> req_payload_and_out E req out op prj k s = fail_errno e s'"
  "req_payload_for E req op s = Done (Ok p) s' \<Longrightarrow> req_payload_and_out E req NULL op prj k s = fail_errno EINVAL s'"
  "req_payload_for E req op s = Done (Ok p) s' \<Longrightarrow> out \<noteq> NULL \<Longrightarrow> mem s' out = Some c \<Longrightarrow> prj c = Some v \<Longrightarrow>
    req_payload_and_out E req out op prj k s = k p v s'"
  by (simp_all add: req_payload_and_out_def bindM_def einval_def deref_def)

interpretation decoders: op_decoder op "decoder_of op" "out_typed op" "decoded op" for op
proof
  fix E req s e s' out
  assume "req_payload_for E req (code_of E op) s = Done (Err e) s'"
  then show "decoder_of op E req out s = fail_errno e s'"
    by (cases op; simp add: decoder_defs req_payload_and_out_cases)
next
  fix E req s p s'
  assume "req_payload_for E req (code_of E op) s = Done (Ok p) s'"
  then show "decoder_of op E req NULL s = fail_errno EINVAL s'"
    by (cases op; simp add: decoder_defs req_payload_and_out_cases)
next
  fix E req s p s' out c
  assume "req_payload_for E req (code_of E op) s = Done (Ok p) s'" "out \<noteq> NULL" "mem s' out = Some c"
    "out_typed op c" "decoded op E p c = None"
  then show "decoder_of op E req out s = fail_errno EBADMSG s'"
    by (cases op; auto simp: decoder_defs req_payload_and_out_cases bad_msg_def)
next
  fix E req s p s' out c c'
  assume "req_payload_for E req (code_of E op) s = Done (Ok p) s'" "out \<noteq> NULL" "mem s' out = Some c"
    "out_typed op c" "decoded op E p c = Some c'"
  then show "decoder_of op E req out s = Done 0 (s'\<lparr>mem := (mem s')(out \<mapsto> c')\<rparr>)"
    by (cases op; auto simp: decoder_defs req_payload_and_out_cases bindM_def store_def ret_def)
qed

section \<open>Borrowed fields\<close>

text \<open>The variable-length fields a parser returned for the payload of an op, in struct order.\<close>

fun parsed_fields :: "rsi_op \<Rightarrow> env \<Rightarrow> slice \<Rightarrow> RsiLengthPrefixedField list" where
  "parsed_fields RSI_LOOKUP E p = (case parse_rsi_lookup_request_payload E p of
     Some v \<Rightarrow> [plk_child_name v] | None \<Rightarrow> [])"
| "parsed_fields RSI_CREATE_ENTRY E p = (case parse_rsi_create_entry_request_payload E p of
     Some v \<Rightarrow> [pce_child_name v, pce_layer_name v] | None \<Rightarrow> [])"
| "parsed_fields RSI_HIDE_ENTRY E p = (case parse_rsi_hide_entry_request_payload E p of
     Some v \<Rightarrow> [phe_child_name v, phe_layer_name v] | None \<Rightarrow> [])"
| "parsed_fields RSI_DELETE_ENTRY E p = (case parse_rsi_delete_entry_request_payload E p of
     Some v \<Rightarrow> [pde_child_name v, pde_layer_name v] | None \<Rightarrow> [])"
| "parsed_fields RSI_CREATE_KEY E p = (case parse_rsi_create_key_request_payload E p of
     Some v \<Rightarrow> [pck_name v, pck_sd v] | None \<Rightarrow> [])"
| "parsed_fields RSI_QUERY_VALUES E p = (case parse_rsi_query_values_request_payload E p of
     Some v \<Rightarrow> [pqv_value_name v] | None \<Rightarrow> [])"
| "parsed_fields RSI_SET_VALUE E p = (case parse_rsi_set_value_request_payload E p of
     Some v \<Rightarrow> [psv_value_name v, psv_layer_name v, psv_data v] | None \<Rightarrow> [])"
| "parsed_fields RSI_DELETE_VALUE_ENTRY E p = (case parse_rsi_delete_value_entry_request_payload E p of
     Some v \<Rightarrow> [pdv_value_name v, pdv_layer_name v] | None \<Rightarrow> [])"
| "parsed_fields RSI_SET_BLANKET_TOMBSTONE E p = (case parse_rsi_set_blanket_tombstone_request_payload E p of
     Some v \<Rightarrow> [pbt_layer_name v] | None \<Rightarrow> [])"
| "parsed_fields RSI_DELETE_LAYER E p = (case parse_rsi_delete_layer_request_payload E p of
     Some v \<Rightarrow> [pnm_name v] | None \<Rightarrow> [])"
| "parsed_fields RSI_FLUSH E p = (case parse_rsi_flush_request_payload E p of
     Some v \<Rightarrow> [pnm_name v] | None \<Rightarrow> [])"
| "parsed_fields RSI_WRITE_KEY E p = (case parse_rsi_write_key_request_payload E p of
     Some v \<Rightarrow> [case pwk_sd v of Some f \<Rightarrow> f | None \<Rightarrow> \<lparr>field_data = \<lparr>as_ptr = NULL, bytes_of = []\<rparr>\<rparr>]
   | None \<Rightarrow> [])"
| "parsed_fields _ E p = []"

lemmas out_defs =
  out_lookup_def out_create_entry_def out_hide_entry_def out_delete_entry_def out_enum_children_def out_create_key_def out_read_key_def out_drop_key_def
  out_query_values_def out_set_value_def out_delete_value_entry_def out_set_blanket_tombstone_def out_begin_transaction_def out_commit_transaction_def out_abort_transaction_def out_delete_layer_def out_flush_def

lemma out_write_key_fields:
  "wk_guid (out_write_key v out) = pwk_guid v"
  "wk_field_mask (out_write_key v out) = pwk_field_mask v"
  "wk_sd (out_write_key v out) = (case pwk_sd v of Some f \<Rightarrow> fst (lpf f) | None \<Rightarrow> NULL)"
  "wk_sd_len (out_write_key v out) = (case pwk_sd v of Some f \<Rightarrow> snd (lpf f) | None \<Rightarrow> 0)"
  "wk_last_write_time (out_write_key v out) = (case pwk_last_write_time v of Some t \<Rightarrow> t | None \<Rightarrow> 0)"
  by (simp_all add: out_write_key_def Let_def case_prod_beta split: option.splits)

lemma parsed_fields_borrow:
  assumes "parsers_borrow E" and "f \<in> set (parsed_fields op E p)"
  shows "borrows_from p f \<or> field_data f = \<lparr>as_ptr = NULL, bytes_of = []\<rparr>"
proof (cases "op = RSI_WRITE_KEY")
  case True
  with assms(2) obtain v where "parse_rsi_write_key_request_payload E p = Some v"
    and "f = (case pwk_sd v of Some f \<Rightarrow> f | None \<Rightarrow> \<lparr>field_data = \<lparr>as_ptr = NULL, bytes_of = []\<rparr>\<rparr>)"
    by (cases "parse_rsi_write_key_request_payload E p") auto
  with assms(1) show ?thesis by (simp add: parsers_borrow_def split: option.splits)
next
  case False
  with assms show ?thesis by (cases op; auto simp: parsers_borrow_def split: option.splits)
qed

text \<open>A borrowed field is inside the payload, its length is not truncated, and it reads back.\<close>

lemma lpf_borrow:
  assumes "borrows_from p f" and "length (bytes_of p) < 2 ^ 32"
    and "read_bytes h (as_ptr p) (length (bytes_of p)) = Some (bytes_of p)"
  shows "read_bytes h (fst (lpf f)) (unat (snd (lpf f))) = Some (bytes_of (field_data f))"
    and "\<exists>i. i + unat (snd (lpf f)) \<le> length (bytes_of p) \<and> fst (lpf f) = as_ptr p + of_nat i"
proof -
  obtain i where i: "i + length (bytes_of (field_data f)) \<le> length (bytes_of p)"
    "as_ptr (field_data f) = as_ptr p + of_nat i"
    "bytes_of (field_data f) = take (length (bytes_of (field_data f))) (drop i (bytes_of p))"
    using assms(1) unfolding borrows_from_def by blast
  then have n: "unat (of_nat (length (bytes_of (field_data f))) :: u32) = length (bytes_of (field_data f))"
    using assms(2) by (intro unat_of_nat_u32) simp
  show "read_bytes h (fst (lpf f)) (unat (snd (lpf f))) = Some (bytes_of (field_data f))"
    using read_bytes_sub [OF assms(3) i(1)] i(2,3) n by (simp add: lpf_def)
  show "\<exists>i. i + unat (snd (lpf f)) \<le> length (bytes_of p) \<and> fst (lpf f) = as_ptr p + of_nat i"
    using i n by (auto simp: lpf_def)
qed

text \<open>Every decoder assigns every field of the struct it fills.\<close>

lemma out_overwrites:
  "out_lookup vlookup alookup = out_lookup vlookup blookup"
  "out_create_entry vcreate_entry acreate_entry = out_create_entry vcreate_entry bcreate_entry"
  "out_hide_entry vhide_entry ahide_entry = out_hide_entry vhide_entry bhide_entry"
  "out_delete_entry vdelete_entry adelete_entry = out_delete_entry vdelete_entry bdelete_entry"
  "out_enum_children venum_children aenum_children = out_enum_children venum_children benum_children"
  "out_create_key vcreate_key acreate_key = out_create_key vcreate_key bcreate_key"
  "out_read_key vread_key aread_key = out_read_key vread_key bread_key"
  "out_drop_key vdrop_key adrop_key = out_drop_key vdrop_key bdrop_key"
  "out_write_key vwrite_key awrite_key = out_write_key vwrite_key bwrite_key"
  "out_query_values vquery_values aquery_values = out_query_values vquery_values bquery_values"
  "out_set_value vset_value aset_value = out_set_value vset_value bset_value"
  "out_delete_value_entry vdelete_value_entry adelete_value_entry = out_delete_value_entry vdelete_value_entry bdelete_value_entry"
  "out_set_blanket_tombstone vset_blanket_tombstone aset_blanket_tombstone = out_set_blanket_tombstone vset_blanket_tombstone bset_blanket_tombstone"
  "out_begin_transaction E vbegin_transaction abegin_transaction = out_begin_transaction E vbegin_transaction bbegin_transaction"
  "out_commit_transaction vcommit_transaction acommit_transaction = out_commit_transaction vcommit_transaction bcommit_transaction"
  "out_abort_transaction vabort_transaction aabort_transaction = out_abort_transaction vabort_transaction babort_transaction"
  "out_delete_layer vdelete_layer adelete_layer = out_delete_layer vdelete_layer bdelete_layer"
  "out_flush vflush aflush = out_flush vflush bflush"
  by (auto simp: out_defs out_write_key_def lpf_def Let_def split: option.splits
      intro!: rsi_begin_transaction.equality rsi_create_entry.equality rsi_create_key.equality rsi_delete_entry.equality rsi_delete_value_entry.equality rsi_enum_children.equality rsi_hide_entry.equality rsi_key_guid.equality rsi_lookup.equality rsi_name.equality rsi_query_values.equality rsi_set_blanket_tombstone.equality rsi_set_value.equality rsi_transaction.equality rsi_write_key.equality)

lemma read_bytes_upd:
  "h q = Some c \<Longrightarrow> as_Byte c = None \<Longrightarrow> read_bytes h p n = Some bs \<Longrightarrow>
    read_bytes (h(q \<mapsto> c')) p n = Some bs"
  by (induction n arbitrary: p bs) (auto split: option.splits)

lemma out_typed_not_Byte: "out_typed op c \<Longrightarrow> as_Byte c = None"
  by (cases op; cases c; simp add: as_Byte_def; simp add: as_Lookup_def as_CreateEntry_def
      as_HideEntry_def as_DeleteEntry_def as_EnumChildren_def as_CreateKey_def as_KeyGuid_def
      as_WriteKey_def as_QueryValues_def as_SetValue_def as_DeleteValueEntry_def
      as_SetBlanketTombstone_def as_BeginTransaction_def as_Transaction_def as_Name_def)

text \<open>The payload of a request that points to readable bytes.\<close>

lemma payload_for_pointer:
  assumes "req \<noteq> NULL" "mem s req = Some (Request r)" "payload r \<noteq> NULL"
    and "payload_for E (mem s) req op = Some p"
  shows "as_ptr p = payload r" "length (bytes_of p) = unat (payload_len r)"
    "read_bytes (mem s) (as_ptr p) (length (bytes_of p)) = Some (bytes_of p)"
proof -
  from assms obtain bs where "read_bytes (mem s) (payload r) (unat (payload_len r)) = Some bs"
    and "p = \<lparr>as_ptr = payload r, bytes_of = bs\<rparr>"
    by (auto simp: payload_for_def split: if_splits)
  with read_bytes_length show "as_ptr p = payload r" "length (bytes_of p) = unat (payload_len r)"
    "read_bytes (mem s) (as_ptr p) (length (bytes_of p)) = Some (bytes_of p)"
    by fastforce+
qed

end
