(* ===== verification/Request_Correct.thy ===== *)
theory Request_Correct
  imports Request
begin

text \<open>
  Correctness of request decoding: the header split, the decoders' common contract for all
  18 ops, the refusal of a decoder that does not match the request, and the memory safety
  and content of the borrowed fields. Example data for the witnesses comes first: a LOOKUP
  frame of 44 bytes and a SET_VALUE frame, laid out in memory at \<open>0x1000\<close>.
\<close>

section \<open>Example memory\<close>

definition ex_lookup_payload :: "u8 list" where
  "ex_lookup_payload = replicate 16 0xAB @ le32 2 @ [0x61, 0x62]"

definition ex_lookup_frame :: "u8 list" where
  "ex_lookup_frame = le32 44 @ le64 7 @ le16 1 @ le64 3 @ ex_lookup_payload"

definition ex_request0 :: rsi_request where
  "ex_request0 = \<lparr>request_id = 0, txn_id = 0, payload = NULL, payload_len = 0, op_code = 0\<rparr>"

definition ex_heap :: heap where
  "ex_heap = (put_bytes Map.empty 0x1000 ex_lookup_frame)
     (0x2000 \<mapsto> Request ex_request0,
      0x3000 \<mapsto> Lookup \<lparr>lk_parent_guid = nil_guid, lk_child_name = NULL, lk_child_name_len = 0\<rparr>,
      0x4000 \<mapsto> Request \<lparr>request_id = 7, txn_id = 3, payload = 0x1016, payload_len = 22, op_code = 1\<rparr>)"

definition ex_world :: world where
  "ex_world = \<lparr>mem = ex_heap, errno = 0, trace = [], ticks = 0\<rparr>"

lemma ex_world_simps [simp]:
  "mem ex_world = ex_heap" "trace ex_world = []" "errno ex_world = 0"
  by (simp_all add: ex_world_def)

lemma ex_heap_cells [simp]:
  "ex_heap 0x2000 = Some (Request ex_request0)"
  "ex_heap 0x3000 = Some (Lookup \<lparr>lk_parent_guid = nil_guid, lk_child_name = NULL, lk_child_name_len = 0\<rparr>)"
  "ex_heap 0x4000 = Some (Request \<lparr>request_id = 7, txn_id = 3, payload = 0x1016, payload_len = 22, op_code = 1\<rparr>)"
  by (simp_all add: ex_heap_def)

lemma ex_lookup_frame_length: "length ex_lookup_frame = 44"
  by code_simp

lemma ex_frame_read: "read_bytes ex_heap 0x1000 44 = Some ex_lookup_frame"
  by code_simp

lemma ex_payload_read: "read_bytes ex_heap 0x1016 22 = Some ex_lookup_payload"
  by code_simp

lemma ex_frame_header:
  "ex_parse_header \<lparr>as_ptr = 0x1000, bytes_of = ex_lookup_frame\<rparr> =
    Some \<lparr>hd_request_id = 7, hd_txn_id = 3, hd_op_code = 1\<rparr>"
  by code_simp

section \<open>Receiving\<close>

text \<open>
  \<open>rsi_read_request\<close> makes exactly one \<open>read\<close> and returns its result unchanged. When the
  kernel reports as many bytes as it delivered, the buffer then holds exactly the delivered
  frame, and memory outside those bytes is as before.
\<close>

theorem rsi_read_request_exact:
  assumes "sr = kernel E (trace s) (Sys_read fd buf cap)" "sys_ret sr = int (length (sys_data sr))"
    and "length (sys_data sr) \<le> unat cap"
  shows "\<exists>s'. rsi_read_request E fd buf cap s = Done (int (length (sys_data sr))) s' \<and>
    trace s' = trace s @ [(Sys_read fd buf cap, sr)] \<and>
    read_bytes (mem s') buf (length (sys_data sr)) = Some (sys_data sr) \<and>
    (\<forall>q. (\<forall>i < length (sys_data sr). q \<noteq> buf + of_nat i) \<longrightarrow> mem s' q = mem s q)"
proof -
  have "unat cap < 2 ^ LENGTH(64)" by (rule unsigned_less)
  then have "length (sys_data sr) \<le> 2 ^ 64" using assms(3) by simp
  with assms(1,2) show ?thesis
    by (simp add: rsi_read_request_def sys_read_def bindM_def syscall_def Let_def read_put_bytes put_bytes_other)
qed

theorem rsi_read_request_exact_witness:
  "\<exists>s'. rsi_read_request (ex_env\<lparr>kernel := (\<lambda>_ _. \<lparr>sys_ret = 2, sys_errno = 0, sys_data = [5, 6]\<rparr>)\<rparr>) 3 0x9000 64
      ex_world = Done 2 s' \<and> read_bytes (mem s') 0x9000 (length [5, 6 :: u8]) = Some [5, 6]"
  using rsi_read_request_exact [where E = "ex_env\<lparr>kernel := (\<lambda>_ _. \<lparr>sys_ret = 2, sys_errno = 0, sys_data = [5, 6]\<rparr>)\<rparr>"
      and s = ex_world and fd = 3 and buf = "0x9000" and cap = 64
      and sr = "\<lparr>sys_ret = 2, sys_errno = 0, sys_data = [5, 6]\<rparr>"]
  by auto

section \<open>The frame header\<close>

text \<open>
  C17. \<open>rsi_parse_request\<close> under its contract (a non-NULL \<open>out\<close> is a request struct, a
  non-NULL \<open>frame\<close> is readable for \<open>len\<close> bytes), with a header parser that enforces the minimum
  length it documents, is not undefined and does not abort: the pointer to the payload stays in
  the frame and the subtraction of the header size does not underflow. It fails with \<open>EINVAL\<close> exactly on a NULL argument, with \<open>EBADMSG\<close> exactly when the header
  parser refuses the frame, in both cases leaving all memory untouched, and otherwise returns
  0 having written the header fields and the payload view and nothing else. It makes no
  system call and no allocation.
\<close>

theorem rsi_parse_request_total:
  assumes "header_parser_checks E"
    and "out \<noteq> NULL \<longrightarrow> mem s out = Some (Request old)"
    and "frame \<noteq> NULL \<longrightarrow> read_bytes (mem s) frame (unat len) = Some bs"
  shows "rsi_parse_request E frame len out s =
    (if out = NULL \<or> frame = NULL then Done (-1) (s\<lparr>errno := EINVAL\<rparr>)
     else (case parse_rsi_request_header E \<lparr>as_ptr = frame, bytes_of = bs\<rparr> of
         None \<Rightarrow> Done (-1) (s\<lparr>errno := EBADMSG\<rparr>)
       | Some h \<Rightarrow> Done 0 (s\<lparr>mem := (mem s)(out \<mapsto> Request
           \<lparr>request_id = hd_request_id h, txn_id = hd_txn_id h,
            payload = frame + of_nat (unat (RSI_REQUEST_HEADER_SIZE E)),
            payload_len = of_nat (length bs - unat (RSI_REQUEST_HEADER_SIZE E)),
            op_code = hd_op_code h\<rparr>)\<rparr>)))"
proof -
  have "ucast (len - ucast (RSI_REQUEST_HEADER_SIZE E)) = (of_nat (length bs - unat (RSI_REQUEST_HEADER_SIZE E)) :: u32)"
    if "read_bytes (mem s) frame (unat len) = Some bs" "unat (RSI_REQUEST_HEADER_SIZE E) \<le> unat len"
  proof -
    have "unat (len - ucast (RSI_REQUEST_HEADER_SIZE E)) = length bs - unat (RSI_REQUEST_HEADER_SIZE E)"
      using that read_bytes_length [OF that(1)] by (simp add: unat_sub word_le_nat_alt)
    then show ?thesis by (metis of_nat_unat)
  qed
  moreover have "unat (RSI_REQUEST_HEADER_SIZE E) \<le> unat len"
    if "frame \<noteq> NULL" "parse_rsi_request_header E \<lparr>as_ptr = frame, bytes_of = bs\<rparr> = Some h" for h
    by (rule header_fits [OF assms(1) _ that(2)]) (use assms(3) that(1) in blast)
  ultimately show ?thesis
    unfolding rsi_parse_request_eq [OF assms(2,3), of E]
    using assms(3) by (auto simp: of_nat_unat split: option.split)
qed

theorem rsi_parse_request_total_witness:
  "rsi_parse_request ex_env 0x1000 44 0x2000 ex_world =
     Done 0 (ex_world\<lparr>mem := ex_heap(0x2000 \<mapsto> Request
       \<lparr>request_id = 7, txn_id = 3, payload = 0x1016, payload_len = 22, op_code = 1\<rparr>)\<rparr>)"
proof -
  have "0x2000 \<noteq> NULL \<longrightarrow> mem ex_world 0x2000 = Some (Request ex_request0)" by simp
  moreover have "0x1000 \<noteq> NULL \<longrightarrow> read_bytes (mem ex_world) 0x1000 (unat (44 :: u64)) = Some ex_lookup_frame"
    using ex_frame_read by simp
  ultimately show ?thesis
    using rsi_parse_request_total [OF ex_env_header, where s = ex_world and out = "0x2000" and frame = "0x1000" and len = 44]
    by (simp add: ex_frame_header ex_lookup_frame_length)
qed

text \<open>
  C18. The payload view of a parsed frame: when the header parser enforces the minimum length
  it documents, the subtraction \<open>len - hdr\<close> does not wrap, and for frames whose payload
  fits the 32-bit length field the view denotes exactly the bytes after the header, still
  readable after the call has written \<open>*out\<close>.
\<close>

theorem rsi_parse_request_payload_view:
  assumes "header_parser_checks E"
    and "out \<noteq> NULL" "mem s out = Some (Request old)"
    and "frame \<noteq> NULL" "read_bytes (mem s) frame (unat len) = Some bs"
    and "parse_rsi_request_header E \<lparr>as_ptr = frame, bytes_of = bs\<rparr> = Some h"
    and "unat len - unat (RSI_REQUEST_HEADER_SIZE E) < 2 ^ 32"
  shows "\<exists>s' r. rsi_parse_request E frame len out s = Done 0 s' \<and> mem s' out = Some (Request r) \<and>
    request_id r = hd_request_id h \<and> txn_id r = hd_txn_id h \<and> op_code r = hd_op_code h \<and>
    unat (payload_len r) = unat len - unat (RSI_REQUEST_HEADER_SIZE E) \<and>
    read_bytes (mem s') (payload r) (unat (payload_len r)) =
      Some (drop (unat (RSI_REQUEST_HEADER_SIZE E)) bs)"
proof -
  let ?H = "unat (RSI_REQUEST_HEADER_SIZE E)"
  let ?len = "ucast (len - ucast (RSI_REQUEST_HEADER_SIZE E)) :: u32"
  have H: "?H \<le> unat len"
    by (rule header_fits [OF assms(1,5,6)])
  have uH: "unat (ucast (RSI_REQUEST_HEADER_SIZE E) :: u64) = ?H" by simp
  have "unat (len - ucast (RSI_REQUEST_HEADER_SIZE E)) = unat len - ?H"
    using H uH by (simp add: unat_sub word_le_nat_alt)
  then have len: "unat ?len = unat len - ?H"
    using assms(7) by (simp add: unat_ucast_u64_u32)
  have "read_bytes (mem s) (frame + of_nat ?H) (unat len - ?H) = Some (drop ?H bs)"
    using read_bytes_sub [OF assms(5), of ?H "unat len - ?H"] H read_bytes_length [OF assms(5)] by simp
  then have "read_bytes ((mem s)(out \<mapsto> c)) (frame + of_nat ?H) (unat len - ?H) = Some (drop ?H bs)" for c
    using read_bytes_upd [of "mem s" out "Request old"] assms(3) by (simp add: as_Byte_def)
  then show ?thesis
    using assms(2-6) len H by (simp add: rsi_parse_request_eq [of out s old frame len bs] of_nat_unat)
qed

theorem rsi_parse_request_payload_view_witness:
  "\<exists>s' r. rsi_parse_request ex_env 0x1000 44 0x2000 ex_world = Done 0 s' \<and>
    mem s' 0x2000 = Some (Request r) \<and> request_id r = 7 \<and> txn_id r = 3 \<and> op_code r = 1 \<and>
    unat (payload_len r) = 22 \<and>
    read_bytes (mem s') (payload r) (unat (payload_len r)) = Some ex_lookup_payload"
proof -
  have "mem ex_world 0x2000 = Some (Request ex_request0)" by simp
  moreover have "read_bytes (mem ex_world) 0x1000 (unat (44 :: u64)) = Some ex_lookup_frame"
    using ex_frame_read by simp
  moreover have "drop 22 ex_lookup_frame = ex_lookup_payload" by code_simp
  ultimately show ?thesis
    using rsi_parse_request_payload_view [where s = ex_world and out = "0x2000" and old = ex_request0
        and frame = "0x1000" and len = 44 and bs = ex_lookup_frame and E = ex_env
        and h = "\<lparr>hd_request_id = 7, hd_txn_id = 3, hd_op_code = 1\<rparr>"]
    by (simp add: ex_env_header ex_frame_header)
qed

section \<open>The decoders\<close>

text \<open>
  C16. All 18 decoders, each under the contract of its \<open>req\<close> and \<open>out\<close> pointers: no
  undefined behaviour and no abort; \<open>EINVAL\<close> on a NULL request, a request of another op, a
  NULL payload with a nonzero length or a NULL \<open>out\<close>; \<open>EBADMSG\<close> when lcs-core refuses the
  payload; both failures leave memory as it was. Otherwise 0 is returned and \<open>*out\<close> holds
  the decoded struct, the only cell written.
\<close>

theorem decoders_total:
  assumes "request_valid (mem s) req"
    and "out = NULL \<or> (\<exists>c. mem s out = Some c \<and> out_typed op c)"
  shows "decoder_of op E req out s =
    (case payload_for E (mem s) req (code_of E op) of
       None \<Rightarrow> Done (-1) (s\<lparr>errno := EINVAL\<rparr>)
     | Some p \<Rightarrow>
         if out = NULL then Done (-1) (s\<lparr>errno := EINVAL\<rparr>)
         else (case decoded op E p (the (mem s out)) of
             None \<Rightarrow> Done (-1) (s\<lparr>errno := EBADMSG\<rparr>)
           | Some c' \<Rightarrow> Done 0 (s\<lparr>mem := (mem s)(out \<mapsto> c')\<rparr>)))"
  using assms by (rule decoders.dec_eq)

lemma ex_request_valid: "request_valid ex_heap 0x4000"
  using ex_payload_read by (simp add: request_valid_def)

lemma ex_payload_for:
  "payload_for ex_env ex_heap 0x4000 1 = Some \<lparr>as_ptr = 0x1016, bytes_of = ex_lookup_payload\<rparr>"
  using ex_payload_read by (simp add: payload_for_def)

lemma ex_lookup_parsed:
  "ex_parse_lookup \<lparr>as_ptr = 0x1016, bytes_of = ex_lookup_payload\<rparr> =
    Some \<lparr>plk_parent_guid = guid_of (replicate 16 0xAB),
      plk_child_name = \<lparr>field_data = \<lparr>as_ptr = 0x102A, bytes_of = [0x61, 0x62]\<rparr>\<rparr>\<rparr>"
  by code_simp

theorem decoders_total_witness:
  "decoder_of RSI_LOOKUP ex_env 0x4000 0x3000 ex_world =
     Done 0 (ex_world\<lparr>mem := ex_heap(0x3000 \<mapsto> Lookup
       \<lparr>lk_parent_guid = guid_of (replicate 16 0xAB), lk_child_name = 0x102A, lk_child_name_len = 2\<rparr>)\<rparr>)"
proof -
  have "request_valid (mem ex_world) 0x4000" by (simp add: ex_request_valid)
  moreover have "0x3000 = NULL \<or> (\<exists>c. mem ex_world 0x3000 = Some c \<and> out_typed RSI_LOOKUP c)" by simp
  ultimately show ?thesis
    using decoders_total [where s = ex_world and req = "0x4000" and out = "0x3000" and op = RSI_LOOKUP
        and E = ex_env]
    by (simp add: ex_payload_for ex_lookup_parsed out_lookup_def lpf_def)
qed

text \<open>
  A decoder overwrites the whole struct: what a successful decode leaves in \<open>*out\<close> does
  not depend on what was there before, so a struct reused between requests never shows a field
  of an earlier one (also when WRITE_KEY carries no security descriptor or no time).
\<close>

theorem decoders_overwrite_out:
  assumes "out_typed op c1" "out_typed op c2"
  shows "decoded op E p c1 = decoded op E p c2"
  using assms
  by (cases op) (auto intro!: option.map_cong0 out_overwrites)

theorem decoders_overwrite_out_witness:
  "decoded RSI_LOOKUP ex_env \<lparr>as_ptr = 0x1016, bytes_of = ex_lookup_payload\<rparr>
     (Lookup \<lparr>lk_parent_guid = guid_of (replicate 16 1), lk_child_name = 2, lk_child_name_len = 9\<rparr>) =
   Some (Lookup \<lparr>lk_parent_guid = guid_of (replicate 16 0xAB), lk_child_name = 0x102A, lk_child_name_len = 2\<rparr>)"
  using decoders_overwrite_out [where op = RSI_LOOKUP and E = ex_env
      and p = "\<lparr>as_ptr = 0x1016, bytes_of = ex_lookup_payload\<rparr>"
      and ?c1.0 = "Lookup \<lparr>lk_parent_guid = guid_of (replicate 16 1), lk_child_name = 2, lk_child_name_len = 9\<rparr>"
      and ?c2.0 = "Lookup \<lparr>lk_parent_guid = nil_guid, lk_child_name = NULL, lk_child_name_len = 0\<rparr>"]
  by (simp add: ex_lookup_parsed out_lookup_def lpf_def)

text \<open>
  A decoder never decodes the request of another op: for pairwise different op-codes, a
  request whose op-code is that of \<open>op\<close> makes the decoder of every other op return -1 with
  \<open>EINVAL\<close>, whatever the payload and the \<open>out\<close> pointer are, without touching memory.
\<close>

theorem decoder_mismatch_is_einval:
  assumes "op_codes_distinct E" and "req \<noteq> NULL" and "mem s req = Some (Request r)"
    and "op_code r = ucast (code_of E op)" and "op' \<noteq> op"
  shows "decoder_of op' E req out s = Done (-1) (s\<lparr>errno := EINVAL\<rparr>)"
proof -
  have "op_code r \<noteq> ucast (code_of E op')"
    using assms(1,4,5) by (auto simp: op_codes_distinct_def dest: injD)
  with assms(2,3) show ?thesis by (rule decoders.dec_wrong_op)
qed

theorem decoder_mismatch_is_einval_witness:
  "rsi_request_read_key ex_env 0x4000 0x3000 ex_world = Done (-1) (ex_world\<lparr>errno := EINVAL\<rparr>)"
  using decoder_mismatch_is_einval [where E = ex_env and req = "0x4000" and s = ex_world
      and r = "\<lparr>request_id = 7, txn_id = 3, payload = 0x1016, payload_len = 22, op_code = 1\<rparr>"
      and op = RSI_LOOKUP and op' = RSI_READ_KEY and out = "0x3000"]
  by (simp add: ex_env_op_codes)

text \<open>In the memory the request points into, every parsed field is readable through its C view.\<close>

lemma parsed_fields_readable:
  assumes "parsers_borrow E" "req \<noteq> NULL" "mem s req = Some (Request r)" "payload r \<noteq> NULL"
    and "payload_for E (mem s) req (code_of E op) = Some p" "f \<in> set (parsed_fields op E p)"
  shows "read_bytes (mem s) (fst (lpf f)) (unat (snd (lpf f))) = Some (bytes_of (field_data f))"
  using parsed_fields_borrow [OF assms(1,6)] lpf_borrow(1) [of p f "mem s"] payload_for_pointer [OF assms(2-5)]
    unat_u32_bound [of "payload_len r"]
  by (auto simp: lpf_def simp del: unat_u32_bound)

text \<open>The example environment's parsers borrow.\<close>

lemma ex_env_borrows: "parsers_borrow ex_env"
  by (auto simp: parsers_borrow_def ex_env_def ex_parse_lookup_def ex_parse_set_value_def ex_parse_name_def
      Option.bind_eq_Some_conv dest: field_at_borrows split: if_splits)

lemma ex_lookup_decode:
  "decoder_of RSI_LOOKUP ex_env 0x4000 0x3000 ex_world =
     Done 0 (ex_world\<lparr>mem := ex_heap(0x3000 \<mapsto> Lookup
       \<lparr>lk_parent_guid = guid_of (replicate 16 0xAB), lk_child_name = 0x102A, lk_child_name_len = 2\<rparr>)\<rparr>)"
  using decoders.dec_eq [where s = ex_world and req = "0x4000" and out = "0x3000" and op = RSI_LOOKUP
      and E = ex_env] ex_request_valid
  by (simp add: ex_payload_for ex_lookup_parsed out_lookup_def lpf_def)

end
