(* ===== verification/Validate.thy ===== *)
theory Validate
  imports Request
begin

text \<open>
  The argument checks of the response builders (\<open>src/src/response.rs\<close>, first part): NULL
  and boolean checks, path targets, and the GUID sets that decide whether metadata exactly
  covers the path targets. A function that collects GUIDs into a sorted vector keeps the
  contract of the locale \<open>guid_collector\<close>; comparing two such vectors compares the sets.
\<close>

section \<open>Elementary checks\<close>

definition require_array :: "ptr \<Rightarrow> u32 \<Rightarrow> unit result" where
  "require_array p count = (if count \<noteq> 0 \<and> p = NULL then Err EINVAL else Ok ())"

definition require_lpf :: "ptr \<Rightarrow> u32 \<Rightarrow> unit result" where
  "require_lpf p len = (if len \<noteq> 0 \<and> p = NULL then Err EINVAL else Ok ())"

definition require_bool :: "u8 \<Rightarrow> unit result" where
  "require_bool v = (if v = 0 \<or> v = 1 then Ok () else Err EINVAL)"

definition require_path_target :: "env \<Rightarrow> u8 \<Rightarrow> guid \<Rightarrow> unit result" where
  "require_path_target E target_type target_guid =
     (if ucast target_type = RSI_PATH_TARGET_GUID E then Ok ()
      else if ucast target_type = RSI_PATH_TARGET_HIDDEN E \<and> target_guid = nil_guid then Ok ()
      else if ucast target_type = RSI_PATH_TARGET_HIDDEN E then Err EINVAL
      else Err EINVAL)"

definition is_guid_target :: "env \<Rightarrow> u8 \<Rightarrow> bool" where
  "is_guid_target E target_type \<longleftrightarrow> ucast target_type = RSI_PATH_TARGET_GUID E"

section \<open>Vectors of GUIDs\<close>

definition guid_vec_with_capacity :: "env \<Rightarrow> nat \<Rightarrow> guid vec result M" where
  "guid_vec_with_capacity E n =
     bindM (try_reserve E n vec_new) (\<lambda>r. case r of
         Some guids \<Rightarrow> ret (Ok guids)
       | None \<Rightarrow> ret (Err ENOMEM))"

definition push_guid :: "env \<Rightarrow> guid vec \<Rightarrow> guid \<Rightarrow> guid vec result M" where
  "push_guid E guids guid =
     tryM (if length (items guids) = capacity guids
           then bindM (try_reserve E 1 guids) (\<lambda>r. case r of
               Some guids \<Rightarrow> ret (Ok guids)
             | None \<Rightarrow> ret (Err ENOMEM))
           else ret (Ok guids))
       (\<lambda>guids. bindM (vec_push E guids guid) (\<lambda>guids. ret (Ok guids)))"

text \<open>The slice is sorted in place: the sorted slice is returned with the verdict.\<close>

definition validate_unique_nonzero_guids :: "guid list \<Rightarrow> guid list \<times> unit result" where
  "validate_unique_nonzero_guids guids =
     (let guids = sort_unstable guids in
      (guids,
       if (case guids of guid # _ \<Rightarrow> guid = nil_guid | [] \<Rightarrow> False) then Err EINVAL
       else if any_equal_pair guids then Err EINVAL
       else Ok ()))"

definition sort_dedup_guids :: "guid list \<Rightarrow> guid list" where
  "sort_dedup_guids guids = dedup (sort_unstable guids)"

definition metadata_guid_set :: "env \<Rightarrow> ptr \<Rightarrow> u32 \<Rightarrow> guid vec result M" where
  "metadata_guid_set E metadata count =
     tryM (ret (require_array metadata count)) (\<lambda>_.
     tryM (guid_vec_with_capacity E (unat count)) (\<lambda>guids.
     tryM (for_in [0..<unat count] (\<lambda>i guids.
         bindM (deref as_KeyMetadata (ptr_add sizeof_rsi_key_metadata metadata i)) (\<lambda>m.
         bindM (vec_push E guids (km_guid m)) (\<lambda>guids. ret (Ok guids)))) guids) (\<lambda>guids.
     case validate_unique_nonzero_guids (items guids) of
       (sorted_guids, Ok _) \<Rightarrow> ret (Ok (guids\<lparr>items := sorted_guids\<rparr>))
     | (_, Err e) \<Rightarrow> ret (Err e))))"

text \<open>The loop body shared by the two target sets: check the entry, keep a GUID target.\<close>

definition collect_target :: "env \<Rightarrow> rsi_path_entry \<Rightarrow> guid vec \<Rightarrow> guid vec result M" where
  "collect_target E entry guids =
     tryM (ret (require_path_target E (pe_target_type entry) (pe_target_guid entry))) (\<lambda>_.
       if is_guid_target E (pe_target_type entry) then push_guid E guids (pe_target_guid entry)
       else ret (Ok guids))"

definition lookup_target_guid_set :: "env \<Rightarrow> ptr \<Rightarrow> u32 \<Rightarrow> guid vec result M" where
  "lookup_target_guid_set E entries count =
     tryM (ret (require_array entries count)) (\<lambda>_.
     tryM (for_in [0..<unat count] (\<lambda>i guids.
         bindM (deref as_PathEntry (ptr_add sizeof_rsi_path_entry entries i)) (\<lambda>entry.
         collect_target E entry guids)) vec_new) (\<lambda>guids.
     ret (Ok (guids\<lparr>items := sort_dedup_guids (items guids)\<rparr>))))"

definition enum_children_target_guid_set :: "env \<Rightarrow> ptr \<Rightarrow> u32 \<Rightarrow> guid vec result M" where
  "enum_children_target_guid_set E children count =
     tryM (ret (require_array children count)) (\<lambda>_.
     tryM (for_in [0..<unat count] (\<lambda>i guids.
         bindM (deref as_ChildEntry (ptr_add sizeof_rsi_child_entry children i)) (\<lambda>child.
         tryM (ret (require_array (ch_entries child) (ch_entry_count child))) (\<lambda>_.
         for_in [0..<unat (ch_entry_count child)] (\<lambda>j guids.
           bindM (deref as_PathEntry (ptr_add sizeof_rsi_path_entry (ch_entries child) j)) (\<lambda>entry.
           collect_target E entry guids)) guids))) vec_new) (\<lambda>guids.
     ret (Ok (guids\<lparr>items := sort_dedup_guids (items guids)\<rparr>))))"

definition validate_lookup_metadata :: "env \<Rightarrow> ptr \<Rightarrow> u32 \<Rightarrow> ptr \<Rightarrow> u32 \<Rightarrow> unit result M" where
  "validate_lookup_metadata E entries entry_count metadata metadata_count =
     tryM (lookup_target_guid_set E entries entry_count) (\<lambda>target_guids.
     tryM (metadata_guid_set E metadata metadata_count) (\<lambda>metadata_guids.
     ret (if items metadata_guids = items target_guids then Ok () else Err EINVAL)))"

definition validate_enum_children_metadata :: "env \<Rightarrow> ptr \<Rightarrow> u32 \<Rightarrow> ptr \<Rightarrow> u32 \<Rightarrow> unit result M" where
  "validate_enum_children_metadata E children child_count metadata metadata_count =
     tryM (enum_children_target_guid_set E children child_count) (\<lambda>target_guids.
     tryM (metadata_guid_set E metadata metadata_count) (\<lambda>metadata_guids.
     ret (if items metadata_guids = items target_guids then Ok () else Err EINVAL)))"

definition checked_mul_usize :: "nat \<Rightarrow> nat \<Rightarrow> nat option" where
  "checked_mul_usize a b = (if a * b < 2 ^ 64 then Some (a * b) else None)"

definition orphaned_guid_bytes :: "env \<Rightarrow> ptr \<Rightarrow> u32 \<Rightarrow> u8 list result M" where
  "orphaned_guid_bytes E orphaned_guids orphaned_count =
     (case checked_mul_usize (unat orphaned_count) 16 of
        None \<Rightarrow> ret (Err EOVERFLOW)
      | Some guid_bytes_len \<Rightarrow>
          if guid_bytes_len = 0 then ret (Ok [])
          else if orphaned_guids = NULL then ret (Err EINVAL)
          else
            bindM (from_raw_parts orphaned_guids guid_bytes_len) (\<lambda>bytes.
            tryM (guid_vec_with_capacity E (unat orphaned_count)) (\<lambda>guids.
            tryM (for_in (chunks_exact_16 (bytes_of bytes)) (\<lambda>guid guids.
                bindM (vec_push E guids guid) (\<lambda>guids. ret (Ok guids))) guids) (\<lambda>guids.
            case validate_unique_nonzero_guids (items guids) of
              (_, Ok _) \<Rightarrow> ret (Ok (bytes_of bytes))
            | (_, Err e) \<Rightarrow> ret (Err e)))))"

section \<open>Requests and statuses\<close>

definition require_response_req :: "ptr \<Rightarrow> u32 \<Rightarrow> rsi_request result M" where
  "require_response_req req expected_op =
     (if req = NULL then ret (Err EINVAL)
      else bindM (deref as_Request req) (\<lambda>r.
        if op_code r \<noteq> ucast expected_op then ret (Err EINVAL) else ret (Ok r)))"

definition validate_status_response :: "env \<Rightarrow> rsi_request \<Rightarrow> u32 \<Rightarrow> unit result" where
  "validate_status_response E req status =
     (case parse_rsi_status E status of
        None \<Rightarrow> Err EINVAL
      | Some st \<Rightarrow>
          if st = StatusOk then
            (case rsi_request_has_status_only_response E (op_code req) of
               None \<Rightarrow> Err EINVAL
             | Some b \<Rightarrow> if \<not> b then Err EINVAL else Ok ())
          else Ok ())"

section \<open>What the checks decide\<close>

text \<open>A path entry is acceptable when it names a GUID target, or a hidden one with a nil GUID.\<close>

definition path_target_ok :: "env \<Rightarrow> rsi_path_entry \<Rightarrow> bool" where
  "path_target_ok E e \<longleftrightarrow> is_guid_target E (pe_target_type e) \<or>
     ucast (pe_target_type e) = RSI_PATH_TARGET_HIDDEN E \<and> pe_target_guid e = nil_guid"

text \<open>The GUIDs the GUID-target entries name.\<close>

definition targets :: "env \<Rightarrow> rsi_path_entry list \<Rightarrow> guid set" where
  "targets E es = pe_target_guid ` {e \<in> set es. is_guid_target E (pe_target_type e)}"

definition paths_ok :: "env \<Rightarrow> ptr \<times> u32 \<times> rsi_path_entry list \<Rightarrow> bool" where
  "paths_ok E = (\<lambda>(p, c, es). nonnull p c \<and> list_all (path_target_ok E) es)"

definition metadata_ok :: "ptr \<times> u32 \<times> rsi_key_metadata list \<Rightarrow> bool" where
  "metadata_ok = (\<lambda>(p, c, ms). nonnull p c \<and> distinct (map km_guid ms) \<and> nil_guid \<notin> set (map km_guid ms))"

text \<open>Children come with the entries each of them points to.\<close>

definition child_ok :: "env \<Rightarrow> rsi_child_entry \<times> rsi_path_entry list \<Rightarrow> bool" where
  "child_ok E = (\<lambda>(c, es). paths_ok E (ch_entries c, ch_entry_count c, es))"

definition children_ok :: "env \<Rightarrow> ptr \<times> u32 \<times> (rsi_child_entry \<times> rsi_path_entry list) list \<Rightarrow> bool" where
  "children_ok E = (\<lambda>(p, n, cs). nonnull p n \<and> list_all (child_ok E) cs)"

definition path_array :: "heap \<Rightarrow> ptr \<times> u32 \<times> rsi_path_entry list \<Rightarrow> bool" where
  "path_array h = (\<lambda>(p, c, es). carray as_PathEntry sizeof_rsi_path_entry h p c es)"

definition metadata_array :: "heap \<Rightarrow> ptr \<times> u32 \<times> rsi_key_metadata list \<Rightarrow> bool" where
  "metadata_array h = (\<lambda>(p, c, ms). carray as_KeyMetadata sizeof_rsi_key_metadata h p c ms)"

definition child_array :: "heap \<Rightarrow> ptr \<times> u32 \<times> (rsi_child_entry \<times> rsi_path_entry list) list \<Rightarrow> bool" where
  "child_array h = (\<lambda>(p, n, cs).
     carray as_ChildEntry sizeof_rsi_child_entry h p n (map fst cs) \<and>
     list_all (\<lambda>(c, es). path_array h (ch_entries c, ch_entry_count c, es)) cs)"

lemma targets_Nil [simp]: "targets E [] = {}"
  by (simp add: targets_def)

lemma targets_append: "targets E (xs @ ys) = targets E xs \<union> targets E ys"
  by (auto simp: targets_def)

lemma targets_single [simp]:
  "targets E [e] = (if is_guid_target E (pe_target_type e) then {pe_target_guid e} else {})"
  by (auto simp: targets_def)

lemma require_path_target_iff: "require_path_target E (pe_target_type e) (pe_target_guid e) =
    (if path_target_ok E e then Ok () else Err EINVAL)"
  by (auto simp: require_path_target_def path_target_ok_def is_guid_target_def)

lemma require_array_eq: "require_array p c = (if nonnull p c then Ok () else Err EINVAL)"
  by (auto simp: require_array_def nonnull_def)

lemma require_lpf_eq: "require_lpf p c = (if nonnull p c then Ok () else Err EINVAL)"
  by (auto simp: require_lpf_def nonnull_def)

lemma validate_guids_eq:
  "validate_unique_nonzero_guids gs =
    (sort_unstable gs, if distinct gs \<and> nil_guid \<notin> set gs then Ok () else Err EINVAL)"
proof -
  have "(case sort_unstable gs of g # _ \<Rightarrow> g = nil_guid | [] \<Rightarrow> False) \<longleftrightarrow> nil_guid \<in> set gs"
    using sorted_nil_first [of "sort_unstable gs"] by (auto split: list.splits)
  then show ?thesis
    using sorted_any_equal_pair [of "sort_unstable gs"]
    by (simp add: validate_unique_nonzero_guids_def Let_def)
qed

section \<open>Allocation\<close>

text \<open>A failure to allocate needs an allocator that refuses some request.\<close>

definition alloc_refuses :: "env \<Rightarrow> bool" where
  "alloc_refuses E \<longleftrightarrow> (\<exists>t. vec_grow E t = None)"

lemma wp_guid_vec_with_capacity:
  assumes "\<And>s' v. quiet s s' \<Longrightarrow> items v = [] \<Longrightarrow> n \<le> capacity v \<Longrightarrow> Q (Ok v) s'"
    and "\<And>s'. quiet s s' \<Longrightarrow> alloc_refuses E \<Longrightarrow> Q (Err ENOMEM) s'"
  shows "wp (guid_vec_with_capacity E n) Q s"
  unfolding guid_vec_with_capacity_def wp_bindM
  by (rule wp_try_reserve) (use assms in \<open>auto simp: wp_simps vec_new_def alloc_refuses_def\<close>)

lemma wp_push_guid:
  assumes "length (items v) \<le> capacity v"
    and "\<And>s' v'. quiet s s' \<Longrightarrow> items v' = items v @ [g] \<Longrightarrow> length (items v') \<le> capacity v' \<Longrightarrow> Q (Ok v') s'"
    and "\<And>s'. quiet s s' \<Longrightarrow> alloc_refuses E \<Longrightarrow> Q (Err ENOMEM) s'"
  shows "wp (push_guid E v g) Q s"
proof (cases "length (items v) = capacity v")
  case True
  have "wp (try_reserve E 1 v) (\<lambda>r. wp (case r of Some guids \<Rightarrow> ret (Ok guids) | None \<Rightarrow> ret (Err ENOMEM))
      (\<lambda>r. case r of Ok v' \<Rightarrow> wp (bindM (vec_push E v' g) (\<lambda>v'. ret (Ok v'))) Q | Err e \<Rightarrow> Q (Err e))) s"
    by (rule wp_try_reserve)
      (use assms in \<open>auto simp: wp_simps wp_vec_push_spare alloc_refuses_def\<close>)
  with True show ?thesis by (simp add: push_guid_def wp_simps)
next
  case False
  with assms show ?thesis by (simp add: push_guid_def wp_simps wp_vec_push_spare)
qed

section \<open>Collecting GUIDs\<close>

text \<open>
  The outcome of collecting the set \<open>gs\<close> where the input is acceptable iff \<open>ok\<close>: the one
  sorted repetition-free vector of the set; \<open>EINVAL\<close> only for an unacceptable input,
  \<open>ENOMEM\<close> only when the allocator refused.
\<close>

definition collects :: "env \<Rightarrow> bool \<Rightarrow> guid set \<Rightarrow> world \<Rightarrow> guid vec result \<Rightarrow> world \<Rightarrow> bool" where
  "collects E ok gs s r s' \<longleftrightarrow> quiet s s' \<and> (case r of
       Ok v \<Rightarrow> ok \<and> sorted (items v) \<and> distinct (items v) \<and> set (items v) = gs
     | Err e \<Rightarrow> e = EINVAL \<and> \<not> ok \<or> e = ENOMEM \<and> alloc_refuses E)"

text \<open>The outcome of a check that accepts iff \<open>ok\<close>.\<close>

definition decides :: "env \<Rightarrow> bool \<Rightarrow> world \<Rightarrow> unit result \<Rightarrow> world \<Rightarrow> bool" where
  "decides E ok s r s' \<longleftrightarrow> quiet s s' \<and> (case r of
       Ok _ \<Rightarrow> ok
     | Err e \<Rightarrow> e = EINVAL \<and> \<not> ok \<or> e = ENOMEM \<and> alloc_refuses E)"

locale guid_collector =
  fixes run :: "env \<Rightarrow> 'i \<Rightarrow> guid vec result M"
    and pre :: "heap \<Rightarrow> 'i \<Rightarrow> bool"
    and ok :: "env \<Rightarrow> 'i \<Rightarrow> bool"
    and guids :: "env \<Rightarrow> 'i \<Rightarrow> guid set"
  assumes run_collects: "pre (mem s) i \<Longrightarrow> wp (run E i) (collects E (ok E i) (guids E i) s) s"

text \<open>Comparing the vectors of two collectors decides equality of the sets.\<close>

locale cover_check =
  t: guid_collector run_t pre_t ok_t guids_t + m: guid_collector run_m pre_m ok_m guids_m
  for run_t :: "env \<Rightarrow> 'i \<Rightarrow> guid vec result M" and pre_t ok_t guids_t
    and run_m :: "env \<Rightarrow> 'j \<Rightarrow> guid vec result M" and pre_m ok_m guids_m +
  fixes check :: "env \<Rightarrow> 'i \<Rightarrow> 'j \<Rightarrow> unit result M"
  assumes check_eq: "check E i j =
      tryM (run_t E i) (\<lambda>t. tryM (run_m E j) (\<lambda>m. ret (if items m = items t then Ok () else Err EINVAL)))"
begin

lemma check_decides:
  assumes "pre_t (mem s) i" "pre_m (mem s) j"
  shows "wp (check E i j) (decides E (ok_t E i \<and> ok_m E j \<and> guids_m E j = guids_t E i) s) s"
proof -
  have second: "wp (run_m E j) (collects E (ok_m E j) (guids_m E j) s') s'" if "quiet s s'" for s'
    using assms(2) that by (auto intro: m.run_collects simp: quiet_def)
  have cmp: "items v' = items v \<longleftrightarrow> guids_m E j = guids_t E i"
    if "collects E (ok_t E i) (guids_t E i) s (Ok v) s'" "collects E (ok_m E j) (guids_m E j) s' (Ok v') s''"
    for v v' s' s''
    using that sorted_distinct_eq_iff [of "items v'" "items v"] by (auto simp: collects_def)
  show ?thesis
    unfolding check_eq wp_tryM
    by (rule wp_mono [OF t.run_collects [OF assms(1)]])
      (auto simp: wp_simps collects_def decides_def cmp [unfolded collects_def] split: result.splits
        intro!: wp_mono [OF second] dest: quiet_trans)
qed

end

subsection \<open>Metadata\<close>

lemma metadata_loop:
  assumes "carray as_KeyMetadata sizeof_rsi_key_metadata (mem s) p c ms" "nonnull p c"
    and "items v = []" "unat c \<le> capacity v"
    and "\<And>s' v'. quiet s s' \<Longrightarrow> items v' = map km_guid ms \<Longrightarrow> Q (Ok v') s'"
  shows "wp (for_in [0..<unat c] (\<lambda>i guids.
      bindM (deref as_KeyMetadata (ptr_add sizeof_rsi_key_metadata p i)) (\<lambda>m.
      bindM (vec_push E guids (km_guid m)) (\<lambda>guids. ret (Ok guids)))) v) Q s"
proof (rule wp_for_in [where I = "\<lambda>i v' s'. quiet s s' \<and> items v' = map km_guid (take i ms) \<and> unat c \<le> capacity v'"])
  fix i and v' :: "guid vec" and s'
  assume i: "i < unat c" and inv: "quiet s s' \<and> items v' = map km_guid (take i ms) \<and> unat c \<le> capacity v'"
  have "length ms = unat c" using assms(1) by (rule carray_length)
  with i inv have "length (items v') < capacity v'" and "i < length ms" by auto
  moreover have "carray as_KeyMetadata sizeof_rsi_key_metadata (mem s') p c ms"
    using assms(1) inv by (simp add: quiet_def)
  ultimately show "wp (bindM (deref as_KeyMetadata (ptr_add sizeof_rsi_key_metadata p i)) (\<lambda>m.
      bindM (vec_push E v' (km_guid m)) (\<lambda>guids. ret (Ok guids))))
      (\<lambda>r s'. case r of Ok a' \<Rightarrow> quiet s s' \<and> items a' = map km_guid (take (Suc i) ms) \<and> unat c \<le> capacity a'
        | Err e \<Rightarrow> Q (Err e) s') s'"
    using i inv assms(2) by (simp add: wp_simps wp_deref_carray wp_vec_push_spare take_Suc_conv_app_nth)
qed (use assms carray_length [OF assms(1)] in auto)

interpretation metadata_set: guid_collector
  "\<lambda>E (p, c, ms). metadata_guid_set E p c" metadata_array "\<lambda>E. metadata_ok"
  "\<lambda>E (p, c, ms). km_guid ` set ms"
proof (unfold_locales, clarify)
  fix E and s :: world and p c ms
  assume arr: "metadata_array (mem s) (p, c, ms)"
  show "wp (metadata_guid_set E p c) (collects E (metadata_ok (p, c, ms)) (km_guid ` set ms) s) s"
  proof (cases "nonnull p c")
    case True
    have loop: "quiet s s' \<Longrightarrow> items v = [] \<Longrightarrow> unat c \<le> capacity v \<Longrightarrow>
        (\<And>s'' v'. quiet s' s'' \<Longrightarrow> items v' = map km_guid ms \<Longrightarrow> Q (Ok v') s'') \<Longrightarrow>
        wp (for_in [0..<unat c] (\<lambda>i guids.
          bindM (deref as_KeyMetadata (ptr_add sizeof_rsi_key_metadata p i)) (\<lambda>m.
          bindM (vec_push E guids (km_guid m)) (\<lambda>guids. ret (Ok guids)))) v) Q s'" for s' v Q
      using arr True by (intro metadata_loop) (auto simp: metadata_array_def quiet_def)
    have post: "quiet s s' \<Longrightarrow>
        wp (case validate_unique_nonzero_guids (map km_guid ms) of
            (sorted_guids, Ok _) \<Rightarrow> ret (Ok (v\<lparr>items := sorted_guids\<rparr>)) | (_, Err e) \<Rightarrow> ret (Err e))
          (collects E (metadata_ok (p, c, ms)) (km_guid ` set ms) s) s'" for s' v
      using True by (auto simp: validate_guids_eq metadata_ok_def collects_def wp_simps)
    from True show ?thesis
      by (auto simp: metadata_guid_set_def wp_simps require_array_eq
          intro!: wp_guid_vec_with_capacity loop post elim!: quiet_trans)
        (auto simp: collects_def)
  next
    case False
    then show ?thesis
      by (simp add: metadata_guid_set_def wp_simps require_array_eq collects_def metadata_ok_def)
  qed
qed

subsection \<open>Path targets\<close>

lemma wp_collect_target:
  assumes "length (items v) \<le> capacity v"
    and "\<And>s' v'. quiet s s' \<Longrightarrow> path_target_ok E e \<Longrightarrow> length (items v') \<le> capacity v' \<Longrightarrow>
      set (items v') = set (items v) \<union> (if is_guid_target E (pe_target_type e) then {pe_target_guid e} else {}) \<Longrightarrow>
      Q (Ok v') s'"
    and "\<And>s' err. quiet s s' \<Longrightarrow> err = EINVAL \<and> \<not> path_target_ok E e \<or> err = ENOMEM \<and> alloc_refuses E \<Longrightarrow>
      Q (Err err) s'"
  shows "wp (collect_target E e v) Q s"
  using assms
  by (auto simp: collect_target_def wp_simps require_path_target_iff intro!: wp_push_guid split: if_splits)

text \<open>The loop over one array of entries, from a vector that already holds \<open>items v\<close>.\<close>

lemma path_loop:
  assumes "carray as_PathEntry sizeof_rsi_path_entry (mem s) p c es" "nonnull p c"
    and "length (items v) \<le> capacity v"
    and "\<And>s' v'. quiet s s' \<Longrightarrow> list_all (path_target_ok E) es \<Longrightarrow> length (items v') \<le> capacity v' \<Longrightarrow>
      set (items v') = set (items v) \<union> targets E es \<Longrightarrow> Q (Ok v') s'"
    and "\<And>s' err. quiet s s' \<Longrightarrow>
      err = EINVAL \<and> \<not> list_all (path_target_ok E) es \<or> err = ENOMEM \<and> alloc_refuses E \<Longrightarrow> Q (Err err) s'"
  shows "wp (for_in [0..<unat c] (\<lambda>i guids.
      bindM (deref as_PathEntry (ptr_add sizeof_rsi_path_entry p i)) (\<lambda>entry. collect_target E entry guids)) v) Q s"
proof (rule wp_for_in [where I = "\<lambda>i v' s'. quiet s s' \<and> length (items v') \<le> capacity v' \<and>
    list_all (path_target_ok E) (take i es) \<and> set (items v') = set (items v) \<union> targets E (take i es)"])
  note len = carray_length [OF assms(1)]
  fix i and v' :: "guid vec" and s'
  assume i: "i < unat c" and inv: "quiet s s' \<and> length (items v') \<le> capacity v' \<and>
    list_all (path_target_ok E) (take i es) \<and> set (items v') = set (items v) \<union> targets E (take i es)"
  have "carray as_PathEntry sizeof_rsi_path_entry (mem s') p c es"
    using assms(1) inv by (simp add: quiet_def)
  moreover have "wp (collect_target E (es ! i) v') (\<lambda>r s'. case r of
        Ok a' \<Rightarrow> quiet s s' \<and> length (items a') \<le> capacity a' \<and> list_all (path_target_ok E) (take (Suc i) es) \<and>
          set (items a') = set (items v) \<union> targets E (take (Suc i) es)
      | Err e \<Rightarrow> Q (Err e) s') s'"
    using i len inv
    by (intro wp_collect_target)
      (auto simp: take_Suc_conv_app_nth targets_append list_all_iff
        intro!: assms(5) dest: quiet_trans)
  ultimately show "wp (bindM (deref as_PathEntry (ptr_add sizeof_rsi_path_entry p i)) (\<lambda>entry. collect_target E entry v'))
      (\<lambda>r s'. case r of
        Ok a' \<Rightarrow> quiet s s' \<and> length (items a') \<le> capacity a' \<and> list_all (path_target_ok E) (take (Suc i) es) \<and>
          set (items a') = set (items v) \<union> targets E (take (Suc i) es)
      | Err e \<Rightarrow> Q (Err e) s') s'"
    using i assms(2) by (simp add: wp_simps wp_deref_carray)
qed (use assms carray_length [OF assms(1)] in auto)

lemma collects_sorted:
  "quiet s s' \<Longrightarrow> ok \<Longrightarrow> set (items v) = gs \<Longrightarrow>
    collects E ok gs s (Ok (v\<lparr>items := sort_dedup_guids (items v)\<rparr>)) s'"
  by (simp add: collects_def sort_dedup_guids_def dedup_sorted)

lemma vec_new_simps [simp]: "items vec_new = []" "capacity vec_new = 0"
  by (simp_all add: vec_new_def)

interpretation lookup_targets: guid_collector
  "\<lambda>E (p, c, es). lookup_target_guid_set E p c" path_array paths_ok "\<lambda>E (p, c, es). targets E es"
proof (unfold_locales, clarify)
  fix E and s :: world and p c es
  assume arr: "path_array (mem s) (p, c, es)"
  show "wp (lookup_target_guid_set E p c) (collects E (paths_ok E (p, c, es)) (targets E es) s) s"
  proof (cases "nonnull p c")
    case True
    with arr show ?thesis
      unfolding lookup_target_guid_set_def wp_tryM wp_ret require_array_eq
      by (auto simp: wp_simps path_array_def paths_ok_def
          intro!: path_loop collects_sorted) (auto simp: collects_def)
  next
    case False
    then show ?thesis
      by (simp add: lookup_target_guid_set_def wp_simps require_array_eq collects_def paths_ok_def)
  qed
qed

subsection \<open>Children\<close>

lemma child_body:
  assumes "path_array (mem s) (ch_entries c, ch_entry_count c, es)" "length (items v) \<le> capacity v"
    and "\<And>s' v'. quiet s s' \<Longrightarrow> child_ok E (c, es) \<Longrightarrow> length (items v') \<le> capacity v' \<Longrightarrow>
      set (items v') = set (items v) \<union> targets E es \<Longrightarrow> Q (Ok v') s'"
    and "\<And>s' err. quiet s s' \<Longrightarrow>
      err = EINVAL \<and> \<not> child_ok E (c, es) \<or> err = ENOMEM \<and> alloc_refuses E \<Longrightarrow> Q (Err err) s'"
  shows "wp (tryM (ret (require_array (ch_entries c) (ch_entry_count c))) (\<lambda>_.
      for_in [0..<unat (ch_entry_count c)] (\<lambda>j guids.
        bindM (deref as_PathEntry (ptr_add sizeof_rsi_path_entry (ch_entries c) j)) (\<lambda>entry.
        collect_target E entry guids)) v)) Q s"
proof (cases "nonnull (ch_entries c) (ch_entry_count c)")
  case True
  with assms show ?thesis
    by (auto simp: wp_simps require_array_eq path_array_def child_ok_def paths_ok_def intro!: path_loop)
next
  case False
  with assms(4) show ?thesis by (simp add: wp_simps require_array_eq child_ok_def paths_ok_def)
qed

lemma child_loop:
  assumes "child_array (mem s) (p, n, cs)" "nonnull p n"
    and "\<And>s' v'. quiet s s' \<Longrightarrow> list_all (child_ok E) cs \<Longrightarrow>
      set (items v') = targets E (concat (map snd cs)) \<Longrightarrow> Q (Ok v') s'"
    and "\<And>s' err. quiet s s' \<Longrightarrow>
      err = EINVAL \<and> \<not> list_all (child_ok E) cs \<or> err = ENOMEM \<and> alloc_refuses E \<Longrightarrow> Q (Err err) s'"
  shows "wp (for_in [0..<unat n] (\<lambda>i guids.
      bindM (deref as_ChildEntry (ptr_add sizeof_rsi_child_entry p i)) (\<lambda>child.
      tryM (ret (require_array (ch_entries child) (ch_entry_count child))) (\<lambda>_.
      for_in [0..<unat (ch_entry_count child)] (\<lambda>j guids.
        bindM (deref as_PathEntry (ptr_add sizeof_rsi_path_entry (ch_entries child) j)) (\<lambda>entry.
        collect_target E entry guids)) guids))) vec_new) Q s"
proof (rule wp_for_in [where I = "\<lambda>i v s'. quiet s s' \<and> length (items v) \<le> capacity v \<and>
    list_all (child_ok E) (take i cs) \<and> set (items v) = targets E (concat (map snd (take i cs)))"])
  have arr: "carray as_ChildEntry sizeof_rsi_child_entry (mem s) p n (map fst cs)"
    and inner: "i < length cs \<Longrightarrow> path_array (mem s) (ch_entries (fst (cs ! i)), ch_entry_count (fst (cs ! i)), snd (cs ! i))" for i
    using assms(1) by (auto simp: child_array_def list_all_length case_prod_beta)
  have len: "length cs = unat n" using carray_length [OF arr] by simp
  fix i and v :: "guid vec" and s'
  assume i: "i < unat n" and inv: "quiet s s' \<and> length (items v) \<le> capacity v \<and>
    list_all (child_ok E) (take i cs) \<and> set (items v) = targets E (concat (map snd (take i cs)))"
  then have mem: "mem s' = mem s" by (simp add: quiet_def)
  have "wp (tryM (ret (require_array (ch_entries (fst (cs ! i))) (ch_entry_count (fst (cs ! i))))) (\<lambda>_.
      for_in [0..<unat (ch_entry_count (fst (cs ! i)))] (\<lambda>j guids.
        bindM (deref as_PathEntry (ptr_add sizeof_rsi_path_entry (ch_entries (fst (cs ! i))) j)) (\<lambda>entry.
        collect_target E entry guids)) v))
     (\<lambda>r s'. case r of
        Ok v \<Rightarrow> quiet s s' \<and> length (items v) \<le> capacity v \<and> list_all (child_ok E) (take (Suc i) cs) \<and>
          set (items v) = targets E (concat (map snd (take (Suc i) cs)))
      | Err e \<Rightarrow> Q (Err e) s') s'"
    using i len inv inner [of i] mem
    by (intro child_body [where es = "snd (cs ! i)"])
      (auto simp: take_Suc_conv_app_nth targets_append list_all_iff intro!: assms(4) dest: quiet_trans)
  then show "wp (bindM (deref as_ChildEntry (ptr_add sizeof_rsi_child_entry p i)) (\<lambda>child.
      tryM (ret (require_array (ch_entries child) (ch_entry_count child))) (\<lambda>_.
      for_in [0..<unat (ch_entry_count child)] (\<lambda>j guids.
        bindM (deref as_PathEntry (ptr_add sizeof_rsi_path_entry (ch_entries child) j)) (\<lambda>entry.
        collect_target E entry guids)) v)))
     (\<lambda>r s'. case r of
        Ok v \<Rightarrow> quiet s s' \<and> length (items v) \<le> capacity v \<and> list_all (child_ok E) (take (Suc i) cs) \<and>
          set (items v) = targets E (concat (map snd (take (Suc i) cs)))
      | Err e \<Rightarrow> Q (Err e) s') s'"
    using arr mem assms(2) i len by (simp add: wp_bindM wp_deref_carray)
qed (use assms child_array_def carray_length [of as_ChildEntry _ _ _ n "map fst cs"] in auto)

interpretation enum_targets: guid_collector
  "\<lambda>E (p, n, cs). enum_children_target_guid_set E p n" child_array children_ok
  "\<lambda>E (p, n, cs). targets E (concat (map snd cs))"
proof (unfold_locales, clarify)
  fix E and s :: world and p n cs
  assume arr: "child_array (mem s) (p, n, cs)"
  show "wp (enum_children_target_guid_set E p n)
      (collects E (children_ok E (p, n, cs)) (targets E (concat (map snd cs))) s) s"
  proof (cases "nonnull p n")
    case True
    with arr show ?thesis
      unfolding enum_children_target_guid_set_def wp_tryM [of "ret _"] wp_ret require_array_eq [of p n]
      by (auto simp: wp_tryM [of "for_in _ _ _"] wp_ret children_ok_def intro!: child_loop collects_sorted)
        (auto simp: collects_def)
  next
    case False
    then show ?thesis
      by (simp add: enum_children_target_guid_set_def wp_simps require_array_eq collects_def children_ok_def)
  qed
qed

subsection \<open>Coverage\<close>

interpretation lookup_cover: cover_check
  "\<lambda>E (p, c, es). lookup_target_guid_set E p c" path_array paths_ok "\<lambda>E (p, c, es). targets E es"
  "\<lambda>E (p, c, ms). metadata_guid_set E p c" metadata_array "\<lambda>E. metadata_ok"
  "\<lambda>E (p, c, ms). km_guid ` set ms"
  "\<lambda>E (p, c, es) (q, d, ms). validate_lookup_metadata E p c q d"
  by unfold_locales (auto simp: validate_lookup_metadata_def)

interpretation enum_cover: cover_check
  "\<lambda>E (p, n, cs). enum_children_target_guid_set E p n" child_array children_ok
  "\<lambda>E (p, n, cs). targets E (concat (map snd cs))"
  "\<lambda>E (p, c, ms). metadata_guid_set E p c" metadata_array "\<lambda>E. metadata_ok"
  "\<lambda>E (p, c, ms). km_guid ` set ms"
  "\<lambda>E (p, n, cs) (q, d, ms). validate_enum_children_metadata E p n q d"
  by unfold_locales (auto simp: validate_enum_children_metadata_def)

section \<open>Orphaned GUIDs\<close>

text \<open>On a 64-bit target the multiplication cannot overflow.\<close>

lemma checked_mul_count: "checked_mul_usize (unat (c :: u32)) 16 = Some (unat c * 16)"
  using unat_u32_bound [of c] by (simp add: checked_mul_usize_def del: unat_u32_bound)

lemma push_loop:
  assumes "items v = []" "length gs \<le> capacity v"
    and "\<And>s' v'. quiet s s' \<Longrightarrow> items v' = gs \<Longrightarrow> Q (Ok v') s'"
  shows "wp (for_in gs (\<lambda>guid guids. bindM (vec_push E guids guid) (\<lambda>guids. ret (Ok guids))) v) Q s"
  by (rule wp_for_list [where I = "\<lambda>i v' s'. quiet s s' \<and> items v' = take i gs \<and> length gs \<le> capacity v'"])
    (use assms in \<open>auto simp: wp_simps wp_vec_push_spare take_Suc_conv_app_nth\<close>)

definition orphans_ok :: "ptr \<Rightarrow> guid list \<Rightarrow> bool" where
  "orphans_ok p gs \<longleftrightarrow> (gs = [] \<or> p \<noteq> NULL) \<and> distinct gs \<and> nil_guid \<notin> set gs"

lemma orphaned_guid_bytes_decides:
  assumes "length gs = unat c" and "p \<noteq> NULL \<longrightarrow> read_bytes (mem s) p (16 * unat c) = Some (concat (map guid_bytes gs))"
  shows "wp (orphaned_guid_bytes E p c) (\<lambda>r s'. quiet s s' \<and> (case r of
      Ok bs \<Rightarrow> orphans_ok p gs \<and> bs = concat (map guid_bytes gs)
    | Err e \<Rightarrow> e = EINVAL \<and> \<not> orphans_ok p gs \<or> e = ENOMEM \<and> alloc_refuses E)) s"
proof (cases "gs = []")
  case True
  with assms(1) show ?thesis
    unfolding orphaned_guid_bytes_def checked_mul_count by (simp add: wp_simps orphans_ok_def)
next
  case False
  with assms(1) have "unat c \<noteq> 0" by (metis length_0_conv)
  show ?thesis
  proof (cases "p = NULL")
    case True
    with False \<open>unat c \<noteq> 0\<close> show ?thesis
      by (simp add: orphaned_guid_bytes_def checked_mul_count wp_simps orphans_ok_def)
  next
    case p: False
    with False \<open>unat c \<noteq> 0\<close> assms show ?thesis
      by (simp add: orphaned_guid_bytes_def checked_mul_count wp_simps mult.commute)
        (auto intro!: wp_guid_vec_with_capacity push_loop simp: wp_simps validate_guids_eq orphans_ok_def
          elim!: quiet_trans)
  qed
qed

end
