(* ===== verification/Writer.thy ===== *)
theory Writer
  imports Validate
begin

text \<open>
  Frames (\<open>src/src/response.rs\<close>, second part): the sticky out-of-memory \<open>FrameWriter\<close>,
  the 14-byte response header, the status-only frame, back-patching and sending. The writer
  is used through the interface locale \<open>byte_sink\<close>: what reaches the buffer is the
  concatenation of what was written, unless an allocation failed on the way.
\<close>

section \<open>The response header\<close>

definition STATUS_FRAME_LEN :: nat where
  "STATUS_FRAME_LEN = 18"

text \<open>
  \<open>buf[a..b].copy_from_slice(src)\<close>: panics when the range is outside the buffer or its
  length differs from the source's.
\<close>

definition copy_from_slice :: "u8 list \<Rightarrow> nat \<Rightarrow> nat \<Rightarrow> u8 list \<Rightarrow> u8 list M" where
  "copy_from_slice buf a b src =
     (if a \<le> b \<and> b \<le> length buf \<and> length src = b - a
      then ret (take a buf @ src @ drop b buf) else panic)"

definition put_response_header :: "u8 list \<Rightarrow> u32 \<Rightarrow> u64 \<Rightarrow> u16 \<Rightarrow> u8 list M" where
  "put_response_header buf total_len rid resp_op =
     bindM (copy_from_slice buf 0 4 (le32 total_len)) (\<lambda>buf.
     bindM (copy_from_slice buf 4 12 (le64 rid)) (\<lambda>buf.
     copy_from_slice buf 12 14 (le16 resp_op)))"

definition write_frame :: "env \<Rightarrow> c_int \<Rightarrow> u8 list \<Rightarrow> c_int M" where
  "write_frame E fd frame =
     bindM (syscall E (Sys_write fd frame)) (\<lambda>sr.
       let r = sys_ret sr in
       if r < 0 then ret (-1)
       else if nat r = length frame then ret 0
       else fail_errno EIO)"

section \<open>Status-only responses\<close>

definition build_status_frame :: "u64 \<Rightarrow> u16 \<Rightarrow> u32 \<Rightarrow> u8 list M" where
  "build_status_frame rid resp_op status =
     (let frame = replicate STATUS_FRAME_LEN 0 in
      bindM (put_response_header frame (of_nat STATUS_FRAME_LEN) rid resp_op) (\<lambda>frame.
      copy_from_slice frame 14 18 (le32 status)))"

definition rsi_write_response :: "env \<Rightarrow> c_int \<Rightarrow> ptr \<Rightarrow> u64 \<Rightarrow> ssize_t M" where
  "rsi_write_response E fd frame len =
     bindM (from_raw_parts frame (unat len)) (\<lambda>bytes.
     bindM (syscall E (Sys_write fd (bytes_of bytes))) (\<lambda>sr. ret (sys_ret sr)))"

definition rsi_respond_status :: "env \<Rightarrow> c_int \<Rightarrow> ptr \<Rightarrow> u32 \<Rightarrow> c_int M" where
  "rsi_respond_status E fd req status =
     (if req = NULL then bindM (set_errno EINVAL) (\<lambda>_. ret (-1))
      else bindM (deref as_Request req) (\<lambda>r.
        case rsi_response_op_code E (op_code r) of
          None \<Rightarrow> bindM (set_errno EINVAL) (\<lambda>_. ret (-1))
        | Some resp_op \<Rightarrow>
            (case validate_status_response E r status of
               Err e \<Rightarrow> fail_errno e
             | Ok _ \<Rightarrow>
                 bindM (build_status_frame (request_id r) resp_op status) (\<lambda>frame.
                 write_frame E fd frame))))"

section \<open>FrameWriter\<close>

record FrameWriter =
  buf :: "u8 list"
  oom :: bool

definition FrameWriter_new :: FrameWriter where
  "FrameWriter_new = \<lparr>buf = [], oom = False\<rparr>"

definition FrameWriter_raw :: "env \<Rightarrow> u8 list \<Rightarrow> FrameWriter \<Rightarrow> FrameWriter M" where
  "FrameWriter_raw E b w =
     (if oom w then ret w
      else bindM tick (\<lambda>t.
        let (buf', ok) = try_extend E t (buf w) b in
        ret (if ok then w\<lparr>buf := buf'\<rparr> else w\<lparr>buf := buf', oom := True\<rparr>)))"

definition FrameWriter_u8 :: "env \<Rightarrow> u8 \<Rightarrow> FrameWriter \<Rightarrow> FrameWriter M" where
  "FrameWriter_u8 E x w = FrameWriter_raw E [x] w"

definition FrameWriter_u32 :: "env \<Rightarrow> u32 \<Rightarrow> FrameWriter \<Rightarrow> FrameWriter M" where
  "FrameWriter_u32 E x w = FrameWriter_raw E (le32 x) w"

definition FrameWriter_u64 :: "env \<Rightarrow> u64 \<Rightarrow> FrameWriter \<Rightarrow> FrameWriter M" where
  "FrameWriter_u64 E x w = FrameWriter_raw E (le64 x) w"

definition FrameWriter_guid :: "env \<Rightarrow> guid \<Rightarrow> FrameWriter \<Rightarrow> FrameWriter M" where
  "FrameWriter_guid E g w = FrameWriter_raw E (guid_bytes g) w"

definition FrameWriter_lpf :: "env \<Rightarrow> ptr \<Rightarrow> u32 \<Rightarrow> FrameWriter \<Rightarrow> FrameWriter result M" where
  "FrameWriter_lpf E p len w =
     tryM (ret (require_lpf p len)) (\<lambda>_.
     bindM (FrameWriter_u32 E len w) (\<lambda>w.
     if len \<noteq> 0 then
       bindM (from_raw_parts p (unat len)) (\<lambda>b.
       bindM (FrameWriter_raw E (bytes_of b) w) (\<lambda>w. ret (Ok w)))
     else ret (Ok w)))"

definition new_writer :: "env \<Rightarrow> FrameWriter M" where
  "new_writer E = FrameWriter_raw E (replicate STATUS_FRAME_LEN 0) FrameWriter_new"

definition u32_try_from :: "nat \<Rightarrow> u32 option" where
  "u32_try_from n = (if n < 2 ^ 32 then Some (of_nat n) else None)"

definition finish_response :: "env \<Rightarrow> rsi_request \<Rightarrow> FrameWriter \<Rightarrow> u8 list result M" where
  "finish_response E req w =
     (case rsi_response_op_code E (op_code req) of
        None \<Rightarrow> ret (Err EINVAL)
      | Some resp_op \<Rightarrow>
          if oom w then ret (Err ENOMEM)
          else (case u32_try_from (length (buf w)) of
              None \<Rightarrow> ret (Err EOVERFLOW)
            | Some total_len \<Rightarrow>
                bindM (put_response_header (buf w) total_len (request_id req) resp_op) (\<lambda>b.
                bindM (copy_from_slice b 14 18 (le32 (RSI_OK E))) (\<lambda>b. ret (Ok b)))))"

definition finish_and_send :: "env \<Rightarrow> c_int \<Rightarrow> rsi_request \<Rightarrow> FrameWriter \<Rightarrow> c_int M" where
  "finish_and_send E fd req w =
     bindM (finish_response E req w) (\<lambda>r. case r of
         Ok frame \<Rightarrow> write_frame E fd frame
       | Err e \<Rightarrow> fail_errno e)"

section \<open>The frame format\<close>

text \<open>A response frame as a byte string: header, status, payload.\<close>

definition response_header :: "u32 \<Rightarrow> u64 \<Rightarrow> u16 \<Rightarrow> u8 list" where
  "response_header tot rid op = le32 tot @ le64 rid @ le16 op"

definition response_frame :: "u64 \<Rightarrow> u16 \<Rightarrow> u32 \<Rightarrow> u8 list \<Rightarrow> u8 list" where
  "response_frame rid op status body =
     response_header (of_nat (18 + length body)) rid op @ le32 status @ body"

lemma length_response_header [simp]: "length (response_header t r p) = 14"
  by (simp add: response_header_def)

lemma length_response_frame [simp]: "length (response_frame r p st body) = 18 + length body"
  by (simp add: response_frame_def)

lemma put_response_header_eq:
  assumes "14 \<le> length b"
  shows "put_response_header b tot rid op = ret (response_header tot rid op @ drop 14 b)"
proof -
  have 1: "copy_from_slice b 0 4 (le32 tot) = ret (le32 tot @ drop 4 b)"
    using assms by (simp add: copy_from_slice_def)
  have 2: "copy_from_slice (le32 tot @ drop 4 b) 4 12 (le64 rid) = ret (le32 tot @ le64 rid @ drop 12 b)"
    using assms by (simp add: copy_from_slice_def)
  have 3: "copy_from_slice (le32 tot @ le64 rid @ drop 12 b) 12 14 (le16 op) =
      ret (le32 tot @ le64 rid @ le16 op @ drop 14 b)"
    using assms by (simp add: copy_from_slice_def)
  show ?thesis
    by (simp add: put_response_header_def response_header_def 1 2 3 bindM_def ret_def)
qed

lemma put_status_eq:
  "length h = 14 \<Longrightarrow> 18 \<le> length b \<Longrightarrow>
    copy_from_slice (h @ drop 14 b) 14 18 (le32 st) = ret (h @ le32 st @ drop 18 b)"
  by (simp add: copy_from_slice_def)

lemma bindM_ret [simp]: "bindM (ret x) f = f x"
  by (simp add: bindM_def ret_def)

lemma build_status_frame_eq:
  "build_status_frame rid op st = ret (response_frame rid op st [])"
  using put_status_eq [of "response_header 18 rid op" "replicate 18 0" st]
  by (simp add: build_status_frame_def STATUS_FRAME_LEN_def put_response_header_eq response_frame_def)

lemma finish_response_eq:
  assumes "\<not> oom w \<longrightarrow> buf w = replicate 18 0 @ body"
  shows "finish_response E req w = ret
    (case rsi_response_op_code E (op_code req) of
       None \<Rightarrow> Err EINVAL
     | Some resp_op \<Rightarrow>
         if oom w then Err ENOMEM
         else if 18 + length body < 2 ^ 32
         then Ok (response_frame (request_id req) resp_op (RSI_OK E) body)
         else Err EOVERFLOW)"
  using assms put_status_eq [of _ "replicate 18 0 @ body"]
  by (auto simp: finish_response_def u32_try_from_def put_response_header_eq response_frame_def split: option.splits)

section \<open>Sending\<close>

text \<open>The outcome of handing \<open>frame\<close> to \<open>write(2)\<close>, as a world transformation.\<close>

definition sent :: "env \<Rightarrow> c_int \<Rightarrow> u8 list \<Rightarrow> world \<Rightarrow> c_int \<Rightarrow> world \<Rightarrow> bool" where
  "sent E fd frame s r s' \<longleftrightarrow> (\<exists>sr. sr = kernel E (trace s) (Sys_write fd frame) \<and>
     mem s' = mem s \<and> trace s' = trace s @ [(Sys_write fd frame, sr)] \<and>
     (if sys_ret sr = int (length frame) then r = 0
      else r = -1 \<and> errno s' = (if sys_ret sr < 0 then sys_errno sr else EIO)))"

lemma wp_write_frame: "wp (write_frame E fd frame) (sent E fd frame s) s"
  by (auto simp: write_frame_def wp_simps sent_def Let_def)

section \<open>The writer as a byte sink\<close>

text \<open>
  A sink accepts byte strings in order and either keeps all of them or is dead. \<open>reliable\<close>
  is what the sink needs of its environment to keep bytes faithfully, \<open>refuses\<close> the only
  reason for it to die.
\<close>

locale byte_sink =
  fixes reliable :: bool
    and refuses :: bool
    and put :: "u8 list \<Rightarrow> 'w \<Rightarrow> 'w M"
    and content :: "'w \<Rightarrow> u8 list"
    and dead :: "'w \<Rightarrow> bool"
  assumes put_total: "wp (put b w) (\<lambda>w' s'. quiet s s' \<and> (dead w \<longrightarrow> w' = w) \<and> (dead w' \<longrightarrow> dead w \<or> refuses)) s"
    and put_appends: "reliable \<Longrightarrow> wp (put b w) (\<lambda>w' s'. \<not> dead w' \<longrightarrow> \<not> dead w \<and> content w' = content w @ b) s"
begin

text \<open>\<open>holds w xs\<close>: the sink has received exactly \<open>xs\<close>, unless it was refused memory and died.\<close>

definition holds :: "'w \<Rightarrow> u8 list \<Rightarrow> bool" where
  "holds w xs \<longleftrightarrow> (if dead w then refuses else content w = xs)"

lemma wp_put:
  assumes reliable "holds w xs"
    and "\<And>w' s'. quiet s s' \<Longrightarrow> holds w' (xs @ b) \<Longrightarrow> Q w' s'"
  shows "wp (put b w) Q s"
  by (rule wp_mono [OF wp_conj [OF put_total [of b w s] put_appends [OF assms(1), of b w s]]])
    (use assms(2,3) in \<open>auto simp: holds_def split: if_splits\<close>)

text \<open>A sequence of writes: what survives is the concatenation, in order.\<close>

fun put_all :: "u8 list list \<Rightarrow> 'w \<Rightarrow> 'w M" where
  "put_all [] w = ret w"
| "put_all (b # bs) w = bindM (put b w) (put_all bs)"

lemma put_all_holds:
  assumes reliable "holds w xs"
  shows "wp (put_all bs w) (\<lambda>w' s'. quiet s s' \<and> holds w' (xs @ concat bs)) s"
  using assms(2)
proof (induction bs arbitrary: w xs s)
  case Nil
  then show ?case by (simp add: wp_simps)
next
  case (Cons b bs)
  have "wp (put_all bs w') (\<lambda>w' s'. quiet s s' \<and> holds w' (xs @ concat (b # bs))) s'"
    if "quiet s s'" "holds w' (xs @ b)" for w' s'
    by (rule wp_mono [OF Cons.IH [OF that(2)]]) (use that(1) in \<open>auto intro: quiet_trans\<close>)
  with assms(1) Cons.prems show ?case by (simp add: wp_bindM wp_put)
qed

lemma put_all_dead:
  "dead w \<Longrightarrow> wp (put_all bs w) (\<lambda>w' s'. quiet s s' \<and> w' = w) s"
proof (induction bs arbitrary: s)
  case (Cons b bs)
  then show ?case
    by (auto simp: wp_bindM intro!: wp_mono [OF put_total] elim!: wp_mono [OF Cons.IH] quiet_trans)
qed (simp add: wp_simps)

end

definition extend_refuses :: "env \<Rightarrow> bool" where
  "extend_refuses E \<longleftrightarrow> (\<exists>t b x. \<not> snd (try_extend E t b x))"

interpretation writer: byte_sink "try_extend_appends E" "extend_refuses E" "FrameWriter_raw E" buf oom for E
proof
  show "wp (FrameWriter_raw E b w)
      (\<lambda>w' s'. quiet s s' \<and> (oom w \<longrightarrow> w' = w) \<and> (oom w' \<longrightarrow> oom w \<or> extend_refuses E)) s" for b w s
    by (auto simp: FrameWriter_raw_def wp_simps Let_def case_prod_beta extend_refuses_def)
  show "wp (FrameWriter_raw E b w) (\<lambda>w' s'. \<not> oom w' \<longrightarrow> \<not> oom w \<and> buf w' = buf w @ b) s"
    if "try_extend_appends E" for b w s
    using that by (auto simp: FrameWriter_raw_def wp_simps Let_def case_prod_beta try_extend_appends_def)
qed

end
