(* ===== verification/Respond.thy ===== *)
theory Respond
  imports Writer
begin

text \<open>
  The payload-bearing success responses (\<open>src/src/response.rs\<close>, third part): the two block
  encoders and \<open>rsi_respond_lookup\<close>, \<open>rsi_respond_delete_layer\<close>,
  \<open>rsi_respond_enum_children\<close>, \<open>rsi_respond_read_key\<close> and
  \<open>rsi_respond_query_values\<close>. The predicate \<open>encodes\<close> and its rules follow the shape of
  the encoders; the locale \<open>payload_responder\<close> is the contract the five functions share.
\<close>

section \<open>Block encoders\<close>

definition encode_path_entry_block :: "env \<Rightarrow> ptr \<Rightarrow> u32 \<Rightarrow> FrameWriter \<Rightarrow> FrameWriter result M" where
  "encode_path_entry_block E entries count w =
     tryM (ret (require_array entries count)) (\<lambda>_.
     bindM (FrameWriter_u32 E count w) (\<lambda>w.
     for_in [0..<unat count] (\<lambda>i w.
       bindM (deref as_PathEntry (ptr_add sizeof_rsi_path_entry entries i)) (\<lambda>e.
       tryM (FrameWriter_lpf E (pe_layer e) (pe_layer_len e) w) (\<lambda>w.
       tryM (ret (require_path_target E (pe_target_type e) (pe_target_guid e))) (\<lambda>_.
       bindM (FrameWriter_u8 E (pe_target_type e) w) (\<lambda>w.
       bindM (FrameWriter_guid E (pe_target_guid e) w) (\<lambda>w.
       bindM (FrameWriter_u64 E (pe_sequence e) w) (\<lambda>w. ret (Ok w)))))))) w))"

definition encode_metadata_block :: "env \<Rightarrow> ptr \<Rightarrow> u32 \<Rightarrow> FrameWriter \<Rightarrow> FrameWriter result M" where
  "encode_metadata_block E metadata count w =
     tryM (ret (require_array metadata count)) (\<lambda>_.
     bindM (FrameWriter_u32 E count w) (\<lambda>w.
     for_in [0..<unat count] (\<lambda>i w.
       bindM (deref as_KeyMetadata (ptr_add sizeof_rsi_key_metadata metadata i)) (\<lambda>m.
       bindM (FrameWriter_guid E (km_guid m) w) (\<lambda>w.
       tryM (FrameWriter_lpf E (km_sd m) (km_sd_len m) w) (\<lambda>w.
       tryM (ret (require_bool (km_volatile_key m))) (\<lambda>_.
       tryM (ret (require_bool (km_symlink m))) (\<lambda>_.
       bindM (FrameWriter_u8 E (km_volatile_key m) w) (\<lambda>w.
       bindM (FrameWriter_u8 E (km_symlink m) w) (\<lambda>w.
       bindM (FrameWriter_u64 E (km_last_write_time m) w) (\<lambda>w. ret (Ok w)))))))))) w))"

section \<open>The five responders\<close>

definition rsi_respond_lookup :: "env \<Rightarrow> c_int \<Rightarrow> ptr \<Rightarrow> ptr \<Rightarrow> u32 \<Rightarrow> ptr \<Rightarrow> u32 \<Rightarrow> c_int M" where
  "rsi_respond_lookup E fd req entries entry_count metadata metadata_count =
     bindM (require_response_req req (code_of E RSI_LOOKUP)) (\<lambda>r. case r of
         Err e \<Rightarrow> fail_errno e
       | Ok req \<Rightarrow>
           bindM (validate_lookup_metadata E entries entry_count metadata metadata_count) (\<lambda>r. case r of
               Err e \<Rightarrow> fail_errno e
             | Ok _ \<Rightarrow>
                 bindM (new_writer E) (\<lambda>w.
                 bindM (tryM (encode_path_entry_block E entries entry_count w)
                     (\<lambda>w. encode_metadata_block E metadata metadata_count w)) (\<lambda>r. case r of
                     Err e \<Rightarrow> fail_errno e
                   | Ok w \<Rightarrow> finish_and_send E fd req w))))"

definition rsi_respond_delete_layer :: "env \<Rightarrow> c_int \<Rightarrow> ptr \<Rightarrow> ptr \<Rightarrow> u32 \<Rightarrow> c_int M" where
  "rsi_respond_delete_layer E fd req orphaned_guids orphaned_count =
     bindM (require_response_req req (code_of E RSI_DELETE_LAYER)) (\<lambda>r. case r of
         Err e \<Rightarrow> fail_errno e
       | Ok req \<Rightarrow>
           bindM (orphaned_guid_bytes E orphaned_guids orphaned_count) (\<lambda>r. case r of
               Err e \<Rightarrow> fail_errno e
             | Ok orphaned_bytes \<Rightarrow>
                 bindM (new_writer E) (\<lambda>w.
                 bindM (FrameWriter_u32 E orphaned_count w) (\<lambda>w.
                 bindM (FrameWriter_raw E orphaned_bytes w) (\<lambda>w.
                 finish_and_send E fd req w)))))"

definition encode_children :: "env \<Rightarrow> ptr \<Rightarrow> u32 \<Rightarrow> FrameWriter \<Rightarrow> FrameWriter result M" where
  "encode_children E children child_count w =
     for_in [0..<unat child_count] (\<lambda>i w.
       bindM (deref as_ChildEntry (ptr_add sizeof_rsi_child_entry children i)) (\<lambda>c.
       tryM (FrameWriter_lpf E (ch_child_name c) (ch_child_name_len c) w) (\<lambda>w.
       encode_path_entry_block E (ch_entries c) (ch_entry_count c) w))) w"

definition rsi_respond_enum_children :: "env \<Rightarrow> c_int \<Rightarrow> ptr \<Rightarrow> ptr \<Rightarrow> u32 \<Rightarrow> ptr \<Rightarrow> u32 \<Rightarrow> c_int M" where
  "rsi_respond_enum_children E fd req children child_count metadata metadata_count =
     bindM (require_response_req req (code_of E RSI_ENUM_CHILDREN)) (\<lambda>r. case r of
         Err e \<Rightarrow> fail_errno e
       | Ok req \<Rightarrow>
           bindM (validate_enum_children_metadata E children child_count metadata metadata_count) (\<lambda>r. case r of
               Err e \<Rightarrow> fail_errno e
             | Ok _ \<Rightarrow>
                 bindM (new_writer E) (\<lambda>w.
                 bindM (FrameWriter_u32 E child_count w) (\<lambda>w.
                 bindM (encode_children E children child_count w) (\<lambda>r. case r of
                     Err e \<Rightarrow> fail_errno e
                   | Ok w \<Rightarrow>
                       bindM (encode_metadata_block E metadata metadata_count w) (\<lambda>r. case r of
                           Err e \<Rightarrow> fail_errno e
                         | Ok w \<Rightarrow> finish_and_send E fd req w))))))"

definition rsi_respond_read_key ::
  "env \<Rightarrow> c_int \<Rightarrow> ptr \<Rightarrow> ptr \<Rightarrow> u32 \<Rightarrow> ptr \<Rightarrow> ptr \<Rightarrow> u32 \<Rightarrow> u8 \<Rightarrow> u8 \<Rightarrow> u64 \<Rightarrow> c_int M" where
  "rsi_respond_read_key E fd req name name_len parent_guid sd sd_len volatile_key symlink last_write_time =
     bindM (require_response_req req (code_of E RSI_READ_KEY)) (\<lambda>r. case r of
         Err e \<Rightarrow> fail_errno e
       | Ok req \<Rightarrow>
           if parent_guid = NULL then fail_errno EINVAL
           else
             bindM (new_writer E) (\<lambda>w.
             bindM (FrameWriter_lpf E name name_len w) (\<lambda>r. case r of
                 Err e \<Rightarrow> fail_errno e
               | Ok w \<Rightarrow>
                   bindM (from_raw_parts parent_guid 16) (\<lambda>parent.
                   bindM (FrameWriter_raw E (bytes_of parent) w) (\<lambda>w.
                   bindM (FrameWriter_lpf E sd sd_len w) (\<lambda>r. case r of
                       Err e \<Rightarrow> fail_errno e
                     | Ok w \<Rightarrow>
                         bindM (tryM (ret (require_bool volatile_key)) (\<lambda>_. ret (require_bool symlink))) (\<lambda>r.
                           case r of
                             Err e \<Rightarrow> fail_errno e
                           | Ok _ \<Rightarrow>
                               bindM (FrameWriter_u8 E volatile_key w) (\<lambda>w.
                               bindM (FrameWriter_u8 E symlink w) (\<lambda>w.
                               bindM (FrameWriter_u64 E last_write_time w) (\<lambda>w.
                               finish_and_send E fd req w))))))))))"

definition encode_values :: "env \<Rightarrow> ptr \<Rightarrow> u32 \<Rightarrow> FrameWriter \<Rightarrow> FrameWriter result M" where
  "encode_values E entries entry_count w =
     for_in [0..<unat entry_count] (\<lambda>i w.
       bindM (deref as_ValueEntry (ptr_add sizeof_rsi_value_entry entries i)) (\<lambda>e.
       tryM (tryM (FrameWriter_lpf E (ve_value_name e) (ve_value_name_len e) w)
           (\<lambda>w. FrameWriter_lpf E (ve_layer_name e) (ve_layer_name_len e) w)) (\<lambda>w.
       bindM (FrameWriter_u32 E (ve_value_type e) w) (\<lambda>w.
       tryM (FrameWriter_lpf E (ve_data e) (ve_data_len e) w) (\<lambda>w.
       bindM (FrameWriter_u64 E (ve_sequence e) w) (\<lambda>w. ret (Ok w))))))) w"

definition encode_blankets :: "env \<Rightarrow> ptr \<Rightarrow> u32 \<Rightarrow> FrameWriter \<Rightarrow> FrameWriter result M" where
  "encode_blankets E blankets blanket_count w =
     for_in [0..<unat blanket_count] (\<lambda>i w.
       bindM (deref as_BlanketEntry (ptr_add sizeof_rsi_blanket_entry blankets i)) (\<lambda>b.
       tryM (FrameWriter_lpf E (be_layer_name b) (be_layer_name_len b) w) (\<lambda>w.
       bindM (FrameWriter_u64 E (be_sequence b) w) (\<lambda>w. ret (Ok w))))) w"

definition rsi_respond_query_values :: "env \<Rightarrow> c_int \<Rightarrow> ptr \<Rightarrow> ptr \<Rightarrow> u32 \<Rightarrow> ptr \<Rightarrow> u32 \<Rightarrow> c_int M" where
  "rsi_respond_query_values E fd req entries entry_count blankets blanket_count =
     bindM (require_response_req req (code_of E RSI_QUERY_VALUES)) (\<lambda>r. case r of
         Err e \<Rightarrow> fail_errno e
       | Ok req \<Rightarrow>
           bindM (tryM (ret (require_array entries entry_count))
               (\<lambda>_. ret (require_array blankets blanket_count))) (\<lambda>r. case r of
               Err e \<Rightarrow> fail_errno e
             | Ok _ \<Rightarrow>
                 bindM (new_writer E) (\<lambda>w.
                 bindM (FrameWriter_u32 E entry_count w) (\<lambda>w.
                 bindM (encode_values E entries entry_count w) (\<lambda>r. case r of
                     Err e \<Rightarrow> fail_errno e
                   | Ok w \<Rightarrow>
                       bindM (FrameWriter_u32 E blanket_count w) (\<lambda>w.
                       bindM (encode_blankets E blankets blanket_count w) (\<lambda>r. case r of
                           Err e \<Rightarrow> fail_errno e
                         | Ok w \<Rightarrow> finish_and_send E fd req w)))))))"

section \<open>The bytes of a response\<close>

text \<open>
  The byte strings the encoders are to produce, as functions of the structs and of the
  memory their pointers refer to.
\<close>

definition lpf_bytes :: "heap \<Rightarrow> ptr \<Rightarrow> u32 \<Rightarrow> u8 list" where
  "lpf_bytes h p len = le32 len @ (if len = 0 then [] else the (read_bytes h p (unat len)))"

definition lpf_valid :: "heap \<Rightarrow> ptr \<Rightarrow> u32 \<Rightarrow> bool" where
  "lpf_valid h p len \<longleftrightarrow> len = 0 \<or> p = NULL \<or> read_bytes h p (unat len) \<noteq> None"

definition path_entry_bytes :: "heap \<Rightarrow> rsi_path_entry \<Rightarrow> u8 list" where
  "path_entry_bytes h e = lpf_bytes h (pe_layer e) (pe_layer_len e) @
     [pe_target_type e] @ guid_bytes (pe_target_guid e) @ le64 (pe_sequence e)"

definition metadata_bytes :: "heap \<Rightarrow> rsi_key_metadata \<Rightarrow> u8 list" where
  "metadata_bytes h m = guid_bytes (km_guid m) @ lpf_bytes h (km_sd m) (km_sd_len m) @
     [km_volatile_key m, km_symlink m] @ le64 (km_last_write_time m)"

text \<open>A \<open>[count][elements...]\<close> block.\<close>

definition block_bytes :: "('a \<Rightarrow> u8 list) \<Rightarrow> 'a list \<Rightarrow> u8 list" where
  "block_bytes f xs = le32 (of_nat (length xs)) @ concat (map f xs)"

definition child_bytes :: "heap \<Rightarrow> rsi_child_entry \<times> rsi_path_entry list \<Rightarrow> u8 list" where
  "child_bytes h = (\<lambda>(c, es). lpf_bytes h (ch_child_name c) (ch_child_name_len c) @
     block_bytes (path_entry_bytes h) es)"

definition value_bytes :: "heap \<Rightarrow> rsi_value_entry \<Rightarrow> u8 list" where
  "value_bytes h e = lpf_bytes h (ve_value_name e) (ve_value_name_len e) @
     lpf_bytes h (ve_layer_name e) (ve_layer_name_len e) @ le32 (ve_value_type e) @
     lpf_bytes h (ve_data e) (ve_data_len e) @ le64 (ve_sequence e)"

definition blanket_bytes :: "heap \<Rightarrow> rsi_blanket_entry \<Rightarrow> u8 list" where
  "blanket_bytes h b = lpf_bytes h (be_layer_name b) (be_layer_name_len b) @ le64 (be_sequence b)"

section \<open>Encoders and what they write\<close>

abbreviation written :: "env \<Rightarrow> FrameWriter \<Rightarrow> u8 list \<Rightarrow> bool" where
  "written E \<equiv> byte_sink.holds (extend_refuses E) buf oom"

lemma written_iff: "written E w xs \<longleftrightarrow> (if oom w then extend_refuses E else buf w = xs)"
  by (rule writer.holds_def)

text \<open>
  \<open>encodes E ok bs enc h\<close>: over memory \<open>h\<close> the encoder is defined, appends \<open>bs\<close> when the
  input is acceptable, and refuses with \<open>EINVAL\<close> exactly when it is not.
\<close>

definition encodes :: "env \<Rightarrow> bool \<Rightarrow> u8 list \<Rightarrow> (FrameWriter \<Rightarrow> FrameWriter result M) \<Rightarrow> heap \<Rightarrow> bool" where
  "encodes E ok bs enc h \<longleftrightarrow> (\<forall>w xs s. mem s = h \<longrightarrow> written E w xs \<longrightarrow>
     wp (enc w) (\<lambda>r s'. quiet s s' \<and> (case r of
         Ok w' \<Rightarrow> ok \<and> written E w' (xs @ bs)
       | Err e \<Rightarrow> e = EINVAL \<and> \<not> ok)) s)"

lemma encodesD:
  assumes "encodes E ok bs enc h" "mem s = h" "written E w xs"
    and "\<And>s' w'. quiet s s' \<Longrightarrow> ok \<Longrightarrow> written E w' (xs @ bs) \<Longrightarrow> Q (Ok w') s'"
    and "\<And>s'. quiet s s' \<Longrightarrow> \<not> ok \<Longrightarrow> Q (Err EINVAL) s'"
  shows "wp (enc w) Q s"
  by (rule wp_mono [where P = "\<lambda>r s'. quiet s s' \<and> (case r of
         Ok w' \<Rightarrow> ok \<and> written E w' (xs @ bs) | Err e \<Rightarrow> e = EINVAL \<and> \<not> ok)"])
    (use assms in \<open>auto simp: encodes_def split: result.splits\<close>)

lemma encodes_cong: "encodes E ok bs enc h \<Longrightarrow> ok = ok' \<Longrightarrow> bs = bs' \<Longrightarrow> encodes E ok' bs' enc h"
  by simp

lemma encodes_ret: "encodes E True [] (\<lambda>w. ret (Ok w)) h"
  by (simp add: encodes_def wp_simps)

lemma encodes_raw:
  assumes "try_extend_appends E" "encodes E ok bs enc h"
  shows "encodes E ok (b @ bs) (\<lambda>w. bindM (FrameWriter_raw E b w) enc) h"
  unfolding encodes_def wp_bindM
  by (auto intro!: writer.wp_put [OF assms(1)] encodesD [OF assms(2)] simp: quiet_def)

lemma encodes_guard:
  assumes "encodes E ok bs enc h"
  shows "encodes E (c \<and> ok) bs (\<lambda>w. tryM (ret (if c then Ok () else Err EINVAL)) (\<lambda>_. enc w)) h"
  using assms by (cases c) (auto simp: encodes_def wp_simps)

lemma encodes_seq:
  assumes "encodes E ok1 b1 f h" "encodes E ok2 b2 g h"
  shows "encodes E (ok1 \<and> ok2) (b1 @ b2) (\<lambda>w. tryM (f w) g) h"
  unfolding encodes_def wp_tryM
  by (auto intro!: encodesD [OF assms(1)] encodesD [OF assms(2)] simp: quiet_def)

text \<open>
  A loop over an array: \<open>g\<close> extracts the struct the array holds from the element the
  specification speaks of (a child and its entries, for instance).
\<close>

lemma encodes_array_of:
  assumes "\<And>x. x \<in> set xs \<Longrightarrow> encodes E (ok x) (f x) (enc (g x)) h"
    and arr: "carray prj sz h p c (map g xs)" and nn: "nonnull p c"
  shows "encodes E (list_all ok xs) (concat (map f xs))
    (for_in [0..<unat c] (\<lambda>i w. bindM (deref prj (ptr_add sz p i)) (\<lambda>x. enc x w))) h"
  unfolding encodes_def
proof (intro allI impI)
  fix w ys and s :: world
  assume s: "mem s = h" and w: "written E w ys"
  have len: "length xs = unat c" using carray_length [OF arr] by simp
  have body: "wp (bindM (deref prj (ptr_add sz p i)) (\<lambda>x. enc x w')) (\<lambda>r s'. case r of
        Ok w' \<Rightarrow> quiet s s' \<and> list_all ok (take (Suc i) xs) \<and> written E w' (ys @ concat (map f (take (Suc i) xs)))
      | Err e \<Rightarrow> quiet s s' \<and> e = EINVAL \<and> \<not> list_all ok xs) s'"
    if "i < unat c" "quiet s s' \<and> list_all ok (take i xs) \<and> written E w' (ys @ concat (map f (take i xs)))"
    for i w' s'
  proof -
    have "xs ! i \<in> set xs" "mem s' = h" using that len s by (auto simp: quiet_def)
    then have "wp (enc (g (xs ! i)) w') (\<lambda>r s'. case r of
        Ok w' \<Rightarrow> quiet s s' \<and> list_all ok (take (Suc i) xs) \<and> written E w' (ys @ concat (map f (take (Suc i) xs)))
      | Err e \<Rightarrow> quiet s s' \<and> e = EINVAL \<and> \<not> list_all ok xs) s'"
      using that len by (intro encodesD [OF assms(1)])
        (auto simp: take_Suc_conv_app_nth list_all_iff dest: quiet_trans)
    with arr nn that(1) len \<open>mem s' = h\<close> show ?thesis by (simp add: wp_bindM wp_deref_carray)
  qed
  show "wp (for_in [0..<unat c] (\<lambda>i w. bindM (deref prj (ptr_add sz p i)) (\<lambda>x. enc x w)) w)
     (\<lambda>r s'. quiet s s' \<and> (case r of Ok w' \<Rightarrow> list_all ok xs \<and> written E w' (ys @ concat (map f xs))
       | Err e \<Rightarrow> e = EINVAL \<and> \<not> list_all ok xs)) s"
    by (rule wp_for_in [where I = "\<lambda>i w' s'. quiet s s' \<and> list_all ok (take i xs) \<and>
          written E w' (ys @ concat (map f (take i xs)))"])
      (use w len in \<open>auto intro!: wp_mono [OF body] split: result.splits\<close>)
qed

lemmas encodes_array = encodes_array_of [where g = "\<lambda>x. x", unfolded list.map_ident]

lemma encodes_if_ok: "(c \<Longrightarrow> encodes E ok bs enc h) \<Longrightarrow>
    encodes E (c \<and> ok) bs (\<lambda>w. tryM (ret (if c then Ok () else Err EINVAL)) (\<lambda>_. enc w)) h"
  by (cases c) (auto simp: encodes_def wp_simps)

text \<open>The \<open>[count][elements...]\<close> blocks: a NULL check, the count, the elements.\<close>

lemma encodes_block:
  assumes "try_extend_appends E" "\<And>x. x \<in> set xs \<Longrightarrow> encodes E (ok x) (f x) (enc x) h"
    and "carray prj sz h p c xs"
  shows "encodes E (nonnull p c \<and> list_all ok xs) (block_bytes f xs)
    (\<lambda>w. tryM (ret (require_array p c)) (\<lambda>_. bindM (FrameWriter_u32 E c w) (\<lambda>w.
      for_in [0..<unat c] (\<lambda>i w. bindM (deref prj (ptr_add sz p i)) (\<lambda>x. enc x w)) w))) h"
proof -
  have len: "of_nat (length xs) = c" using assms(3) by (simp add: carray_def)
  show ?thesis
    unfolding require_array_eq FrameWriter_u32_def block_bytes_def len
    by (intro encodes_if_ok encodes_raw encodes_array assms)
qed

section \<open>The encoders of the library\<close>

definition flag_ok :: "u8 \<Rightarrow> bool" where
  "flag_ok v \<longleftrightarrow> v = 0 \<or> v = 1"

lemma require_bool_eq: "require_bool v = (if flag_ok v then Ok () else Err EINVAL)"
  by (simp add: require_bool_def flag_ok_def)

lemmas put_defs = FrameWriter_u8_def FrameWriter_u32_def FrameWriter_u64_def FrameWriter_guid_def

lemma encodes_lpf:
  assumes "try_extend_appends E" "lpf_valid h p len"
  shows "encodes E (nonnull p len) (lpf_bytes h p len) (FrameWriter_lpf E p len) h"
proof (cases "nonnull p len \<and> len \<noteq> 0")
  case True
  with assms(2) obtain bs where "read_bytes h p (unat len) = Some bs"
    by (auto simp: lpf_valid_def nonnull_def)
  with True assms(1) show ?thesis
    by (auto simp: encodes_def FrameWriter_lpf_def put_defs require_lpf_eq wp_tryM wp_bindM wp_ret
        wp_from_raw_parts lpf_bytes_def quiet_def intro!: writer.wp_put)
next
  case False
  with assms(1) show ?thesis
    by (auto simp: encodes_def FrameWriter_lpf_def put_defs require_lpf_eq wp_tryM wp_bindM wp_ret
        lpf_bytes_def nonnull_def intro!: writer.wp_put)
qed

definition path_entry_ok :: "env \<Rightarrow> rsi_path_entry \<Rightarrow> bool" where
  "path_entry_ok E e \<longleftrightarrow> nonnull (pe_layer e) (pe_layer_len e) \<and> path_target_ok E e"

definition metadata_entry_ok :: "rsi_key_metadata \<Rightarrow> bool" where
  "metadata_entry_ok m \<longleftrightarrow> nonnull (km_sd m) (km_sd_len m) \<and> flag_ok (km_volatile_key m) \<and> flag_ok (km_symlink m)"

definition value_entry_ok :: "rsi_value_entry \<Rightarrow> bool" where
  "value_entry_ok e \<longleftrightarrow> nonnull (ve_value_name e) (ve_value_name_len e) \<and>
     nonnull (ve_layer_name e) (ve_layer_name_len e) \<and> nonnull (ve_data e) (ve_data_len e)"

definition blanket_entry_ok :: "rsi_blanket_entry \<Rightarrow> bool" where
  "blanket_entry_ok b \<longleftrightarrow> nonnull (be_layer_name b) (be_layer_name_len b)"

text \<open>The caller's promise: arrays and the byte strings their elements point to are readable.\<close>

definition path_block_valid :: "heap \<Rightarrow> ptr \<times> u32 \<times> rsi_path_entry list \<Rightarrow> bool" where
  "path_block_valid h = (\<lambda>(p, c, es). path_array h (p, c, es) \<and>
     list_all (\<lambda>e. lpf_valid h (pe_layer e) (pe_layer_len e)) es)"

definition metadata_block_valid :: "heap \<Rightarrow> ptr \<times> u32 \<times> rsi_key_metadata list \<Rightarrow> bool" where
  "metadata_block_valid h = (\<lambda>(p, c, ms). metadata_array h (p, c, ms) \<and>
     list_all (\<lambda>m. lpf_valid h (km_sd m) (km_sd_len m)) ms)"

lemma encodes_path_entry_block:
  assumes "try_extend_appends E" "path_block_valid h (p, c, es)"
  shows "encodes E (nonnull p c \<and> list_all (path_entry_ok E) es) (block_bytes (path_entry_bytes h) es)
    (encode_path_entry_block E p c) h"
  unfolding encode_path_entry_block_def
proof (rule encodes_block [OF assms(1)])
  show "carray as_PathEntry sizeof_rsi_path_entry h p c es"
    using assms(2) by (simp add: path_block_valid_def path_array_def)
next
  fix e assume "e \<in> set es"
  with assms(2) have "lpf_valid h (pe_layer e) (pe_layer_len e)"
    by (simp add: path_block_valid_def list_all_iff)
  from encodes_lpf [OF assms(1) this] show "encodes E (path_entry_ok E e) (path_entry_bytes h e)
      (\<lambda>w. tryM (FrameWriter_lpf E (pe_layer e) (pe_layer_len e) w) (\<lambda>w.
        tryM (ret (require_path_target E (pe_target_type e) (pe_target_guid e))) (\<lambda>_.
        bindM (FrameWriter_u8 E (pe_target_type e) w) (\<lambda>w.
        bindM (FrameWriter_guid E (pe_target_guid e) w) (\<lambda>w.
        bindM (FrameWriter_u64 E (pe_sequence e) w) (\<lambda>w. ret (Ok w))))))) h"
    unfolding require_path_target_iff put_defs
    by (rule encodes_cong [OF encodes_seq [OF _ encodes_guard [OF encodes_raw [OF assms(1)
        encodes_raw [OF assms(1) encodes_raw [OF assms(1) encodes_ret]]]]]])
      (simp_all add: path_entry_ok_def path_entry_bytes_def)
qed

lemma encodes_metadata_block:
  assumes "try_extend_appends E" "metadata_block_valid h (p, c, ms)"
  shows "encodes E (nonnull p c \<and> list_all metadata_entry_ok ms) (block_bytes (metadata_bytes h) ms)
    (encode_metadata_block E p c) h"
  unfolding encode_metadata_block_def
proof (rule encodes_block [OF assms(1)])
  show "carray as_KeyMetadata sizeof_rsi_key_metadata h p c ms"
    using assms(2) by (simp add: metadata_block_valid_def metadata_array_def)
next
  fix m assume "m \<in> set ms"
  with assms(2) have "lpf_valid h (km_sd m) (km_sd_len m)"
    by (simp add: metadata_block_valid_def list_all_iff)
  from encodes_lpf [OF assms(1) this] show "encodes E (metadata_entry_ok m) (metadata_bytes h m)
      (\<lambda>w. bindM (FrameWriter_guid E (km_guid m) w) (\<lambda>w.
        tryM (FrameWriter_lpf E (km_sd m) (km_sd_len m) w) (\<lambda>w.
        tryM (ret (require_bool (km_volatile_key m))) (\<lambda>_.
        tryM (ret (require_bool (km_symlink m))) (\<lambda>_.
        bindM (FrameWriter_u8 E (km_volatile_key m) w) (\<lambda>w.
        bindM (FrameWriter_u8 E (km_symlink m) w) (\<lambda>w.
        bindM (FrameWriter_u64 E (km_last_write_time m) w) (\<lambda>w. ret (Ok w))))))))) h"
    unfolding require_bool_eq put_defs
    by (rule encodes_cong [OF encodes_raw [OF assms(1) encodes_seq [OF _ encodes_guard [OF encodes_guard [OF
        encodes_raw [OF assms(1) encodes_raw [OF assms(1) encodes_raw [OF assms(1) encodes_ret]]]]]]]])
      (simp_all add: metadata_entry_ok_def metadata_bytes_def)
qed

definition child_entry_ok :: "env \<Rightarrow> rsi_child_entry \<times> rsi_path_entry list \<Rightarrow> bool" where
  "child_entry_ok E = (\<lambda>(c, es). nonnull (ch_child_name c) (ch_child_name_len c) \<and>
     nonnull (ch_entries c) (ch_entry_count c) \<and> list_all (path_entry_ok E) es)"

definition child_block_valid :: "heap \<Rightarrow> ptr \<times> u32 \<times> (rsi_child_entry \<times> rsi_path_entry list) list \<Rightarrow> bool" where
  "child_block_valid h = (\<lambda>(p, n, cs). child_array h (p, n, cs) \<and>
     list_all (\<lambda>(c, es). lpf_valid h (ch_child_name c) (ch_child_name_len c) \<and>
       path_block_valid h (ch_entries c, ch_entry_count c, es)) cs)"

text \<open>
  The children loop runs over the structs alone; the entries behind each of them are
  recovered by position.
\<close>

lemma encodes_children:
  assumes "try_extend_appends E" "child_block_valid h (p, n, cs)" "nonnull p n"
  shows "encodes E (list_all (child_entry_ok E) cs) (concat (map (child_bytes h) cs))
    (encode_children E p n) h"
  unfolding encode_children_def
proof (rule encodes_array_of [where g = fst, OF _ _ assms(3)])
  show "carray as_ChildEntry sizeof_rsi_child_entry h p n (map fst cs)"
    using assms(2) by (simp add: child_block_valid_def child_array_def)
next
  fix x assume "x \<in> set cs"
  with assms(2) have valid: "lpf_valid h (ch_child_name (fst x)) (ch_child_name_len (fst x))"
      "path_block_valid h (ch_entries (fst x), ch_entry_count (fst x), snd x)"
    by (auto simp: child_block_valid_def list_all_iff)
  show "encodes E (child_entry_ok E x) (child_bytes h x)
      (\<lambda>w. tryM (FrameWriter_lpf E (ch_child_name (fst x)) (ch_child_name_len (fst x)) w) (\<lambda>w.
       encode_path_entry_block E (ch_entries (fst x)) (ch_entry_count (fst x)) w)) h"
    by (rule encodes_cong [OF encodes_seq [OF encodes_lpf [OF assms(1) valid(1)]
        encodes_path_entry_block [OF assms(1) valid(2)]]])
      (simp_all add: child_entry_ok_def child_bytes_def case_prod_beta)
qed

definition value_block_valid :: "heap \<Rightarrow> ptr \<times> u32 \<times> rsi_value_entry list \<Rightarrow> bool" where
  "value_block_valid h = (\<lambda>(p, c, es). carray as_ValueEntry sizeof_rsi_value_entry h p c es \<and>
     list_all (\<lambda>e. lpf_valid h (ve_value_name e) (ve_value_name_len e) \<and>
       lpf_valid h (ve_layer_name e) (ve_layer_name_len e) \<and> lpf_valid h (ve_data e) (ve_data_len e)) es)"

definition blanket_block_valid :: "heap \<Rightarrow> ptr \<times> u32 \<times> rsi_blanket_entry list \<Rightarrow> bool" where
  "blanket_block_valid h = (\<lambda>(p, c, bs). carray as_BlanketEntry sizeof_rsi_blanket_entry h p c bs \<and>
     list_all (\<lambda>b. lpf_valid h (be_layer_name b) (be_layer_name_len b)) bs)"

lemma encodes_values:
  assumes "try_extend_appends E" "value_block_valid h (p, c, es)" "nonnull p c"
  shows "encodes E (list_all value_entry_ok es) (concat (map (value_bytes h) es)) (encode_values E p c) h"
  unfolding encode_values_def
proof (rule encodes_array [OF _ _ assms(3)])
  show "carray as_ValueEntry sizeof_rsi_value_entry h p c es"
    using assms(2) by (simp add: value_block_valid_def)
next
  fix e assume "e \<in> set es"
  with assms(2) have valid: "lpf_valid h (ve_value_name e) (ve_value_name_len e)"
      "lpf_valid h (ve_layer_name e) (ve_layer_name_len e)" "lpf_valid h (ve_data e) (ve_data_len e)"
    by (auto simp: value_block_valid_def list_all_iff)
  note lpf = valid [THEN encodes_lpf [OF assms(1)]]
  show "encodes E (value_entry_ok e) (value_bytes h e)
      (\<lambda>w. tryM (tryM (FrameWriter_lpf E (ve_value_name e) (ve_value_name_len e) w)
           (\<lambda>w. FrameWriter_lpf E (ve_layer_name e) (ve_layer_name_len e) w)) (\<lambda>w.
       bindM (FrameWriter_u32 E (ve_value_type e) w) (\<lambda>w.
       tryM (FrameWriter_lpf E (ve_data e) (ve_data_len e) w) (\<lambda>w.
       bindM (FrameWriter_u64 E (ve_sequence e) w) (\<lambda>w. ret (Ok w)))))) h"
    unfolding put_defs
    by (rule encodes_cong [OF encodes_seq [OF encodes_seq [OF lpf(1,2)] encodes_raw [OF assms(1)
        encodes_seq [OF lpf(3) encodes_raw [OF assms(1) encodes_ret]]]]])
      (simp_all add: value_entry_ok_def value_bytes_def)
qed

lemma encodes_blankets:
  assumes "try_extend_appends E" "blanket_block_valid h (p, c, bs)" "nonnull p c"
  shows "encodes E (list_all blanket_entry_ok bs) (concat (map (blanket_bytes h) bs)) (encode_blankets E p c) h"
  unfolding encode_blankets_def
proof (rule encodes_array [OF _ _ assms(3)])
  show "carray as_BlanketEntry sizeof_rsi_blanket_entry h p c bs"
    using assms(2) by (simp add: blanket_block_valid_def)
next
  fix b assume "b \<in> set bs"
  with assms(2) have "lpf_valid h (be_layer_name b) (be_layer_name_len b)"
    by (simp add: blanket_block_valid_def list_all_iff)
  from encodes_lpf [OF assms(1) this] show "encodes E (blanket_entry_ok b) (blanket_bytes h b)
      (\<lambda>w. tryM (FrameWriter_lpf E (be_layer_name b) (be_layer_name_len b) w) (\<lambda>w.
       bindM (FrameWriter_u64 E (be_sequence b) w) (\<lambda>w. ret (Ok w)))) h"
    unfolding put_defs
    by (rule encodes_cong [OF encodes_seq [OF _ encodes_raw [OF assms(1) encodes_ret]]])
      (simp_all add: blanket_entry_ok_def blanket_bytes_def)
qed

end
