(* ===== verification/Reply.thy ===== *)
theory Reply
  imports Respond
begin

text \<open>
  The contract of the five payload responders of \<open>src/src/response.rs\<close>. The predicate
  \<open>replies\<close> is what a call may do: send exactly one frame, or fail with a reason. The
  locale \<open>payload_responder\<close> states it once together with the check of the request, proves
  what a caller may conclude, and is interpreted on each of the five functions.
\<close>

section \<open>What a responder may do\<close>

definition may_oom :: "env \<Rightarrow> bool" where
  "may_oom E \<longleftrightarrow> alloc_refuses E \<or> extend_refuses E"

text \<open>
  For a request \<open>r\<close> of the right kind: either the arguments are acceptable and one \<open>write\<close>
  of the whole frame is issued, or nothing is written, memory is untouched and \<open>errno\<close>
  tells the reason.
\<close>

definition replies :: "env \<Rightarrow> c_int \<Rightarrow> rsi_request \<Rightarrow> bool \<Rightarrow> u8 list \<Rightarrow> world \<Rightarrow> c_int \<Rightarrow> world \<Rightarrow> bool" where
  "replies E fd r ok body s x s' \<longleftrightarrow>
     (\<exists>resp_op. ok \<and> rsi_response_op_code E (op_code r) = Some resp_op \<and> 18 + length body < 2 ^ 32 \<and>
        sent E fd (response_frame (request_id r) resp_op (RSI_OK E) body) s x s') \<or>
     (x = -1 \<and> mem s' = mem s \<and> trace s' = trace s \<and>
       (errno s' = EINVAL \<and> (\<not> ok \<or> rsi_response_op_code E (op_code r) = None) \<or>
        errno s' = EOVERFLOW \<and> ok \<and> 2 ^ 32 \<le> 18 + length body \<or>
        errno s' = ENOMEM \<and> may_oom E))"

lemma sent_quiet: "sent E fd f s' x s'' \<Longrightarrow> quiet s s' \<Longrightarrow> sent E fd f s x s''"
  by (simp add: sent_def quiet_def)

lemma replies_EINVAL: "quiet s s' \<Longrightarrow> \<not> ok \<Longrightarrow> wp (fail_errno EINVAL) (replies E fd r ok body s) s'"
  by (simp add: wp_simps replies_def quiet_def)

lemma replies_ENOMEM: "quiet s s' \<Longrightarrow> may_oom E \<Longrightarrow> wp (fail_errno ENOMEM) (replies E fd r ok body s) s'"
  by (simp add: wp_simps replies_def quiet_def)

section \<open>Continuations that fill and send a frame\<close>

text \<open>
  \<open>sends E fd r s ok front rest k\<close>: started on a writer that holds the placeholder and
  \<open>front\<close>, the continuation \<open>k\<close> completes the payload with \<open>rest\<close> and replies.
\<close>

definition sends :: "env \<Rightarrow> c_int \<Rightarrow> rsi_request \<Rightarrow> world \<Rightarrow> bool \<Rightarrow> u8 list \<Rightarrow> u8 list \<Rightarrow>
    (FrameWriter \<Rightarrow> c_int M) \<Rightarrow> bool" where
  "sends E fd r s ok front rest k \<longleftrightarrow> (\<forall>w s'. quiet s s' \<longrightarrow> written E w (replicate 18 0 @ front) \<longrightarrow>
     wp (k w) (replies E fd r ok (front @ rest) s) s')"

lemma sends_finish: "sends E fd r s True front [] (finish_and_send E fd r)"
  unfolding sends_def
proof (intro allI impI)
  fix w s' assume q: "quiet s s'" and w: "written E w (replicate 18 0 @ front)"
  have frame: "wp (write_frame E fd f) (\<lambda>x. sent E fd f s x) s'" for f
    by (rule wp_mono [OF wp_write_frame]) (use q in \<open>auto intro: sent_quiet\<close>)
  from w have "\<not> oom w \<longrightarrow> buf w = replicate 18 0 @ front" by (simp add: written_iff split: if_splits)
  from finish_response_eq [OF this] q w
  show "wp (finish_and_send E fd r w) (replies E fd r True (front @ []) s) s'"
    by (auto simp: finish_and_send_def written_iff wp_simps replies_def may_oom_def quiet_def
        intro!: wp_mono [OF frame] split: option.splits if_splits)
qed

lemma sends_raw:
  assumes "try_extend_appends E" "sends E fd r s ok (front @ b) rest k"
  shows "sends E fd r s ok front (b @ rest) (\<lambda>w. bindM (FrameWriter_raw E b w) k)"
  using assms unfolding sends_def wp_bindM
  by (auto intro!: writer.wp_put [OF assms(1)] dest: quiet_trans)

lemma sends_enc:
  assumes "encodes E ok1 bs enc (mem s)" "ok1 \<Longrightarrow> sends E fd r s ok2 (front @ bs) rest k"
  shows "sends E fd r s (ok1 \<and> ok2) front (bs @ rest)
    (\<lambda>w. bindM (enc w) (\<lambda>x. case x of Err e \<Rightarrow> fail_errno e | Ok w \<Rightarrow> k w))"
  unfolding sends_def wp_bindM
proof (intro allI impI)
  fix w s' assume q: "quiet s s'" and w: "written E w (replicate 18 0 @ front)"
  show "wp (enc w) (\<lambda>x. wp (case x of Err e \<Rightarrow> fail_errno e | Ok w \<Rightarrow> k w)
      (replies E fd r (ok1 \<and> ok2) (front @ bs @ rest) s)) s'"
    by (rule encodesD [OF assms(1) _ w])
      (use q assms(2) in \<open>auto simp: sends_def quiet_fields intro!: replies_EINVAL dest: quiet_trans\<close>)
qed

lemma sends_guard:
  assumes "sends E fd r s ok front rest k"
  shows "sends E fd r s (c \<and> ok) front rest (\<lambda>w. bindM (ret (if c then Ok () else Err EINVAL))
    (\<lambda>x. case x of Err e \<Rightarrow> fail_errno e | Ok _ \<Rightarrow> k w))"
  using assms by (cases c) (auto simp: sends_def intro: replies_EINVAL)

lemma sends_slice:
  assumes "read_bytes (mem s) p n = Some bs" "sends E fd r s ok front rest (k \<lparr>as_ptr = p, bytes_of = bs\<rparr>)"
  shows "sends E fd r s ok front rest (\<lambda>w. bindM (from_raw_parts p n) (\<lambda>b. k b w))"
  using assms by (auto simp: sends_def wp_bindM wp_from_raw_parts quiet_fields)

lemma sends_cong:
  "sends E fd r s ok front rest k \<Longrightarrow> ok = ok' \<Longrightarrow> rest = rest' \<Longrightarrow> sends E fd r s ok' front rest' k"
  by simp

lemma replies_new_writer:
  assumes "try_extend_appends E" "sends E fd r s ok [] body k" "quiet s s'"
  shows "wp (bindM (new_writer E) k) (replies E fd r ok body s) s'"
  unfolding wp_bindM new_writer_def
  by (rule writer.wp_put [OF assms(1), where xs = "[]"])
    (use assms in \<open>auto simp: sends_def written_iff FrameWriter_new_def STATUS_FRAME_LEN_def dest: quiet_trans\<close>)

section \<open>The contract\<close>

locale payload_responder =
  fixes run :: "env \<Rightarrow> c_int \<Rightarrow> ptr \<Rightarrow> 'a \<Rightarrow> c_int M"
    and op :: "'a \<Rightarrow> rsi_op"
    and valid :: "heap \<Rightarrow> 'a \<Rightarrow> bool"
    and ok :: "env \<Rightarrow> 'a \<Rightarrow> bool"
    and body :: "heap \<Rightarrow> 'a \<Rightarrow> u8 list"
  assumes null_request: "run E fd NULL a s = Done (-1) (s\<lparr>errno := EINVAL\<rparr>)"
    and other_request: "req \<noteq> NULL \<Longrightarrow> mem s req = Some (Request r) \<Longrightarrow>
      op_code r \<noteq> ucast (code_of E (op a)) \<Longrightarrow> run E fd req a s = Done (-1) (s\<lparr>errno := EINVAL\<rparr>)"
    and own_request: "try_extend_appends E \<Longrightarrow> req \<noteq> NULL \<Longrightarrow> mem s req = Some (Request r) \<Longrightarrow>
      op_code r = ucast (code_of E (op a)) \<Longrightarrow> valid (mem s) a \<Longrightarrow>
      wp (run E fd req a) (replies E fd r (ok E a) (body (mem s) a) s) s"
begin

lemma rejected:
  assumes "req \<noteq> NULL \<longrightarrow> mem s req = Some (Request r)" "\<not> (req \<noteq> NULL \<and> op_code r = ucast (code_of E (op a)))"
  shows "run E fd req a s = Done (-1) (s\<lparr>errno := EINVAL\<rparr>)"
  using assms null_request other_request by (cases "req = NULL") simp_all

text \<open>A call always returns, leaves memory alone, and writes at most one frame, to \<open>fd\<close>.\<close>

lemma run_total:
  assumes "try_extend_appends E" "valid (mem s) a" "req \<noteq> NULL \<longrightarrow> mem s req = Some (Request r)"
  shows "\<exists>x s'. run E fd req a s = Done x s' \<and> x \<in> {0, -1} \<and> mem s' = mem s \<and>
    (trace s' = trace s \<or> (\<exists>frame sr. trace s' = trace s @ [(Sys_write fd frame, sr)]))"
proof (cases "req \<noteq> NULL \<and> op_code r = ucast (code_of E (op a))")
  case True
  with assms have "wp (run E fd req a) (replies E fd r (ok E a) (body (mem s) a) s) s"
    by (auto intro: own_request)
  then show ?thesis
    by (auto dest!: wpD simp: replies_def sent_def split: if_splits)
next
  case False
  from rejected [OF assms(3) this] show ?thesis by simp
qed

text \<open>A call that returns 0 has had the whole, correct frame accepted by the kernel.\<close>

lemma success_sound:
  assumes "try_extend_appends E" "valid (mem s) a" "req \<noteq> NULL \<longrightarrow> mem s req = Some (Request r)"
    and "run E fd req a s = Done 0 s'"
  shows "req \<noteq> NULL \<and> op_code r = ucast (code_of E (op a)) \<and> ok E a \<and>
    18 + length (body (mem s) a) < 2 ^ 32 \<and>
    (\<exists>resp_op sr. rsi_response_op_code E (op_code r) = Some resp_op \<and>
       sys_ret sr = int (18 + length (body (mem s) a)) \<and> trace s' = trace s @
       [(Sys_write fd (response_frame (request_id r) resp_op (RSI_OK E) (body (mem s) a)), sr)])"
proof (cases "req \<noteq> NULL \<and> op_code r = ucast (code_of E (op a))")
  case True
  with assms have "wp (run E fd req a) (replies E fd r (ok E a) (body (mem s) a) s) s"
    by (auto intro: own_request)
  with assms(4) True show ?thesis
    by (auto simp: wp_Done replies_def sent_def split: if_splits)
next
  case False
  from rejected [OF assms(3) this] assms(4) show ?thesis by simp
qed

text \<open>With memory available, acceptable arguments are sent and others refused.\<close>

lemma delivered:
  assumes "try_extend_appends E" "\<not> may_oom E" "req \<noteq> NULL" "mem s req = Some (Request r)"
    and "op_code r = ucast (code_of E (op a))" "valid (mem s) a" "ok E a"
    and "rsi_response_op_code E (op_code r) = Some resp_op" "18 + length (body (mem s) a) < 2 ^ 32"
  shows "wp (run E fd req a) (sent E fd (response_frame (request_id r) resp_op (RSI_OK E) (body (mem s) a)) s) s"
  by (rule wp_mono [OF own_request]) (use assms in \<open>auto simp: replies_def\<close>)

lemma refused:
  assumes "try_extend_appends E" "\<not> may_oom E" "req \<noteq> NULL" "mem s req = Some (Request r)"
    and "op_code r = ucast (code_of E (op a))" "valid (mem s) a" "\<not> ok E a"
  shows "wp (run E fd req a) (\<lambda>x s'. x = -1 \<and> errno s' = EINVAL \<and> trace s' = trace s \<and> mem s' = mem s) s"
  by (rule wp_mono [OF own_request]) (use assms in \<open>auto simp: replies_def\<close>)

end

lemma require_response_req_null: "require_response_req NULL op = ret (Err EINVAL)"
  by (simp add: require_response_req_def)

lemma require_response_req_at:
  "req \<noteq> NULL \<Longrightarrow> mem s req = Some (Request r) \<Longrightarrow> require_response_req req op s =
    Done (if op_code r = ucast op then Ok r else Err EINVAL) s"
  by (simp add: require_response_req_def bindM_def deref_def ret_def cell_simps)

text \<open>Every responder starts with the same check of the request.\<close>

lemma checked_request:
  "bindM (require_response_req NULL c) (\<lambda>r. case r of Err e \<Rightarrow> fail_errno e | Ok q \<Rightarrow> k q) s =
    Done (-1) (s\<lparr>errno := EINVAL\<rparr>)"
  "req \<noteq> NULL \<Longrightarrow> mem s req = Some (Request r) \<Longrightarrow> op_code r \<noteq> ucast c \<Longrightarrow>
    bindM (require_response_req req c) (\<lambda>r. case r of Err e \<Rightarrow> fail_errno e | Ok q \<Rightarrow> k q) s =
    Done (-1) (s\<lparr>errno := EINVAL\<rparr>)"
  "req \<noteq> NULL \<Longrightarrow> mem s req = Some (Request r) \<Longrightarrow> op_code r = ucast c \<Longrightarrow>
    wp (bindM (require_response_req req c) (\<lambda>r. case r of Err e \<Rightarrow> fail_errno e | Ok q \<Rightarrow> k q)) Q s =
    wp (k r) Q s"
  by (simp_all add: bindM_def require_response_req_null require_response_req_at ret_def fail_errno_eq wp_def)

section \<open>LOOKUP\<close>

type_synonym lookup_args = "(ptr \<times> u32 \<times> rsi_path_entry list) \<times> (ptr \<times> u32 \<times> rsi_key_metadata list)"

definition lookup_valid :: "heap \<Rightarrow> lookup_args \<Rightarrow> bool" where
  "lookup_valid h = (\<lambda>(ps, ms). path_block_valid h ps \<and> metadata_block_valid h ms)"

text \<open>Metadata is acceptable when it covers exactly the GUIDs \<open>ts\<close>, once each.\<close>

definition metadata_covers :: "ptr \<times> u32 \<times> rsi_key_metadata list \<Rightarrow> guid set \<Rightarrow> bool" where
  "metadata_covers = (\<lambda>(q, d, ms) ts. nonnull q d \<and> list_all metadata_entry_ok ms \<and>
     distinct (map km_guid ms) \<and> nil_guid \<notin> ts \<and> km_guid ` set ms = ts)"

definition lookup_ok :: "env \<Rightarrow> lookup_args \<Rightarrow> bool" where
  "lookup_ok E = (\<lambda>((p, c, es), ms). nonnull p c \<and> list_all (path_entry_ok E) es \<and> metadata_covers ms (targets E es))"

definition lookup_body :: "heap \<Rightarrow> lookup_args \<Rightarrow> u8 list" where
  "lookup_body h = (\<lambda>((p, c, es), (q, d, ms)).
     block_bytes (path_entry_bytes h) es @ block_bytes (metadata_bytes h) ms)"

lemma lookup_ok_alt:
  "lookup_ok E ((p, c, es), (q, d, ms)) \<longleftrightarrow>
    (paths_ok E (p, c, es) \<and> metadata_ok (q, d, ms) \<and> km_guid ` set ms = targets E es) \<and>
    (nonnull p c \<and> list_all (path_entry_ok E) es) \<and> (nonnull q d \<and> list_all metadata_entry_ok ms)"
  by (auto simp: lookup_ok_def metadata_covers_def paths_ok_def metadata_ok_def list_all_iff path_entry_ok_def)

text \<open>A check followed by the encoding: acceptable when both are.\<close>

lemma replies_checked:
  assumes "wp chk (decides E ok1 s) s"
    and "\<And>s'. quiet s s' \<Longrightarrow> ok1 \<Longrightarrow> wp k (replies E fd r ok2 body s) s'"
  shows "wp (bindM chk (\<lambda>x. case x of Err e \<Rightarrow> fail_errno e | Ok _ \<Rightarrow> k)) (replies E fd r (ok1 \<and> ok2) body s) s"
  unfolding wp_bindM
  by (rule wp_mono [OF assms(1)])
    (use assms(2) in \<open>auto simp: decides_def may_oom_def split: result.splits intro!: replies_EINVAL replies_ENOMEM\<close>)

interpretation lookup: payload_responder
  "\<lambda>E fd req ((p, c, es), (q, d, ms)). rsi_respond_lookup E fd req p c q d"
  "\<lambda>_. RSI_LOOKUP" lookup_valid lookup_ok lookup_body
proof (unfold_locales, goal_cases)
  case (1 E fd a s)
  then show ?case by (simp add: rsi_respond_lookup_def checked_request split: prod.splits)
next
  case (2 req s r E fd a)
  then show ?case by (simp add: rsi_respond_lookup_def checked_request split: prod.splits)
next
  case (3 E req s r a fd)
  obtain p c es q d ms where a: "a = ((p, c, es), (q, d, ms))" by (metis prod.exhaust)
  have valid: "path_block_valid (mem s) (p, c, es)" "metadata_block_valid (mem s) (q, d, ms)"
    using 3(5) by (simp_all add: a lookup_valid_def)
  have chk: "wp (validate_lookup_metadata E p c q d)
      (decides E (paths_ok E (p, c, es) \<and> metadata_ok (q, d, ms) \<and> km_guid ` set ms = targets E es) s) s"
    using lookup_cover.check_decides [of s "(p, c, es)" "(q, d, ms)" E] valid
    by (simp add: path_block_valid_def metadata_block_valid_def)
  note enc = encodes_seq [OF encodes_path_entry_block [OF 3(1) valid(1)] encodes_metadata_block [OF 3(1) valid(2)]]
  have "sends E fd r s ((nonnull p c \<and> list_all (path_entry_ok E) es) \<and> nonnull q d \<and> list_all metadata_entry_ok ms)
      [] (lookup_body (mem s) a)
      (\<lambda>w. bindM (tryM (encode_path_entry_block E p c w) (\<lambda>w. encode_metadata_block E q d w))
        (\<lambda>x. case x of Err e \<Rightarrow> fail_errno e | Ok w \<Rightarrow> finish_and_send E fd r w))"
    by (rule sends_cong [OF sends_enc [OF enc sends_finish]]) (simp_all add: a lookup_body_def)
  then show ?case
    unfolding a prod.case rsi_respond_lookup_def lookup_ok_alt checked_request(3) [OF 3(2-4)]
    by (intro replies_checked [OF chk] replies_new_writer [OF 3(1)])
qed

section \<open>DELETE_LAYER\<close>

type_synonym delete_layer_args = "ptr \<times> u32 \<times> guid list"

definition delete_layer_valid :: "heap \<Rightarrow> delete_layer_args \<Rightarrow> bool" where
  "delete_layer_valid h = (\<lambda>(p, c, gs). length gs = unat c \<and>
     (p \<noteq> NULL \<longrightarrow> read_bytes h p (16 * unat c) = Some (concat (map guid_bytes gs))))"

definition delete_layer_ok :: "env \<Rightarrow> delete_layer_args \<Rightarrow> bool" where
  "delete_layer_ok E = (\<lambda>(p, c, gs). orphans_ok p gs)"

definition delete_layer_body :: "heap \<Rightarrow> delete_layer_args \<Rightarrow> u8 list" where
  "delete_layer_body h = (\<lambda>(p, c, gs). block_bytes guid_bytes gs)"

interpretation delete_layer: payload_responder
  "\<lambda>E fd req (p, c, gs). rsi_respond_delete_layer E fd req p c"
  "\<lambda>_. RSI_DELETE_LAYER" delete_layer_valid delete_layer_ok delete_layer_body
proof (unfold_locales, goal_cases)
  case (1 E fd a s)
  then show ?case by (simp add: rsi_respond_delete_layer_def checked_request split: prod.splits)
next
  case (2 req s r E fd a)
  then show ?case by (simp add: rsi_respond_delete_layer_def checked_request split: prod.splits)
next
  case (3 E req s r a fd)
  obtain p c gs where a: "a = (p, c, gs)" by (metis prod.exhaust)
  have valid: "length gs = unat c" "p \<noteq> NULL \<longrightarrow> read_bytes (mem s) p (16 * unat c) = Some (concat (map guid_bytes gs))"
    using 3(5) by (simp_all add: a delete_layer_valid_def)
  have "of_nat (length gs) = c" using valid(1) by simp
  then have "sends E fd r s True [] (delete_layer_body (mem s) a)
      (\<lambda>w. bindM (FrameWriter_u32 E c w) (\<lambda>w. bindM (FrameWriter_raw E (concat (map guid_bytes gs)) w) (\<lambda>w.
        finish_and_send E fd r w)))"
    unfolding put_defs
    by (intro sends_cong [OF sends_raw [OF 3(1) sends_raw [OF 3(1) sends_finish]]])
      (simp_all add: a delete_layer_body_def block_bytes_def)
  note send = replies_new_writer [OF 3(1) this]
  show ?case
    unfolding a prod.case rsi_respond_delete_layer_def checked_request(3) [OF 3(2-4)] wp_bindM [of "orphaned_guid_bytes _ _ _"]
    by (rule wp_mono [OF orphaned_guid_bytes_decides [OF valid]])
      (use send in \<open>auto simp: a delete_layer_ok_def may_oom_def split: result.splits
        intro!: replies_EINVAL replies_ENOMEM\<close>)
qed

section \<open>ENUM_CHILDREN\<close>

type_synonym enum_children_args =
  "(ptr \<times> u32 \<times> (rsi_child_entry \<times> rsi_path_entry list) list) \<times> (ptr \<times> u32 \<times> rsi_key_metadata list)"

definition enum_children_valid :: "heap \<Rightarrow> enum_children_args \<Rightarrow> bool" where
  "enum_children_valid h = (\<lambda>(cs, ms). child_block_valid h cs \<and> metadata_block_valid h ms)"

definition enum_children_ok :: "env \<Rightarrow> enum_children_args \<Rightarrow> bool" where
  "enum_children_ok E = (\<lambda>((p, n, cs), ms). nonnull p n \<and> list_all (child_entry_ok E) cs \<and>
     metadata_covers ms (targets E (concat (map snd cs))))"

definition enum_children_body :: "heap \<Rightarrow> enum_children_args \<Rightarrow> u8 list" where
  "enum_children_body h = (\<lambda>((p, n, cs), (q, d, ms)).
     block_bytes (child_bytes h) cs @ block_bytes (metadata_bytes h) ms)"

lemma enum_children_ok_alt:
  "enum_children_ok E ((p, n, cs), (q, d, ms)) \<longleftrightarrow>
    (children_ok E (p, n, cs) \<and> metadata_ok (q, d, ms) \<and> km_guid ` set ms = targets E (concat (map snd cs))) \<and>
    list_all (child_entry_ok E) cs \<and> (nonnull q d \<and> list_all metadata_entry_ok ms)"
  by (auto simp: enum_children_ok_def metadata_covers_def children_ok_def child_ok_def child_entry_ok_def
      paths_ok_def metadata_ok_def list_all_iff path_entry_ok_def)

interpretation enum_children: payload_responder
  "\<lambda>E fd req ((p, n, cs), (q, d, ms)). rsi_respond_enum_children E fd req p n q d"
  "\<lambda>_. RSI_ENUM_CHILDREN" enum_children_valid enum_children_ok enum_children_body
proof (unfold_locales, goal_cases)
  case (1 E fd a s)
  then show ?case by (simp add: rsi_respond_enum_children_def checked_request split: prod.splits)
next
  case (2 req s r E fd a)
  then show ?case by (simp add: rsi_respond_enum_children_def checked_request split: prod.splits)
next
  case (3 E req s r a fd)
  obtain p n cs q d ms where a: "a = ((p, n, cs), (q, d, ms))" by (metis prod.exhaust)
  have valid: "child_block_valid (mem s) (p, n, cs)" "metadata_block_valid (mem s) (q, d, ms)"
    using 3(5) by (simp_all add: a enum_children_valid_def)
  have chk: "wp (validate_enum_children_metadata E p n q d) (decides E (children_ok E (p, n, cs) \<and>
      metadata_ok (q, d, ms) \<and> km_guid ` set ms = targets E (concat (map snd cs))) s) s"
    using enum_cover.check_decides [of s "(p, n, cs)" "(q, d, ms)" E] valid
    by (simp add: child_block_valid_def metadata_block_valid_def)
  have len: "of_nat (length cs) = n"
    using valid(1) by (auto simp: child_block_valid_def child_array_def dest: carray_length)
  note mds = encodes_metadata_block [OF 3(1) valid(2)]
  have "sends E fd r s (list_all (child_entry_ok E) cs \<and> nonnull q d \<and> list_all metadata_entry_ok ms)
      [] (enum_children_body (mem s) a)
      (\<lambda>w. bindM (FrameWriter_u32 E n w) (\<lambda>w. bindM (encode_children E p n w) (\<lambda>x. case x of Err e \<Rightarrow> fail_errno e
        | Ok w \<Rightarrow> bindM (encode_metadata_block E q d w) (\<lambda>x. case x of Err e \<Rightarrow> fail_errno e
          | Ok w \<Rightarrow> finish_and_send E fd r w))))" if "nonnull p n"
    unfolding put_defs
    by (rule sends_cong [OF sends_raw [OF 3(1) sends_enc [OF encodes_children [OF 3(1) valid(1) that]
        sends_enc [OF mds sends_finish]]]])
      (simp_all add: a enum_children_body_def block_bytes_def len)
  then show ?case
    unfolding a prod.case rsi_respond_enum_children_def enum_children_ok_alt checked_request(3) [OF 3(2-4)]
    by (intro replies_checked [OF chk] replies_new_writer [OF 3(1)]) (simp_all add: children_ok_def)
qed

section \<open>READ_KEY\<close>

type_synonym read_key_args = "ptr \<times> u32 \<times> ptr \<times> ptr \<times> u32 \<times> u8 \<times> u8 \<times> u64"

definition read_key_valid :: "heap \<Rightarrow> read_key_args \<Rightarrow> bool" where
  "read_key_valid h = (\<lambda>(name, name_len, parent, sd, sd_len, vol, sym, lwt). lpf_valid h name name_len \<and>
     lpf_valid h sd sd_len \<and> (parent \<noteq> NULL \<longrightarrow> read_bytes h parent 16 \<noteq> None))"

definition read_key_ok :: "env \<Rightarrow> read_key_args \<Rightarrow> bool" where
  "read_key_ok E = (\<lambda>(name, name_len, parent, sd, sd_len, vol, sym, lwt). parent \<noteq> NULL \<and>
     nonnull name name_len \<and> nonnull sd sd_len \<and> flag_ok vol \<and> flag_ok sym)"

definition read_key_body :: "heap \<Rightarrow> read_key_args \<Rightarrow> u8 list" where
  "read_key_body h = (\<lambda>(name, name_len, parent, sd, sd_len, vol, sym, lwt). lpf_bytes h name name_len @
     the (read_bytes h parent 16) @ lpf_bytes h sd sd_len @ [vol, sym] @ le64 lwt)"

lemma require_flags_eq: "tryM (ret (require_bool v)) (\<lambda>_. ret (require_bool y)) =
    ret (if flag_ok v \<and> flag_ok y then Ok () else Err EINVAL)"
  by (simp add: require_bool_eq tryM_def)

interpretation read_key: payload_responder
  "\<lambda>E fd req (name, name_len, parent, sd, sd_len, vol, sym, lwt).
     rsi_respond_read_key E fd req name name_len parent sd sd_len vol sym lwt"
  "\<lambda>_. RSI_READ_KEY" read_key_valid read_key_ok read_key_body
proof (unfold_locales, goal_cases)
  case (1 E fd a s)
  then show ?case by (simp add: rsi_respond_read_key_def checked_request split: prod.splits)
next
  case (2 req s r E fd a)
  then show ?case by (simp add: rsi_respond_read_key_def checked_request split: prod.splits)
next
  case (3 E req s r a fd)
  obtain name nl parent sd sl vol sym lwt where a: "a = (name, nl, parent, sd, sl, vol, sym, lwt)"
    by (metis prod.exhaust)
  have valid: "lpf_valid (mem s) name nl" "lpf_valid (mem s) sd sl"
    using 3(5) by (simp_all add: a read_key_valid_def)
  note lpf = valid [THEN encodes_lpf [OF 3(1)]]
  show ?case
  proof (cases "parent = NULL")
    case True
    then show ?thesis
      unfolding a prod.case rsi_respond_read_key_def checked_request(3) [OF 3(2-4)]
      by (simp add: replies_EINVAL read_key_ok_def)
  next
    case False
    then obtain bs where bs: "read_bytes (mem s) parent 16 = Some bs"
      using 3(5) by (auto simp: a read_key_valid_def)
    have "sends E fd r s (read_key_ok E a) [] (read_key_body (mem s) a)
        (\<lambda>w. bindM (FrameWriter_lpf E name nl w) (\<lambda>x. case x of Err e \<Rightarrow> fail_errno e | Ok w \<Rightarrow>
          bindM (from_raw_parts parent 16) (\<lambda>parent. bindM (FrameWriter_raw E (bytes_of parent) w) (\<lambda>w.
          bindM (FrameWriter_lpf E sd sl w) (\<lambda>x. case x of Err e \<Rightarrow> fail_errno e | Ok w \<Rightarrow>
          bindM (tryM (ret (require_bool vol)) (\<lambda>_. ret (require_bool sym))) (\<lambda>x. case x of Err e \<Rightarrow> fail_errno e
            | Ok _ \<Rightarrow> bindM (FrameWriter_u8 E vol w) (\<lambda>w. bindM (FrameWriter_u8 E sym w) (\<lambda>w.
              bindM (FrameWriter_u64 E lwt w) (\<lambda>w. finish_and_send E fd r w)))))))))"
      unfolding put_defs require_flags_eq
      by (rule sends_cong [OF sends_enc [OF lpf(1) sends_slice [OF bs sends_raw [OF 3(1) sends_enc [OF lpf(2)
          sends_guard [OF sends_raw [OF 3(1) sends_raw [OF 3(1) sends_raw [OF 3(1) sends_finish]]]]]]]]])
        (use False in \<open>simp_all add: a bs read_key_ok_def read_key_body_def\<close>)
    with False show ?thesis
      unfolding a prod.case rsi_respond_read_key_def checked_request(3) [OF 3(2-4)] if_not_P [OF False]
      by (intro replies_new_writer [OF 3(1)]) auto
  qed
qed

section \<open>QUERY_VALUES\<close>

type_synonym query_values_args = "(ptr \<times> u32 \<times> rsi_value_entry list) \<times> (ptr \<times> u32 \<times> rsi_blanket_entry list)"

definition query_values_valid :: "heap \<Rightarrow> query_values_args \<Rightarrow> bool" where
  "query_values_valid h = (\<lambda>(vs, bs). value_block_valid h vs \<and> blanket_block_valid h bs)"

definition query_values_ok :: "env \<Rightarrow> query_values_args \<Rightarrow> bool" where
  "query_values_ok E = (\<lambda>((p, c, es), (q, d, bs)). nonnull p c \<and> nonnull q d \<and>
     list_all value_entry_ok es \<and> list_all blanket_entry_ok bs)"

definition query_values_body :: "heap \<Rightarrow> query_values_args \<Rightarrow> u8 list" where
  "query_values_body h = (\<lambda>((p, c, es), (q, d, bs)).
     block_bytes (value_bytes h) es @ block_bytes (blanket_bytes h) bs)"

lemma require_arrays_decides: "wp (tryM (ret (require_array p c)) (\<lambda>_. ret (require_array q d)))
    (decides E (nonnull p c \<and> nonnull q d) s) s"
  by (simp add: wp_simps require_array_eq decides_def)

interpretation query_values: payload_responder
  "\<lambda>E fd req ((p, c, es), (q, d, bs)). rsi_respond_query_values E fd req p c q d"
  "\<lambda>_. RSI_QUERY_VALUES" query_values_valid query_values_ok query_values_body
proof (unfold_locales, goal_cases)
  case (1 E fd a s)
  then show ?case by (simp add: rsi_respond_query_values_def checked_request split: prod.splits)
next
  case (2 req s r E fd a)
  then show ?case by (simp add: rsi_respond_query_values_def checked_request split: prod.splits)
next
  case (3 E req s r a fd)
  obtain p c es q d bs where a: "a = ((p, c, es), (q, d, bs))" by (metis prod.exhaust)
  have valid: "value_block_valid (mem s) (p, c, es)" "blanket_block_valid (mem s) (q, d, bs)"
    using 3(5) by (simp_all add: a query_values_valid_def)
  have len: "of_nat (length es) = c" "of_nat (length bs) = d"
    using valid by (auto simp: value_block_valid_def blanket_block_valid_def dest: carray_length)
  have ok: "query_values_ok E a \<longleftrightarrow> (nonnull p c \<and> nonnull q d) \<and> list_all value_entry_ok es \<and> list_all blanket_entry_ok bs"
    by (simp add: a query_values_ok_def)
  have "sends E fd r s (list_all value_entry_ok es \<and> list_all blanket_entry_ok bs) [] (query_values_body (mem s) a)
      (\<lambda>w. bindM (FrameWriter_u32 E c w) (\<lambda>w. bindM (encode_values E p c w) (\<lambda>x. case x of Err e \<Rightarrow> fail_errno e
        | Ok w \<Rightarrow> bindM (FrameWriter_u32 E d w) (\<lambda>w. bindM (encode_blankets E q d w) (\<lambda>x. case x of
            Err e \<Rightarrow> fail_errno e | Ok w \<Rightarrow> finish_and_send E fd r w)))))" if "nonnull p c \<and> nonnull q d"
    unfolding put_defs
    by (rule sends_cong [OF sends_raw [OF 3(1) sends_enc [OF encodes_values [OF 3(1) valid(1)]
        sends_raw [OF 3(1) sends_enc [OF encodes_blankets [OF 3(1) valid(2)] sends_finish]]]]])
      (use that in \<open>simp_all add: a query_values_body_def block_bytes_def len\<close>)
  then show ?case
    unfolding ok unfolding a prod.case rsi_respond_query_values_def checked_request(3) [OF 3(2-4)]
    by (intro replies_checked [OF require_arrays_decides] replies_new_writer [OF 3(1)]) simp_all
qed

end
