(* ===== verification/Wire.thy ===== *)
theory Wire
  imports Reply
begin

text \<open>
  The response payloads as an abstract grammar with a reader. A \<open>codec\<close> is a pair of
  functions where reading undoes writing, whatever follows; codecs are closed under pairing
  and \<open>[count][elements]\<close> blocks. The payload of every responder is an instance, so that what
  the library sends can be read back unambiguously.
\<close>

section \<open>Codecs\<close>

type_synonym 'a reader = "u8 list \<Rightarrow> ('a \<times> u8 list) option"

locale codec =
  fixes enc :: "'a \<Rightarrow> u8 list"
    and dec :: "'a reader"
    and wf :: "'a \<Rightarrow> bool"
  assumes dec_enc_rest: "wf x \<Longrightarrow> dec (enc x @ rest) = Some (x, rest)"
begin

lemma dec_enc: "wf x \<Longrightarrow> dec (enc x) = Some (x, [])"
  using dec_enc_rest [of x "[]"] by simp

text \<open>Unique readability: no encoding is a proper prefix of another.\<close>

lemma enc_inject:
  assumes "wf x" "wf y" "enc x @ r = enc y @ r'"
  shows "x = y \<and> r = r'"
proof -
  have "Some (x, r) = dec (enc x @ r)" using dec_enc_rest [OF assms(1)] by simp
  also have "\<dots> = Some (y, r')" unfolding assms(3) by (rule dec_enc_rest [OF assms(2)])
  finally show ?thesis by simp
qed

end

subsection \<open>Readers\<close>

definition dec_word :: "nat \<Rightarrow> ('w::len word) reader" where
  "dec_word n bs = (if n \<le> length bs then Some (from_le (take n bs), drop n bs) else None)"

definition dec_guid :: "guid reader" where
  "dec_guid bs = (if 16 \<le> length bs then Some (guid_of (take 16 bs), drop 16 bs) else None)"

definition dec_pair :: "'a reader \<Rightarrow> 'b reader \<Rightarrow> ('a \<times> 'b) reader" where
  "dec_pair d1 d2 bs = Option.bind (d1 bs) (\<lambda>(x, r). Option.bind (d2 r) (\<lambda>(y, r'). Some ((x, y), r')))"

definition enc_pair :: "('a \<Rightarrow> u8 list) \<Rightarrow> ('b \<Rightarrow> u8 list) \<Rightarrow> 'a \<times> 'b \<Rightarrow> u8 list" where
  "enc_pair e1 e2 = (\<lambda>(x, y). e1 x @ e2 y)"

definition wf_pair :: "('a \<Rightarrow> bool) \<Rightarrow> ('b \<Rightarrow> bool) \<Rightarrow> 'a \<times> 'b \<Rightarrow> bool" where
  "wf_pair w1 w2 = (\<lambda>(x, y). w1 x \<and> w2 y)"

definition enc_lpf :: "u8 list \<Rightarrow> u8 list" where
  "enc_lpf bs = le32 (of_nat (length bs)) @ bs"

definition wf_lpf :: "u8 list \<Rightarrow> bool" where
  "wf_lpf bs \<longleftrightarrow> length bs < 2 ^ 32"

definition dec_lpf :: "u8 list reader" where
  "dec_lpf bs = Option.bind (dec_word 4 bs) (\<lambda>(n :: u32, r).
     if unat n \<le> length r then Some (take (unat n) r, drop (unat n) r) else None)"

fun dec_many :: "'a reader \<Rightarrow> nat \<Rightarrow> 'a list reader" where
  "dec_many d 0 bs = Some ([], bs)"
| "dec_many d (Suc n) bs = Option.bind (d bs) (\<lambda>(x, r). Option.bind (dec_many d n r) (\<lambda>(xs, r'). Some (x # xs, r')))"

definition dec_block :: "'a reader \<Rightarrow> 'a list reader" where
  "dec_block d bs = Option.bind (dec_word 4 bs) (\<lambda>(n :: u32, r). dec_many d (unat n) r)"

definition wf_block :: "('a \<Rightarrow> bool) \<Rightarrow> 'a list \<Rightarrow> bool" where
  "wf_block w xs \<longleftrightarrow> length xs < 2 ^ 32 \<and> list_all w xs"

subsection \<open>Building codecs\<close>

lemma dec_word_le:
  "LENGTH('w) \<le> 8 * n \<Longrightarrow> dec_word n (le_bytes n (x :: 'w::len word) @ rest) = Some (x, rest)"
  by (simp add: dec_word_def from_le_le_bytes)

lemma codec_word: "LENGTH('w) \<le> 8 * n \<Longrightarrow> codec (le_bytes n :: 'w::len word \<Rightarrow> u8 list) (dec_word n) (\<lambda>_. True)"
  by unfold_locales (simp add: dec_word_le)

lemma codec_guid: "codec guid_bytes dec_guid (\<lambda>_. True)"
  by unfold_locales (simp add: dec_guid_def)

lemma codec_lpf: "codec enc_lpf dec_lpf wf_lpf"
  by unfold_locales (simp add: enc_lpf_def dec_lpf_def wf_lpf_def dec_word_le unat_of_nat_u32)

lemma codec_pair:
  assumes "codec e1 d1 w1" "codec e2 d2 w2"
  shows "codec (enc_pair e1 e2) (dec_pair d1 d2) (wf_pair w1 w2)"
  using codec.dec_enc_rest [OF assms(1)] codec.dec_enc_rest [OF assms(2)]
  by unfold_locales (auto simp: enc_pair_def dec_pair_def wf_pair_def)

lemma dec_many_concat:
  assumes "codec e d w"
  shows "list_all w xs \<Longrightarrow> dec_many d (length xs) (concat (map e xs) @ rest) = Some (xs, rest)"
  by (induction xs) (simp_all add: codec.dec_enc_rest [OF assms])

lemma codec_block:
  assumes "codec e d w"
  shows "codec (block_bytes e) (dec_block d) (wf_block w)"
  by unfold_locales
    (simp add: block_bytes_def dec_block_def wf_block_def dec_word_le unat_of_nat_u32 dec_many_concat [OF assms])

section \<open>The wire values\<close>

text \<open>
  A path entry on the wire: layer, target type, target GUID, sequence. Key metadata: GUID,
  security descriptor, the two flags, last write time. A child: its name and entries. A value:
  name, layer, type, data, sequence. A blanket tombstone: layer, sequence.
\<close>

type_synonym wire_path = "u8 list \<times> u8 \<times> guid \<times> u64"
type_synonym wire_metadata = "guid \<times> u8 list \<times> u8 \<times> u8 \<times> u64"
type_synonym wire_child = "u8 list \<times> wire_path list"
type_synonym wire_value = "u8 list \<times> u8 list \<times> u32 \<times> u8 list \<times> u64"
type_synonym wire_blanket = "u8 list \<times> u64"

abbreviation enc_u8 :: "u8 \<Rightarrow> u8 list" where "enc_u8 \<equiv> le_bytes 1"

definition enc_path :: "wire_path \<Rightarrow> u8 list" where
  "enc_path = enc_pair enc_lpf (enc_pair enc_u8 (enc_pair guid_bytes (le_bytes 8)))"
definition dec_path :: "wire_path reader" where
  "dec_path = dec_pair dec_lpf (dec_pair (dec_word 1) (dec_pair dec_guid (dec_word 8)))"
definition wf_path :: "wire_path \<Rightarrow> bool" where
  "wf_path = wf_pair wf_lpf (wf_pair (\<lambda>_. True) (wf_pair (\<lambda>_. True) (\<lambda>_. True)))"

definition enc_metadata :: "wire_metadata \<Rightarrow> u8 list" where
  "enc_metadata = enc_pair guid_bytes (enc_pair enc_lpf (enc_pair enc_u8 (enc_pair enc_u8 (le_bytes 8))))"
definition dec_metadata :: "wire_metadata reader" where
  "dec_metadata = dec_pair dec_guid (dec_pair dec_lpf (dec_pair (dec_word 1) (dec_pair (dec_word 1) (dec_word 8))))"
definition wf_metadata :: "wire_metadata \<Rightarrow> bool" where
  "wf_metadata = wf_pair (\<lambda>_. True) (wf_pair wf_lpf (wf_pair (\<lambda>_. True) (wf_pair (\<lambda>_. True) (\<lambda>_. True))))"

definition enc_child :: "wire_child \<Rightarrow> u8 list" where
  "enc_child = enc_pair enc_lpf (block_bytes enc_path)"
definition dec_child :: "wire_child reader" where
  "dec_child = dec_pair dec_lpf (dec_block dec_path)"
definition wf_child :: "wire_child \<Rightarrow> bool" where
  "wf_child = wf_pair wf_lpf (wf_block wf_path)"

definition enc_value :: "wire_value \<Rightarrow> u8 list" where
  "enc_value = enc_pair enc_lpf (enc_pair enc_lpf (enc_pair (le_bytes 4) (enc_pair enc_lpf (le_bytes 8))))"
definition dec_value :: "wire_value reader" where
  "dec_value = dec_pair dec_lpf (dec_pair dec_lpf (dec_pair (dec_word 4) (dec_pair dec_lpf (dec_word 8))))"
definition wf_value :: "wire_value \<Rightarrow> bool" where
  "wf_value = wf_pair wf_lpf (wf_pair wf_lpf (wf_pair (\<lambda>_. True) (wf_pair wf_lpf (\<lambda>_. True))))"

definition enc_blanket :: "wire_blanket \<Rightarrow> u8 list" where
  "enc_blanket = enc_pair enc_lpf (le_bytes 8)"
definition dec_blanket :: "wire_blanket reader" where
  "dec_blanket = dec_pair dec_lpf (dec_word 8)"
definition wf_blanket :: "wire_blanket \<Rightarrow> bool" where
  "wf_blanket = wf_pair wf_lpf (\<lambda>_. True)"

lemma codec_u8: "codec enc_u8 (dec_word 1) (\<lambda>_. True)"
  by (rule codec_word) simp

lemma codec_u32: "codec (le_bytes 4 :: u32 \<Rightarrow> u8 list) (dec_word 4) (\<lambda>_. True)"
  by (rule codec_word) simp

lemma codec_u64: "codec (le_bytes 8 :: u64 \<Rightarrow> u8 list) (dec_word 8) (\<lambda>_. True)"
  by (rule codec_word) simp

lemmas codec_intros = codec_u8 codec_u32 codec_u64 codec_guid codec_lpf codec_pair codec_block

interpretation path: codec enc_path dec_path wf_path
  unfolding enc_path_def dec_path_def wf_path_def by (intro codec_intros)

interpretation metadata: codec enc_metadata dec_metadata wf_metadata
  unfolding enc_metadata_def dec_metadata_def wf_metadata_def by (intro codec_intros)

interpretation child: codec enc_child dec_child wf_child
  unfolding enc_child_def dec_child_def wf_child_def by (intro codec_intros path.codec_axioms)

interpretation vals: codec enc_value dec_value wf_value
  unfolding enc_value_def dec_value_def wf_value_def by (intro codec_intros)

interpretation blanket: codec enc_blanket dec_blanket wf_blanket
  unfolding enc_blanket_def dec_blanket_def wf_blanket_def by (intro codec_intros)

section \<open>From the caller's structs to wire values\<close>

definition lpf_view :: "heap \<Rightarrow> ptr \<Rightarrow> u32 \<Rightarrow> u8 list" where
  "lpf_view h p len = (if len = 0 then [] else the (read_bytes h p (unat len)))"

definition path_view :: "heap \<Rightarrow> rsi_path_entry \<Rightarrow> wire_path" where
  "path_view h e = (lpf_view h (pe_layer e) (pe_layer_len e), pe_target_type e, pe_target_guid e, pe_sequence e)"

definition metadata_view :: "heap \<Rightarrow> rsi_key_metadata \<Rightarrow> wire_metadata" where
  "metadata_view h m = (km_guid m, lpf_view h (km_sd m) (km_sd_len m), km_volatile_key m, km_symlink m,
     km_last_write_time m)"

definition child_view :: "heap \<Rightarrow> rsi_child_entry \<times> rsi_path_entry list \<Rightarrow> wire_child" where
  "child_view h = (\<lambda>(c, es). (lpf_view h (ch_child_name c) (ch_child_name_len c), map (path_view h) es))"

definition value_view :: "heap \<Rightarrow> rsi_value_entry \<Rightarrow> wire_value" where
  "value_view h e = (lpf_view h (ve_value_name e) (ve_value_name_len e),
     lpf_view h (ve_layer_name e) (ve_layer_name_len e), ve_value_type e,
     lpf_view h (ve_data e) (ve_data_len e), ve_sequence e)"

definition blanket_view :: "heap \<Rightarrow> rsi_blanket_entry \<Rightarrow> wire_blanket" where
  "blanket_view h b = (lpf_view h (be_layer_name b) (be_layer_name_len b), be_sequence b)"

text \<open>A readable, non-NULL field is the length-prefixed encoding of the bytes it designates.\<close>

lemma lpf_view_enc:
  assumes "lpf_valid h p len" "nonnull p len"
  shows "lpf_bytes h p len = enc_lpf (lpf_view h p len)" "wf_lpf (lpf_view h p len)"
proof -
  have "length (lpf_view h p len) = unat len"
    using assms by (auto simp: lpf_view_def lpf_valid_def nonnull_def dest: read_bytes_length)
  then show "lpf_bytes h p len = enc_lpf (lpf_view h p len)" "wf_lpf (lpf_view h p len)"
    by (auto simp: lpf_bytes_def enc_lpf_def wf_lpf_def lpf_view_def)
qed

lemma le_bytes_1: "le_bytes (Suc 0) (x :: u8) = [x]"
  by (simp add: le_bytes_def)

lemmas enc_defs = enc_path_def enc_metadata_def enc_child_def enc_value_def enc_blanket_def enc_pair_def le_bytes_1
lemmas wf_defs = wf_path_def wf_metadata_def wf_child_def wf_value_def wf_blanket_def wf_pair_def

lemma path_view_enc:
  "lpf_valid h (pe_layer e) (pe_layer_len e) \<Longrightarrow> path_entry_ok E e \<Longrightarrow>
    path_entry_bytes h e = enc_path (path_view h e) \<and> wf_path (path_view h e)"
  by (simp add: path_entry_bytes_def path_view_def path_entry_ok_def enc_defs wf_defs lpf_view_enc)

lemma metadata_view_enc:
  "lpf_valid h (km_sd m) (km_sd_len m) \<Longrightarrow> metadata_entry_ok m \<Longrightarrow>
    metadata_bytes h m = enc_metadata (metadata_view h m) \<and> wf_metadata (metadata_view h m)"
  by (simp add: metadata_bytes_def metadata_view_def metadata_entry_ok_def enc_defs wf_defs lpf_view_enc)

lemma value_view_enc:
  "lpf_valid h (ve_value_name e) (ve_value_name_len e) \<Longrightarrow> lpf_valid h (ve_layer_name e) (ve_layer_name_len e) \<Longrightarrow>
    lpf_valid h (ve_data e) (ve_data_len e) \<Longrightarrow> value_entry_ok e \<Longrightarrow>
    value_bytes h e = enc_value (value_view h e) \<and> wf_value (value_view h e)"
  by (simp add: value_bytes_def value_view_def value_entry_ok_def enc_defs wf_defs lpf_view_enc)

lemma blanket_view_enc:
  "lpf_valid h (be_layer_name b) (be_layer_name_len b) \<Longrightarrow> blanket_entry_ok b \<Longrightarrow>
    blanket_bytes h b = enc_blanket (blanket_view h b) \<and> wf_blanket (blanket_view h b)"
  by (simp add: blanket_bytes_def blanket_view_def blanket_entry_ok_def enc_defs wf_defs lpf_view_enc)

text \<open>Blocks of structs are blocks of wire values.\<close>

lemma block_view:
  assumes "\<And>x. x \<in> set xs \<Longrightarrow> f x = e (v x) \<and> w (v x)" "length xs = unat (c :: u32)"
  shows "block_bytes f xs = block_bytes e (map v xs)" "wf_block w (map v xs)"
proof -
  have "map f xs = map (e \<circ> v) xs" using assms(1) by simp
  then show "block_bytes f xs = block_bytes e (map v xs)" by (simp add: block_bytes_def del: map_eq_conv)
  show "wf_block w (map v xs)" using assms by (auto simp: wf_block_def list_all_iff)
qed

lemma path_block_view:
  assumes "path_block_valid h (p, c, es)" "list_all (path_entry_ok E) es"
  shows "block_bytes (path_entry_bytes h) es = block_bytes enc_path (map (path_view h) es)"
    "wf_block wf_path (map (path_view h) es)"
proof -
  have 1: "path_entry_bytes h e = enc_path (path_view h e) \<and> wf_path (path_view h e)" if "e \<in> set es" for e
    using assms that by (intro path_view_enc) (auto simp: path_block_valid_def list_all_iff)
  have 2: "length es = unat c" using assms(1) by (auto simp: path_block_valid_def path_array_def dest: carray_length)
  note block_view [of es "path_entry_bytes h" enc_path "path_view h" wf_path c, OF 1 2]
  then show "block_bytes (path_entry_bytes h) es = block_bytes enc_path (map (path_view h) es)"
    "wf_block wf_path (map (path_view h) es)" by blast+
qed

lemma metadata_block_view:
  assumes "metadata_block_valid h (p, c, ms)" "list_all metadata_entry_ok ms"
  shows "block_bytes (metadata_bytes h) ms = block_bytes enc_metadata (map (metadata_view h) ms)"
    "wf_block wf_metadata (map (metadata_view h) ms)"
proof -
  have 1: "metadata_bytes h m = enc_metadata (metadata_view h m) \<and> wf_metadata (metadata_view h m)" if "m \<in> set ms" for m
    using assms that by (intro metadata_view_enc) (auto simp: metadata_block_valid_def list_all_iff)
  have 2: "length ms = unat c" using assms(1) by (auto simp: metadata_block_valid_def metadata_array_def dest: carray_length)
  note block_view [of ms "metadata_bytes h" enc_metadata "metadata_view h" wf_metadata c, OF 1 2]
  then show "block_bytes (metadata_bytes h) ms = block_bytes enc_metadata (map (metadata_view h) ms)"
    "wf_block wf_metadata (map (metadata_view h) ms)" by blast+
qed

lemma child_view_enc:
  assumes "lpf_valid h (ch_child_name c) (ch_child_name_len c)" "path_block_valid h (ch_entries c, ch_entry_count c, es)"
    and "child_entry_ok E (c, es)"
  shows "child_bytes h (c, es) = enc_child (child_view h (c, es)) \<and> wf_child (child_view h (c, es))"
  using assms path_block_view [OF assms(2), of E]
  by (simp add: child_bytes_def child_view_def child_entry_ok_def enc_child_def enc_pair_def wf_child_def
      wf_pair_def lpf_view_enc)

lemma child_block_view:
  assumes "child_block_valid h (p, n, cs)" "list_all (child_entry_ok E) cs"
  shows "block_bytes (child_bytes h) cs = block_bytes enc_child (map (child_view h) cs)"
    "wf_block wf_child (map (child_view h) cs)"
proof -
  have 1: "child_bytes h x = enc_child (child_view h x) \<and> wf_child (child_view h x)" if "x \<in> set cs" for x
    using assms that child_view_enc [of h "fst x" "snd x" E]
    by (auto simp: child_block_valid_def list_all_iff)
  have 2: "length cs = unat n" using assms(1) by (auto simp: child_block_valid_def child_array_def dest: carray_length)
  note block_view [of cs "child_bytes h" enc_child "child_view h" wf_child n, OF 1 2]
  then show "block_bytes (child_bytes h) cs = block_bytes enc_child (map (child_view h) cs)"
    "wf_block wf_child (map (child_view h) cs)" by blast+
qed

lemma value_block_view:
  assumes "value_block_valid h (p, c, es)" "list_all value_entry_ok es"
  shows "block_bytes (value_bytes h) es = block_bytes enc_value (map (value_view h) es)"
    "wf_block wf_value (map (value_view h) es)"
proof -
  have 1: "value_bytes h e = enc_value (value_view h e) \<and> wf_value (value_view h e)" if "e \<in> set es" for e
    using assms that by (intro value_view_enc) (auto simp: value_block_valid_def list_all_iff)
  have 2: "length es = unat c" using assms(1) by (auto simp: value_block_valid_def dest: carray_length)
  note block_view [of es "value_bytes h" enc_value "value_view h" wf_value c, OF 1 2]
  then show "block_bytes (value_bytes h) es = block_bytes enc_value (map (value_view h) es)"
    "wf_block wf_value (map (value_view h) es)" by blast+
qed

lemma blanket_block_view:
  assumes "blanket_block_valid h (p, c, bs)" "list_all blanket_entry_ok bs"
  shows "block_bytes (blanket_bytes h) bs = block_bytes enc_blanket (map (blanket_view h) bs)"
    "wf_block wf_blanket (map (blanket_view h) bs)"
proof -
  have 1: "blanket_bytes h b = enc_blanket (blanket_view h b) \<and> wf_blanket (blanket_view h b)" if "b \<in> set bs" for b
    using assms that by (intro blanket_view_enc) (auto simp: blanket_block_valid_def list_all_iff)
  have 2: "length bs = unat c" using assms(1) by (auto simp: blanket_block_valid_def dest: carray_length)
  note block_view [of bs "blanket_bytes h" enc_blanket "blanket_view h" wf_blanket c, OF 1 2]
  then show "block_bytes (blanket_bytes h) bs = block_bytes enc_blanket (map (blanket_view h) bs)"
    "wf_block wf_blanket (map (blanket_view h) bs)" by blast+
qed

section \<open>Frames\<close>

text \<open>
  The reader of a response frame: request id, op-code, status and payload, provided the
  length field is the length of the frame.
\<close>

definition dec_frame :: "u8 list \<Rightarrow> (u64 \<times> u16 \<times> u32 \<times> u8 list) option" where
  "dec_frame bs = (case dec_pair (dec_word 4) (dec_pair (dec_word 8) (dec_pair (dec_word 2) (dec_word 4))) bs of
     Some ((n :: u32, rid, op, status), body) \<Rightarrow> if unat n = length bs then Some (rid, op, status, body) else None
   | None \<Rightarrow> None)"

lemma dec_frame_response:
  assumes "18 + length body < 2 ^ 32"
  shows "dec_frame (response_frame rid op status body) = Some (rid, op, status, body)"
proof -
  have "unat (of_nat (18 + length body) :: u32) = 18 + length body"
    using assms by (rule unat_of_nat_u32)
  then show ?thesis
    by (simp add: dec_frame_def dec_pair_def response_frame_def response_header_def dec_word_le del: of_nat_add)
qed

text \<open>A reply is read by reading the frame and then the whole payload.\<close>

definition dec_reply :: "'a reader \<Rightarrow> u8 list \<Rightarrow> (u64 \<times> u16 \<times> u32 \<times> 'a) option" where
  "dec_reply d bs = (case dec_frame bs of
     Some (rid, op, status, body) \<Rightarrow>
       (case d body of Some (x, []) \<Rightarrow> Some (rid, op, status, x) | _ \<Rightarrow> None)
   | None \<Rightarrow> None)"

lemma dec_reply_frame:
  assumes "codec e d w" "w x" "18 + length (e x) < 2 ^ 32"
  shows "dec_reply d (response_frame rid op status (e x)) = Some (rid, op, status, x)"
  using codec.dec_enc [OF assms(1,2)] by (simp add: dec_reply_def dec_frame_response [OF assms(3)])

definition dec_lookup_reply :: "u8 list \<Rightarrow> (u64 \<times> u16 \<times> u32 \<times> wire_path list \<times> wire_metadata list) option" where
  "dec_lookup_reply = dec_reply (dec_pair (dec_block dec_path) (dec_block dec_metadata))"

definition dec_enum_children_reply :: "u8 list \<Rightarrow> (u64 \<times> u16 \<times> u32 \<times> wire_child list \<times> wire_metadata list) option" where
  "dec_enum_children_reply = dec_reply (dec_pair (dec_block dec_child) (dec_block dec_metadata))"

definition dec_delete_layer_reply :: "u8 list \<Rightarrow> (u64 \<times> u16 \<times> u32 \<times> guid list) option" where
  "dec_delete_layer_reply = dec_reply (dec_block dec_guid)"

definition dec_read_key_reply ::
  "u8 list \<Rightarrow> (u64 \<times> u16 \<times> u32 \<times> u8 list \<times> guid \<times> u8 list \<times> u8 \<times> u8 \<times> u64) option" where
  "dec_read_key_reply = dec_reply (dec_pair dec_lpf (dec_pair dec_guid (dec_pair dec_lpf
     (dec_pair (dec_word 1) (dec_pair (dec_word 1) (dec_word 8))))))"

definition dec_query_values_reply :: "u8 list \<Rightarrow> (u64 \<times> u16 \<times> u32 \<times> wire_value list \<times> wire_blanket list) option" where
  "dec_query_values_reply = dec_reply (dec_pair (dec_block dec_value) (dec_block dec_blanket))"

lemma lookup_frame_decodes:
  assumes "lookup_valid h ((p, c, es), (q, d, ms))" "lookup_ok E ((p, c, es), (q, d, ms))"
    and "18 + length (lookup_body h ((p, c, es), (q, d, ms))) < 2 ^ 32"
  shows "dec_lookup_reply (response_frame rid op st (lookup_body h ((p, c, es), (q, d, ms)))) =
    Some (rid, op, st, map (path_view h) es, map (metadata_view h) ms)"
proof -
  have v: "path_block_valid h (p, c, es)" "metadata_block_valid h (q, d, ms)"
    using assms(1) by (simp_all add: lookup_valid_def)
  have ok: "list_all (path_entry_ok E) es" "list_all metadata_entry_ok ms"
    using assms(2) by (simp_all add: lookup_ok_def metadata_covers_def)
  have body: "lookup_body h ((p, c, es), (q, d, ms)) =
      enc_pair (block_bytes enc_path) (block_bytes enc_metadata) (map (path_view h) es, map (metadata_view h) ms)"
    by (simp add: lookup_body_def enc_pair_def path_block_view [OF v(1) ok(1)] metadata_block_view [OF v(2) ok(2)])
  have "codec (enc_pair (block_bytes enc_path) (block_bytes enc_metadata))
      (dec_pair (dec_block dec_path) (dec_block dec_metadata)) (wf_pair (wf_block wf_path) (wf_block wf_metadata))"
    by (intro codec_intros path.codec_axioms metadata.codec_axioms)
  from dec_reply_frame [OF this] assms(3) show ?thesis
    unfolding dec_lookup_reply_def body
    by (simp add: wf_pair_def path_block_view(2) [OF v(1) ok(1)] metadata_block_view(2) [OF v(2) ok(2)])
qed

lemma enum_children_frame_decodes:
  assumes "enum_children_valid h ((p, c, cs), (q, d, ms))" "enum_children_ok E ((p, c, cs), (q, d, ms))"
    and "18 + length (enum_children_body h ((p, c, cs), (q, d, ms))) < 2 ^ 32"
  shows "dec_enum_children_reply (response_frame rid op st (enum_children_body h ((p, c, cs), (q, d, ms)))) =
    Some (rid, op, st, map (child_view h) cs, map (metadata_view h) ms)"
proof -
  have v: "child_block_valid h (p, c, cs)" "metadata_block_valid h (q, d, ms)"
    using assms(1) by (simp_all add: enum_children_valid_def)
  have ok: "list_all (child_entry_ok E) cs" "list_all metadata_entry_ok ms"
    using assms(2) by (simp_all add: enum_children_ok_def metadata_covers_def)
  have body: "enum_children_body h ((p, c, cs), (q, d, ms)) =
      enc_pair (block_bytes enc_child) (block_bytes enc_metadata) (map (child_view h) cs, map (metadata_view h) ms)"
    by (simp add: enum_children_body_def enc_pair_def child_block_view [OF v(1) ok(1)] metadata_block_view [OF v(2) ok(2)])
  have "codec (enc_pair (block_bytes enc_child) (block_bytes enc_metadata))
      (dec_pair (dec_block dec_child) (dec_block dec_metadata)) (wf_pair (wf_block wf_child) (wf_block wf_metadata))"
    by (intro codec_intros child.codec_axioms metadata.codec_axioms)
  from dec_reply_frame [OF this] assms(3) show ?thesis
    unfolding dec_enum_children_reply_def body
    by (simp add: wf_pair_def child_block_view(2) [OF v(1) ok(1)] metadata_block_view(2) [OF v(2) ok(2)])
qed

lemma delete_layer_frame_decodes:
  assumes "length gs = unat c" "18 + length (delete_layer_body h (p, c, gs)) < 2 ^ 32"
  shows "dec_delete_layer_reply (response_frame rid op st (delete_layer_body h (p, c, gs))) = Some (rid, op, st, gs)"
  using dec_reply_frame [OF codec_block [OF codec_guid], of gs rid op st] assms
  by (simp add: dec_delete_layer_reply_def delete_layer_body_def wf_block_def list_all_iff)

lemma read_key_frame_decodes:
  assumes "read_key_valid h (name, nl, parent, sd, sl, vol, lnk, lwt)" "read_key_ok E (name, nl, parent, sd, sl, vol, lnk, lwt)"
    and "18 + length (read_key_body h (name, nl, parent, sd, sl, vol, lnk, lwt)) < 2 ^ 32"
  shows "dec_read_key_reply (response_frame rid op st (read_key_body h (name, nl, parent, sd, sl, vol, lnk, lwt))) =
    Some (rid, op, st, lpf_view h name nl, guid_of (the (read_bytes h parent 16)), lpf_view h sd sl, vol, lnk, lwt)"
proof -
  have lpf: "lpf_valid h name nl" "nonnull name nl" "lpf_valid h sd sl" "nonnull sd sl"
    using assms(1,2) by (simp_all add: read_key_valid_def read_key_ok_def)
  obtain bs where bs: "read_bytes h parent 16 = Some bs" using assms(1,2) by (auto simp: read_key_valid_def read_key_ok_def)
  then have "length bs = 16" by (rule read_bytes_length)
  then have body: "read_key_body h (name, nl, parent, sd, sl, vol, lnk, lwt) =
      enc_pair enc_lpf (enc_pair guid_bytes (enc_pair enc_lpf (enc_pair enc_u8 (enc_pair enc_u8 (le_bytes 8)))))
        (lpf_view h name nl, guid_of bs, lpf_view h sd sl, vol, lnk, lwt)"
    by (simp add: read_key_body_def enc_pair_def bs lpf_view_enc [OF lpf(1,2)] lpf_view_enc [OF lpf(3,4)] le_bytes_1)
  note codec = codec_pair [OF codec_lpf codec_pair [OF codec_guid codec_pair [OF codec_lpf
    codec_pair [OF codec_u8 codec_pair [OF codec_u8 codec_u64]]]]]
  from dec_reply_frame [OF codec] assms(3) show ?thesis
    unfolding dec_read_key_reply_def body bs option.sel
    by (simp add: wf_pair_def lpf_view_enc(2) [OF lpf(1,2)] lpf_view_enc(2) [OF lpf(3,4)])
qed

lemma query_values_frame_decodes:
  assumes "query_values_valid h ((p, c, es), (q, d, bs))" "query_values_ok E ((p, c, es), (q, d, bs))"
    and "18 + length (query_values_body h ((p, c, es), (q, d, bs))) < 2 ^ 32"
  shows "dec_query_values_reply (response_frame rid op st (query_values_body h ((p, c, es), (q, d, bs)))) =
    Some (rid, op, st, map (value_view h) es, map (blanket_view h) bs)"
proof -
  have v: "value_block_valid h (p, c, es)" "blanket_block_valid h (q, d, bs)"
    using assms(1) by (simp_all add: query_values_valid_def)
  have ok: "list_all value_entry_ok es" "list_all blanket_entry_ok bs"
    using assms(2) by (simp_all add: query_values_ok_def)
  have body: "query_values_body h ((p, c, es), (q, d, bs)) =
      enc_pair (block_bytes enc_value) (block_bytes enc_blanket) (map (value_view h) es, map (blanket_view h) bs)"
    by (simp add: query_values_body_def enc_pair_def value_block_view [OF v(1) ok(1)] blanket_block_view [OF v(2) ok(2)])
  have "codec (enc_pair (block_bytes enc_value) (block_bytes enc_blanket))
      (dec_pair (dec_block dec_value) (dec_block dec_blanket)) (wf_pair (wf_block wf_value) (wf_block wf_blanket))"
    by (intro codec_intros vals.codec_axioms blanket.codec_axioms)
  from dec_reply_frame [OF this] assms(3) show ?thesis
    unfolding dec_query_values_reply_def body
    by (simp add: wf_pair_def value_block_view(2) [OF v(1) ok(1)] blanket_block_view(2) [OF v(2) ok(2)])
qed

section \<open>Responders whose frames can be read back\<close>

text \<open>
  A payload responder together with a reader of its frames that recovers the view \<open>view h a\<close>
  of the caller's data.
\<close>

locale readable_responder = payload_responder run op valid ok body
  for run :: "env \<Rightarrow> c_int \<Rightarrow> ptr \<Rightarrow> 'a \<Rightarrow> c_int M" and op valid ok body +
  fixes reader :: "u8 list \<Rightarrow> (u64 \<times> u16 \<times> u32 \<times> 'v) option"
    and view :: "heap \<Rightarrow> 'a \<Rightarrow> 'v"
  assumes reads: "valid h a \<Longrightarrow> ok E a \<Longrightarrow> 18 + length (body h a) < 2 ^ 32 \<Longrightarrow>
    reader (response_frame rid resp_op st (body h a)) = Some (rid, resp_op, st, view h a)"
begin

lemma read_back:
  assumes "try_extend_appends E" "valid (mem s) a" "req \<noteq> NULL \<longrightarrow> mem s req = Some (Request r)"
    and "run E fd req a s = Done 0 s'"
  shows "req \<noteq> NULL \<and> op_code r = ucast (code_of E (op a)) \<and>
    (\<exists>frame sr resp_op. trace s' = trace s @ [(Sys_write fd frame, sr)] \<and> sys_ret sr = int (length frame) \<and>
      rsi_response_op_code E (op_code r) = Some resp_op \<and>
      reader frame = Some (request_id r, resp_op, RSI_OK E, view (mem s) a))"
  using success_sound [OF assms] reads [OF assms(2)] by fastforce

end

interpretation lookup_wire: readable_responder
  "\<lambda>E fd req ((p, c, es), (q, d, ms)). rsi_respond_lookup E fd req p c q d"
  "\<lambda>_. RSI_LOOKUP" lookup_valid lookup_ok lookup_body dec_lookup_reply
  "\<lambda>h ((p, c, es), (q, d, ms)). (map (path_view h) es, map (metadata_view h) ms)"
  by unfold_locales (auto intro: lookup_frame_decodes)

interpretation enum_children_wire: readable_responder
  "\<lambda>E fd req ((p, n, cs), (q, d, ms)). rsi_respond_enum_children E fd req p n q d"
  "\<lambda>_. RSI_ENUM_CHILDREN" enum_children_valid enum_children_ok enum_children_body dec_enum_children_reply
  "\<lambda>h ((p, n, cs), (q, d, ms)). (map (child_view h) cs, map (metadata_view h) ms)"
  by unfold_locales (auto intro: enum_children_frame_decodes)

interpretation read_key_wire: readable_responder
  "\<lambda>E fd req (name, name_len, parent, sd, sd_len, vol, lnk, lwt).
     rsi_respond_read_key E fd req name name_len parent sd sd_len vol lnk lwt"
  "\<lambda>_. RSI_READ_KEY" read_key_valid read_key_ok read_key_body dec_read_key_reply
  "\<lambda>h (name, nl, parent, sd, sl, vol, lnk, lwt).
     (lpf_view h name nl, guid_of (the (read_bytes h parent 16)), lpf_view h sd sl, vol, lnk, lwt)"
  by unfold_locales (auto intro: read_key_frame_decodes)

interpretation query_values_wire: readable_responder
  "\<lambda>E fd req ((p, c, es), (q, d, bs)). rsi_respond_query_values E fd req p c q d"
  "\<lambda>_. RSI_QUERY_VALUES" query_values_valid query_values_ok query_values_body dec_query_values_reply
  "\<lambda>h ((p, c, es), (q, d, bs)). (map (value_view h) es, map (blanket_view h) bs)"
  by unfold_locales (auto intro: query_values_frame_decodes)

interpretation delete_layer_wire: readable_responder
  "\<lambda>E fd req (p, c, gs). rsi_respond_delete_layer E fd req p c"
  "\<lambda>_. RSI_DELETE_LAYER" delete_layer_valid delete_layer_ok delete_layer_body dec_delete_layer_reply
  "\<lambda>h (p, c, gs). gs"
  by unfold_locales (auto intro: delete_layer_frame_decodes simp: delete_layer_valid_def)

end
