(* ===== verification/Respond_Correct.thy ===== *)
theory Respond_Correct
  imports Wire
begin

text \<open>
  Correctness of the responses: each payload responder against its contract, and the frames
  it sends read back by the abstract reader. Example data for the witnesses comes first: one
  memory with a request of each payload-bearing kind, path entries, metadata, a child, a
  value, a blanket tombstone and a GUID array.
\<close>

section \<open>Example memory\<close>

definition ex_guid :: guid where
  "ex_guid = guid_of (replicate 16 0xAB)"

definition ex_req :: "u16 \<Rightarrow> rsi_request" where
  "ex_req op = \<lparr>request_id = 7, txn_id = 3, payload = NULL, payload_len = 0, op_code = op\<rparr>"

definition ex_path1 :: rsi_path_entry where
  "ex_path1 = \<lparr>pe_layer = 0x3000, pe_layer_len = 2, pe_target_type = 0, pe_target_guid = ex_guid, pe_sequence = 5\<rparr>"

definition ex_path2 :: rsi_path_entry where
  "ex_path2 = \<lparr>pe_layer = NULL, pe_layer_len = 0, pe_target_type = 1, pe_target_guid = nil_guid, pe_sequence = 6\<rparr>"

definition ex_meta :: rsi_key_metadata where
  "ex_meta = \<lparr>km_guid = ex_guid, km_sd = 0x3000, km_sd_len = 1, km_volatile_key = 0, km_symlink = 1, km_last_write_time = 9\<rparr>"

definition ex_child :: rsi_child_entry where
  "ex_child = \<lparr>ch_child_name = 0x3000, ch_child_name_len = 2, ch_entries = 0x1000, ch_entry_count = 2\<rparr>"

definition ex_value :: rsi_value_entry where
  "ex_value = \<lparr>ve_value_name = 0x3000, ve_value_name_len = 2, ve_layer_name = NULL, ve_layer_name_len = 0,
     ve_value_type = 1, ve_data = 0x3001, ve_data_len = 1, ve_sequence = 4\<rparr>"

definition ex_blanket :: rsi_blanket_entry where
  "ex_blanket = \<lparr>be_layer_name = 0x3000, be_layer_name_len = 1, be_sequence = 8\<rparr>"

definition ex_rheap :: heap where
  "ex_rheap = (put_bytes (put_bytes Map.empty 0x7000 (replicate 16 0xAB)) 0x3000 [0x61, 0x62])
     (0x100 \<mapsto> Request (ex_req 1), 0x140 \<mapsto> Request (ex_req 17), 0x180 \<mapsto> Request (ex_req 5),
      0x1C0 \<mapsto> Request (ex_req 7), 0x200 \<mapsto> Request (ex_req 10), 0x240 \<mapsto> Request (ex_req 11),
      0x1000 \<mapsto> PathEntry ex_path1, 0x1028 \<mapsto> PathEntry ex_path2, 0x2000 \<mapsto> KeyMetadata ex_meta,
      0x4000 \<mapsto> ChildEntry ex_child, 0x5000 \<mapsto> ValueEntry ex_value, 0x6000 \<mapsto> BlanketEntry ex_blanket)"

definition ex_rworld :: world where
  "ex_rworld = \<lparr>mem = ex_rheap, errno = 0, trace = [], ticks = 0\<rparr>"

lemma ex_rworld_simps [simp]: "mem ex_rworld = ex_rheap" "trace ex_rworld = []"
  by (simp_all add: ex_rworld_def)

lemma ex_req_simps [simp]: "op_code (ex_req c) = c" "request_id (ex_req c) = 7"
  by (simp_all add: ex_req_def)

lemma ex_rheap_cells [simp]:
  "ex_rheap 0x100 = Some (Request (ex_req 1))" "ex_rheap 0x140 = Some (Request (ex_req 17))"
  "ex_rheap 0x180 = Some (Request (ex_req 5))" "ex_rheap 0x1C0 = Some (Request (ex_req 7))"
  "ex_rheap 0x200 = Some (Request (ex_req 10))" "ex_rheap 0x240 = Some (Request (ex_req 11))"
  "ex_rheap 0x1000 = Some (PathEntry ex_path1)" "ex_rheap 0x1028 = Some (PathEntry ex_path2)"
  "ex_rheap 0x2000 = Some (KeyMetadata ex_meta)" "ex_rheap 0x4000 = Some (ChildEntry ex_child)"
  "ex_rheap 0x5000 = Some (ValueEntry ex_value)" "ex_rheap 0x6000 = Some (BlanketEntry ex_blanket)"
  by (simp_all add: ex_rheap_def)

lemma ex_rheap_bytes [simp]:
  "ex_rheap 0x3000 = Some (Byte 0x61)" "ex_rheap 0x3001 = Some (Byte 0x62)"
  by (simp_all add: ex_rheap_def)

lemma ex_rheap_read [simp]:
  "read_bytes ex_rheap 0x3000 2 = Some [0x61, 0x62]" "read_bytes ex_rheap 0x3000 1 = Some [0x61]"
  "read_bytes ex_rheap 0x3000 (Suc 0) = Some [0x61]"
  "read_bytes ex_rheap 0x3001 1 = Some [0x62]" "read_bytes ex_rheap 0x3001 (Suc 0) = Some [0x62]"
  by (simp_all add: numeral_2_eq_2 cell_simps)

lemma ex_guid_read [simp]: "read_bytes ex_rheap 0x7000 16 = Some (replicate 16 0xAB)"
  by code_simp

lemma ex_guid_bytes [simp]: "guid_bytes ex_guid = replicate 16 0xAB"
  by (simp add: ex_guid_def)

lemma ex_guid_nonzero [simp]: "ex_guid \<noteq> nil_guid" "nil_guid \<noteq> ex_guid"
  by (simp_all add: guid_eq_iff ex_guid_def)

lemma ex_env_no_oom: "\<not> may_oom ex_env"
  by (simp add: may_oom_def alloc_refuses_def extend_refuses_def)

lemmas ex_structs = ex_path1_def ex_path2_def ex_meta_def ex_child_def ex_value_def ex_blanket_def

abbreviation ex_lookup_args :: lookup_args where
  "ex_lookup_args \<equiv> ((0x1000, 2, [ex_path1, ex_path2]), (0x2000, 1, [ex_meta]))"

abbreviation ex_enum_args :: enum_children_args where
  "ex_enum_args \<equiv> ((0x4000, 1, [(ex_child, [ex_path1, ex_path2])]), (0x2000, 1, [ex_meta]))"

abbreviation ex_read_key_args :: read_key_args where
  "ex_read_key_args \<equiv> (0x3000, 2, 0x7000, 0x3000, 1, 0, 1, 9)"

abbreviation ex_query_args :: query_values_args where
  "ex_query_args \<equiv> ((0x5000, 1, [ex_value]), (0x6000, 1, [ex_blanket]))"

lemma ex_paths_valid: "path_block_valid ex_rheap (0x1000, 2, [ex_path1, ex_path2])"
  by (simp add: path_block_valid_def path_array_def carray_def array_at_def ptr_add_def sizeof_eqs cell_simps
      lpf_valid_def ex_structs upt_rec)

lemma ex_metas_valid: "metadata_block_valid ex_rheap (0x2000, 1, [ex_meta])"
  by (simp add: metadata_block_valid_def metadata_array_def carray_def array_at_def ptr_add_def cell_simps
      lpf_valid_def ex_structs)

lemma ex_children_valid: "child_block_valid ex_rheap (0x4000, 1, [(ex_child, [ex_path1, ex_path2])])"
  using ex_paths_valid
  by (simp add: child_block_valid_def child_array_def carray_def array_at_def ptr_add_def cell_simps
      lpf_valid_def path_block_valid_def ex_child_def)

lemma ex_lookup_valid: "lookup_valid ex_rheap ex_lookup_args"
  by (simp add: lookup_valid_def ex_paths_valid ex_metas_valid)

lemma ex_enum_valid: "enum_children_valid ex_rheap ex_enum_args"
  by (simp add: enum_children_valid_def ex_children_valid ex_metas_valid)

lemma ex_query_valid: "query_values_valid ex_rheap ex_query_args"
  by (simp add: query_values_valid_def value_block_valid_def blanket_block_valid_def carray_def array_at_def
      ptr_add_def cell_simps lpf_valid_def ex_structs)

lemma ex_read_key_valid: "read_key_valid ex_rheap ex_read_key_args"
  by (simp add: read_key_valid_def lpf_valid_def)

lemma ex_paths_ok: "list_all (path_entry_ok ex_env) [ex_path1, ex_path2]"
  "targets ex_env [ex_path1, ex_path2] = {ex_guid}"
  using targets_append [of ex_env "[ex_path1]" "[ex_path2]"]
  by (auto simp: path_entry_ok_def path_target_ok_def is_guid_target_def nonnull_def ex_structs)

lemma ex_covers: "metadata_covers (0x2000, 1, [ex_meta]) {ex_guid}"
  by (simp add: metadata_covers_def metadata_entry_ok_def flag_ok_def nonnull_def ex_structs)

lemma ex_lookup_ok: "lookup_ok ex_env ex_lookup_args"
  using ex_paths_ok ex_covers by (simp add: lookup_ok_def nonnull_def)

lemma ex_enum_ok: "enum_children_ok ex_env ex_enum_args"
  using ex_paths_ok ex_covers by (simp add: enum_children_ok_def child_entry_ok_def nonnull_def ex_child_def)

lemma ex_read_key_ok: "read_key_ok ex_env ex_read_key_args"
  by (simp add: read_key_ok_def nonnull_def flag_ok_def)

lemma ex_query_ok: "query_values_ok ex_env ex_query_args"
  by (simp add: query_values_ok_def value_entry_ok_def blanket_entry_ok_def nonnull_def ex_structs)

lemma ex_delete_valid: "delete_layer_valid ex_rheap (0x7000, 1, [ex_guid])"
  by (simp add: delete_layer_valid_def)

lemma ex_delete_ok: "delete_layer_ok ex_env (0x7000, 1, [ex_guid])"
  by (simp add: delete_layer_ok_def orphans_ok_def)

lemma ex_delete_length [simp]: "length (delete_layer_body ex_rheap (0x7000, 1, [ex_guid])) = 20"
  by (simp add: delete_layer_body_def block_bytes_def)

lemma ex_body_lengths [simp]:
  "length (lookup_body ex_rheap ex_lookup_args) = 99"
  "length (enum_children_body ex_rheap ex_enum_args) = 109"
  "length (read_key_body ex_rheap ex_read_key_args) = 37"
  "length (query_values_body ex_rheap ex_query_args) = 48"
  by (simp_all add: lookup_body_def enum_children_body_def read_key_body_def query_values_body_def block_bytes_def
      child_bytes_def path_entry_bytes_def metadata_bytes_def value_bytes_def blanket_bytes_def lpf_bytes_def ex_structs)

lemma ex_replies_sent:
  assumes "wp m (replies ex_env fd (ex_req c) True body ex_rworld) ex_rworld"
    and "rsi_response_op_code ex_env c = Some resp_op" "length body < 1000"
  shows "\<exists>s'. m ex_rworld = Done 0 s' \<and> map fst (trace s') = [Sys_write fd (response_frame 7 resp_op 0 body)]"
  using wpD [OF assms(1)] assms(2,3) ex_env_no_oom by (auto simp: replies_def sent_def)

lemma ex_lookup_sent: "\<exists>s'. rsi_respond_lookup ex_env 3 0x100 0x1000 2 0x2000 1 ex_rworld = Done 0 s'"
  using ex_replies_sent [OF lookup.own_request [where E = ex_env and req = "0x100" and s = ex_rworld and r = "ex_req 1"
      and fd = 3 and a = "ex_lookup_args", simplified ex_lookup_ok prod.case]]
  by (auto simp: ex_env_try_extend ex_lookup_valid)

lemma ex_enum_children_sent: "\<exists>s'. rsi_respond_enum_children ex_env 3 0x180 0x4000 1 0x2000 1 ex_rworld = Done 0 s'"
  using ex_replies_sent [OF enum_children.own_request [where E = ex_env and req = "0x180" and s = ex_rworld and r = "ex_req 5"
      and fd = 3 and a = "ex_enum_args", simplified ex_enum_ok prod.case]]
  by (auto simp: ex_env_try_extend ex_enum_valid)

lemma ex_read_key_sent: "\<exists>s'. rsi_respond_read_key ex_env 3 0x1C0 0x3000 2 0x7000 0x3000 1 0 1 9 ex_rworld = Done 0 s'"
  using ex_replies_sent [OF read_key.own_request [where E = ex_env and req = "0x1C0" and s = ex_rworld and r = "ex_req 7"
      and fd = 3 and a = "ex_read_key_args", simplified ex_read_key_ok prod.case]]
  by (auto simp: ex_env_try_extend ex_read_key_valid)

lemma ex_query_values_sent: "\<exists>s'. rsi_respond_query_values ex_env 3 0x200 0x5000 1 0x6000 1 ex_rworld = Done 0 s'"
  using ex_replies_sent [OF query_values.own_request [where E = ex_env and req = "0x200" and s = ex_rworld and r = "ex_req 10"
      and fd = 3 and a = "ex_query_args", simplified ex_query_ok prod.case]]
  by (auto simp: ex_env_try_extend ex_query_valid)

lemma ex_delete_layer_sent: "\<exists>s'. rsi_respond_delete_layer ex_env 3 0x140 0x7000 1 ex_rworld = Done 0 s'"
  using ex_replies_sent [OF delete_layer.own_request [where E = ex_env and req = "0x140" and s = ex_rworld and r = "ex_req 17"
      and fd = 3 and a = "(0x7000, 1, [ex_guid])", simplified ex_delete_ok prod.case]]
  by (auto simp: ex_env_try_extend ex_delete_valid)

lemma ex_views:
  "path_view ex_rheap ex_path1 = ([0x61, 0x62], 0, ex_guid, 5)"
  "path_view ex_rheap ex_path2 = ([], 1, nil_guid, 6)"
  "metadata_view ex_rheap ex_meta = (ex_guid, [0x61], 0, 1, 9)"
  "child_view ex_rheap (ex_child, es) = ([0x61, 0x62], map (path_view ex_rheap) es)"
  "value_view ex_rheap ex_value = ([0x61, 0x62], [], 1, [0x62], 4)"
  "blanket_view ex_rheap ex_blanket = ([0x61], 8)"
  "lpf_view ex_rheap 0x3000 2 = [0x61, 0x62]" "lpf_view ex_rheap 0x3000 1 = [0x61]"
  "guid_of (replicate 16 0xAB) = ex_guid"
  by (simp_all add: path_view_def metadata_view_def child_view_def value_view_def blanket_view_def lpf_view_def
      ex_structs ex_guid_def)

section \<open>The payload responders against their contract\<close>

text \<open>
  Each theorem of this section covers every branch for a request of the right op and for
  arguments that are readable (NULL pointers allowed). The call always returns: when the
  arguments are acceptable it issues one \<open>write\<close> of the complete frame (response header with
  the request's id, the response op-code, status \<open>RSI_OK\<close>, payload), returning 0 iff the
  kernel took all of it, and -1 with \<open>EIO\<close> or the kernel's \<open>errno\<close> otherwise. With no write
  at all it returns -1 with \<open>EINVAL\<close> for unacceptable arguments, \<open>EOVERFLOW\<close> for a frame of
  \<open>2^32\<close> bytes or more, and \<open>ENOMEM\<close> only when the allocator refused.
\<close>

text \<open>
  C3. \<open>rsi_respond_lookup\<close>: acceptable means no NULL array with a nonzero count, every path
  entry with a readable layer and a GUID target or a hidden target with the nil GUID, and
  metadata with boolean flags whose GUIDs are nonzero, pairwise different and exactly the GUIDs
  the path entries name. The payload is the path block followed by the metadata block.
\<close>

theorem rsi_respond_lookup_contract:
  assumes "try_extend_appends E" "req \<noteq> NULL" "mem s req = Some (Request r)"
    and "op_code r = ucast (code_of E RSI_LOOKUP)" "lookup_valid (mem s) ((p, c, es), (q, d, ms))"
  shows "wp (rsi_respond_lookup E fd req p c q d)
    (replies E fd r (lookup_ok E ((p, c, es), (q, d, ms))) (lookup_body (mem s) ((p, c, es), (q, d, ms))) s) s"
  using lookup.own_request [OF assms, of fd] by simp

theorem rsi_respond_lookup_contract_witness:
  "\<exists>s'. rsi_respond_lookup ex_env 3 0x100 0x1000 2 0x2000 1 ex_rworld = Done 0 s' \<and>
    map fst (trace s') = [Sys_write 3 (response_frame 7 0x8001 0 (lookup_body ex_rheap ex_lookup_args))]"
  using rsi_respond_lookup_contract [where E = ex_env and req = "0x100" and s = ex_rworld and r = "ex_req 1"
      and fd = 3 and p = "0x1000" and c = 2 and es = "[ex_path1, ex_path2]" and q = "0x2000" and d = 1 and ms = "[ex_meta]"]
  by (intro ex_replies_sent [where c = 1])
    (simp_all add: ex_env_try_extend ex_lookup_valid ex_lookup_ok)

text \<open>
  C4. \<open>rsi_respond_enum_children\<close>: acceptable means a readable name and acceptable path
  entries for every child, and metadata covering exactly the GUIDs named by the entries of all
  children together. The payload is the child block, each child with its own path block,
  followed by the metadata block.
\<close>

theorem rsi_respond_enum_children_contract:
  assumes "try_extend_appends E" "req \<noteq> NULL" "mem s req = Some (Request r)"
    and "op_code r = ucast (code_of E RSI_ENUM_CHILDREN)" "enum_children_valid (mem s) ((p, n, cs), (q, d, ms))"
  shows "wp (rsi_respond_enum_children E fd req p n q d)
    (replies E fd r (enum_children_ok E ((p, n, cs), (q, d, ms))) (enum_children_body (mem s) ((p, n, cs), (q, d, ms))) s) s"
  using enum_children.own_request [OF assms, of fd] by simp

theorem rsi_respond_enum_children_contract_witness:
  "\<exists>s'. rsi_respond_enum_children ex_env 3 0x180 0x4000 1 0x2000 1 ex_rworld = Done 0 s' \<and>
    map fst (trace s') = [Sys_write 3 (response_frame 7 0x8005 0 (enum_children_body ex_rheap ex_enum_args))]"
  using rsi_respond_enum_children_contract [where E = ex_env and req = "0x180" and s = ex_rworld and r = "ex_req 5"
      and fd = 3 and p = "0x4000" and n = 1 and cs = "[(ex_child, [ex_path1, ex_path2])]" and q = "0x2000" and d = 1 and ms = "[ex_meta]"]
  by (intro ex_replies_sent [where c = 5])
    (simp_all add: ex_env_try_extend ex_enum_valid ex_enum_ok)

text \<open>
  C5. \<open>rsi_respond_read_key\<close>: acceptable means a parent GUID (required even when everything
  else is empty), no NULL name or security descriptor of nonzero length, and boolean flags.
\<close>

theorem rsi_respond_read_key_contract:
  assumes "try_extend_appends E" "req \<noteq> NULL" "mem s req = Some (Request r)"
    and "op_code r = ucast (code_of E RSI_READ_KEY)" "read_key_valid (mem s) (name, nl, parent, sd, sl, vol, lnk, lwt)"
  shows "wp (rsi_respond_read_key E fd req name nl parent sd sl vol lnk lwt)
    (replies E fd r (read_key_ok E (name, nl, parent, sd, sl, vol, lnk, lwt)) (read_key_body (mem s) (name, nl, parent, sd, sl, vol, lnk, lwt)) s) s"
  using read_key.own_request [OF assms, of fd] by simp

theorem rsi_respond_read_key_contract_witness:
  "\<exists>s'. rsi_respond_read_key ex_env 3 0x1C0 0x3000 2 0x7000 0x3000 1 0 1 9 ex_rworld = Done 0 s' \<and>
    map fst (trace s') = [Sys_write 3 (response_frame 7 0x8007 0 (read_key_body ex_rheap ex_read_key_args))]"
  using rsi_respond_read_key_contract [where E = ex_env and req = "0x1C0" and s = ex_rworld and r = "ex_req 7"
      and fd = 3 and name = "0x3000" and nl = 2 and parent = "0x7000" and sd = "0x3000" and sl = 1 and vol = 0 and lnk = 1 and lwt = 9]
  by (intro ex_replies_sent [where c = 7])
    (simp_all add: ex_env_try_extend ex_read_key_valid ex_read_key_ok)

text \<open>
  C6. \<open>rsi_respond_query_values\<close>: acceptable means no NULL array or field with a nonzero
  count or length. The payload is the value block followed by the blanket block.
\<close>

theorem rsi_respond_query_values_contract:
  assumes "try_extend_appends E" "req \<noteq> NULL" "mem s req = Some (Request r)"
    and "op_code r = ucast (code_of E RSI_QUERY_VALUES)" "query_values_valid (mem s) ((p, c, es), (q, d, bs))"
  shows "wp (rsi_respond_query_values E fd req p c q d)
    (replies E fd r (query_values_ok E ((p, c, es), (q, d, bs))) (query_values_body (mem s) ((p, c, es), (q, d, bs))) s) s"
  using query_values.own_request [OF assms, of fd] by simp

theorem rsi_respond_query_values_contract_witness:
  "\<exists>s'. rsi_respond_query_values ex_env 3 0x200 0x5000 1 0x6000 1 ex_rworld = Done 0 s' \<and>
    map fst (trace s') = [Sys_write 3 (response_frame 7 0x800A 0 (query_values_body ex_rheap ex_query_args))]"
  using rsi_respond_query_values_contract [where E = ex_env and req = "0x200" and s = ex_rworld and r = "ex_req 10"
      and fd = 3 and p = "0x5000" and c = 1 and es = "[ex_value]" and q = "0x6000" and d = 1 and bs = "[ex_blanket]"]
  by (intro ex_replies_sent [where c = 10])
    (simp_all add: ex_env_try_extend ex_query_valid ex_query_ok)

text \<open>
  C7. \<open>rsi_respond_delete_layer\<close>: acceptable means that the orphaned GUIDs are nonzero and
  pairwise different and the array not NULL unless empty. The GUIDs are sent in the caller's
  order, not in the sorted order used for the check.
\<close>

theorem rsi_respond_delete_layer_contract:
  assumes "try_extend_appends E" "req \<noteq> NULL" "mem s req = Some (Request r)"
    and "op_code r = ucast (code_of E RSI_DELETE_LAYER)" "delete_layer_valid (mem s) (p, c, gs)"
  shows "wp (rsi_respond_delete_layer E fd req p c)
    (replies E fd r (delete_layer_ok E (p, c, gs)) (delete_layer_body (mem s) (p, c, gs)) s) s"
  using delete_layer.own_request [OF assms, of fd] by simp

theorem rsi_respond_delete_layer_contract_witness:
  "\<exists>s'. rsi_respond_delete_layer ex_env 3 0x140 0x7000 1 ex_rworld = Done 0 s' \<and>
    map fst (trace s') = [Sys_write 3 (response_frame 7 0x8011 0 (delete_layer_body ex_rheap (0x7000, 1, [ex_guid])))]"
  using rsi_respond_delete_layer_contract [where E = ex_env and req = "0x140" and s = ex_rworld and r = "ex_req 17"
      and fd = 3 and p = "0x7000" and c = 1 and gs = "[ex_guid]"]
  by (intro ex_replies_sent [where c = 17])
    (simp_all add: ex_env_try_extend ex_delete_valid ex_delete_ok)

section \<open>What was sent can be read back\<close>

text \<open>
  The theorems of this section start from a call that returned 0 and conclude that the request
  was of the right op and that exactly one frame was written, all of it accepted by the kernel,
  from which the abstract reader recovers the request id, the response op-code, \<open>RSI_OK\<close> and
  the caller's data.
\<close>

text \<open>
  C8. A successful \<open>rsi_respond_lookup\<close> has sent a frame from which the path entries and the metadata are read back
  exactly as the caller passed them.
\<close>

theorem rsi_respond_lookup_roundtrip:
  assumes "try_extend_appends E" "lookup_valid (mem s) ((p, c, es), (q, d, ms))"
    and "req \<noteq> NULL \<longrightarrow> mem s req = Some (Request r)"
    and "rsi_respond_lookup E fd req p c q d s = Done 0 s'"
  shows "req \<noteq> NULL \<and> op_code r = ucast (code_of E RSI_LOOKUP) \<and>
    (\<exists>frame sr resp_op. trace s' = trace s @ [(Sys_write fd frame, sr)] \<and> sys_ret sr = int (length frame) \<and>
      rsi_response_op_code E (op_code r) = Some resp_op \<and>
      dec_lookup_reply frame = Some (request_id r, resp_op, RSI_OK E,
        map (path_view (mem s)) es, map (metadata_view (mem s)) ms))"
  by (rule lookup_wire.read_back [where a = "((p, c, es), (q, d, ms))", unfolded prod.case, OF assms])

theorem rsi_respond_lookup_roundtrip_witness:
  "\<exists>s' frame sr. rsi_respond_lookup ex_env 3 0x100 0x1000 2 0x2000 1 ex_rworld = Done 0 s' \<and>
    trace s' = [(Sys_write 3 frame, sr)] \<and> dec_lookup_reply frame = Some (7, 0x8001, 0,
      [([0x61, 0x62], 0, ex_guid, 5), ([], 1, nil_guid, 6)], [(ex_guid, [0x61], 0, 1, 9)])"
proof -
  obtain s' where s': "rsi_respond_lookup ex_env 3 0x100 0x1000 2 0x2000 1 ex_rworld = Done 0 s'"
    using ex_lookup_sent by blast
  show ?thesis
    using rsi_respond_lookup_roundtrip [OF ex_env_try_extend, where req = "0x100" and s = ex_rworld
        and r = "ex_req 1" and fd = 3 and s' = s' and p = "0x1000" and c = 2 and es = "[ex_path1, ex_path2]" and q = "0x2000" and d = 1 and ms = "[ex_meta]"] s'
    by (auto simp: ex_lookup_valid ex_views)
qed

text \<open>
  C9. A successful \<open>rsi_respond_enum_children\<close> has sent a frame from which the children, each with its entries, and the metadata are read back
  exactly as the caller passed them.
\<close>

theorem rsi_respond_enum_children_roundtrip:
  assumes "try_extend_appends E" "enum_children_valid (mem s) ((p, n, cs), (q, d, ms))"
    and "req \<noteq> NULL \<longrightarrow> mem s req = Some (Request r)"
    and "rsi_respond_enum_children E fd req p n q d s = Done 0 s'"
  shows "req \<noteq> NULL \<and> op_code r = ucast (code_of E RSI_ENUM_CHILDREN) \<and>
    (\<exists>frame sr resp_op. trace s' = trace s @ [(Sys_write fd frame, sr)] \<and> sys_ret sr = int (length frame) \<and>
      rsi_response_op_code E (op_code r) = Some resp_op \<and>
      dec_enum_children_reply frame = Some (request_id r, resp_op, RSI_OK E,
        map (child_view (mem s)) cs, map (metadata_view (mem s)) ms))"
  by (rule enum_children_wire.read_back [where a = "((p, n, cs), (q, d, ms))", unfolded prod.case, OF assms])

theorem rsi_respond_enum_children_roundtrip_witness:
  "\<exists>s' frame sr. rsi_respond_enum_children ex_env 3 0x180 0x4000 1 0x2000 1 ex_rworld = Done 0 s' \<and>
    trace s' = [(Sys_write 3 frame, sr)] \<and> dec_enum_children_reply frame = Some (7, 0x8005, 0,
      [([0x61, 0x62], [([0x61, 0x62], 0, ex_guid, 5), ([], 1, nil_guid, 6)])], [(ex_guid, [0x61], 0, 1, 9)])"
proof -
  obtain s' where s': "rsi_respond_enum_children ex_env 3 0x180 0x4000 1 0x2000 1 ex_rworld = Done 0 s'"
    using ex_enum_children_sent by blast
  show ?thesis
    using rsi_respond_enum_children_roundtrip [OF ex_env_try_extend, where req = "0x180" and s = ex_rworld
        and r = "ex_req 5" and fd = 3 and s' = s' and p = "0x4000" and n = 1 and cs = "[(ex_child, [ex_path1, ex_path2])]" and q = "0x2000" and d = 1 and ms = "[ex_meta]"] s'
    by (auto simp: ex_enum_valid ex_views)
qed

text \<open>
  C10. A successful \<open>rsi_respond_read_key\<close> has sent a frame from which the name, parent GUID, security descriptor, flags and time are read back
  exactly as the caller passed them.
\<close>

theorem rsi_respond_read_key_roundtrip:
  assumes "try_extend_appends E" "read_key_valid (mem s) (name, nl, parent, sd, sl, vol, lnk, lwt)"
    and "req \<noteq> NULL \<longrightarrow> mem s req = Some (Request r)"
    and "rsi_respond_read_key E fd req name nl parent sd sl vol lnk lwt s = Done 0 s'"
  shows "req \<noteq> NULL \<and> op_code r = ucast (code_of E RSI_READ_KEY) \<and>
    (\<exists>frame sr resp_op. trace s' = trace s @ [(Sys_write fd frame, sr)] \<and> sys_ret sr = int (length frame) \<and>
      rsi_response_op_code E (op_code r) = Some resp_op \<and>
      dec_read_key_reply frame = Some (request_id r, resp_op, RSI_OK E,
        lpf_view (mem s) name nl, guid_of (the (read_bytes (mem s) parent 16)),
        lpf_view (mem s) sd sl, vol, lnk, lwt))"
  by (rule read_key_wire.read_back [where a = "(name, nl, parent, sd, sl, vol, lnk, lwt)", unfolded prod.case, OF assms])

theorem rsi_respond_read_key_roundtrip_witness:
  "\<exists>s' frame sr. rsi_respond_read_key ex_env 3 0x1C0 0x3000 2 0x7000 0x3000 1 0 1 9 ex_rworld = Done 0 s' \<and>
    trace s' = [(Sys_write 3 frame, sr)] \<and> dec_read_key_reply frame = Some (7, 0x8007, 0,
      [0x61, 0x62], ex_guid, [0x61], 0, 1, 9)"
proof -
  obtain s' where s': "rsi_respond_read_key ex_env 3 0x1C0 0x3000 2 0x7000 0x3000 1 0 1 9 ex_rworld = Done 0 s'"
    using ex_read_key_sent by blast
  show ?thesis
    using rsi_respond_read_key_roundtrip [OF ex_env_try_extend, where req = "0x1C0" and s = ex_rworld
        and r = "ex_req 7" and fd = 3 and s' = s' and name = "0x3000" and nl = 2 and parent = "0x7000" and sd = "0x3000" and sl = 1 and vol = 0 and lnk = 1 and lwt = 9] s'
    by (auto simp: ex_read_key_valid ex_views)
qed

text \<open>
  C11. A successful \<open>rsi_respond_query_values\<close> has sent a frame from which the values and the blanket tombstones are read back
  exactly as the caller passed them.
\<close>

theorem rsi_respond_query_values_roundtrip:
  assumes "try_extend_appends E" "query_values_valid (mem s) ((p, c, es), (q, d, bs))"
    and "req \<noteq> NULL \<longrightarrow> mem s req = Some (Request r)"
    and "rsi_respond_query_values E fd req p c q d s = Done 0 s'"
  shows "req \<noteq> NULL \<and> op_code r = ucast (code_of E RSI_QUERY_VALUES) \<and>
    (\<exists>frame sr resp_op. trace s' = trace s @ [(Sys_write fd frame, sr)] \<and> sys_ret sr = int (length frame) \<and>
      rsi_response_op_code E (op_code r) = Some resp_op \<and>
      dec_query_values_reply frame = Some (request_id r, resp_op, RSI_OK E,
        map (value_view (mem s)) es, map (blanket_view (mem s)) bs))"
  by (rule query_values_wire.read_back [where a = "((p, c, es), (q, d, bs))", unfolded prod.case, OF assms])

theorem rsi_respond_query_values_roundtrip_witness:
  "\<exists>s' frame sr. rsi_respond_query_values ex_env 3 0x200 0x5000 1 0x6000 1 ex_rworld = Done 0 s' \<and>
    trace s' = [(Sys_write 3 frame, sr)] \<and> dec_query_values_reply frame = Some (7, 0x800A, 0,
      [([0x61, 0x62], [], 1, [0x62], 4)], [([0x61], 8)])"
proof -
  obtain s' where s': "rsi_respond_query_values ex_env 3 0x200 0x5000 1 0x6000 1 ex_rworld = Done 0 s'"
    using ex_query_values_sent by blast
  show ?thesis
    using rsi_respond_query_values_roundtrip [OF ex_env_try_extend, where req = "0x200" and s = ex_rworld
        and r = "ex_req 10" and fd = 3 and s' = s' and p = "0x5000" and c = 1 and es = "[ex_value]" and q = "0x6000" and d = 1 and bs = "[ex_blanket]"] s'
    by (auto simp: ex_query_valid ex_views)
qed

text \<open>
  C12. A successful \<open>rsi_respond_delete_layer\<close> has sent a frame from which the orphaned GUIDs are read back
  exactly as the caller passed them.
\<close>

theorem rsi_respond_delete_layer_roundtrip:
  assumes "try_extend_appends E" "delete_layer_valid (mem s) (p, c, gs)"
    and "req \<noteq> NULL \<longrightarrow> mem s req = Some (Request r)"
    and "rsi_respond_delete_layer E fd req p c s = Done 0 s'"
  shows "req \<noteq> NULL \<and> op_code r = ucast (code_of E RSI_DELETE_LAYER) \<and>
    (\<exists>frame sr resp_op. trace s' = trace s @ [(Sys_write fd frame, sr)] \<and> sys_ret sr = int (length frame) \<and>
      rsi_response_op_code E (op_code r) = Some resp_op \<and>
      dec_delete_layer_reply frame = Some (request_id r, resp_op, RSI_OK E,
        gs))"
  by (rule delete_layer_wire.read_back [where a = "(p, c, gs)", unfolded prod.case, OF assms])

theorem rsi_respond_delete_layer_roundtrip_witness:
  "\<exists>s' frame sr. rsi_respond_delete_layer ex_env 3 0x140 0x7000 1 ex_rworld = Done 0 s' \<and>
    trace s' = [(Sys_write 3 frame, sr)] \<and> dec_delete_layer_reply frame = Some (7, 0x8011, 0,
      [ex_guid])"
proof -
  obtain s' where s': "rsi_respond_delete_layer ex_env 3 0x140 0x7000 1 ex_rworld = Done 0 s'"
    using ex_delete_layer_sent by blast
  show ?thesis
    using rsi_respond_delete_layer_roundtrip [OF ex_env_try_extend, where req = "0x140" and s = ex_rworld
        and r = "ex_req 17" and fd = 3 and s' = s' and p = "0x7000" and c = 1 and gs = "[ex_guid]"] s'
    by (auto simp: ex_delete_valid ex_views)
qed

end
