(* ===== verification/Frame_Correct.thy ===== *)
theory Frame_Correct
  imports Respond_Correct "HOL-Library.Multiset"
begin

text \<open>
  Correctness of the parts the responders are made of: the GUID checks, the sticky
  out-of-memory writer, back-patching, sending, and the status-only response.
\<close>

section \<open>GUID sets\<close>

text \<open>
  \<open>validate_unique_nonzero_guids\<close> sorts the slice in place without changing its contents
  and accepts exactly the slices without the nil GUID and without repetitions: looking at the
  first element and at adjacent pairs of the sorted slice is enough.
\<close>

theorem validate_unique_nonzero_guids_exact:
  "mset (fst (validate_unique_nonzero_guids gs)) = mset gs \<and> sorted (fst (validate_unique_nonzero_guids gs)) \<and>
   snd (validate_unique_nonzero_guids gs) = (if distinct gs \<and> nil_guid \<notin> set gs then Ok () else Err EINVAL)"
  by (simp add: validate_guids_eq sort_unstable_def)

text \<open>
  \<open>validate_lookup_metadata\<close> decides exact coverage: over readable arrays it always
  returns and changes nothing; it accepts iff every path target is well-formed, the metadata
  GUIDs are nonzero and pairwise different, and the set of metadata GUIDs equals the set of
  GUIDs the path entries target (repeated targets count once). It answers \<open>EINVAL\<close> otherwise,
  and \<open>ENOMEM\<close> only if the allocator refuses a request.
\<close>

theorem validate_lookup_metadata_exact:
  assumes "path_array (mem s) (p, c, es)" "metadata_array (mem s) (q, d, ms)"
  shows "wp (validate_lookup_metadata E p c q d)
    (decides E (nonnull p c \<and> nonnull q d \<and> list_all (path_target_ok E) es \<and> distinct (map km_guid ms) \<and>
       nil_guid \<notin> km_guid ` set ms \<and> km_guid ` set ms = targets E es) s) s"
  using lookup_cover.check_decides [where s = s and i = "(p, c, es)" and j = "(q, d, ms)" and E = E] assms
  by (simp add: paths_ok_def metadata_ok_def conj_ac)

lemma wp_decides_Ok:
  assumes "wp m (decides ex_env ok ex_rworld) ex_rworld"
  shows "\<exists>r s'. m ex_rworld = Done r s' \<and> r = (if ok then Ok () else Err EINVAL)"
proof -
  obtain r s' where r: "m ex_rworld = Done r s'" and d: "decides ex_env ok ex_rworld r s'"
    using wpD [OF assms] by blast
  from d have "r = (if ok then Ok () else Err EINVAL)"
    using ex_env_no_oom by (cases r) (auto simp: decides_def may_oom_def)
  with r show ?thesis by blast
qed

theorem validate_lookup_metadata_exact_witness:
  "\<exists>s'. validate_lookup_metadata ex_env 0x1000 2 0x2000 1 ex_rworld = Done (Ok ()) s'"
  using wp_decides_Ok [OF validate_lookup_metadata_exact [where s = ex_rworld and p = "0x1000" and c = 2
      and es = "[ex_path1, ex_path2]" and q = "0x2000" and d = 1 and ms = "[ex_meta]"]]
    ex_paths_valid ex_metas_valid ex_paths_ok ex_covers
  by (simp add: path_block_valid_def metadata_block_valid_def metadata_covers_def path_entry_ok_def nonnull_def)

text \<open>
  C20. \<open>validate_enum_children_metadata\<close> decides exact coverage over all children: it accepts
  iff all path targets of all children are well-formed, no child has a NULL entry array with a
  nonzero count, and the (nonzero, pairwise different) metadata GUIDs are exactly the union of
  the GUIDs targeted by the entries of the children.
\<close>

theorem validate_enum_children_metadata_exact:
  assumes "child_array (mem s) (p, n, cs)" "metadata_array (mem s) (q, d, ms)"
  shows "wp (validate_enum_children_metadata E p n q d)
    (decides E (nonnull p n \<and> nonnull q d \<and>
       list_all (\<lambda>(c, es). nonnull (ch_entries c) (ch_entry_count c) \<and> list_all (path_target_ok E) es) cs \<and>
       distinct (map km_guid ms) \<and> nil_guid \<notin> km_guid ` set ms \<and>
       km_guid ` set ms = (\<Union>(c, es) \<in> set cs. targets E es)) s) s"
proof -
  have "targets E (concat (map snd cs)) = (\<Union>(c, es) \<in> set cs. targets E es)"
    by (induction cs) (auto simp: targets_append)
  moreover have "children_ok E (p, n, cs) \<longleftrightarrow> nonnull p n \<and>
      list_all (\<lambda>(c, es). nonnull (ch_entries c) (ch_entry_count c) \<and> list_all (path_target_ok E) es) cs"
    by (simp add: children_ok_def child_ok_def paths_ok_def list_all_iff case_prod_beta)
  ultimately show ?thesis
    using enum_cover.check_decides [where s = s and i = "(p, n, cs)" and j = "(q, d, ms)" and E = E] assms
    by (simp add: metadata_ok_def conj_ac)
qed

theorem validate_enum_children_metadata_exact_witness:
  "\<exists>s'. validate_enum_children_metadata ex_env 0x4000 1 0x2000 1 ex_rworld = Done (Ok ()) s'"
  using wp_decides_Ok [OF validate_enum_children_metadata_exact [where s = ex_rworld and p = "0x4000" and n = 1
      and cs = "[(ex_child, [ex_path1, ex_path2])]" and q = "0x2000" and d = 1 and ms = "[ex_meta]"]]
    ex_children_valid ex_metas_valid ex_paths_ok ex_covers
  by (simp add: child_block_valid_def metadata_block_valid_def metadata_covers_def path_entry_ok_def nonnull_def
      ex_child_def)

text \<open>
  C37. \<open>orphaned_guid_bytes\<close> over a readable array of \<open>count\<close> 16-byte GUIDs returns exactly
  the caller's bytes, unsorted, iff the GUIDs are nonzero and pairwise different and the array
  is not NULL (or empty). The multiplication \<open>count * 16\<close> never overflows on a 64-bit target,
  so its \<open>EOVERFLOW\<close> branch is never taken.
\<close>

theorem orphaned_guid_bytes_exact:
  assumes "length gs = unat c" and "p \<noteq> NULL \<longrightarrow> read_bytes (mem s) p (16 * unat c) = Some (concat (map guid_bytes gs))"
  shows "wp (orphaned_guid_bytes E p c) (\<lambda>r s'. quiet s s' \<and> (case r of
      Ok bs \<Rightarrow> orphans_ok p gs \<and> bs = concat (map guid_bytes gs)
    | Err e \<Rightarrow> e = EINVAL \<and> \<not> orphans_ok p gs \<or> e = ENOMEM \<and> alloc_refuses E)) s"
  using assms by (rule orphaned_guid_bytes_decides)

theorem orphaned_guid_bytes_exact_witness:
  "\<exists>s'. orphaned_guid_bytes ex_env 0x7000 1 ex_rworld = Done (Ok (replicate 16 0xAB)) s'"
  using wpD [OF orphaned_guid_bytes_exact [where gs = "[ex_guid]" and c = 1 and p = "0x7000" and s = ex_rworld
      and E = ex_env]] ex_env_no_oom
  by (fastforce simp: orphans_ok_def may_oom_def split: result.splits)

section \<open>The frame writer\<close>

text \<open>
  The sticky out-of-memory writer: after any sequence of writes to a fresh writer, either
  the buffer is exactly the concatenation of everything written, in order, or \<open>oom\<close> is set,
  which only a refused allocation can do. Writing never aborts and has no other effect.
\<close>

theorem frame_writer_all_or_oom:
  assumes "try_extend_appends E"
  shows "wp (byte_sink.put_all (FrameWriter_raw E) bs FrameWriter_new)
    (\<lambda>w s'. quiet s s' \<and> (if oom w then extend_refuses E else buf w = concat bs)) s"
proof -
  have "written E FrameWriter_new []" by (simp add: written_iff FrameWriter_new_def)
  from writer.put_all_holds [OF assms this, of bs s] show ?thesis by (simp add: written_iff)
qed

theorem frame_writer_all_or_oom_witness:
  "\<exists>w s'. byte_sink.put_all (FrameWriter_raw ex_env) [[1], [2, 3]] FrameWriter_new ex_rworld = Done w s' \<and>
    buf w = [1, 2, 3]"
  using wpD [OF frame_writer_all_or_oom [OF ex_env_try_extend, of "[[1], [2, 3]]" ex_rworld]] ex_env_no_oom
  by (auto simp: may_oom_def split: if_splits)

text \<open>
  Once \<open>oom\<close> is latched it stays: no sequence of further writes changes the writer, so
  \<open>finish_response\<close> of a request with a known op-code reports \<open>ENOMEM\<close> and no frame with a
  hole is ever produced.
\<close>

theorem frame_writer_oom_sticky:
  assumes "oom w" "rsi_response_op_code E (op_code req) = Some resp_op"
  shows "wp (bindM (byte_sink.put_all (FrameWriter_raw E) bs w) (finish_response E req))
    (\<lambda>r s'. quiet s s' \<and> r = Err ENOMEM) s"
  unfolding wp_bindM
  by (rule wp_mono [OF writer.put_all_dead [OF assms(1)]])
    (use assms in \<open>auto simp: finish_response_def wp_simps\<close>)

theorem frame_writer_oom_sticky_witness:
  "\<exists>s'. bindM (byte_sink.put_all (FrameWriter_raw ex_env) [[1]] \<lparr>buf = [9], oom = True\<rparr>)
     (finish_response ex_env (ex_req 1)) ex_rworld = Done (Err ENOMEM) s'"
  using wpD [OF frame_writer_oom_sticky [where E = ex_env and w = "\<lparr>buf = [9], oom = True\<rparr>"
      and req = "ex_req 1" and bs = "[[1]]" and s = ex_rworld]]
  by auto

text \<open>
  C36. \<open>finish_response\<close> back-patches exactly the 18 placeholder bytes: from a writer that holds
  the placeholder and a payload it makes the frame whose length field, request id, response
  op-code and status can be read back and whose payload is untouched. A frame of \<open>2^32\<close> bytes
  or more is \<open>EOVERFLOW\<close>, an unknown op-code \<open>EINVAL\<close>, a latched \<open>oom\<close> \<open>ENOMEM\<close>; the slice
  writes never panic.
\<close>

theorem finish_response_exact:
  assumes "\<not> oom w \<longrightarrow> buf w = replicate 18 0 @ body"
  shows "finish_response E req w s = Done
    (case rsi_response_op_code E (op_code req) of
       None \<Rightarrow> Err EINVAL
     | Some resp_op \<Rightarrow>
         if oom w then Err ENOMEM
         else if 18 + length body < 2 ^ 32
         then Ok (response_frame (request_id req) resp_op (RSI_OK E) body)
         else Err EOVERFLOW) s \<and>
    (18 + length body < 2 ^ 32 \<longrightarrow> (\<forall>resp_op.
       dec_frame (response_frame (request_id req) resp_op (RSI_OK E) body) = Some (request_id req, resp_op, RSI_OK E, body)))"
  using dec_frame_response [of body] by (simp add: finish_response_eq [OF assms] ret_def del: of_nat_add)

theorem finish_response_exact_witness:
  "\<exists>frame. finish_response ex_env (ex_req 1) \<lparr>buf = replicate 18 0 @ [5], oom = False\<rparr> ex_rworld = Done (Ok frame) ex_rworld \<and>
    dec_frame frame = Some (7, 0x8001, 0, [5])"
  using finish_response_exact [where w = "\<lparr>buf = replicate 18 0 @ [5], oom = False\<rparr>" and body = "[5]" and E = ex_env
      and req = "ex_req 1" and s = ex_rworld]
  by simp

section \<open>Sending\<close>

text \<open>
  \<open>write_frame\<close> makes exactly one \<open>write\<close>, of the whole frame. It returns 0 iff the
  kernel took every byte; a short write is -1 with \<open>EIO\<close>, an error is -1 with the kernel's
  \<open>errno\<close>. There is no retry.
\<close>

theorem write_frame_exact:
  "write_frame E fd frame s =
    (let sr = kernel E (trace s) (Sys_write fd frame);
         s' = s\<lparr>errno := sys_errno sr, trace := trace s @ [(Sys_write fd frame, sr)]\<rparr> in
     if sys_ret sr < 0 then Done (-1) s'
     else if sys_ret sr = int (length frame) then Done 0 s'
     else Done (-1) (s'\<lparr>errno := EIO\<rparr>))"
  by (auto simp: write_frame_def bindM_def syscall_def Let_def ret_def fail_errno_eq)

text \<open>
  \<open>rsi_write_response\<close> hands exactly the \<open>len\<close> bytes at \<open>frame\<close> to one \<open>write\<close> and
  returns its result unchanged, short writes included.
\<close>

theorem rsi_write_response_exact:
  assumes "read_bytes (mem s) frame (unat len) = Some bs"
  shows "\<exists>s'. rsi_write_response E fd frame len s = Done (sys_ret (kernel E (trace s) (Sys_write fd bs))) s' \<and>
    mem s' = mem s \<and> length bs = unat len \<and>
    trace s' = trace s @ [(Sys_write fd bs, kernel E (trace s) (Sys_write fd bs))]"
  using assms read_bytes_length [OF assms]
  by (simp add: rsi_write_response_def bindM_def from_raw_parts_def syscall_def Let_def ret_def)

theorem rsi_write_response_exact_witness:
  "\<exists>s'. rsi_write_response ex_env 3 0x3000 2 ex_rworld = Done 2 s' \<and> map fst (trace s') = [Sys_write 3 [0x61, 0x62]]"
  using rsi_write_response_exact [where s = ex_rworld and frame = "0x3000" and len = 2 and bs = "[0x61, 0x62]"
      and E = ex_env and fd = 3]
  by auto

lemma write_frame_exact_ok: "write_frame ex_env fd frame s = Done 0 (s\<lparr>errno := 0, trace := trace s @
    [(Sys_write fd frame, \<lparr>sys_ret = int (length frame), sys_errno = 0, sys_data = []\<rparr>)]\<rparr>)"
  by (simp add: write_frame_def bindM_def syscall_def Let_def ret_def)

section \<open>Status responses\<close>

text \<open>When a status may be sent for a request: it is known, and not a bare OK for a payload-bearing op.\<close>

definition status_allowed :: "env \<Rightarrow> u16 \<Rightarrow> u32 \<Rightarrow> bool" where
  "status_allowed E op status \<longleftrightarrow> (case parse_rsi_status E status of
     None \<Rightarrow> False
   | Some st \<Rightarrow> st = StatusOk \<longrightarrow> rsi_request_has_status_only_response E op = Some True)"

lemma validate_status_response_eq:
  "validate_status_response E r status = (if status_allowed E (op_code r) status then Ok () else Err EINVAL)"
  by (auto simp: validate_status_response_def status_allowed_def split: option.splits)

lemma respond_status_eq:
  assumes "req \<noteq> NULL" "mem s req = Some (Request r)"
  shows "rsi_respond_status E fd req status s =
    (case rsi_response_op_code E (op_code r) of
       None \<Rightarrow> Done (-1) (s\<lparr>errno := EINVAL\<rparr>)
     | Some resp_op \<Rightarrow>
         if status_allowed E (op_code r) status
         then write_frame E fd (response_frame (request_id r) resp_op status []) s
         else Done (-1) (s\<lparr>errno := EINVAL\<rparr>))"
  using assms
  by (simp add: rsi_respond_status_def validate_status_response_eq build_status_frame_eq bindM_def deref_def
      cell_simps set_errno_def ret_def fail_errno_eq split: option.splits)

text \<open>
  C35. \<open>rsi_respond_status\<close> on any request pointer that is NULL or readable: \<open>EINVAL\<close> with no
  write for a NULL request, an unknown op-code, an unknown status, or \<open>RSI_OK\<close> for an op that
  owes a payload; otherwise exactly one \<open>write\<close> of the 18-byte frame with the request's id,
  the response op-code and the status.
\<close>

theorem rsi_respond_status_total:
  assumes "req \<noteq> NULL \<longrightarrow> mem s req = Some (Request r)"
  shows "rsi_respond_status E fd req status s =
    (if req = NULL then Done (-1) (s\<lparr>errno := EINVAL\<rparr>)
     else (case rsi_response_op_code E (op_code r) of
       None \<Rightarrow> Done (-1) (s\<lparr>errno := EINVAL\<rparr>)
     | Some resp_op \<Rightarrow>
         if status_allowed E (op_code r) status
         then write_frame E fd (response_frame (request_id r) resp_op status []) s
         else Done (-1) (s\<lparr>errno := EINVAL\<rparr>)))"
  using assms respond_status_eq [of req s r]
  by (auto simp: rsi_respond_status_def bindM_def set_errno_def ret_def)

theorem rsi_respond_status_total_witness:
  "rsi_respond_status ex_env 3 0x100 0 ex_rworld = Done (-1) (ex_rworld\<lparr>errno := EINVAL\<rparr>) \<and>
   (\<exists>s'. rsi_respond_status ex_env 3 0x240 0 ex_rworld = Done 0 s')"
proof
  show "rsi_respond_status ex_env 3 0x100 0 ex_rworld = Done (-1) (ex_rworld\<lparr>errno := EINVAL\<rparr>)"
    using rsi_respond_status_total [where s = ex_rworld and req = "0x100" and r = "ex_req 1" and E = ex_env and status = 0]
    by (simp add: status_allowed_def ex_payload_op_def)
  show "\<exists>s'. rsi_respond_status ex_env 3 0x240 0 ex_rworld = Done 0 s'"
    using rsi_respond_status_total [where s = ex_rworld and req = "0x240" and r = "ex_req 11" and E = ex_env and status = 0]
    by (simp add: status_allowed_def ex_payload_op_def write_frame_def bindM_def syscall_def Let_def ret_def)
qed

text \<open>
  The status frame round trip: a successful \<open>rsi_respond_status\<close> has written one frame,
  18 bytes long, from which the reader recovers the request's id, its response op-code and the
  status, with an empty payload; and the status was allowed for the request.
\<close>

theorem rsi_respond_status_roundtrip:
  assumes "req \<noteq> NULL" "mem s req = Some (Request r)"
    and "rsi_respond_status E fd req status s = Done 0 s'"
  shows "status_allowed E (op_code r) status \<and> (\<exists>frame sr resp_op.
    trace s' = trace s @ [(Sys_write fd frame, sr)] \<and> length frame = 18 \<and> sys_ret sr = 18 \<and>
    rsi_response_op_code E (op_code r) = Some resp_op \<and>
    dec_frame frame = Some (request_id r, resp_op, status, []))"
proof -
  from assms(3) obtain resp_op where op: "rsi_response_op_code E (op_code r) = Some resp_op"
    and ok: "status_allowed E (op_code r) status"
    and w: "write_frame E fd (response_frame (request_id r) resp_op status []) s = Done 0 s'"
    by (auto simp: respond_status_eq [OF assms(1,2)] split: option.splits if_splits)
  have "sent E fd (response_frame (request_id r) resp_op status []) s 0 s'"
    using wp_write_frame [of E fd "response_frame (request_id r) resp_op status []" s] w by (simp add: wp_Done)
  with op ok show ?thesis
    using dec_frame_response [of "[]" "request_id r" resp_op status] by (auto simp: sent_def split: if_splits)
qed

theorem rsi_respond_status_roundtrip_witness:
  "\<exists>s' frame sr. rsi_respond_status ex_env 3 0x100 5 ex_rworld = Done 0 s' \<and>
    trace s' = [(Sys_write 3 frame, sr)] \<and> dec_frame frame = Some (7, 0x8001, 5, [])"
proof -
  obtain s' where s': "rsi_respond_status ex_env 3 0x100 5 ex_rworld = Done 0 s'"
    using respond_status_eq [where s = ex_rworld and req = "0x100" and r = "ex_req 1" and E = ex_env and status = 5]
    by (simp add: status_allowed_def write_frame_def bindM_def syscall_def Let_def ret_def)
  from rsi_respond_status_roundtrip [OF _ _ s', of "ex_req 1"] s' show ?thesis by auto
qed

end
