(* ===== verification/Protocol.thy ===== *)
theory Protocol
  imports Request_Correct Frame_Correct
begin

text \<open>
  The library as one protocol endpoint: the five payload responders as one operation on a
  value of type \<open>reply\<close>, and the facts that connect decoding a request with answering it.
\<close>

section \<open>Replies\<close>

datatype reply =
    Reply_lookup lookup_args
  | Reply_delete_layer delete_layer_args
  | Reply_enum_children enum_children_args
  | Reply_read_key read_key_args
  | Reply_query_values query_values_args

fun reply_op :: "reply \<Rightarrow> rsi_op" where
  "reply_op (Reply_lookup _) = RSI_LOOKUP"
| "reply_op (Reply_delete_layer _) = RSI_DELETE_LAYER"
| "reply_op (Reply_enum_children _) = RSI_ENUM_CHILDREN"
| "reply_op (Reply_read_key _) = RSI_READ_KEY"
| "reply_op (Reply_query_values _) = RSI_QUERY_VALUES"

text \<open>The exported function a reply is passed to.\<close>

fun respond :: "env \<Rightarrow> c_int \<Rightarrow> ptr \<Rightarrow> reply \<Rightarrow> c_int M" where
  "respond E fd req (Reply_lookup ((p, c, es), (q, d, ms))) = rsi_respond_lookup E fd req p c q d"
| "respond E fd req (Reply_delete_layer (p, c, gs)) = rsi_respond_delete_layer E fd req p c"
| "respond E fd req (Reply_enum_children ((p, n, cs), (q, d, ms))) = rsi_respond_enum_children E fd req p n q d"
| "respond E fd req (Reply_read_key (name, name_len, parent, sd, sd_len, vol, lnk, lwt)) =
     rsi_respond_read_key E fd req name name_len parent sd sd_len vol lnk lwt"
| "respond E fd req (Reply_query_values ((p, c, es), (q, d, bs))) = rsi_respond_query_values E fd req p c q d"

fun reply_valid :: "heap \<Rightarrow> reply \<Rightarrow> bool" where
  "reply_valid h (Reply_lookup a) = lookup_valid h a"
| "reply_valid h (Reply_delete_layer a) = delete_layer_valid h a"
| "reply_valid h (Reply_enum_children a) = enum_children_valid h a"
| "reply_valid h (Reply_read_key a) = read_key_valid h a"
| "reply_valid h (Reply_query_values a) = query_values_valid h a"

fun reply_ok :: "env \<Rightarrow> reply \<Rightarrow> bool" where
  "reply_ok E (Reply_lookup a) = lookup_ok E a"
| "reply_ok E (Reply_delete_layer a) = delete_layer_ok E a"
| "reply_ok E (Reply_enum_children a) = enum_children_ok E a"
| "reply_ok E (Reply_read_key a) = read_key_ok E a"
| "reply_ok E (Reply_query_values a) = query_values_ok E a"

fun reply_body :: "heap \<Rightarrow> reply \<Rightarrow> u8 list" where
  "reply_body h (Reply_lookup a) = lookup_body h a"
| "reply_body h (Reply_delete_layer a) = delete_layer_body h a"
| "reply_body h (Reply_enum_children a) = enum_children_body h a"
| "reply_body h (Reply_read_key a) = read_key_body h a"
| "reply_body h (Reply_query_values a) = query_values_body h a"

lemma respond_dispatch:
  "respond E fd req (Reply_lookup a) = (\<lambda>((p, c, es), (q, d, ms)). rsi_respond_lookup E fd req p c q d) a"
  "respond E fd req (Reply_delete_layer b) = (\<lambda>(p, c, gs). rsi_respond_delete_layer E fd req p c) b"
  "respond E fd req (Reply_enum_children x) = (\<lambda>((p, n, cs), (q, d, ms)). rsi_respond_enum_children E fd req p n q d) x"
  "respond E fd req (Reply_read_key y) = (\<lambda>(name, name_len, parent, sd, sd_len, vol, lnk, lwt).
     rsi_respond_read_key E fd req name name_len parent sd sd_len vol lnk lwt) y"
  "respond E fd req (Reply_query_values z) = (\<lambda>((p, c, es), (q, d, bs)). rsi_respond_query_values E fd req p c q d) z"
  by (simp_all split: prod.splits)

interpretation any: payload_responder respond reply_op reply_valid reply_ok reply_body
proof (unfold_locales, goal_cases)
  case (1 E fd a s)
  show ?case
    using lookup.null_request delete_layer.null_request enum_children.null_request read_key.null_request
      query_values.null_request by (cases a) (simp_all only: respond_dispatch)
next
  case (2 req s r E a fd)
  show ?case
    using 2 lookup.other_request [OF 2(1,2)] delete_layer.other_request [OF 2(1,2)]
      enum_children.other_request [OF 2(1,2)] read_key.other_request [OF 2(1,2)]
      query_values.other_request [OF 2(1,2)]
    by (cases a) (simp_all only: respond_dispatch reply_op.simps)
next
  case (3 E req s r a fd)
  show ?case
    using 3(4,5) lookup.own_request [OF 3(1-3)] delete_layer.own_request [OF 3(1-3)]
      enum_children.own_request [OF 3(1-3)] read_key.own_request [OF 3(1-3)]
      query_values.own_request [OF 3(1-3)]
    by (cases a) (simp_all only: respond_dispatch reply_op.simps reply_valid.simps reply_ok.simps reply_body.simps)
qed

section \<open>Parsed and decoded requests\<close>

text \<open>What a parse leaves behind.\<close>

lemma parse_stores:
  assumes "req \<noteq> NULL" "mem s req = Some (Request old)" "frame \<noteq> NULL" "read_bytes (mem s) frame (unat len) = Some bs"
    and "parse_rsi_request_header E \<lparr>as_ptr = frame, bytes_of = bs\<rparr> = Some h"
    and "rsi_parse_request E frame len req s \<noteq> Undef"
  shows "\<exists>r. request_id r = hd_request_id h \<and> op_code r = hd_op_code h \<and>
    rsi_parse_request E frame len req s = Done 0 (s\<lparr>mem := (mem s)(req \<mapsto> Request r)\<rparr>)"
  by (rule exI [of _ "\<lparr>request_id = hd_request_id h, txn_id = hd_txn_id h,
        payload = frame + ucast (RSI_REQUEST_HEADER_SIZE E),
        payload_len = ucast (len - ucast (RSI_REQUEST_HEADER_SIZE E)), op_code = hd_op_code h\<rparr>"])
    (use assms rsi_parse_request_eq [of req s old frame len bs E] in \<open>simp split: if_splits\<close>)

lemma parse_accepted:
  assumes "req \<noteq> NULL" "mem s req = Some (Request old)" "frame \<noteq> NULL" "read_bytes (mem s) frame (unat len) = Some bs"
    and "rsi_parse_request E frame len req s = Done 0 s1"
  shows "\<exists>h r. parse_rsi_request_header E \<lparr>as_ptr = frame, bytes_of = bs\<rparr> = Some h \<and>
    request_id r = hd_request_id h \<and> op_code r = hd_op_code h \<and> s1 = s\<lparr>mem := (mem s)(req \<mapsto> Request r)\<rparr>"
proof -
  have "parse_rsi_request_header E \<lparr>as_ptr = frame, bytes_of = bs\<rparr> \<noteq> None"
    using rsi_parse_request_eq [of req s old frame len bs E] assms by (auto split: option.splits)
  moreover have "rsi_parse_request E frame len req s \<noteq> Undef" using assms(5) by simp
  ultimately show ?thesis using parse_stores [OF assms(1-4), of E] assms(5) by fastforce
qed

lemma out_typed_not_Request: "\<not> out_typed op (Request r)"
  by (cases op) (auto simp: cell_simps)

text \<open>A decoder that returns 0 has seen a request of its own op, and leaves that request in place.\<close>

lemma decoded_request_op:
  assumes "request_valid (mem s) req" "mem s req = Some (Request r)"
    and "out = NULL \<or> (\<exists>c. mem s out = Some c \<and> out_typed op c)" "decoder_of op E req out s = Done 0 s'"
  shows "req \<noteq> NULL" "op_code r = ucast (code_of E op)" "mem s' req = Some (Request r)" "trace s' = trace s"
proof -
  obtain p c' where p: "payload_for E (mem s) req (code_of E op) = Some p" and out: "out \<noteq> NULL"
    and s': "s' = s\<lparr>mem := (mem s)(out \<mapsto> c')\<rparr>"
    using decoders.dec_eq [OF assms(1,3), of E] assms(4) by (auto split: option.splits if_splits)
  from p assms(2) show "req \<noteq> NULL" "op_code r = ucast (code_of E op)"
    by (auto simp: payload_for_def split: if_splits option.splits)
  have "out \<noteq> req" using assms(2,3) out out_typed_not_Request by auto
  with assms(2) s' show "mem s' req = Some (Request r)" "trace s' = trace s" by simp_all
qed

end
