(* ===== verification/Source.thy ===== *)
theory Source
  imports Machine Instances
begin

text \<open>
  Becoming a registry source (\<open>src/src/source.rs\<close>): the device path, marshalling of a hive
  and \<open>rsi_register\<close>, from the argument check to the clean-up after a refused registration.
  The vector of marshalled entries lives in memory at the address its allocation got; the
  \<open>ioctl\<close> event carries the memory the kernel reads through \<open>hives_ptr\<close>.
\<close>

section \<open>The operations\<close>

definition DEVICE :: "u8 list" where
  "DEVICE = map of_char ''/dev/pkm_registry'' @ [0]"

definition marshal_hive :: "rsi_hive \<Rightarrow> reg_src_hive_entry" where
  "marshal_hive h = \<lparr>re_name_len = hv_name_len h, re_pad0 = 0, re_name_ptr = hv_name h,
     re_root_guid = hv_root_guid h, re_flags = hv_flags h, re_pad1 = 0,
     re_scope_guid = hv_scope_guid h\<rparr>"

definition marshal_hives :: "env \<Rightarrow> ptr \<Rightarrow> u32 \<Rightarrow> reg_src_hive_entry vec \<Rightarrow> reg_src_hive_entry vec M" where
  "marshal_hives E hives count entries =
     for_each [0..<unat count] (\<lambda>i entries.
       bindM (deref as_Hive (ptr_add sizeof_rsi_hive hives i)) (\<lambda>h.
       vec_push E entries (marshal_hive h))) entries"

text \<open>The memory the kernel sees during the call: the caller's, and the vector's buffer.\<close>

definition entries_mem :: "env \<Rightarrow> heap \<Rightarrow> reg_src_hive_entry vec \<Rightarrow> heap" where
  "entries_mem E h entries =
     put_cells HiveEntry sizeof_reg_src_hive_entry h (vec_as_ptr E entries) (items entries)"

definition ioctl_register ::
  "env \<Rightarrow> c_int \<Rightarrow> reg_src_register_args \<Rightarrow> reg_src_hive_entry vec \<Rightarrow> sysret M" where
  "ioctl_register E fd args entries =
     (\<lambda>s. syscall E (Sys_ioctl fd (REG_SRC_REGISTER E) args (entries_mem E (mem s) entries)) s)"

definition rsi_register :: "env \<Rightarrow> ptr \<Rightarrow> u32 \<Rightarrow> u64 \<Rightarrow> c_int M" where
  "rsi_register E hives count max_sequence =
     (if count = 0 \<or> hives = NULL then bindM (set_errno EINVAL) (\<lambda>_. ret (-1))
      else bindM (try_reserve E (unat count) vec_new) (\<lambda>r. case r of
          None \<Rightarrow> bindM (set_errno ENOMEM) (\<lambda>_. ret (-1))
        | Some entries \<Rightarrow>
            bindM (marshal_hives E hives count entries) (\<lambda>entries.
            let args = \<lparr>ra_hive_count = count, ra_pad = 0, ra_max_sequence = max_sequence,
                  ra_hives_ptr = vec_as_ptr E entries\<rparr> in
            bindM (syscall E (Sys_open DEVICE (O_RDWR OR O_CLOEXEC))) (\<lambda>opened.
            let fd = sys_ret opened in
            if fd < 0 then ret (-1)
            else bindM (ioctl_register E fd args entries) (\<lambda>r.
              if sys_ret r < 0 then
                bindM get_errno (\<lambda>err.
                bindM (syscall E (Sys_close fd)) (\<lambda>_.
                bindM (set_errno err) (\<lambda>_. ret (-1))))
              else ret fd)))))"

section \<open>What it does\<close>

definition hive_array :: "heap \<Rightarrow> ptr \<Rightarrow> u32 \<Rightarrow> rsi_hive list \<Rightarrow> bool" where
  "hive_array h p c hs \<longleftrightarrow> carray as_Hive sizeof_rsi_hive h p c hs"

lemma wp_marshal_hives:
  assumes "hive_array (mem s) p c hs" "nonnull p c" "items v = []" "unat c \<le> capacity v"
    and "Q (v\<lparr>items := map marshal_hive hs\<rparr>) s"
  shows "wp (marshal_hives E p c v) Q s"
  unfolding marshal_hives_def
proof (rule wp_for_each [where I = "\<lambda>i v' s'. s' = s \<and> v' = v\<lparr>items := map marshal_hive (take i hs)\<rparr>"])
  have arr: "carray as_Hive sizeof_rsi_hive (mem s) p c hs" using assms(1) by (simp add: hive_array_def)
  note len = carray_length [OF arr]
  show "s = s \<and> v = v\<lparr>items := map marshal_hive (take 0 hs)\<rparr>" using assms(3) by simp
  fix i and v' :: "reg_src_hive_entry vec" and s'
  assume i: "i < unat c" and inv: "s' = s \<and> v' = v\<lparr>items := map marshal_hive (take i hs)\<rparr>"
  then show "wp (bindM (deref as_Hive (ptr_add sizeof_rsi_hive p i)) (\<lambda>h. vec_push E v' (marshal_hive h)))
      (\<lambda>v' s'. s' = s \<and> v' = v\<lparr>items := map marshal_hive (take (Suc i) hs)\<rparr>) s'"
    using arr len assms(2,4)
    by (simp add: wp_bindM wp_deref_carray wp_vec_push_spare take_Suc_conv_app_nth)
next
  fix v' :: "reg_src_hive_entry vec" and s'
  assume "s' = s \<and> v' = v\<lparr>items := map marshal_hive (take (unat c) hs)\<rparr>"
  with assms(1,5) show "Q v' s'" by (simp add: hive_array_def carray_def)
qed

text \<open>The argument struct and the memory of the registration call made after \<open>t\<close> allocator requests.\<close>

definition register_args :: "env \<Rightarrow> nat \<Rightarrow> u32 \<Rightarrow> u64 \<Rightarrow> reg_src_register_args" where
  "register_args E t count max_sequence =
     \<lparr>ra_hive_count = count, ra_pad = 0, ra_max_sequence = max_sequence, ra_hives_ptr = vec_addr E t\<rparr>"

definition register_mem :: "env \<Rightarrow> nat \<Rightarrow> heap \<Rightarrow> rsi_hive list \<Rightarrow> heap" where
  "register_mem E t h hs =
     put_cells HiveEntry sizeof_reg_src_hive_entry h (vec_addr E t) (map marshal_hive hs)"

text \<open>
  The outcome of a registration attempt whose arguments passed and whose vector was
  allocated: open, register, and close again when the kernel refuses.
\<close>

definition register_outcome :: "env \<Rightarrow> reg_src_register_args \<Rightarrow> heap \<Rightarrow> world \<Rightarrow> c_int outcome" where
  "register_outcome E args h s =
     (let opn = Sys_open DEVICE (O_RDWR OR O_CLOEXEC); o_ret = kernel E (trace s) opn;
          tr1 = trace s @ [(opn, o_ret)]; fd = sys_ret o_ret;
          ctl = Sys_ioctl fd (REG_SRC_REGISTER E) args h; c_ret = kernel E tr1 ctl;
          tr2 = tr1 @ [(ctl, c_ret)];
          cls = Sys_close fd; tr3 = tr2 @ [(cls, kernel E tr2 cls)] in
      if fd < 0 then Done (-1) (s\<lparr>errno := sys_errno o_ret, trace := tr1\<rparr>)
      else if sys_ret c_ret < 0 then Done (-1) (s\<lparr>errno := sys_errno c_ret, trace := tr3\<rparr>)
      else Done fd (s\<lparr>errno := sys_errno c_ret, trace := tr2\<rparr>))"

lemma wp_eqI: "wp m (\<lambda>x s'. Done x s' = r) s \<Longrightarrow> m s = r"
  by (auto simp: wp_iff)

lemma unat_nonzero: "c \<noteq> 0 \<Longrightarrow> 0 < unat (c :: u32)"
  by (simp add: unat_gt_0)

lemma register_guard: "count = 0 \<or> hives = NULL \<Longrightarrow>
    rsi_register E hives count max_sequence s = Done (-1) (s\<lparr>errno := EINVAL\<rparr>)"
  by (auto simp: rsi_register_def bindM_def set_errno_def ret_def)

lemma register_eq:
  assumes "count \<noteq> 0" "hives \<noteq> NULL" "hive_array (mem s) hives count hs"
  shows "rsi_register E hives count max_sequence s =
    (case vec_grow E (ticks s) of
       None \<Rightarrow> Done (-1) (s\<lparr>errno := ENOMEM, ticks := Suc (ticks s)\<rparr>)
     | Some _ \<Rightarrow> register_outcome E (register_args E (ticks s) count max_sequence)
         (register_mem E (ticks s) (mem s) hs) (s\<lparr>ticks := Suc (ticks s)\<rparr>))"
proof (rule wp_eqI, cases "vec_grow E (ticks s)")
  case None
  with assms(1,2) unat_nonzero [of count] show "wp (rsi_register E hives count max_sequence) (\<lambda>x s'. Done x s' =
    (case vec_grow E (ticks s) of
       None \<Rightarrow> Done (-1) (s\<lparr>errno := ENOMEM, ticks := Suc (ticks s)\<rparr>)
     | Some _ \<Rightarrow> register_outcome E (register_args E (ticks s) count max_sequence)
         (register_mem E (ticks s) (mem s) hs) (s\<lparr>ticks := Suc (ticks s)\<rparr>))) s"
    by (simp add: rsi_register_def try_reserve_def vec_new_def wp_simps)
next
  case (Some c)
  note push = wp_marshal_hives [where p = hives and c = count and hs = hs]
  from Some assms unat_nonzero [of count] show "wp (rsi_register E hives count max_sequence) (\<lambda>x s'. Done x s' =
    (case vec_grow E (ticks s) of
       None \<Rightarrow> Done (-1) (s\<lparr>errno := ENOMEM, ticks := Suc (ticks s)\<rparr>)
     | Some _ \<Rightarrow> register_outcome E (register_args E (ticks s) count max_sequence)
         (register_mem E (ticks s) (mem s) hs) (s\<lparr>ticks := Suc (ticks s)\<rparr>))) s"
    unfolding rsi_register_def
    by (auto simp: try_reserve_def vec_new_def wp_simps nonnull_def intro!: push)
      (auto simp: wp_simps Let_def ioctl_register_def wp_def syscall_def bindM_def ret_def get_errno_def
        set_errno_def entries_mem_def vec_as_ptr_def register_outcome_def register_args_def register_mem_def
        split: if_splits)
qed

end
