(* ===== verification/Source_Correct.thy ===== *)
theory Source_Correct
  imports Source
begin

text \<open>
  Correctness of registration: the complete behaviour of \<open>rsi_register\<close>, the accounting of
  file descriptors, and what the kernel finds in memory when it is called.
\<close>

section \<open>Example data\<close>

definition ex_hive :: rsi_hive where
  "ex_hive = \<lparr>hv_name = 0x2000, hv_name_len = 2, hv_flags = 0, hv_root_guid = guid_of (replicate 16 1),
     hv_scope_guid = nil_guid\<rparr>"

definition ex_reg_heap :: heap where
  "ex_reg_heap = (put_bytes Map.empty 0x2000 [0x48, 0x4B])(0x1000 \<mapsto> Hive ex_hive)"

definition ex_reg_world :: world where
  "ex_reg_world = \<lparr>mem = ex_reg_heap, errno = 0, trace = [], ticks = 0\<rparr>"

lemma ex_reg_simps [simp]:
  "mem ex_reg_world = ex_reg_heap" "trace ex_reg_world = []" "ticks ex_reg_world = 0"
  by (simp_all add: ex_reg_world_def)

lemma ex_hive_array: "hive_array ex_reg_heap 0x1000 1 [ex_hive]"
  by (simp add: hive_array_def carray_def array_at_def ptr_add_def ex_reg_heap_def cell_simps)

text \<open>A kernel that opens descriptor 3, refuses the registration with \<open>EPERM\<close> and clobbers \<open>errno\<close> in \<open>close\<close>.\<close>

definition ex_refusing :: env where
  "ex_refusing = ex_env\<lparr>kernel := (\<lambda>tr c. case c of
     Sys_ioctl _ _ _ _ \<Rightarrow> \<lparr>sys_ret = -1, sys_errno = 1, sys_data = []\<rparr> | _ \<Rightarrow> ex_kernel tr c)\<rparr>"

lemma ex_refusing_simps [simp]:
  "vec_grow ex_refusing = (\<lambda>t. Some 4)" "vec_addr ex_refusing = (\<lambda>t. 0x7F0000)"
  "REG_SRC_REGISTER ex_refusing = 1075335680"
  "kernel ex_refusing = (\<lambda>tr c. case c of
     Sys_ioctl _ _ _ _ \<Rightarrow> \<lparr>sys_ret = -1, sys_errno = 1, sys_data = []\<rparr> | _ \<Rightarrow> ex_kernel tr c)"
  by (simp_all add: ex_refusing_def)

section \<open>The behaviour of registration\<close>

text \<open>
  C21. \<open>rsi_register\<close> over a readable hive array always returns. No hives or a NULL array is
  \<open>EINVAL\<close> and a refused allocation \<open>ENOMEM\<close>, both before any system call. Otherwise the
  device is opened; if that fails its \<open>errno\<close> is kept; else one registration call is made;
  if the kernel refuses it, the descriptor is closed and the caller sees the registration's
  \<open>errno\<close> whatever \<open>close\<close> left there; if it succeeds, the descriptor is returned. Memory
  is never changed.
\<close>

theorem rsi_register_total:
  assumes "count \<noteq> 0 \<and> hives \<noteq> NULL \<longrightarrow> hive_array (mem s) hives count hs"
  shows "rsi_register E hives count max_sequence s =
    (if count = 0 \<or> hives = NULL then Done (-1) (s\<lparr>errno := EINVAL\<rparr>)
     else (case vec_grow E (ticks s) of
       None \<Rightarrow> Done (-1) (s\<lparr>errno := ENOMEM, ticks := Suc (ticks s)\<rparr>)
     | Some _ \<Rightarrow> register_outcome E (register_args E (ticks s) count max_sequence)
         (register_mem E (ticks s) (mem s) hs) (s\<lparr>ticks := Suc (ticks s)\<rparr>)))"
  using assms register_guard [of count hives] register_eq [of count hives s hs] by simp

theorem rsi_register_total_witness:
  "\<exists>s'. rsi_register ex_refusing 0x1000 1 9 ex_reg_world = Done (-1) s' \<and> errno s' = 1 \<and>
    length (trace s') = 3 \<and> fst (last (trace s')) = Sys_close 3"
  using rsi_register_total [where E = ex_refusing and s = ex_reg_world and hives = "0x1000" and count = 1
      and max_sequence = 9 and hs = "[ex_hive]"] ex_hive_array
  by (simp add: register_outcome_def Let_def)

section \<open>Descriptors\<close>

text \<open>The descriptors a trace leaves open.\<close>

fun fd_effect :: "syscall \<times> sysret \<Rightarrow> c_int set \<Rightarrow> c_int set" where
  "fd_effect (Sys_open _ _, r) S = (if 0 \<le> sys_ret r then insert (sys_ret r) S else S)"
| "fd_effect (Sys_close fd, r) S = S - {fd}"
| "fd_effect (_, r) S = S"

definition open_fds :: "systrace \<Rightarrow> c_int set" where
  "open_fds tr = fold fd_effect tr {}"

lemma open_fds_append [simp]: "open_fds (tr @ es) = fold fd_effect es (open_fds tr)"
  by (simp add: open_fds_def)

text \<open>
  C22. \<open>rsi_register\<close> leaks no descriptor: provided \<open>open\<close> returns a descriptor that was not
  open, after a call that returned -1 the same descriptors are open as before, and after any
  other result exactly the returned, non-negative descriptor has been added.
\<close>

theorem rsi_register_no_fd_leak:
  assumes "count \<noteq> 0 \<and> hives \<noteq> NULL \<longrightarrow> hive_array (mem s) hives count hs"
    and "sys_ret (kernel E (trace s) (Sys_open DEVICE (O_RDWR OR O_CLOEXEC))) \<notin> open_fds (trace s)"
    and "rsi_register E hives count max_sequence s = Done x s'"
  shows "if x = -1 then open_fds (trace s') = open_fds (trace s)
    else 0 \<le> x \<and> x \<notin> open_fds (trace s) \<and> open_fds (trace s') = insert x (open_fds (trace s))"
proof (cases "count = 0 \<or> hives = NULL")
  case True
  with assms(3) show ?thesis by (auto simp: register_guard)
next
  case False
  with assms(1,3) register_eq [of count hives s hs E max_sequence] show ?thesis
    using assms(2) by (auto simp: register_outcome_def Let_def split: option.splits if_splits)
qed

theorem rsi_register_no_fd_leak_witness:
  "\<exists>s'. rsi_register ex_refusing 0x1000 1 9 ex_reg_world = Done (-1) s' \<and> open_fds (trace s') = {}"
proof -
  obtain s' where s': "rsi_register ex_refusing 0x1000 1 9 ex_reg_world = Done (-1) s'"
    using register_eq [of 1 "0x1000" ex_reg_world "[ex_hive]" ex_refusing 9] ex_hive_array
    by (simp add: register_outcome_def Let_def)
  have "open_fds (trace s') = open_fds (trace ex_reg_world)"
    using rsi_register_no_fd_leak [OF _ _ s', of "[ex_hive]"] ex_hive_array by (simp add: open_fds_def)
  with s' show ?thesis by (simp add: open_fds_def)
qed

section \<open>What the kernel reads\<close>

text \<open>
  What the kernel is to find in an entry: the fields of the caller's hive, and zero in the two
  padding fields (it rejects a nonzero pad).
\<close>

definition entry_shows :: "rsi_hive \<Rightarrow> reg_src_hive_entry \<Rightarrow> bool" where
  "entry_shows hv e \<longleftrightarrow> re_name_ptr e = hv_name hv \<and> re_name_len e = hv_name_len hv \<and> re_flags e = hv_flags hv \<and>
     re_root_guid e = hv_root_guid hv \<and> re_scope_guid e = hv_scope_guid hv \<and> re_pad0 e = 0 \<and> re_pad1 e = 0"

text \<open>
  C23. The kernel reads the caller's hives: in the registration call made by \<open>rsi_register\<close>,
  \<open>hive_count\<close> and \<open>max_sequence\<close> are the caller's, the padding is zero and \<open>hives_ptr\<close>
  points to an array, with the stride of 56 bytes the kernel uses, whose entries show the
  caller's hives in order: name pointer and length, flags, root and scope GUID of each, and zero
  padding. Provided the allocator returned unused memory, every name the caller could read is
  still readable through its entry.
\<close>

theorem rsi_register_kernel_view:
  assumes "count \<noteq> 0" "hives \<noteq> NULL" "hive_array (mem s) hives count hs"
    and "\<forall>i < unat count. mem s (ptr_add 56 (vec_addr E (ticks s)) i) = None"
    and "rsi_register E hives count max_sequence s = Done x s'"
    and "(Sys_ioctl fd c args h, r) \<in> set (drop (length (trace s)) (trace s'))"
  shows "c = REG_SRC_REGISTER E \<and>
    ra_hive_count args = count \<and> ra_pad args = 0 \<and> ra_max_sequence args = max_sequence \<and>
    (\<exists>es. array_at as_HiveEntry 56 h (ra_hives_ptr args) es \<and> list_all2 entry_shows hs es \<and>
      list_all2 (\<lambda>hv e. \<forall>bs. read_bytes (mem s) (hv_name hv) (unat (hv_name_len hv)) = Some bs \<longrightarrow>
        read_bytes h (re_name_ptr e) (unat (re_name_len e)) = Some bs) hs es)"
proof -
  have len: "length hs = unat count"
    using assms(3) by (auto simp: hive_array_def dest: carray_length)
  from assms(5,6) register_eq [OF assms(1-3), of E max_sequence]
  have call: "c = REG_SRC_REGISTER E" "args = register_args E (ticks s) count max_sequence"
    "h = register_mem E (ticks s) (mem s) hs"
    by (auto simp: register_outcome_def Let_def split: option.splits if_splits)
  have "array_at as_HiveEntry 56 h (vec_addr E (ticks s)) (map marshal_hive hs)"
    unfolding call register_mem_def sizeof_eqs
    using len unat_u32_bound [of count] by (intro put_cells_array) (simp_all add: cell_simps del: unat_u32_bound)
  moreover have "read_bytes h p n = Some bs" if "read_bytes (mem s) p n = Some bs" for p n bs
    unfolding call register_mem_def sizeof_eqs
    using that assms(4) len by (intro put_cells_read_bytes) auto
  moreover have "list_all2 entry_shows hs (map marshal_hive hs)"
    by (simp add: list_all2_conv_all_nth entry_shows_def marshal_hive_def)
  ultimately show ?thesis
    by (auto simp: call register_args_def list_all2_conv_all_nth entry_shows_def intro!: exI [of _ "map marshal_hive hs"])
qed

theorem rsi_register_kernel_view_witness:
  "\<exists>s' args h r. rsi_register ex_env 0x1000 1 9 ex_reg_world = Done 3 s' \<and>
    (Sys_ioctl 3 1075335680 args h, r) \<in> set (trace s') \<and>
    (\<exists>e. array_at as_HiveEntry 56 h (ra_hives_ptr args) [e] \<and> re_name_ptr e = 0x2000 \<and> re_name_len e = 2 \<and>
      re_root_guid e = guid_of (replicate 16 1) \<and> re_pad0 e = 0 \<and> re_pad1 e = 0)"
proof -
  let ?args = "register_args ex_env 0 1 9" and ?h = "register_mem ex_env 0 ex_reg_heap [ex_hive]"
  obtain s' r where s': "rsi_register ex_env 0x1000 1 9 ex_reg_world = Done 3 s'"
    and r: "(Sys_ioctl 3 1075335680 ?args ?h, r) \<in> set (trace s')"
    using register_eq [of 1 "0x1000" ex_reg_world "[ex_hive]" ex_env 9] ex_hive_array
    by (simp add: register_outcome_def Let_def)
  have "\<forall>i < unat (1 :: u32). mem ex_reg_world (ptr_add 56 (vec_addr ex_env (ticks ex_reg_world)) i) = None"
    by (simp add: ptr_add_def ex_reg_heap_def)
  from rsi_register_kernel_view [OF _ _ _ this s', where hs = "[ex_hive]"] r ex_hive_array
  obtain es where "array_at as_HiveEntry 56 ?h (ra_hives_ptr ?args) es" "list_all2 entry_shows [ex_hive] es"
    by fastforce
  then have "\<exists>e. array_at as_HiveEntry 56 ?h (ra_hives_ptr ?args) [e] \<and> re_name_ptr e = 0x2000 \<and> re_name_len e = 2 \<and>
      re_root_guid e = guid_of (replicate 16 1) \<and> re_pad0 e = 0 \<and> re_pad1 e = 0"
    by (auto simp: list_all2_Cons1 entry_shows_def ex_hive_def)
  with s' r show ?thesis by blast
qed

end
