(* ===== verification/Layout.thy ===== *)
theory Layout
  imports Abi
begin

text \<open>
  The \<open>#[repr(C)]\<close> layout of the structs that cross the C interface, and the byte memory the
  typed cells stand for. The first part gives each struct's field types in source order and
  shows that the offsets \<open>repr(C)\<close> assigns are aligned, in order, disjoint and inside the
  struct, also in arrays. The second part shows that typed memory is a faithful picture of
  bytes: a byte memory together with the types determines the cells, and storing a cell's
  fields at their offsets changes that cell and no other.
\<close>

section \<open>Field types\<close>

datatype c_prim = P8 | P16 | P32 | P64 | PPtr | PGuid

text \<open>Size and alignment on a 64-bit target; \<open>[u8; 16]\<close> has the alignment of \<open>u8\<close>.\<close>

fun prim_layout :: "c_prim \<Rightarrow> nat \<times> nat" where
  "prim_layout P8 = (1, 1)"
| "prim_layout P16 = (2, 2)"
| "prim_layout P32 = (4, 4)"
| "prim_layout P64 = (8, 8)"
| "prim_layout PPtr = (8, 8)"
| "prim_layout PGuid = (16, 1)"

abbreviation prim_size :: "c_prim \<Rightarrow> nat" where
  "prim_size t \<equiv> fst (prim_layout t)"

abbreviation prim_align :: "c_prim \<Rightarrow> nat" where
  "prim_align t \<equiv> snd (prim_layout t)"

section \<open>The structs\<close>

definition rsi_request_layout :: "c_prim list" where
  "rsi_request_layout = [P64, P64, PPtr, P32, P16]"

definition rsi_lookup_layout :: "c_prim list" where
  "rsi_lookup_layout = [PGuid, PPtr, P32]"

definition rsi_create_entry_layout :: "c_prim list" where
  "rsi_create_entry_layout = [PGuid, PGuid, PPtr, P32, PPtr, P32, P64]"

definition rsi_hide_entry_layout :: "c_prim list" where
  "rsi_hide_entry_layout = [PGuid, PPtr, P32, PPtr, P32, P64]"

definition rsi_delete_entry_layout :: "c_prim list" where
  "rsi_delete_entry_layout = [PGuid, PPtr, P32, PPtr, P32]"

definition rsi_enum_children_layout :: "c_prim list" where
  "rsi_enum_children_layout = [PGuid]"

definition rsi_create_key_layout :: "c_prim list" where
  "rsi_create_key_layout = [PGuid, PGuid, PPtr, P32, PPtr, P32, P8, P8]"

definition rsi_key_guid_layout :: "c_prim list" where
  "rsi_key_guid_layout = [PGuid]"

definition rsi_write_key_layout :: "c_prim list" where
  "rsi_write_key_layout = [PGuid, P32, PPtr, P32, P64]"

definition rsi_query_values_layout :: "c_prim list" where
  "rsi_query_values_layout = [PGuid, PPtr, P32, P8]"

definition rsi_set_value_layout :: "c_prim list" where
  "rsi_set_value_layout = [PGuid, PPtr, P32, PPtr, P32, P32, PPtr, P32, P64, P64]"

definition rsi_delete_value_entry_layout :: "c_prim list" where
  "rsi_delete_value_entry_layout = [PGuid, PPtr, P32, PPtr, P32]"

definition rsi_set_blanket_tombstone_layout :: "c_prim list" where
  "rsi_set_blanket_tombstone_layout = [PGuid, PPtr, P32, P8, P64]"

definition rsi_begin_transaction_layout :: "c_prim list" where
  "rsi_begin_transaction_layout = [P64, P32]"

definition rsi_transaction_layout :: "c_prim list" where
  "rsi_transaction_layout = [P64]"

definition rsi_name_layout :: "c_prim list" where
  "rsi_name_layout = [PPtr, P32]"

definition rsi_path_entry_layout :: "c_prim list" where
  "rsi_path_entry_layout = [PPtr, P32, P8, PGuid, P64]"

definition rsi_key_metadata_layout :: "c_prim list" where
  "rsi_key_metadata_layout = [PGuid, PPtr, P32, P8, P8, P64]"

definition rsi_child_entry_layout :: "c_prim list" where
  "rsi_child_entry_layout = [PPtr, P32, PPtr, P32]"

definition rsi_value_entry_layout :: "c_prim list" where
  "rsi_value_entry_layout = [PPtr, P32, PPtr, P32, P32, PPtr, P32, P64]"

definition rsi_blanket_entry_layout :: "c_prim list" where
  "rsi_blanket_entry_layout = [PPtr, P32, P64]"

definition rsi_hive_layout :: "c_prim list" where
  "rsi_hive_layout = [PPtr, P32, P32, PGuid, PGuid]"

definition reg_src_hive_entry_layout :: "c_prim list" where
  "reg_src_hive_entry_layout = [P32, P32, P64, PGuid, P32, P32, PGuid]"

definition reg_src_register_args_layout :: "c_prim list" where
  "reg_src_register_args_layout = [P32, P32, P64, P64]"

datatype c_type =
    T_Byte
  | T_Request
  | T_Lookup
  | T_CreateEntry
  | T_HideEntry
  | T_DeleteEntry
  | T_EnumChildren
  | T_CreateKey
  | T_KeyGuid
  | T_WriteKey
  | T_QueryValues
  | T_SetValue
  | T_DeleteValueEntry
  | T_SetBlanketTombstone
  | T_BeginTransaction
  | T_Transaction
  | T_Name
  | T_PathEntry
  | T_KeyMetadata
  | T_ChildEntry
  | T_ValueEntry
  | T_BlanketEntry
  | T_Hive
  | T_HiveEntry

fun struct_layout :: "c_type \<Rightarrow> c_prim list" where
  "struct_layout T_Byte = [P8]"
| "struct_layout T_Request = rsi_request_layout"
| "struct_layout T_Lookup = rsi_lookup_layout"
| "struct_layout T_CreateEntry = rsi_create_entry_layout"
| "struct_layout T_HideEntry = rsi_hide_entry_layout"
| "struct_layout T_DeleteEntry = rsi_delete_entry_layout"
| "struct_layout T_EnumChildren = rsi_enum_children_layout"
| "struct_layout T_CreateKey = rsi_create_key_layout"
| "struct_layout T_KeyGuid = rsi_key_guid_layout"
| "struct_layout T_WriteKey = rsi_write_key_layout"
| "struct_layout T_QueryValues = rsi_query_values_layout"
| "struct_layout T_SetValue = rsi_set_value_layout"
| "struct_layout T_DeleteValueEntry = rsi_delete_value_entry_layout"
| "struct_layout T_SetBlanketTombstone = rsi_set_blanket_tombstone_layout"
| "struct_layout T_BeginTransaction = rsi_begin_transaction_layout"
| "struct_layout T_Transaction = rsi_transaction_layout"
| "struct_layout T_Name = rsi_name_layout"
| "struct_layout T_PathEntry = rsi_path_entry_layout"
| "struct_layout T_KeyMetadata = rsi_key_metadata_layout"
| "struct_layout T_ChildEntry = rsi_child_entry_layout"
| "struct_layout T_ValueEntry = rsi_value_entry_layout"
| "struct_layout T_BlanketEntry = rsi_blanket_entry_layout"
| "struct_layout T_Hive = rsi_hive_layout"
| "struct_layout T_HiveEntry = reg_src_hive_entry_layout"

lemmas layout_defs =
  rsi_request_layout_def rsi_lookup_layout_def rsi_create_entry_layout_def rsi_hide_entry_layout_def
  rsi_delete_entry_layout_def rsi_enum_children_layout_def rsi_create_key_layout_def rsi_key_guid_layout_def
  rsi_write_key_layout_def rsi_query_values_layout_def rsi_set_value_layout_def rsi_delete_value_entry_layout_def
  rsi_set_blanket_tombstone_layout_def rsi_begin_transaction_layout_def rsi_transaction_layout_def rsi_name_layout_def
  rsi_path_entry_layout_def rsi_key_metadata_layout_def rsi_child_entry_layout_def rsi_value_entry_layout_def
  rsi_blanket_entry_layout_def rsi_hive_layout_def reg_src_hive_entry_layout_def reg_src_register_args_layout_def

section \<open>Offsets\<close>

fun c_offsets :: "nat \<Rightarrow> (nat \<times> nat) list \<Rightarrow> nat list" where
  "c_offsets n [] = []"
| "c_offsets n ((sz, al) # fs) = align_up al n # c_offsets (align_up al n + sz) fs"

definition offsets :: "c_prim list \<Rightarrow> nat list" where
  "offsets ts = c_offsets 0 (map prim_layout ts)"

definition struct_size :: "c_prim list \<Rightarrow> nat" where
  "struct_size ts = c_sizeof (map prim_layout ts)"

definition struct_align :: "c_prim list \<Rightarrow> nat" where
  "struct_align ts = foldr (max \<circ> prim_align) ts 1"

lemma align_up_ge: "0 < a \<Longrightarrow> n \<le> align_up a n"
proof -
  assume "0 < a"
  have "(n + a - 1) div a * a + (n + a - 1) mod a = n + a - 1" by simp
  moreover have "(n + a - 1) mod a < a" using \<open>0 < a\<close> by simp
  ultimately show ?thesis unfolding align_up_def by linarith
qed

lemma align_up_dvd: "a dvd align_up a n"
  by (simp add: align_up_def)

lemma prim_align_pos [simp]: "0 < prim_align t"
  by (cases t) auto

lemma length_offsets [simp]: "length (offsets ts) = length ts"
proof -
  have "length (c_offsets n fs) = length fs" for n fs
    by (induction n fs rule: c_offsets.induct) simp_all
  then show ?thesis by (simp add: offsets_def)
qed

text \<open>From any start offset: fields lie beyond it, in order, without overlap, and end by the end.\<close>

lemma c_offsets_ge:
  "\<forall>f \<in> set fs. 0 < snd f \<Longrightarrow> i < length fs \<Longrightarrow> n \<le> c_offsets n fs ! i"
proof (induction n fs arbitrary: i rule: c_offsets.induct)
  case (2 n sz al fs)
  then have "n \<le> align_up al n" by (simp add: align_up_ge)
  moreover have "align_up al n + sz \<le> c_offsets (align_up al n + sz) fs ! j" if "i = Suc j" for j
    using 2 that by simp
  ultimately show ?case by (cases i) fastforce+
qed simp

lemma c_end_ge: "\<forall>f \<in> set fs. 0 < snd f \<Longrightarrow> n \<le> c_end n fs"
proof (induction n fs rule: c_end.induct)
  case (2 n sz al fs)
  then show ?case using align_up_ge [of al n] by simp
qed simp

lemma c_offsets_end:
  "\<forall>f \<in> set fs. 0 < snd f \<Longrightarrow> i < length fs \<Longrightarrow> c_offsets n fs ! i + fst (fs ! i) \<le> c_end n fs"
proof (induction n fs arbitrary: i rule: c_offsets.induct)
  case (2 n sz al fs)
  then show ?case using c_end_ge [of fs "align_up al n + sz"] by (cases i) auto
qed simp

lemma c_offsets_sep:
  "\<forall>f \<in> set fs. 0 < snd f \<Longrightarrow> i < j \<Longrightarrow> j < length fs \<Longrightarrow>
    c_offsets n fs ! i + fst (fs ! i) \<le> c_offsets n fs ! j"
proof (induction n fs arbitrary: i j rule: c_offsets.induct)
  case (2 n sz al fs)
  show ?case
  proof (cases i)
    case 0
    with 2 show ?thesis using c_offsets_ge [of fs "j - 1" "align_up al n + sz"] by (cases j) auto
  next
    case (Suc k)
    with 2 show ?thesis by (cases j) auto
  qed
qed simp

lemma c_offsets_aligned: "i < length fs \<Longrightarrow> snd (fs ! i) dvd c_offsets n fs ! i"
proof (induction n fs arbitrary: i rule: c_offsets.induct)
  case (2 n sz al fs)
  then show ?case by (cases i) (auto simp: align_up_dvd)
qed simp

lemma struct_align_alt: "foldr (max \<circ> snd) (map prim_layout ts) 1 = struct_align ts"
  by (induction ts) (simp_all add: struct_align_def)

lemma struct_align_cases: "struct_align ts \<in> {1, 2, 4, 8}"
proof (induction ts)
  case (Cons t ts)
  have "prim_align t \<in> {1, 2, 4, 8}" by (cases t) auto
  with Cons show ?case by (auto simp: struct_align_def max_def)
qed (simp add: struct_align_def)

lemma prim_align_dvd: "t \<in> set ts \<Longrightarrow> prim_align t dvd struct_align ts"
proof -
  assume "t \<in> set ts"
  then have "prim_align t \<le> struct_align ts"
    by (induction ts) (auto simp: struct_align_def)
  moreover have "prim_align t \<in> {1, 2, 4, 8}" by (cases t) auto
  ultimately show ?thesis using struct_align_cases [of ts] by auto
qed

lemma struct_size_align: "struct_align ts dvd struct_size ts"
  unfolding struct_size_def c_sizeof_def struct_align_alt by (rule align_up_dvd)

text \<open>What a layout has to satisfy.\<close>

definition layout_ok :: "c_prim list \<Rightarrow> bool" where
  "layout_ok ts \<longleftrightarrow> (\<forall>i < length ts.
     prim_align (ts ! i) dvd offsets ts ! i \<and> prim_align (ts ! i) dvd struct_size ts \<and>
     offsets ts ! i + prim_size (ts ! i) \<le> struct_size ts \<and>
     (\<forall>j < length ts. i < j \<longrightarrow> offsets ts ! i + prim_size (ts ! i) \<le> offsets ts ! j))"

lemma layout_ok: "layout_ok ts"
  unfolding layout_ok_def
proof (intro allI impI conjI)
  fix i assume i: "i < length ts"
  have pos: "\<forall>f \<in> set (map prim_layout ts). 0 < snd f" by simp
  show "prim_align (ts ! i) dvd offsets ts ! i"
    using c_offsets_aligned [of i "map prim_layout ts" 0] i by (simp add: offsets_def)
  show "prim_align (ts ! i) dvd struct_size ts"
    using prim_align_dvd [of "ts ! i" ts] struct_size_align [of ts] i by (meson dvd_trans nth_mem)
  have "c_end 0 (map prim_layout ts) \<le> struct_size ts"
    unfolding struct_size_def c_sizeof_def struct_align_alt
    using struct_align_cases [of ts] by (intro align_up_ge) auto
  with c_offsets_end [OF pos, of i 0] i show "offsets ts ! i + prim_size (ts ! i) \<le> struct_size ts"
    by (simp add: offsets_def)
  fix j assume "j < length ts" "i < j"
  with c_offsets_sep [OF pos, of i j 0] i show "offsets ts ! i + prim_size (ts ! i) \<le> offsets ts ! j"
    by (simp add: offsets_def)
qed

section \<open>Cells as fields\<close>

datatype prim_val = V8 u8 | V16 u16 | V32 u32 | V64 u64 | VPtr ptr | VGuid guid

fun prim_of :: "prim_val \<Rightarrow> c_prim" where
  "prim_of (V8 _) = P8"
| "prim_of (V16 _) = P16"
| "prim_of (V32 _) = P32"
| "prim_of (V64 _) = P64"
| "prim_of (VPtr _) = PPtr"
| "prim_of (VGuid _) = PGuid"

fun prim_bytes :: "prim_val \<Rightarrow> u8 list" where
  "prim_bytes (V8 x) = [x]"
| "prim_bytes (V16 x) = le16 x"
| "prim_bytes (V32 x) = le32 x"
| "prim_bytes (V64 x) = le64 x"
| "prim_bytes (VPtr x) = le64 x"
| "prim_bytes (VGuid g) = guid_bytes g"

fun prim_read :: "c_prim \<Rightarrow> u8 list \<Rightarrow> prim_val" where
  "prim_read P8 bs = V8 (from_le bs)"
| "prim_read P16 bs = V16 (from_le bs)"
| "prim_read P32 bs = V32 (from_le bs)"
| "prim_read P64 bs = V64 (from_le bs)"
| "prim_read PPtr bs = VPtr (from_le bs)"
| "prim_read PGuid bs = VGuid (guid_of bs)"

lemma length_prim_bytes [simp]: "length (prim_bytes v) = prim_size (prim_of v)"
  by (cases v) auto

lemma prim_read_bytes [simp]: "prim_read (prim_of v) (prim_bytes v) = v"
  by (cases v) auto

fun cell_type :: "cell \<Rightarrow> c_type" where
  "cell_type (Byte _) = T_Byte"
| "cell_type (Request _) = T_Request"
| "cell_type (Lookup _) = T_Lookup"
| "cell_type (CreateEntry _) = T_CreateEntry"
| "cell_type (HideEntry _) = T_HideEntry"
| "cell_type (DeleteEntry _) = T_DeleteEntry"
| "cell_type (EnumChildren _) = T_EnumChildren"
| "cell_type (CreateKey _) = T_CreateKey"
| "cell_type (KeyGuid _) = T_KeyGuid"
| "cell_type (WriteKey _) = T_WriteKey"
| "cell_type (QueryValues _) = T_QueryValues"
| "cell_type (SetValue _) = T_SetValue"
| "cell_type (DeleteValueEntry _) = T_DeleteValueEntry"
| "cell_type (SetBlanketTombstone _) = T_SetBlanketTombstone"
| "cell_type (BeginTransaction _) = T_BeginTransaction"
| "cell_type (Transaction _) = T_Transaction"
| "cell_type (Name _) = T_Name"
| "cell_type (PathEntry _) = T_PathEntry"
| "cell_type (KeyMetadata _) = T_KeyMetadata"
| "cell_type (ChildEntry _) = T_ChildEntry"
| "cell_type (ValueEntry _) = T_ValueEntry"
| "cell_type (BlanketEntry _) = T_BlanketEntry"
| "cell_type (Hive _) = T_Hive"
| "cell_type (HiveEntry _) = T_HiveEntry"

fun fields :: "cell \<Rightarrow> prim_val list" where
  "fields (Byte r) = [V8 r]"
| "fields (Request r) = [V64 (request_id r), V64 (txn_id r), VPtr (payload r), V32 (payload_len r), V16 (op_code r)]"
| "fields (Lookup r) = [VGuid (lk_parent_guid r), VPtr (lk_child_name r), V32 (lk_child_name_len r)]"
| "fields (CreateEntry r) = [VGuid (ce_parent_guid r), VGuid (ce_child_guid r), VPtr (ce_child_name r),
     V32 (ce_child_name_len r), VPtr (ce_layer_name r), V32 (ce_layer_name_len r), V64 (ce_sequence r)]"
| "fields (HideEntry r) = [VGuid (he_parent_guid r), VPtr (he_child_name r), V32 (he_child_name_len r),
     VPtr (he_layer_name r), V32 (he_layer_name_len r), V64 (he_sequence r)]"
| "fields (DeleteEntry r) = [VGuid (de_parent_guid r), VPtr (de_child_name r), V32 (de_child_name_len r),
     VPtr (de_layer_name r), V32 (de_layer_name_len r)]"
| "fields (EnumChildren r) = [VGuid (ec_parent_guid r)]"
| "fields (CreateKey r) = [VGuid (ck_guid r), VGuid (ck_parent_guid r), VPtr (ck_name r), V32 (ck_name_len r),
     VPtr (ck_sd r), V32 (ck_sd_len r), V8 (ck_volatile_key r), V8 (ck_symlink r)]"
| "fields (KeyGuid r) = [VGuid (kg_guid r)]"
| "fields (WriteKey r) = [VGuid (wk_guid r), V32 (wk_field_mask r), VPtr (wk_sd r), V32 (wk_sd_len r),
     V64 (wk_last_write_time r)]"
| "fields (QueryValues r) = [VGuid (qv_guid r), VPtr (qv_value_name r), V32 (qv_value_name_len r),
     V8 (qv_query_all r)]"
| "fields (SetValue r) = [VGuid (sv_guid r), VPtr (sv_value_name r), V32 (sv_value_name_len r),
     VPtr (sv_layer_name r), V32 (sv_layer_name_len r), V32 (sv_value_type r), VPtr (sv_data r),
     V32 (sv_data_len r), V64 (sv_sequence r), V64 (sv_expected_sequence r)]"
| "fields (DeleteValueEntry r) = [VGuid (dv_guid r), VPtr (dv_value_name r), V32 (dv_value_name_len r),
     VPtr (dv_layer_name r), V32 (dv_layer_name_len r)]"
| "fields (SetBlanketTombstone r) = [VGuid (bt_guid r), VPtr (bt_layer_name r), V32 (bt_layer_name_len r),
     V8 (bt_set r), V64 (bt_sequence r)]"
| "fields (BeginTransaction r) = [V64 (bx_transaction_id r), V32 (bx_mode r)]"
| "fields (Transaction r) = [V64 (tx_transaction_id r)]"
| "fields (Name r) = [VPtr (nm_name r), V32 (nm_name_len r)]"
| "fields (PathEntry r) = [VPtr (pe_layer r), V32 (pe_layer_len r), V8 (pe_target_type r),
     VGuid (pe_target_guid r), V64 (pe_sequence r)]"
| "fields (KeyMetadata r) = [VGuid (km_guid r), VPtr (km_sd r), V32 (km_sd_len r), V8 (km_volatile_key r),
     V8 (km_symlink r), V64 (km_last_write_time r)]"
| "fields (ChildEntry r) = [VPtr (ch_child_name r), V32 (ch_child_name_len r), VPtr (ch_entries r),
     V32 (ch_entry_count r)]"
| "fields (ValueEntry r) = [VPtr (ve_value_name r), V32 (ve_value_name_len r), VPtr (ve_layer_name r),
     V32 (ve_layer_name_len r), V32 (ve_value_type r), VPtr (ve_data r), V32 (ve_data_len r), V64 (ve_sequence r)]"
| "fields (BlanketEntry r) = [VPtr (be_layer_name r), V32 (be_layer_name_len r), V64 (be_sequence r)]"
| "fields (Hive r) = [VPtr (hv_name r), V32 (hv_name_len r), V32 (hv_flags r), VGuid (hv_root_guid r),
     VGuid (hv_scope_guid r)]"
| "fields (HiveEntry r) = [V32 (re_name_len r), V32 (re_pad0 r), V64 (re_name_ptr r), VGuid (re_root_guid r),
     V32 (re_flags r), V32 (re_pad1 r), VGuid (re_scope_guid r)]"

lemma fields_typed: "map prim_of (fields c) = struct_layout (cell_type c)"
  by (cases c) (simp_all add: layout_defs)

lemma fields_inject: "cell_type c = cell_type d \<Longrightarrow> fields c = fields d \<Longrightarrow> c = d"
  by (cases c; cases d; simp)

section \<open>Byte memory\<close>

type_synonym bmem = "ptr \<Rightarrow> u8"

definition peek :: "bmem \<Rightarrow> ptr \<Rightarrow> nat \<Rightarrow> u8 list" where
  "peek m p n = map (\<lambda>i. m (p + of_nat i)) [0..<n]"

fun poke :: "bmem \<Rightarrow> ptr \<Rightarrow> u8 list \<Rightarrow> bmem" where
  "poke m p [] = m"
| "poke m p (b # bs) = poke (m(p := b)) (p + 1) bs"

text \<open>Reading a struct: each field at its offset. Writing it: the fields one after the other.\<close>

definition load_fields :: "bmem \<Rightarrow> ptr \<Rightarrow> c_prim list \<Rightarrow> prim_val list" where
  "load_fields m p ts =
     map2 (\<lambda>n t. prim_read t (peek m (p + of_nat n) (prim_size t))) (offsets ts) ts"

fun store_fields :: "bmem \<Rightarrow> ptr \<Rightarrow> (nat \<times> prim_val) list \<Rightarrow> bmem" where
  "store_fields m p [] = m"
| "store_fields m p ((n, v) # fs) = store_fields (poke m (p + of_nat n) (prim_bytes v)) p fs"

definition store_cell :: "bmem \<Rightarrow> ptr \<Rightarrow> cell \<Rightarrow> bmem" where
  "store_cell m p c = store_fields m p (zip (offsets (struct_layout (cell_type c))) (fields c))"

definition cell_size :: "cell \<Rightarrow> nat" where
  "cell_size c = struct_size (struct_layout (cell_type c))"

text \<open>The byte memories a typed memory stands for; padding bytes are left open.\<close>

definition represents :: "bmem \<Rightarrow> heap \<Rightarrow> bool" where
  "represents m h \<longleftrightarrow> (\<forall>p c. h p = Some c \<longrightarrow> load_fields m p (struct_layout (cell_type c)) = fields c)"

text \<open>No two cells share a byte.\<close>

definition cells_disjoint :: "heap \<Rightarrow> bool" where
  "cells_disjoint h \<longleftrightarrow> (\<forall>p q c d. h p = Some c \<longrightarrow> h q = Some d \<longrightarrow> p \<noteq> q \<longrightarrow>
     (\<forall>i < cell_size c. \<forall>j < cell_size d. p + of_nat i \<noteq> q + of_nat j))"

lemma ptr_offset_inj:
  "i < 2 ^ 64 \<Longrightarrow> j < 2 ^ 64 \<Longrightarrow> p + of_nat i = (p + of_nat j :: ptr) \<longleftrightarrow> i = j"
  by (metis add_left_cancel unat_of_nat_u64)

lemma poke_other: "(\<And>i. i < length bs \<Longrightarrow> q \<noteq> p + of_nat i) \<Longrightarrow> poke m p bs q = m q"
proof (induction bs arbitrary: m p)
  case (Cons b bs)
  have "q \<noteq> p" using Cons.prems [of 0] by simp
  moreover have "poke (m(p := b)) (p + 1) bs q = (m(p := b)) q"
    by (rule Cons.IH) (use Cons.prems [of "Suc _"] in \<open>auto simp: ac_simps\<close>)
  ultimately show ?case by simp
qed simp

lemma poke_nth: "length bs \<le> 2 ^ 64 \<Longrightarrow> i < length bs \<Longrightarrow> poke m p bs (p + of_nat i) = bs ! i"
proof (induction bs arbitrary: m p i)
  case (Cons b bs)
  show ?case
  proof (cases i)
    case 0
    have "poke (m(p := b)) (p + 1) bs p = (m(p := b)) p"
    proof (rule poke_other)
      fix j assume "j < length bs"
      with Cons.prems(1) have "p + of_nat 0 \<noteq> p + of_nat (Suc j)"
        by (subst ptr_offset_inj) auto
      then show "p \<noteq> p + 1 + of_nat j" by (simp add: ac_simps)
    qed
    with 0 show ?thesis by simp
  next
    case (Suc j)
    with Cons show ?thesis by (simp add: add.assoc [symmetric])
  qed
qed simp

lemma peek_poke: "length bs \<le> 2 ^ 64 \<Longrightarrow> peek (poke m p bs) p (length bs) = bs"
  by (rule nth_equalityI) (simp_all add: peek_def poke_nth)

lemma peek_cong: "(\<And>i. i < n \<Longrightarrow> m (p + of_nat i) = m' (p + of_nat i)) \<Longrightarrow> peek m p n = peek m' p n"
  by (simp add: peek_def)

subsection \<open>Fields in a struct\<close>

text \<open>A list of fields with offsets that fits in \<open>N\<close> bytes, in order and without overlap.\<close>

definition fields_fit :: "nat \<Rightarrow> (nat \<times> prim_val) list \<Rightarrow> bool" where
  "fields_fit N fs \<longleftrightarrow> sorted_wrt (\<lambda>(n, v) (n', _). n + length (prim_bytes v) \<le> n') fs \<and>
     (\<forall>(n, v) \<in> set fs. n + length (prim_bytes v) \<le> N)"

lemma store_fields_other:
  "fields_fit N fs \<Longrightarrow> (\<And>i. i < N \<Longrightarrow> q \<noteq> p + of_nat i) \<Longrightarrow> store_fields m p fs q = m q"
proof (induction m p fs rule: store_fields.induct)
  case (2 m p n v fs)
  have "poke m (p + of_nat n) (prim_bytes v) q = m q"
  proof (rule poke_other)
    fix i assume "i < length (prim_bytes v)"
    with 2(2) have "n + i < N" by (auto simp: fields_fit_def)
    from 2(3) [OF this] show "q \<noteq> p + of_nat n + of_nat i" by (simp add: add.assoc)
  qed
  with 2 show ?case by (auto simp: fields_fit_def)
qed simp

lemma store_fields_low:
  assumes "fields_fit N fs" "N < 2 ^ 64" "\<forall>(n, v) \<in> set fs. k < n" "k < N"
  shows "store_fields m p fs (p + of_nat k) = m (p + of_nat k)"
  using assms
proof (induction m p fs rule: store_fields.induct)
  case (2 m p n v fs)
  have "poke m (p + of_nat n) (prim_bytes v) (p + of_nat k) = m (p + of_nat k)"
  proof (rule poke_other)
    fix i assume i: "i < length (prim_bytes v)"
    with 2(2,3,5) have "n + i < 2 ^ 64" "k < 2 ^ 64" by (auto simp: fields_fit_def)
    with 2(4) have "p + of_nat k \<noteq> p + of_nat (n + i)" by (subst ptr_offset_inj) auto
    then show "p + of_nat k \<noteq> p + of_nat n + of_nat i" by (simp add: add.assoc)
  qed
  with 2 show ?case by (auto simp: fields_fit_def)
qed simp

lemma peek_store_fields:
  assumes "fields_fit N fs" "N < 2 ^ 64" "(n, v) \<in> set fs"
  shows "peek (store_fields m p fs) (p + of_nat n) (length (prim_bytes v)) = prim_bytes v"
  using assms
proof (induction m p fs rule: store_fields.induct)
  case (2 m p n' v' fs)
  have fit: "fields_fit N fs" and ahead: "\<forall>(k, w) \<in> set fs. n' + length (prim_bytes v') \<le> k"
    and N: "n' + length (prim_bytes v') \<le> N"
    using 2(2) by (auto simp: fields_fit_def)
  show ?case
  proof (cases "(n, v) \<in> set fs")
    case True
    with 2 fit show ?thesis by simp
  next
    case False
    with 2(4) have [simp]: "n' = n" "v' = v" by auto
    have "store_fields m' p fs (p + of_nat n + of_nat i) = m' (p + of_nat n + of_nat i)"
      if "i < length (prim_bytes v)" for i m'
      using store_fields_low [OF fit 2(3), of "n + i" m' p] that ahead N
      by (fastforce simp: add.assoc)
    then have "peek (store_fields (poke m (p + of_nat n) (prim_bytes v)) p fs) (p + of_nat n) (length (prim_bytes v)) =
        peek (poke m (p + of_nat n) (prim_bytes v)) (p + of_nat n) (length (prim_bytes v))"
      by (intro peek_cong)
    with N 2(3) show ?thesis using peek_poke [of "prim_bytes v"] by simp
  qed
qed simp

lemma fields_fit_layout:
  "map prim_of vs = ts \<Longrightarrow> fields_fit (struct_size ts) (zip (offsets ts) vs)"
  using layout_ok [of ts]
  by (fastforce simp: fields_fit_def sorted_wrt_iff_nth_less layout_ok_def set_zip)

lemma load_store_fields:
  assumes "map prim_of vs = ts" "struct_size ts < 2 ^ 64"
  shows "load_fields (store_fields m p (zip (offsets ts) vs)) p ts = vs"
proof (rule nth_equalityI)
  show len: "length (load_fields (store_fields m p (zip (offsets ts) vs)) p ts) = length vs"
    using assms(1) by (auto simp: load_fields_def)
  fix i assume "i < length (load_fields (store_fields m p (zip (offsets ts) vs)) p ts)"
  then have i: "i < length vs" "i < length ts" using len assms(1) by auto
  then have "(offsets ts ! i, vs ! i) \<in> set (zip (offsets ts) vs)" by (force simp: set_zip)
  from peek_store_fields [OF fields_fit_layout [OF assms(1)] assms(2) this, of m p]
  show "load_fields (store_fields m p (zip (offsets ts) vs)) p ts ! i = vs ! i"
    using i assms(1) by (auto simp: load_fields_def simp del: length_prim_bytes simp flip: length_prim_bytes)
qed

section \<open>Typed memory and bytes\<close>

lemma struct_size_small: "struct_size (struct_layout t) < 2 ^ 64"
  by (cases t) (simp_all add: layout_defs struct_size_def c_sizeof_def align_up_def)

text \<open>
  The \<open>repr(C)\<close> layout of the interface: in every struct the fields have the declared types,
  each at a multiple of its alignment, in source order, without overlap and inside the struct,
  and the size is a multiple of every alignment, so that array elements are aligned too. The
  kernel structs have the sizes 24 and 56 that \<open>source.rs\<close> asserts at compile time, and the
  strides the code indexes arrays by are the sizes of their elements.
\<close>

lemma struct_layouts_sound:
  "map prim_of (fields c) = struct_layout (cell_type c) \<and> layout_ok (struct_layout (cell_type c)) \<and>
   struct_size reg_src_register_args_layout = 24 \<and>
   struct_size reg_src_hive_entry_layout = 56 \<and> sizeof_reg_src_hive_entry = 56 \<and>
   struct_size rsi_path_entry_layout = sizeof_rsi_path_entry \<and>
   struct_size rsi_key_metadata_layout = sizeof_rsi_key_metadata \<and>
   struct_size rsi_child_entry_layout = sizeof_rsi_child_entry \<and>
   struct_size rsi_value_entry_layout = sizeof_rsi_value_entry \<and>
   struct_size rsi_blanket_entry_layout = sizeof_rsi_blanket_entry \<and>
   struct_size rsi_hive_layout = sizeof_rsi_hive"
  unfolding fields_typed
  by (simp add: layout_ok sizeof_eqs layout_defs struct_size_def c_sizeof_def align_up_def)

lemma cells_disjoint_types:
  assumes "\<And>q. map_option cell_type (h' q) = map_option cell_type (h q)"
  shows "cells_disjoint h' = cells_disjoint h"
proof -
  have dir: "cells_disjoint g'"
    if disj: "cells_disjoint g" and ty: "\<And>q. map_option cell_type (g' q) = map_option cell_type (g q)" for g g'
    unfolding cells_disjoint_def
  proof (intro allI impI)
    fix p q c d i j
    assume c: "g' p = Some c" and d: "g' q = Some d" and "p \<noteq> q" "i < cell_size c" "j < cell_size d"
    moreover obtain c0 where "g p = Some c0" "cell_type c0 = cell_type c" using ty [of p] c by (cases "g p") auto
    moreover obtain d0 where "g q = Some d0" "cell_type d0 = cell_type d" using ty [of q] d by (cases "g q") auto
    ultimately show "p + of_nat i \<noteq> q + of_nat j"
      using disj unfolding cells_disjoint_def cell_size_def by metis
  qed
  show ?thesis using dir [of h h'] dir [of h' h] assms by auto
qed

lemma load_store_cell: "load_fields (store_cell m p c) p (struct_layout (cell_type c)) = fields c"
  using load_store_fields [OF fields_typed struct_size_small] by (simp add: store_cell_def)

lemma store_cell_other: "(\<And>i. i < cell_size c \<Longrightarrow> q \<noteq> p + of_nat i) \<Longrightarrow> store_cell m p c q = m q"
  using store_fields_other [OF fields_fit_layout [OF fields_typed]] by (simp add: store_cell_def cell_size_def)

lemma load_fields_cong:
  assumes "\<And>i. i < struct_size ts \<Longrightarrow> m (p + of_nat i) = m' (p + of_nat i)"
  shows "load_fields m p ts = load_fields m' p ts"
  unfolding load_fields_def
proof (rule map_cong [OF refl], clarify)
  fix n t assume "(n, t) \<in> set (zip (offsets ts) ts)"
  then obtain i where "i < length ts" "n = offsets ts ! i" "t = ts ! i" by (auto simp: set_zip)
  then have "n + prim_size t \<le> struct_size ts" using layout_ok [of ts] by (auto simp: layout_ok_def)
  then have "m (p + of_nat n + of_nat k) = m' (p + of_nat n + of_nat k)" if "k < prim_size t" for k
    using that assms [of "n + k"] by (simp add: add.assoc)
  then show "prim_read t (peek m (p + of_nat n) (prim_size t)) = prim_read t (peek m' (p + of_nat n) (prim_size t))"
    by (metis peek_cong)
qed

text \<open>
  The bytes determine the typed memory: two typed memories that stand for the same bytes and
  give an address the same struct type hold the same struct there, whatever the padding bytes
  are.
\<close>

lemma represents_determines:
  assumes "represents m h" "represents m' h'" "h p = Some c" "h' p = Some d" "cell_type c = cell_type d"
    and "\<And>i. i < cell_size c \<Longrightarrow> m (p + of_nat i) = m' (p + of_nat i)"
  shows "c = d"
proof -
  have "fields c = fields d"
    using assms(1-5) load_fields_cong [of "struct_layout (cell_type c)" m p m'] assms(6)
    by (simp add: represents_def cell_size_def) metis
  with assms(5) show ?thesis by (intro fields_inject)
qed

text \<open>
  Assigning the fields of a struct through a pointer, as the decoders assign \<open>*out\<close>, refines
  the store of one typed cell: when no two cells share a byte, writing each field's bytes at its
  offset turns a byte memory for \<open>h\<close> into one for \<open>h\<close> with that cell replaced, all other
  cells keep their values, and no byte outside the struct changes.
\<close>

lemma store_cell_refines:
  assumes "represents m h" "cells_disjoint h" "h p = Some c" "cell_type c' = cell_type c"
  shows "represents (store_cell m p c') (h(p \<mapsto> c')) \<and> cells_disjoint (h(p \<mapsto> c')) \<and>
    (\<forall>q. (\<forall>i < cell_size c. q \<noteq> p + of_nat i) \<longrightarrow> store_cell m p c' q = m q)"
proof (intro conjI)
  have size: "cell_size c' = cell_size c" by (simp add: cell_size_def assms(4))
  show other: "\<forall>q. (\<forall>i < cell_size c. q \<noteq> p + of_nat i) \<longrightarrow> store_cell m p c' q = m q"
    using store_cell_other size by simp
  show "cells_disjoint (h(p \<mapsto> c'))"
    using assms(2,3) size unfolding cells_disjoint_def by (auto split: if_splits; metis)
  show "represents (store_cell m p c') (h(p \<mapsto> c'))"
    unfolding represents_def
  proof (intro allI impI)
    fix q d assume d: "(h(p \<mapsto> c')) q = Some d"
    show "load_fields (store_cell m p c') q (struct_layout (cell_type d)) = fields d"
    proof (cases "q = p")
      case True
      with d show ?thesis using load_store_cell by simp
    next
      case False
      with d have hq: "h q = Some d" by simp
      have "store_cell m p c' (q + of_nat j) = m (q + of_nat j)" if "j < cell_size d" for j
        using other assms(2,3) hq False that unfolding cells_disjoint_def by metis
      then show ?thesis
        using load_fields_cong [of "struct_layout (cell_type d)" "store_cell m p c'" q m] assms(1) hq
        by (simp add: cell_size_def represents_def)
    qed
  qed
qed

subsection \<open>Examples\<close>

definition ex_typed :: heap where
  "ex_typed = [0x1000 \<mapsto> Transaction \<lparr>tx_transaction_id = 9\<rparr>, 0x1008 \<mapsto> Byte 7]"

definition ex_bytes :: bmem where
  "ex_bytes = store_cell (store_cell (\<lambda>_. 0) 0x1000 (Transaction \<lparr>tx_transaction_id = 9\<rparr>)) 0x1008 (Byte 7)"

lemma ex_bytes_represents: "represents ex_bytes ex_typed"
proof -
  have "load_fields ex_bytes 0x1000 (struct_layout T_Transaction) = [V64 9]" by code_simp
  moreover have "load_fields ex_bytes 0x1008 (struct_layout T_Byte) = [V8 7]" by code_simp
  ultimately show ?thesis by (auto simp: represents_def ex_typed_def split: if_splits)
qed

lemma ex_typed_disjoint: "cells_disjoint ex_typed"
proof -
  have size: "cell_size (Transaction r) = 8" "cell_size (Byte b) = 1" for r b
    by (simp_all add: cell_size_def struct_size_def c_sizeof_def align_up_def layout_defs)
  have "0x1000 + of_nat i \<noteq> (0x1008 :: ptr)" if "i < 8" for i
    using that ptr_offset_inj [of i 8 "0x1000"] by auto
  then show ?thesis by (auto simp: cells_disjoint_def ex_typed_def size split: if_splits dest: sym)
qed

lemma ex_transaction_represents: "represents ex_bytes [0x1000 \<mapsto> Transaction \<lparr>tx_transaction_id = 9\<rparr>]"
  using ex_bytes_represents by (auto simp: represents_def ex_typed_def)

theorem represents_determines_witness:
  "{d. represents ex_bytes [0x1000 \<mapsto> d] \<and> cell_type d = T_Transaction} = {Transaction \<lparr>tx_transaction_id = 9\<rparr>}"
proof (rule set_eqI, rule iffI)
  fix d assume "d \<in> {d. represents ex_bytes [0x1000 \<mapsto> d] \<and> cell_type d = T_Transaction}"
  then have d: "represents ex_bytes [0x1000 \<mapsto> d]" "cell_type d = T_Transaction" by simp_all
  have "Transaction \<lparr>tx_transaction_id = 9\<rparr> = d"
    by (rule represents_determines [OF ex_transaction_represents d(1), of "0x1000"]) (simp_all only: d fun_upd_same cell_type.simps)
  then show "d \<in> {Transaction \<lparr>tx_transaction_id = 9\<rparr>}" by simp
next
  fix d assume "d \<in> {Transaction \<lparr>tx_transaction_id = 9\<rparr>}"
  then show "d \<in> {d. represents ex_bytes [0x1000 \<mapsto> d] \<and> cell_type d = T_Transaction}"
    using ex_transaction_represents by simp
qed

theorem store_cell_refines_witness:
  "represents (store_cell ex_bytes 0x1000 (Transaction \<lparr>tx_transaction_id = 300\<rparr>))
     (ex_typed(0x1000 \<mapsto> Transaction \<lparr>tx_transaction_id = 300\<rparr>)) \<and>
   store_cell ex_bytes 0x1000 (Transaction \<lparr>tx_transaction_id = 300\<rparr>) 0x1008 = 7"
proof
  show "represents (store_cell ex_bytes 0x1000 (Transaction \<lparr>tx_transaction_id = 300\<rparr>))
     (ex_typed(0x1000 \<mapsto> Transaction \<lparr>tx_transaction_id = 300\<rparr>))"
    using store_cell_refines [OF ex_bytes_represents ex_typed_disjoint, of "0x1000"
        "Transaction \<lparr>tx_transaction_id = 9\<rparr>" "Transaction \<lparr>tx_transaction_id = 300\<rparr>"]
    by (simp add: ex_typed_def)
  show "store_cell ex_bytes 0x1000 (Transaction \<lparr>tx_transaction_id = 300\<rparr>) 0x1008 = 7"
    by code_simp
qed

end
