(* ===== verification/Calls.thy ===== *)
theory Calls
  imports Protocol Source_Correct Layout
begin

text \<open>
  The exported functions as one datatype of calls with one contract each, and what holds of all
  of them: a call under its contract returns, it stores only through the pointer it is given to
  store through, it keeps the type of every cell, and when it fails \<open>errno\<close> has one of the
  documented values.
\<close>

section \<open>Calls and contracts\<close>

datatype call =
    Read_request c_int ptr u64
  | Parse_request ptr u64 ptr
  | Decode rsi_op ptr ptr
  | Write_response c_int ptr u64
  | Respond_status c_int ptr u32
  | Respond c_int ptr reply
  | Register ptr u32 u64

fun run_call :: "env \<Rightarrow> call \<Rightarrow> int M" where
  "run_call E (Read_request fd p cap) = rsi_read_request E fd p cap"
| "run_call E (Parse_request frame len out) = rsi_parse_request E frame len out"
| "run_call E (Decode op req out) = decoder_of op E req out"
| "run_call E (Write_response fd frame len) = rsi_write_response E fd frame len"
| "run_call E (Respond_status fd req st) = rsi_respond_status E fd req st"
| "run_call E (Respond fd req a) = respond E fd req a"
| "run_call E (Register hives n max_sequence) = rsi_register E hives n max_sequence"

text \<open>The \<open># Safety\<close> section of each function: what a pointer has to designate when it is not NULL.\<close>

definition request_at :: "heap \<Rightarrow> ptr \<Rightarrow> bool" where
  "request_at h p \<longleftrightarrow> p \<noteq> NULL \<longrightarrow> (\<exists>r. h p = Some (Request r))"

fun call_contract :: "heap \<Rightarrow> call \<Rightarrow> bool" where
  "call_contract h (Read_request fd p cap) \<longleftrightarrow> read_bytes h p (unat cap) \<noteq> None"
| "call_contract h (Parse_request frame len out) \<longleftrightarrow>
     request_at h out \<and> (frame \<noteq> NULL \<longrightarrow> read_bytes h frame (unat len) \<noteq> None)"
| "call_contract h (Decode op req out) \<longleftrightarrow>
     request_valid h req \<and> (out = NULL \<or> (\<exists>c. h out = Some c \<and> out_typed op c))"
| "call_contract h (Write_response fd frame len) \<longleftrightarrow> read_bytes h frame (unat len) \<noteq> None"
| "call_contract h (Respond_status fd req st) \<longleftrightarrow> request_at h req"
| "call_contract h (Respond fd req a) \<longleftrightarrow> request_at h req \<and> reply_valid h a"
| "call_contract h (Register hives n max_sequence) \<longleftrightarrow>
     (n \<noteq> 0 \<and> hives \<noteq> NULL \<longrightarrow> (\<exists>hs. hive_array h hives n hs))"

text \<open>The addresses a call may store to.\<close>

fun call_stores :: "call \<Rightarrow> ptr set" where
  "call_stores (Read_request fd p cap) = {p + of_nat i |i. i < unat cap}"
| "call_stores (Parse_request frame len out) = {out} - {NULL}"
| "call_stores (Decode op req out) = {out} - {NULL}"
| "call_stores _ = {}"

text \<open>\<open>read(2)\<close> delivers no more bytes than it was asked for.\<close>

definition read_bounded :: "env \<Rightarrow> bool" where
  "read_bounded E \<longleftrightarrow> (\<forall>tr fd p n. length (sys_data (kernel E tr (Sys_read fd p n))) \<le> unat n)"

text \<open>The \<open>errno\<close> values a call sets by itself, without a system call.\<close>

fun own_errnos :: "call \<Rightarrow> c_int set" where
  "own_errnos (Read_request fd p cap) = {}"
| "own_errnos (Parse_request frame len out) = {EINVAL, EBADMSG}"
| "own_errnos (Decode op req out) = {EINVAL, EBADMSG}"
| "own_errnos (Write_response fd frame len) = {}"
| "own_errnos (Respond_status fd req st) = {EINVAL}"
| "own_errnos (Respond fd req a) = {EINVAL, ENOMEM, EOVERFLOW}"
| "own_errnos (Register hives n max_sequence) = {EINVAL, ENOMEM}"

section \<open>Frames the kernel accepts\<close>

text \<open>
  A frame the kernel's documented checks accept in form: at least 18 bytes, the length field
  equal to the number of bytes, a response op-code of some request op, and a status that is
  \<open>RSI_OK\<close> or a known status with no payload.
\<close>

definition acceptable_frame :: "env \<Rightarrow> u8 list \<Rightarrow> bool" where
  "acceptable_frame E bs \<longleftrightarrow> 18 \<le> length bs \<and> (\<exists>rid op resp_op st body.
     dec_frame bs = Some (rid, resp_op, st, body) \<and> rsi_response_op_code E op = Some resp_op \<and>
     (st = RSI_OK E \<or> parse_rsi_status E st \<noteq> None \<and> body = []))"

lemma acceptable_response:
  assumes "18 + length body < 2 ^ 32" "rsi_response_op_code E op = Some resp_op"
    and "st = RSI_OK E \<or> parse_rsi_status E st \<noteq> None \<and> body = []"
  shows "acceptable_frame E (response_frame rid resp_op st body)"
  unfolding acceptable_frame_def using dec_frame_response [OF assms(1)] assms(2,3) by fastforce

section \<open>The effect of a call\<close>

text \<open>
  What a call may do, one rule per kind of outcome: fail on its own, store one struct of the type
  already there, receive, send the caller's bytes, send a frame of its own, or attempt a
  registration.
\<close>

inductive call_effect :: "env \<Rightarrow> call \<Rightarrow> world \<Rightarrow> int \<Rightarrow> world \<Rightarrow> bool" for E c s where
  failed: "mem s' = mem s \<Longrightarrow> trace s' = trace s \<Longrightarrow> errno s' \<in> own_errnos c \<Longrightarrow>
    (errno s' = ENOMEM \<longrightarrow> may_oom E) \<Longrightarrow> call_effect E c s (-1) s'"
| stored: "call_stores c = {p} \<Longrightarrow> mem s p = Some old \<Longrightarrow> cell_type new = cell_type old \<Longrightarrow>
    call_effect E c s 0 (s\<lparr>mem := (mem s)(p \<mapsto> new)\<rparr>)"
| received: "c = Read_request fd p n \<Longrightarrow> sr = kernel E (trace s) (Sys_read fd p n) \<Longrightarrow>
    call_effect E c s (sys_ret sr) (s\<lparr>errno := sys_errno sr, trace := trace s @ [(Sys_read fd p n, sr)],
      mem := put_bytes (mem s) p (sys_data sr)\<rparr>)"
| passed_on: "c = Write_response fd p n \<Longrightarrow> read_bytes (mem s) p (unat n) = Some bs \<Longrightarrow>
    sr = kernel E (trace s) (Sys_write fd bs) \<Longrightarrow>
    call_effect E c s (sys_ret sr) (s\<lparr>errno := sys_errno sr, trace := trace s @ [(Sys_write fd bs, sr)]\<rparr>)"
| answered: "c = Respond_status fd req st \<or> c = Respond fd req a \<Longrightarrow> acceptable_frame E bs \<Longrightarrow>
    sent E fd bs s x s' \<Longrightarrow> call_effect E c s x s'"
| registered: "c = Register hives n max_sequence \<Longrightarrow>
    register_outcome E args h (s\<lparr>ticks := t\<rparr>) = Done x s' \<Longrightarrow> call_effect E c s x s'"

lemma decoded_type: "decoded op E p c = Some c' \<Longrightarrow> cell_type c' = cell_type c"
  by (cases op) (auto simp: cell_simps Option.bind_eq_Some_conv)

lemma parse_effectD:
  assumes "call_contract (mem s) (Parse_request frame len out)" "rsi_parse_request E frame len out s = Done x s'"
  shows "call_effect E (Parse_request frame len out) s x s'"
proof -
  obtain old bs where c: "out \<noteq> NULL \<longrightarrow> mem s out = Some (Request old)"
    "frame \<noteq> NULL \<longrightarrow> read_bytes (mem s) frame (unat len) = Some bs"
    using assms(1) by (auto simp: request_at_def)
  show ?thesis
    using assms(2) c unfolding rsi_parse_request_eq [OF c]
    by (auto split: option.splits if_splits intro!: call_effect.failed call_effect.stored)
qed

lemma parse_returns:
  assumes "header_parser_checks E" "call_contract (mem s) (Parse_request frame len out)"
  shows "\<exists>x s'. rsi_parse_request E frame len out s = Done x s'"
proof -
  obtain old bs where c: "out \<noteq> NULL \<longrightarrow> mem s out = Some (Request old)"
    "frame \<noteq> NULL \<longrightarrow> read_bytes (mem s) frame (unat len) = Some bs"
    using assms(2) by (auto simp: request_at_def)
  have "unat (RSI_REQUEST_HEADER_SIZE E) \<le> unat len"
    if "frame \<noteq> NULL" "parse_rsi_request_header E \<lparr>as_ptr = frame, bytes_of = bs\<rparr> = Some h" for h
    by (rule header_fits [OF assms(1) _ that(2)]) (use c(2) that(1) in blast)
  then show ?thesis unfolding rsi_parse_request_eq [OF c] by (auto split: option.split)
qed

lemma parse_effect:
  assumes "header_parser_checks E" "call_contract (mem s) (Parse_request frame len out)"
  shows "wp (rsi_parse_request E frame len out) (call_effect E (Parse_request frame len out) s) s"
  using parse_returns [OF assms] parse_effectD [OF assms(2)] by (auto simp: wp_Done)

lemma decode_effect:
  assumes "call_contract (mem s) (Decode op req out)"
  shows "wp (decoder_of op E req out) (call_effect E (Decode op req out) s) s"
proof -
  from assms have c: "request_valid (mem s) req" "out = NULL \<or> (\<exists>c. mem s out = Some c \<and> out_typed op c)"
    by simp_all
  show ?thesis
    unfolding wp_def decoders.dec_eq [OF c]
    using c(2) by (auto split: option.splits intro!: call_effect.failed call_effect.stored dest: decoded_type)
qed

lemma status_effect:
  assumes "call_contract (mem s) (Respond_status fd req st)"
  shows "wp (rsi_respond_status E fd req st) (call_effect E (Respond_status fd req st) s) s"
proof (cases "req = NULL")
  case True
  then show ?thesis
    by (auto simp: rsi_respond_status_def wp_simps intro!: call_effect.failed)
next
  case False
  with assms obtain r where r: "mem s req = Some (Request r)" by (auto simp: request_at_def)
  have "wp (write_frame E fd f) (call_effect E (Respond_status fd req st) s) s" if "acceptable_frame E f" for f
    by (rule wp_mono [OF wp_write_frame]) (blast intro: that call_effect.answered)
  then show ?thesis
    unfolding wp_def respond_status_eq [OF False r]
    using acceptable_response [of "[]" E "op_code r" _ st "request_id r"]
    by (auto simp: status_allowed_def split: option.splits intro!: call_effect.failed simp flip: wp_def)
qed

lemma respond_effect:
  assumes "try_extend_appends E" "call_contract (mem s) (Respond fd req a)"
  shows "wp (respond E fd req a) (call_effect E (Respond fd req a) s) s"
proof -
  from assms obtain r where r: "req \<noteq> NULL \<longrightarrow> mem s req = Some (Request r)" by (auto simp: request_at_def)
  show ?thesis
  proof (cases "req \<noteq> NULL \<and> op_code r = ucast (code_of E (reply_op a))")
    case True
    then have "wp (respond E fd req a) (replies E fd r (reply_ok E a) (reply_body (mem s) a) s) s"
      using assms r by (intro any.own_request) auto
    then show ?thesis
      unfolding replies_def
      by (rule wp_mono) (elim disjE exE conjE, rule call_effect.answered [OF disjI2 [OF refl] acceptable_response],
        auto intro!: call_effect.failed)
  next
    case False
    then show ?thesis
      unfolding wp_def any.rejected [OF r False] by (auto intro!: call_effect.failed)
  qed
qed

lemma register_outcome_Done: "\<exists>x s'. register_outcome E args h s = Done x s'"
  unfolding register_outcome_def Let_def by (simp split: if_split)

lemma register_effect:
  assumes "call_contract (mem s) (Register hives n max_sequence)"
  shows "wp (rsi_register E hives n max_sequence) (call_effect E (Register hives n max_sequence) s) s"
proof (cases "n = 0 \<or> hives = NULL")
  case True
  then show ?thesis by (auto simp: wp_def register_guard intro!: call_effect.failed)
next
  case False
  with assms obtain hs where "hive_array (mem s) hives n hs" by auto
  from register_eq [OF _ _ this] False have eq: "rsi_register E hives n max_sequence s =
    (case vec_grow E (ticks s) of
       None \<Rightarrow> Done (-1) (s\<lparr>errno := ENOMEM, ticks := Suc (ticks s)\<rparr>)
     | Some _ \<Rightarrow> register_outcome E (register_args E (ticks s) n max_sequence)
         (register_mem E (ticks s) (mem s) hs) (s\<lparr>ticks := Suc (ticks s)\<rparr>))"
    by simp
  show ?thesis
  proof (cases "vec_grow E (ticks s)")
    case None
    then show ?thesis
      by (auto simp: wp_def eq may_oom_def alloc_refuses_def intro!: call_effect.failed)
  next
    case (Some c)
    obtain x s' where "rsi_register E hives n max_sequence s = Done x s'"
      unfolding eq Some option.case using register_outcome_Done by blast
    with Some show ?thesis by (auto simp: wp_Done eq intro: call_effect.registered)
  qed
qed

lemma call_effect_holds:
  assumes "try_extend_appends E" "call_contract (mem s) c"
    and "\<And>frame len out. c = Parse_request frame len out \<Longrightarrow> header_parser_checks E"
  shows "wp (run_call E c) (call_effect E c s) s"
proof (cases c)
  case (Read_request fd p cap)
  from call_effect.received [OF this refl] Read_request show ?thesis
    by (auto simp: rsi_read_request_def sys_read_def wp_def bindM_def syscall_def Let_def)
next
  case (Write_response fd p n)
  with assms obtain bs where bs: "read_bytes (mem s) p (unat n) = Some bs" by auto
  with Write_response show ?thesis
    by (auto simp: rsi_write_response_def wp_simps intro: call_effect.passed_on)
qed (use assms parse_effect decode_effect status_effect respond_effect register_effect in \<open>simp_all\<close>)

lemma call_effectD:
  assumes "try_extend_appends E" "call_contract (mem s) c" "run_call E c s = Done x s'"
  shows "call_effect E c s x s'"
proof (cases "\<exists>frame len out. c = Parse_request frame len out")
  case True
  with assms(2,3) parse_effectD show ?thesis by auto
next
  case False
  with call_effect_holds [OF assms(1,2)] assms(3) show ?thesis by (auto simp: wp_Done)
qed

section \<open>Returning\<close>

lemma register_outcome_cases:
  assumes "register_outcome E args h s = Done x s'"
  obtains (open_failed) sr where "sys_ret sr < 0" "x = -1" "errno s' = sys_errno sr" "mem s' = mem s"
      "trace s' = trace s @ [(Sys_open DEVICE (O_RDWR OR O_CLOEXEC), sr)]"
      "sr = kernel E (trace s) (Sys_open DEVICE (O_RDWR OR O_CLOEXEC))"
  | (refused) sr sr' sr'' where "0 \<le> sys_ret sr" "sys_ret sr' < 0" "x = -1" "errno s' = sys_errno sr'" "mem s' = mem s"
      "trace s' = trace s @ [(Sys_open DEVICE (O_RDWR OR O_CLOEXEC), sr),
         (Sys_ioctl (sys_ret sr) (REG_SRC_REGISTER E) args h, sr'), (Sys_close (sys_ret sr), sr'')]"
      "sr = kernel E (trace s) (Sys_open DEVICE (O_RDWR OR O_CLOEXEC))"
  | (accepted) sr sr' where "0 \<le> sys_ret sr" "0 \<le> sys_ret sr'" "x = sys_ret sr" "mem s' = mem s"
      "trace s' = trace s @ [(Sys_open DEVICE (O_RDWR OR O_CLOEXEC), sr),
         (Sys_ioctl (sys_ret sr) (REG_SRC_REGISTER E) args h, sr')]"
      "sr = kernel E (trace s) (Sys_open DEVICE (O_RDWR OR O_CLOEXEC))"
proof -
  let ?opn = "Sys_open DEVICE (O_RDWR OR O_CLOEXEC)"
  let ?o = "kernel E (trace s) ?opn"
  let ?i = "kernel E (trace s @ [(?opn, ?o)]) (Sys_ioctl (sys_ret ?o) (REG_SRC_REGISTER E) args h)"
  note eq = assms [symmetric, unfolded register_outcome_def Let_def]
  consider "sys_ret ?o < 0" | "0 \<le> sys_ret ?o" "sys_ret ?i < 0" | "0 \<le> sys_ret ?o" "0 \<le> sys_ret ?i" by linarith
  then show thesis
  proof cases
    case 1
    with eq show thesis by (intro open_failed [of ?o]) simp_all
  next
    case 2
    with eq show thesis by (intro refused [of ?o ?i]) simp_all
  next
    case 3
    with eq show thesis by (intro accepted [of ?o ?i]) simp_all
  qed
qed

text \<open>
  C2. Every exported function returns: under its pointer contract no call is undefined behaviour,
  panics, aborts on a refused allocation or loops, whatever the kernel and the allocator answer
  and whatever lcs-core makes of the bytes, as long as its header parser refuses frames shorter
  than the header, as it documents; and it makes at most three system calls.
\<close>

theorem every_call_returns:
  assumes "try_extend_appends E" "header_parser_checks E" "call_contract (mem s) c"
  shows "\<exists>x s'. run_call E c s = Done x s' \<and> length (trace s') \<le> length (trace s) + 3"
proof -
  obtain x s' where x: "run_call E c s = Done x s'" and e: "call_effect E c s x s'"
    using wpD [OF call_effect_holds [OF assms(1,3,2)]] by blast
  from e have "length (trace s') \<le> length (trace s) + 3"
    by cases (auto simp: sent_def elim!: register_outcome_cases)
  with x show ?thesis by blast
qed

section \<open>Footprint and types\<close>

lemma put_bytes_types:
  assumes "read_bytes h p n = Some cs" "length bs \<le> n"
  shows "map_option cell_type (put_bytes h p bs q) = map_option cell_type (h q)"
  using assms
proof (induction bs arbitrary: p n cs)
  case (Cons b bs)
  then obtain k where n: "n = Suc k" by (cases n) auto
  with Cons.prems obtain b' cs' where hp: "h p = Some (Byte b')" and "read_bytes h (p + 1) k = Some cs'"
    by (auto simp: Option.bind_eq_Some_conv cell_simps split: option.splits)
  with Cons n show ?case by (cases "q = p") auto
qed simp

text \<open>
  C24. The footprint of a call: it stores nowhere but in the buffer or the struct it is given for
  that, the responders and \<open>rsi_register\<close> store nowhere at all in the caller's memory, and a
  call that fails without a system call leaves memory as it was.
\<close>

theorem call_footprint:
  assumes "try_extend_appends E" "read_bounded E" "call_contract (mem s) c" "run_call E c s = Done x s'"
  shows "(\<forall>q. q \<notin> call_stores c \<longrightarrow> mem s' q = mem s q) \<and> (x < 0 \<and> trace s' = trace s \<longrightarrow> mem s' = mem s)"
  using call_effectD [OF assms(1,3,4)]
proof cases
  case (received fd p n sr)
  have "length (sys_data sr) \<le> unat n" using assms(2) by (simp add: received read_bounded_def)
  then have "put_bytes (mem s) p (sys_data sr) q = mem s q" if "q \<notin> call_stores c" for q
    using that received(3) by (intro put_bytes_other) force
  with received show ?thesis by simp
qed (auto simp: sent_def elim!: register_outcome_cases)

text \<open>
  Type preservation: under its contract a call keeps the type of every cell of the caller's
  memory, creates none and destroys none, and so keeps the cells disjoint.
\<close>

lemma calls_preserve_types:
  assumes "try_extend_appends E" "read_bounded E" "call_contract (mem s) c" "run_call E c s = Done x s'"
  shows "map_option cell_type \<circ> mem s' = map_option cell_type \<circ> mem s \<and>
    cells_disjoint (mem s') = cells_disjoint (mem s)"
proof -
  have types: "map_option cell_type (mem s' q) = map_option cell_type (mem s q)" for q
    using call_effectD [OF assms(1,3,4)]
  proof cases
    case (received fd p n sr)
    have "length (sys_data sr) \<le> unat n" using assms(2) by (simp add: received read_bounded_def)
    moreover obtain cs where "read_bytes (mem s) p (unat n) = Some cs" using assms(3) received(3) by auto
    ultimately show ?thesis using received by (simp add: put_bytes_types)
  qed (auto simp: sent_def elim!: register_outcome_cases)
  then show ?thesis using cells_disjoint_types [of "mem s'" "mem s"] by (simp add: fun_eq_iff)
qed

section \<open>Errors\<close>

text \<open>
  C25. The errors of a call: a negative result without a system call is -1 with one of the
  function's documented \<open>errno\<close> values, \<open>ENOMEM\<close> only if an allocation can fail; after a
  system call \<open>errno\<close> is the one of a system call that failed, or \<open>EIO\<close> after a write the
  kernel took only in part.
\<close>

theorem call_errno:
  assumes "try_extend_appends E" "call_contract (mem s) c" "run_call E c s = Done x s'" "x < 0"
  shows "if trace s' = trace s then x = -1 \<and> errno s' \<in> own_errnos c \<and> (errno s' = ENOMEM \<longrightarrow> may_oom E)
    else \<exists>k sr. (k, sr) \<in> set (drop (length (trace s)) (trace s')) \<and>
      (sys_ret sr < 0 \<and> errno s' = sys_errno sr \<or>
       (\<exists>fd bs. k = Sys_write fd bs \<and> sys_ret sr \<noteq> int (length bs) \<and> errno s' = EIO))"
  using call_effectD [OF assms(1-3)]
proof cases
  case (registered hives n max_sequence args h t)
  from registered(2) assms(4) show ?thesis
  proof (cases rule: register_outcome_cases)
    case (refused sr sr' sr'')
    then show ?thesis by (auto intro!: exI [of _ sr'])
  qed auto
qed (use assms(4) in \<open>auto simp: sent_def split: if_splits\<close>)

section \<open>Examples\<close>

lemma ex_env_read_bounded: "read_bounded ex_env"
  by (auto simp: read_bounded_def split: syscall.splits)

lemma ex_register_contract: "call_contract (mem ex_reg_world) (Register 0x1000 1 9)"
  using ex_hive_array by auto

lemma ex_parse_contract: "call_contract (mem ex_world) (Parse_request 0x1000 44 0x2000)"
  using ex_frame_read by (simp add: request_at_def)

theorem every_call_returns_witness:
  "(\<exists>x s'. run_call ex_env (Parse_request 0x1000 44 0x2000) ex_world = Done x s' \<and>
      length (trace s') \<le> length (trace ex_world) + 3) \<and>
   (\<exists>x s'. run_call ex_refusing (Register 0x1000 1 9) ex_reg_world = Done x s' \<and>
      length (trace s') \<le> length (trace ex_reg_world) + 3)"
proof
  have "try_extend_appends ex_refusing" "header_parser_checks ex_refusing"
    using ex_env_try_extend ex_env_header by (simp_all add: try_extend_appends_def header_parser_checks_def ex_refusing_def)
  then show "\<exists>x s'. run_call ex_refusing (Register 0x1000 1 9) ex_reg_world = Done x s' \<and>
      length (trace s') \<le> length (trace ex_reg_world) + 3"
    using every_call_returns [OF _ _ ex_register_contract] by blast
qed (rule every_call_returns [OF ex_env_try_extend ex_env_header ex_parse_contract])

lemma ex_parse_run:
  "\<exists>r. run_call ex_env (Parse_request 0x1000 44 0x2000) ex_world = Done 0 (ex_world\<lparr>mem := ex_heap(0x2000 \<mapsto> Request r)\<rparr>)"
  using parse_stores [of "0x2000" ex_world ex_request0 "0x1000" 44 ex_lookup_frame ex_env] ex_frame_read ex_frame_header
    parse_returns [OF ex_env_header ex_parse_contract]
  by auto

theorem call_footprint_witness:
  "\<exists>s'. run_call ex_env (Parse_request 0x1000 44 0x2000) ex_world = Done 0 s' \<and> mem s' 0x3000 = ex_heap 0x3000"
  using ex_parse_run call_footprint [OF ex_env_try_extend ex_env_read_bounded ex_parse_contract] by fastforce

lemma ex_mismatch_contract: "call_contract (mem ex_world) (Decode RSI_FLUSH 0x4000 NULL)"
  using ex_request_valid by simp

lemma ex_mismatch_run: "run_call ex_env (Decode RSI_FLUSH 0x4000 NULL) ex_world = Done (-1) (ex_world\<lparr>errno := EINVAL\<rparr>)"
  using decoders.dec_wrong_op [of "0x4000" ex_world _ ex_env RSI_FLUSH NULL] by simp

theorem call_errno_witness:
  "\<exists>s'. run_call ex_env (Decode RSI_FLUSH 0x4000 NULL) ex_world = Done (-1) s' \<and> errno s' \<in> {EINVAL, EBADMSG}"
  using ex_mismatch_run call_errno [OF ex_env_try_extend ex_mismatch_contract ex_mismatch_run] by auto

end
