(* ===== verification/Session.thy ===== *)
theory Session
  imports Calls
begin

text \<open>
  A process that uses the library: a step relation whose steps are the calls of the exported
  functions, each under its contract, and arbitrary steps of the caller on its own memory. The
  state is the world together with the descriptors registration has returned and the frames the
  process has passed to \<open>rsi_write_response\<close>, which sends what it is given. The invariants hold in
  every state reachable from a process that has made no system call.
\<close>

section \<open>Steps\<close>

text \<open>
  The frames passed on by \<open>rsi_write_response\<close> are recorded by the position of the \<open>write\<close> in the
  history, with the contents of the caller's buffer at the time of the call.
\<close>

type_synonym session = "world \<times> c_int set \<times> (nat \<rightharpoonup> u8 list)"

fun returned_fds :: "call \<Rightarrow> int \<Rightarrow> c_int set \<Rightarrow> c_int set" where
  "returned_fds (Register hives n max_sequence) x fds = (if x < 0 then fds else insert x fds)"
| "returned_fds c x fds = fds"

fun passed_frames :: "call \<Rightarrow> world \<Rightarrow> (nat \<rightharpoonup> u8 list) \<Rightarrow> nat \<rightharpoonup> u8 list" where
  "passed_frames (Write_response fd p n) s raw = raw(length (trace s) := read_bytes (mem s) p (unat n))"
| "passed_frames c s raw = raw"

inductive step :: "env \<Rightarrow> session \<Rightarrow> session \<Rightarrow> bool" for E where
  caller: "step E (s, fds, raw) (s\<lparr>mem := h, errno := e\<rparr>, fds, raw)"
| call: "call_contract (mem s) c \<Longrightarrow> run_call E c s = Done x s' \<Longrightarrow>
    step E (s, fds, raw) (s', returned_fds c x fds, passed_frames c s raw)"

definition initial :: "session \<Rightarrow> bool" where
  "initial = (\<lambda>(s, fds, raw). trace s = [] \<and> fds = {} \<and> raw = Map.empty)"

inductive reachable :: "env \<Rightarrow> session \<Rightarrow> bool" for E where
  start: "initial t \<Longrightarrow> reachable E t"
| more: "reachable E t \<Longrightarrow> step E t t' \<Longrightarrow> reachable E t'"

section \<open>What is written\<close>

text \<open>
  Every system call in the history is accounted for: a \<open>write\<close> that passed on a frame of the
  caller has exactly its bytes, any other \<open>write\<close> an acceptable frame, and no other system call
  is recorded as passing on a frame.
\<close>

definition write_ok :: "env \<Rightarrow> syscall \<Rightarrow> u8 list option \<Rightarrow> bool" where
  "write_ok E c raw = (case c of
     Sys_write fd bs \<Rightarrow> (case raw of Some bs' \<Rightarrow> bs = bs' | None \<Rightarrow> acceptable_frame E bs)
   | _ \<Rightarrow> raw = None)"

definition writes_accounted :: "env \<Rightarrow> systrace \<Rightarrow> (nat \<rightharpoonup> u8 list) \<Rightarrow> bool" where
  "writes_accounted E tr raw \<longleftrightarrow>
     (\<forall>i < length tr. write_ok E (fst (tr ! i)) (raw i)) \<and> (\<forall>i \<ge> length tr. raw i = None)"

lemma writes_accounted_append:
  "writes_accounted E (tr @ es) raw \<longleftrightarrow>
    (\<forall>i < length tr. write_ok E (fst (tr ! i)) (raw i)) \<and> writes_accounted E es (\<lambda>i. raw (length tr + i))"
proof -
  have low: "(\<forall>i < length (tr @ es). P i) \<longleftrightarrow> (\<forall>i < length tr. P i) \<and> (\<forall>i < length es. P (length tr + i))" for P
    by (auto, metis add_diff_inverse_nat nat_add_left_cancel_less)
  have high: "(\<forall>i \<ge> length (tr @ es). raw i = None) \<longleftrightarrow> (\<forall>i \<ge> length es. raw (length tr + i) = None)"
    by (auto, metis add_leD1 le_add_diff_inverse nat_add_left_cancel_le)
  show ?thesis unfolding writes_accounted_def low high by (simp add: nth_append)
qed

lemma writes_accounted_Nil [simp]: "writes_accounted E [] raw \<longleftrightarrow> raw = Map.empty"
  by (auto simp: writes_accounted_def fun_eq_iff)

lemma writes_accounted_Cons [simp]:
  "writes_accounted E ((c, r) # es) raw \<longleftrightarrow> write_ok E c (raw 0) \<and> writes_accounted E es (\<lambda>i. raw (Suc i))"
  using writes_accounted_append [of E "[(c, r)]" es raw] by simp

text \<open>System calls that are in order by themselves keep the account.\<close>

lemma write_ok_simps [simp]:
  "write_ok E (Sys_write fd bs) None \<longleftrightarrow> acceptable_frame E bs" "write_ok E (Sys_write fd bs) (Some bs') \<longleftrightarrow> bs = bs'"
  "write_ok E (Sys_read fd p n) None" "write_ok E (Sys_open path flags) None"
  "write_ok E (Sys_ioctl fd c args h) None" "write_ok E (Sys_close fd) None"
  by (simp_all add: write_ok_def)

lemma account_quiet:
  assumes "writes_accounted E tr raw" "list_all (\<lambda>(c, r). write_ok E c None) es"
  shows "writes_accounted E (tr @ es) raw"
  unfolding writes_accounted_append
  using assms by (simp add: writes_accounted_def list_all_length case_prod_unfold)

lemma account_passed:
  assumes "writes_accounted E tr raw"
  shows "writes_accounted E (tr @ [(Sys_write fd bs, r)]) (raw(length tr \<mapsto> bs))"
  unfolding writes_accounted_append
  using assms by (simp add: writes_accounted_def)

lemma passed_frames_quiet: "\<not> (\<exists>fd p n. c = Write_response fd p n) \<Longrightarrow> passed_frames c s raw = raw"
  by (cases c) auto

lemma call_writes:
  assumes "writes_accounted E (trace s) raw" "call_effect E c s x s'"
  shows "writes_accounted E (trace s') (passed_frames c s raw)"
  using assms(2)
proof cases
  case failed
  then show ?thesis using assms(1) by (cases c) simp_all
next
  case (stored p old new)
  then show ?thesis using assms(1) by (cases c) simp_all
next
  case (passed_on fd p n bs sr)
  then show ?thesis using account_passed [OF assms(1)] by simp
next
  case (registered hives n max_sequence args h t)
  from registered(2) show ?thesis
    by (rule register_outcome_cases) (use account_quiet [OF assms(1)] registered(1) in simp_all)
qed (use account_quiet [OF assms(1)] assms(1) in \<open>auto simp: passed_frames_quiet sent_def\<close>)

lemma step_writes:
  assumes "try_extend_appends E" "step E (s, fds, raw) (s', fds', raw')" "writes_accounted E (trace s) raw"
  shows "writes_accounted E (trace s') raw'"
  using assms(2)
proof cases
  case (call c x)
  with call_writes [OF assms(3) call_effectD [OF assms(1) call(3,4)]] show ?thesis by simp
qed (use assms(3) in simp)

section \<open>Descriptors\<close>

text \<open>\<open>open(2)\<close> returns a descriptor that is not open, or fails.\<close>

definition open_fresh :: "env \<Rightarrow> bool" where
  "open_fresh E \<longleftrightarrow> (\<forall>tr path flags. sys_ret (kernel E tr (Sys_open path flags)) \<notin> open_fds tr)"

definition fds_accounted :: "session \<Rightarrow> bool" where
  "fds_accounted = (\<lambda>(s, fds, raw). open_fds (trace s) = fds)"

lemma returned_fds_quiet: "\<not> (\<exists>hives n ms. c = Register hives n ms) \<or> x < 0 \<Longrightarrow> returned_fds c x fds = fds"
  by (cases c) auto

lemma call_fds:
  assumes "open_fresh E" "call_effect E c s x s'"
  shows "open_fds (trace s') = returned_fds c x (open_fds (trace s))"
  using assms(2)
proof cases
  case (stored p old new)
  then show ?thesis by (cases c) auto
next
  case (registered hives n max_sequence args h t)
  from registered(2) show ?thesis
    by (rule register_outcome_cases) (use assms(1) registered(1) in \<open>auto simp: open_fresh_def\<close>)
qed (auto simp: sent_def returned_fds_quiet)

lemma step_fds:
  assumes "try_extend_appends E" "open_fresh E" "step E (s, fds, raw) (s', fds', raw')" "open_fds (trace s) = fds"
  shows "open_fds (trace s') = fds'"
  using assms(3)
proof cases
  case (call c x)
  with call_fds [OF assms(2) call_effectD [OF assms(1) call(3,4)]] assms(4) show ?thesis by simp
qed (use assms(4) in simp)

section \<open>Invariants\<close>

text \<open>
  C13. Whatever a process does with the library, every frame handed to \<open>write\<close> is either one the
  process itself built and passed to \<open>rsi_write_response\<close>, and then byte for byte what its buffer
  held at the call, or one a responder built, and then acceptable in form to the kernel: at least
  18 bytes, the length field equal to the number of bytes written, the response op-code of a
  request op, and a status that is \<open>RSI_OK\<close> or a known status without payload. Nothing else is
  ever written, and only \<open>rsi_write_response\<close> passes frames on.
\<close>

theorem reachable_writes_acceptable:
  assumes "try_extend_appends E" "reachable E (s, fds, raw)"
  shows "(\<forall>i < length (trace s). \<forall>fd bs. fst (trace s ! i) = Sys_write fd bs \<longrightarrow>
      (case raw i of None \<Rightarrow> acceptable_frame E bs | Some bs' \<Rightarrow> bs = bs')) \<and>
    (\<forall>i \<in> dom raw. i < length (trace s) \<and> (\<exists>fd bs. fst (trace s ! i) = Sys_write fd bs))"
proof -
  have "writes_accounted E (trace (fst t)) (snd (snd t))" if "reachable E t" for t
    using that
  proof induction
    case (start t)
    then show ?case by (cases t) (simp add: initial_def)
  next
    case (more t t')
    then show ?case using step_writes [OF assms(1)] by (cases t; cases t') auto
  qed
  from this [OF assms(2)] have acc: "\<And>i. i < length (trace s) \<Longrightarrow> write_ok E (fst (trace s ! i)) (raw i)"
    "\<And>i. length (trace s) \<le> i \<Longrightarrow> raw i = None"
    by (simp_all add: writes_accounted_def)
  have "case raw i of None \<Rightarrow> acceptable_frame E bs | Some bs' \<Rightarrow> bs = bs'"
    if "i < length (trace s)" "fst (trace s ! i) = Sys_write fd bs" for i fd bs
    using acc(1) [OF that(1)] that(2) by (cases "raw i") simp_all
  moreover have "i < length (trace s) \<and> (\<exists>fd bs. fst (trace s ! i) = Sys_write fd bs)" if "i \<in> dom raw" for i
    using acc [of i] that by (cases "i < length (trace s)") (auto simp: write_ok_def split: syscall.split_asm)
  ultimately show ?thesis by blast
qed

text \<open>
  C14. Whatever a process does with the library, the descriptors the library's calls have opened
  and not closed are exactly those it returned to the caller: no call leaks one, and none is
  closed behind the caller's back.
\<close>

theorem reachable_fds_accounted:
  assumes "try_extend_appends E" "open_fresh E" "reachable E t"
  shows "fds_accounted t"
  using assms(3)
proof induction
  case (start t)
  then show ?case by (cases t) (simp add: initial_def fds_accounted_def open_fds_def)
next
  case (more t t')
  then show ?case using step_fds [OF assms(1,2)] by (cases t; cases t') (auto simp: fds_accounted_def)
qed

section \<open>A run\<close>

text \<open>A kernel whose \<open>open\<close> returns a number larger than every result so far.\<close>

definition ex_fresh :: env where
  "ex_fresh = ex_env\<lparr>kernel := (\<lambda>tr c. case c of
     Sys_open _ _ \<Rightarrow> \<lparr>sys_ret = 3 + sum_list (map (\<lambda>(_, r). \<bar>sys_ret r\<bar>) tr), sys_errno = 0, sys_data = []\<rparr>
   | _ \<Rightarrow> ex_kernel tr c)\<rparr>"

lemma open_fds_bound: "x \<in> fold fd_effect tr S \<Longrightarrow> x \<in> S \<or> x \<le> sum_list (map (\<lambda>(_, r). \<bar>sys_ret r\<bar>) tr)"
proof (induction tr arbitrary: S)
  case (Cons e tr)
  obtain c r where e: "e = (c, r)" by (cases e)
  have nonneg: "0 \<le> sum_list (map (\<lambda>(_, r). \<bar>sys_ret r\<bar>) tr)"
    by (rule sum_list_nonneg) auto
  from Cons.prems have "x \<in> fold fd_effect tr (fd_effect e S)" by simp
  from Cons.IH [OF this] show ?case
    using nonneg by (cases c) (auto simp: e split: if_splits)
qed simp

lemma ex_fresh_open: "open_fresh ex_fresh"
  using open_fds_bound [of _ _ "{}"] by (fastforce simp: open_fresh_def ex_fresh_def open_fds_def)

lemma ex_fresh_extend: "try_extend_appends ex_fresh"
  using ex_env_try_extend by (simp add: try_extend_appends_def ex_fresh_def)

lemma ex_fresh_register: "\<exists>s'. rsi_register ex_fresh 0x1000 1 9 ex_reg_world = Done 3 s' \<and> mem s' = ex_reg_heap"
  using register_eq [of 1 "0x1000" ex_reg_world "[ex_hive]" ex_fresh 9] ex_hive_array
  by (simp add: register_outcome_def Let_def ex_fresh_def)

lemma ex_reachable: "\<exists>s. reachable ex_fresh (s, {3}, Map.empty) \<and> mem s = ex_reg_heap"
proof -
  obtain s' where s': "rsi_register ex_fresh 0x1000 1 9 ex_reg_world = Done 3 s'" "mem s' = ex_reg_heap"
    using ex_fresh_register by blast
  have "step ex_fresh (ex_reg_world, {}, Map.empty) (s', {3}, Map.empty)"
    using step.call [of ex_reg_world "Register 0x1000 1 9" ex_fresh 3 s' "{}" Map.empty] ex_register_contract s'(1) by simp
  moreover have "reachable ex_fresh (ex_reg_world, {}, Map.empty)" by (rule reachable.start) (simp add: initial_def)
  ultimately have "reachable ex_fresh (s', {3}, Map.empty)" using reachable.more by fastforce
  with s'(2) show ?thesis by blast
qed

theorem reachable_fds_accounted_witness: "\<exists>s. reachable ex_fresh (s, {3}, Map.empty) \<and> open_fds (trace s) = {3}"
  using ex_reachable reachable_fds_accounted [OF ex_fresh_extend ex_fresh_open]
  by (fastforce simp: fds_accounted_def)

lemma ex_reg_name_read: "read_bytes ex_reg_heap 0x2000 2 = Some [0x48, 0x4B]"
  by code_simp

text \<open>A process that answers with a status and then passes on two bytes of its own.\<close>

lemma ex_status_reachable:
  "\<exists>s. reachable ex_env (s, {}, [1 \<mapsto> [0x48, 0x4B]]) \<and> length (trace s) = 2 \<and> (\<exists>bs. fst (trace s ! 0) = Sys_write 3 bs)"
proof -
  obtain s' where s': "rsi_respond_status ex_env 3 0x100 5 ex_rworld = Done 0 s'" "length (trace s') = 1"
      "\<exists>bs. fst (trace s' ! 0) = Sys_write 3 bs"
    using respond_status_eq [where s = ex_rworld and req = "0x100" and r = "ex_req 1" and E = ex_env and status = 5 and fd = 3]
    by (auto simp: status_allowed_def write_frame_exact_ok)
  have "reachable ex_env (ex_rworld, {}, Map.empty)" by (rule reachable.start) (simp add: initial_def)
  moreover have "step ex_env (ex_rworld, {}, Map.empty) (s', {}, Map.empty)"
    using step.call [of ex_rworld "Respond_status 3 0x100 5" ex_env 0 s' "{}" Map.empty] s'(1) by (simp add: request_at_def)
  ultimately have r1: "reachable ex_env (s', {}, Map.empty)" by (rule reachable.more)
  let ?s = "s'\<lparr>mem := ex_reg_heap, errno := 0\<rparr>"
  have r2: "reachable ex_env (?s, {}, Map.empty)" by (rule reachable.more [OF r1 step.caller])
  have rd: "read_bytes (mem ?s) 0x2000 (unat (2 :: u64)) = Some [0x48, 0x4B]"
    using ex_reg_name_read by simp
  obtain x s'' where s'': "rsi_write_response ex_env 3 0x2000 2 ?s = Done x s''"
    "trace s'' = trace s' @ [(Sys_write 3 [0x48, 0x4B], kernel ex_env (trace s') (Sys_write 3 [0x48, 0x4B]))]"
    using rd by (simp add: rsi_write_response_def bindM_def from_raw_parts_def syscall_def ret_def Let_def)
  have "step ex_env (?s, {}, Map.empty) (s'', {}, [1 \<mapsto> [0x48, 0x4B]])"
    using step.call [of ?s "Write_response 3 0x2000 2" ex_env x s'' "{}" Map.empty] rd s''(1) s'(2) by simp
  from reachable.more [OF r2 this] s'' s'(2,3) show ?thesis by (auto simp: nth_append intro!: exI [of _ s''])
qed

theorem reachable_writes_acceptable_witness:
  "\<exists>s bs. reachable ex_env (s, {}, [1 \<mapsto> [0x48, 0x4B]]) \<and> fst (trace s ! 0) = Sys_write 3 bs \<and> acceptable_frame ex_env bs \<and>
    (\<exists>fd bs'. fst (trace s ! 1) = Sys_write fd bs')"
proof -
  obtain s bs where s: "reachable ex_env (s, {}, [1 \<mapsto> [0x48, 0x4B]])" "length (trace s) = 2" "fst (trace s ! 0) = Sys_write 3 bs"
    using ex_status_reachable by blast
  note acc = reachable_writes_acceptable [OF ex_env_try_extend s(1)]
  have "acceptable_frame ex_env bs" using acc [THEN conjunct1, rule_format, of 0 3 bs] s(2,3) by simp
  moreover have "\<exists>fd bs'. fst (trace s ! 1) = Sys_write fd bs'" using acc [THEN conjunct2, rule_format, of 1] by simp
  ultimately show ?thesis using s by blast
qed

end
