(* ===== verification/Serve.thy ===== *)
theory Serve
  imports Session
begin

text \<open>
  The library together with the kernel's source device. The device is not code of this
  repository; what \<open>docs/design-notes.md\<close> documents of it is the hypothesis \<open>source_device\<close>: a
  \<open>read\<close> hands out one framed request, which is then in flight, and a \<open>write\<close> is accepted exactly
  when it answers a request in flight. Against every such device the library's calls compose to a
  server that answers what it reads.
\<close>

section \<open>Requests in flight\<close>

text \<open>
  The checks of a response: the request id, the response op-code, and a status that is
  \<open>RSI_OK\<close> or a known status without payload; that the length field is the number of bytes is
  part of \<open>dec_frame\<close>.
\<close>

definition answers :: "env \<Rightarrow> u8 list \<Rightarrow> u64 \<times> u16 \<Rightarrow> bool" where
  "answers E bs = (\<lambda>(rid, op). case dec_frame bs of
     None \<Rightarrow> False
   | Some (rid', resp_op, st, body) \<Rightarrow> rid' = rid \<and> rsi_response_op_code E op = Some resp_op \<and>
       (st = RSI_OK E \<or> parse_rsi_status E st \<noteq> None \<and> body = []))"

text \<open>The requests handed out on a descriptor and not answered yet, by the history of system calls.\<close>

fun flight :: "env \<Rightarrow> c_int \<Rightarrow> syscall \<times> sysret \<Rightarrow> (u64 \<times> u16) set \<Rightarrow> (u64 \<times> u16) set" where
  "flight E fd (Sys_read fd' p n, r) Q =
     (if fd' = fd \<and> 0 < sys_ret r
      then (case parse_rsi_request_header E \<lparr>as_ptr = p, bytes_of = sys_data r\<rparr> of
              Some h \<Rightarrow> insert (hd_request_id h, hd_op_code h) Q
            | None \<Rightarrow> Q)
      else Q)"
| "flight E fd (Sys_write fd' bs, r) Q =
     (if fd' = fd \<and> sys_ret r = int (length bs) then {q \<in> Q. \<not> answers E bs q} else Q)"
| "flight E fd _ Q = Q"

definition in_flight :: "env \<Rightarrow> c_int \<Rightarrow> systrace \<Rightarrow> (u64 \<times> u16) set" where
  "in_flight E fd tr = fold (flight E fd) tr {}"

lemma in_flight_simps [simp]:
  "in_flight E fd [] = {}" "in_flight E fd (tr @ [e]) = flight E fd e (in_flight E fd tr)"
  by (simp_all add: in_flight_def)

text \<open>
  The documented device: a write is taken whole when it answers a request in flight and refused
  otherwise; what a successful read returns is one request frame that fits the buffer.
\<close>

definition source_device :: "env \<Rightarrow> c_int \<Rightarrow> bool" where
  "source_device E fd \<longleftrightarrow>
     (\<forall>tr bs. if \<exists>q \<in> in_flight E fd tr. answers E bs q
        then sys_ret (kernel E tr (Sys_write fd bs)) = int (length bs)
        else sys_ret (kernel E tr (Sys_write fd bs)) < 0) \<and>
     (\<forall>tr p n. let r = kernel E tr (Sys_read fd p n) in 0 < sys_ret r \<longrightarrow>
        sys_ret r = int (length (sys_data r)) \<and> length (sys_data r) \<le> unat n \<and>
        parse_rsi_request_header E \<lparr>as_ptr = p, bytes_of = sys_data r\<rparr> \<noteq> None)"

text \<open>The response op-code is the op-code with the response bit: different ops have different ones.\<close>

definition response_codes_inj :: "env \<Rightarrow> bool" where
  "response_codes_inj E \<longleftrightarrow> (\<forall>op op'. rsi_response_op_code E op \<noteq> None \<longrightarrow>
     rsi_response_op_code E op = rsi_response_op_code E op' \<longrightarrow> op = op')"

section \<open>Receiving\<close>

lemma received_request:
  assumes "source_device E fd" "p \<noteq> NULL" "rsi_read_request E fd p cap s = Done n s1" "0 < n"
    and "req \<noteq> NULL" "mem s1 req = Some (Request old)" "rsi_parse_request E p (of_int n) req s1 \<noteq> Undef"
  shows "\<exists>r h sr. rsi_parse_request E p (of_int n) req s1 = Done 0 (s1\<lparr>mem := (mem s1)(req \<mapsto> Request r)\<rparr>) \<and>
    trace s1 = trace s @ [(Sys_read fd p cap, sr)] \<and> sys_ret sr = n \<and>
    parse_rsi_request_header E \<lparr>as_ptr = p, bytes_of = sys_data sr\<rparr> = Some h \<and>
    request_id r = hd_request_id h \<and> op_code r = hd_op_code h"
proof -
  let ?r = "kernel E (trace s) (Sys_read fd p cap)"
  have n: "n = sys_ret ?r" and s1: "mem s1 = put_bytes (mem s) p (sys_data ?r)"
    "trace s1 = trace s @ [(Sys_read fd p cap, ?r)]"
    using assms(3) by (auto simp: rsi_read_request_def sys_read_def bindM_def syscall_def Let_def)
  have "0 < sys_ret ?r \<longrightarrow> sys_ret ?r = int (length (sys_data ?r)) \<and> length (sys_data ?r) \<le> unat cap \<and>
      parse_rsi_request_header E \<lparr>as_ptr = p, bytes_of = sys_data ?r\<rparr> \<noteq> None"
    using assms(1) unfolding source_device_def Let_def by blast
  with assms(4) n obtain h where len: "n = int (length (sys_data ?r))" "length (sys_data ?r) \<le> unat cap"
    and h: "parse_rsi_request_header E \<lparr>as_ptr = p, bytes_of = sys_data ?r\<rparr> = Some h"
    by auto
  have "unat cap < 2 ^ LENGTH(64)" by (rule unsigned_less)
  then have "unat cap < 2 ^ 64" by simp
  with len have u: "unat (of_int n :: u64) = length (sys_data ?r)" by (simp add: unat_of_nat_u64)
  have "read_bytes (mem s1) p (unat (of_int n :: u64)) = Some (sys_data ?r)"
    unfolding u s1(1) by (rule read_put_bytes) (use len(2) \<open>unat cap < 2 ^ 64\<close> in simp)
  from parse_stores [OF assms(5,6,2) this h assms(7)] show ?thesis
    using n h s1(2) by fastforce
qed

section \<open>Answering\<close>

lemma answers_response_frame:
  assumes "18 + length body < 2 ^ 32"
  shows "answers E (response_frame rid resp_op st body) (rid', op) \<longleftrightarrow>
    rid = rid' \<and> rsi_response_op_code E op = Some resp_op \<and> (st = RSI_OK E \<or> parse_rsi_status E st \<noteq> None \<and> body = [])"
  by (simp add: answers_def dec_frame_response [OF assms])

text \<open>A frame for the request \<open>(rid, op)\<close> is accepted exactly when that request is in flight, and then it no longer is.\<close>

lemma sent_to_device:
  assumes "source_device E fd" "response_codes_inj E" "rsi_response_op_code E op = Some resp_op"
    and "18 + length body < 2 ^ 32" "st = RSI_OK E \<or> parse_rsi_status E st \<noteq> None \<and> body = []"
    and "sent E fd (response_frame rid resp_op st body) s x s'"
  shows "x = (if (rid, op) \<in> in_flight E fd (trace s) then 0 else -1) \<and>
    in_flight E fd (trace s') = in_flight E fd (trace s) - {(rid, op)}"
proof -
  let ?f = "response_frame rid resp_op st body" and ?Q = "in_flight E fd (trace s)"
  have ans: "answers E ?f q \<longleftrightarrow> q = (rid, op)" for q
    using assms(2,3,5) by (cases q) (auto simp: answers_response_frame [OF assms(4)] response_codes_inj_def)
  have dev: "if (rid, op) \<in> ?Q then sys_ret (kernel E (trace s) (Sys_write fd ?f)) = int (length ?f)
      else sys_ret (kernel E (trace s) (Sys_write fd ?f)) < 0"
    using assms(1) ans by (auto simp: source_device_def split: if_splits)
  from assms(6) dev show ?thesis
    by (auto simp: sent_def ans split: if_splits)
qed

text \<open>
  C29. Answering a request against the documented device. With memory available, acceptable
  arguments and a request struct of the right op, a payload responder returns 0 exactly when the
  request of that id and op is in flight, that is, was read and not yet answered; then it is in
  flight no more. A second answer, or an answer to a request never read, is refused with -1, and
  no other request is affected either way.
\<close>

theorem answer_accepted_iff_in_flight:
  assumes "try_extend_appends E" "\<not> may_oom E" "source_device E fd" "response_codes_inj E"
    and "req \<noteq> NULL" "mem s req = Some (Request r)" "op_code r = ucast (code_of E (reply_op a))"
    and "reply_valid (mem s) a" "reply_ok E a" "rsi_response_op_code E (op_code r) \<noteq> None"
    and "18 + length (reply_body (mem s) a) < 2 ^ 32"
  shows "\<exists>x s'. respond E fd req a s = Done x s' \<and>
    x = (if (request_id r, op_code r) \<in> in_flight E fd (trace s) then 0 else -1) \<and>
    in_flight E fd (trace s') = in_flight E fd (trace s) - {(request_id r, op_code r)}"
proof -
  obtain resp_op where op: "rsi_response_op_code E (op_code r) = Some resp_op" using assms(10) by auto
  from wpD [OF any.delivered [OF assms(1,2,5-9) op assms(11)]]
  obtain x s' where "respond E fd req a s = Done x s'"
    "sent E fd (response_frame (request_id r) resp_op (RSI_OK E) (reply_body (mem s) a)) s x s'" by blast
  with sent_to_device [OF assms(3,4) op assms(11) disjI1 [OF refl]] show ?thesis by blast
qed

text \<open>A response that returned 0, of either kind, was an accepted answer to its request.\<close>

definition answered :: "env \<Rightarrow> c_int \<Rightarrow> rsi_request \<Rightarrow> world \<Rightarrow> world \<Rightarrow> bool" where
  "answered E fd r s s' \<longleftrightarrow> (\<exists>bs sr. trace s' = trace s @ [(Sys_write fd bs, sr)] \<and> sys_ret sr = int (length bs) \<and>
     answers E bs (request_id r, op_code r))"

lemma sent_answered:
  assumes "sent E fd (response_frame (request_id r) resp_op st body) s 0 s'" "18 + length body < 2 ^ 32"
    and "rsi_response_op_code E (op_code r) = Some resp_op" "st = RSI_OK E \<or> parse_rsi_status E st \<noteq> None \<and> body = []"
  shows "answered E fd r s s'"
  using assms by (auto simp: answered_def sent_def answers_response_frame split: if_splits)

lemma respond_answered:
  assumes "try_extend_appends E" "mem s req = Some (Request r)" "reply_valid (mem s) a" "respond E fd req a s = Done 0 s'"
  shows "answered E fd r s s'"
proof -
  have "req \<noteq> NULL \<longrightarrow> mem s req = Some (Request r)" using assms(2) by simp
  from any.success_sound [OF assms(1,3) this assms(4)] show ?thesis
    by (auto simp: answered_def answers_response_frame)
qed

lemma respond_status_answered:
  assumes "req \<noteq> NULL" "mem s req = Some (Request r)" "rsi_respond_status E fd req st s = Done 0 s'"
  shows "answered E fd r s s'"
proof -
  obtain resp_op where op: "rsi_response_op_code E (op_code r) = Some resp_op"
    and st: "status_allowed E (op_code r) st"
    and w: "write_frame E fd (response_frame (request_id r) resp_op st []) s = Done 0 s'"
    using assms(3) respond_status_eq [OF assms(1,2)] by (auto split: option.splits if_splits)
  have "sent E fd (response_frame (request_id r) resp_op st []) s 0 s'"
    using wp_write_frame [of E fd "response_frame (request_id r) resp_op st []" s] w by (simp add: wp_Done)
  then show ?thesis
    by (rule sent_answered) (use op st in \<open>auto simp: status_allowed_def split: option.splits\<close>)
qed

section \<open>A server\<close>

text \<open>
  One round of the serve loop \<open>request.h\<close> describes: read a frame, parse it, let the handler
  decode it and prepare an answer in its own memory (no system call on the library's behalf,
  the request struct kept), and answer with a payload or a status.
\<close>

definition handled :: "ptr \<Rightarrow> world \<Rightarrow> world \<Rightarrow> bool" where
  "handled req s s' \<longleftrightarrow> trace s' = trace s \<and> mem s' req = mem s req"

inductive round :: "env \<Rightarrow> c_int \<Rightarrow> ptr \<Rightarrow> u64 \<Rightarrow> ptr \<Rightarrow> world \<Rightarrow> world \<Rightarrow> bool" for E fd p cap req where
  payload: "rsi_read_request E fd p cap s = Done n s1 \<Longrightarrow> 0 < n \<Longrightarrow> mem s1 req = Some (Request old) \<Longrightarrow>
    rsi_parse_request E p (of_int n) req s1 = Done 0 s2 \<Longrightarrow> handled req s2 s3 \<Longrightarrow>
    reply_valid (mem s3) a \<Longrightarrow> respond E fd req a s3 = Done 0 s4 \<Longrightarrow> round E fd p cap req s s4"
| status: "rsi_read_request E fd p cap s = Done n s1 \<Longrightarrow> 0 < n \<Longrightarrow> mem s1 req = Some (Request old) \<Longrightarrow>
    rsi_parse_request E p (of_int n) req s1 = Done 0 s2 \<Longrightarrow> handled req s2 s3 \<Longrightarrow>
    rsi_respond_status E fd req st s3 = Done 0 s4 \<Longrightarrow> round E fd p cap req s s4"

text \<open>
  The history of a server: pairs of a read that hands out a request and an accepted write that
  answers that request.
\<close>

fun exchanges :: "env \<Rightarrow> c_int \<Rightarrow> systrace \<Rightarrow> bool" where
  "exchanges E fd [] \<longleftrightarrow> True"
| "exchanges E fd ((Sys_read fd1 p n, r) # (Sys_write fd2 bs, r') # tr) \<longleftrightarrow> fd1 = fd \<and> fd2 = fd \<and>
     (\<exists>h. parse_rsi_request_header E \<lparr>as_ptr = p, bytes_of = sys_data r\<rparr> = Some h \<and>
        answers E bs (hd_request_id h, hd_op_code h)) \<and>
     sys_ret r' = int (length bs) \<and> exchanges E fd tr"
| "exchanges E fd _ \<longleftrightarrow> False"

lemma exchanges_append: "exchanges E fd tr \<Longrightarrow> exchanges E fd tr' \<Longrightarrow> exchanges E fd (tr @ tr')"
  by (induction E fd tr rule: exchanges.induct) auto

text \<open>A round appends one exchange to the history and leaves no other request in flight.\<close>

lemma received_and_answered:
  assumes "source_device E fd" "p \<noteq> NULL" "rsi_read_request E fd p cap s = Done n s1" "0 < n"
    and "req \<noteq> NULL" "mem s1 req = Some (Request old)" "rsi_parse_request E p (of_int n) req s1 = Done 0 s2"
    and "handled req s2 s3" "\<And>r. mem s3 req = Some (Request r) \<Longrightarrow> answered E fd r s3 s4"
  shows "\<exists>tr. trace s4 = trace s @ tr \<and> exchanges E fd tr"
proof -
  obtain r h sr where r: "s2 = s1\<lparr>mem := (mem s1)(req \<mapsto> Request r)\<rparr>" "trace s1 = trace s @ [(Sys_read fd p cap, sr)]"
    "parse_rsi_request_header E \<lparr>as_ptr = p, bytes_of = sys_data sr\<rparr> = Some h"
    "request_id r = hd_request_id h" "op_code r = hd_op_code h"
    using received_request [OF assms(1-6)] assms(7) by fastforce
  then have "mem s3 req = Some (Request r)" "trace s3 = trace s1" using assms(8) by (simp_all add: handled_def)
  with assms(9) [OF this(1)] r show ?thesis by (auto simp: answered_def)
qed

lemma round_exchange:
  assumes "try_extend_appends E" "source_device E fd" "p \<noteq> NULL" "req \<noteq> NULL" "round E fd p cap req s s'"
  shows "\<exists>tr. trace s' = trace s @ tr \<and> exchanges E fd tr"
  using assms(5)
proof cases
  case (payload n s1 old s2 s3 a)
  show ?thesis
    by (rule received_and_answered [OF assms(2,3) payload(1,2) assms(4) payload(3-5)])
      (rule respond_answered [OF assms(1) _ payload(6,7)])
next
  case (status n s1 old s2 s3 st)
  show ?thesis
    by (rule received_and_answered [OF assms(2,3) status(1,2) assms(4) status(3-5)])
      (rule respond_status_answered [OF assms(4) _ status(6)])
qed

lemma exchanges_in_flight: "exchanges E fd tr \<Longrightarrow> fold (flight E fd) tr {} = {}"
proof (induction E fd tr rule: exchanges.induct)
  case (2 E fd fd1 p n r fd2 bs r' tr)
  then have "flight E fd (Sys_write fd bs, r') (flight E fd (Sys_read fd p n, r) {}) = {}"
    by (auto split: option.splits)
  moreover have "fd1 = fd" "fd2 = fd" "exchanges E fd tr" using 2(2) by simp_all
  ultimately show ?case using 2(1) by (simp only: fold_simps)
qed auto

text \<open>
  A server that works in rounds answers everything, in order: after any number of rounds,
  each of which reads one request and answers it through the library with any handler in
  between, the history since the start is a sequence of exchanges, a read of a request followed
  by one accepted response to that request, and no request is left in flight.
\<close>

theorem rounds_answer_everything:
  assumes "try_extend_appends E" "source_device E fd" "p \<noteq> NULL" "req \<noteq> NULL"
    and "(round E fd p cap req)\<^sup>*\<^sup>* s s'" "in_flight E fd (trace s) = {}"
  shows "(\<exists>tr. trace s' = trace s @ tr \<and> exchanges E fd tr) \<and> in_flight E fd (trace s') = {}"
proof -
  from assms(5) have "\<exists>tr. trace s' = trace s @ tr \<and> exchanges E fd tr"
  proof induction
    case base
    show ?case by (rule exI [of _ "[]"]) simp
  next
    case (step s' s'')
    then show ?case using round_exchange [OF assms(1-4) step(2)] exchanges_append by fastforce
  qed
  then show ?thesis
    using assms(6) exchanges_in_flight by (fastforce simp: in_flight_def)
qed

section \<open>An instance\<close>

text \<open>A device that hands out the example LOOKUP frame once and checks responses as documented.\<close>

definition ex_device :: env where
  "ex_device = ex_env\<lparr>kernel := (\<lambda>tr c. case c of
     Sys_read fd p n \<Rightarrow> if tr = [] \<and> 44 \<le> unat n then \<lparr>sys_ret = 44, sys_errno = 0, sys_data = ex_lookup_frame\<rparr>
       else \<lparr>sys_ret = 0, sys_errno = 0, sys_data = []\<rparr>
   | Sys_write fd bs \<Rightarrow> if \<exists>q \<in> in_flight ex_env fd tr. answers ex_env bs q
       then \<lparr>sys_ret = int (length bs), sys_errno = 0, sys_data = []\<rparr>
       else \<lparr>sys_ret = -1, sys_errno = EINVAL, sys_data = []\<rparr>
   | _ \<Rightarrow> ex_kernel tr c)\<rparr>"

lemma ex_device_fields [simp]:
  "parse_rsi_request_header ex_device = ex_parse_header" "rsi_response_op_code ex_device = rsi_response_op_code ex_env"
  "parse_rsi_status ex_device = parse_rsi_status ex_env" "RSI_OK ex_device = 0" "code_of ex_device = ex_code"
  by (simp_all add: ex_device_def)

lemma ex_device_answers: "answers ex_device = answers ex_env"
  by (simp add: answers_def fun_eq_iff split: option.splits)

lemma ex_device_in_flight: "in_flight ex_device = in_flight ex_env"
proof -
  have "flight ex_device fd e Q = flight ex_env fd e Q" for fd e Q
    by (cases "(ex_env, fd, e, Q)" rule: flight.cases) (simp_all add: ex_device_answers)
  then have "flight ex_device = flight ex_env" by (intro ext)
  then show ?thesis by (intro ext) (simp add: in_flight_def)
qed

lemma ex_header_anywhere: "ex_parse_header \<lparr>as_ptr = p, bytes_of = ex_lookup_frame\<rparr> =
    Some \<lparr>hd_request_id = 7, hd_txn_id = 3, hd_op_code = 1\<rparr>"
  using ex_frame_header unfolding ex_parse_header_def u64_at_def slice.simps .

lemma ex_device_documented: "source_device ex_device fd"
  unfolding source_device_def ex_device_in_flight ex_device_answers
  by (auto simp: ex_device_def Let_def ex_lookup_frame_length ex_header_anywhere)

lemma ex_device_codes: "response_codes_inj ex_device"
proof -
  have mask: "(op OR 0x8000) AND 0x7FFF = op" if op: "1 \<le> op" "op \<le> 18" for op :: u16
  proof -
    obtain o' where "op = ucast (ex_code o')" using small_code [OF op] by blast
    then show ?thesis by (cases o') simp_all
  qed
  have "op = op'" if "1 \<le> op" "op \<le> 18" "1 \<le> op'" "op' \<le> 18" "op OR 0x8000 = op' OR 0x8000" for op op' :: u16
    using mask [OF that(1,2)] mask [OF that(3,4)] that(5) by metis
  then show ?thesis unfolding response_codes_inj_def by (auto split: if_splits)
qed

lemma ex_device_env: "try_extend_appends ex_device" "\<not> may_oom ex_device"
  using ex_env_try_extend ex_env_no_oom
  by (simp_all add: try_extend_appends_def ex_device_def may_oom_def alloc_refuses_def extend_refuses_def)

text \<open>The world after the frame was read.\<close>

definition ex_read_world :: world where
  "ex_read_world = ex_world\<lparr>mem := put_bytes ex_heap 0x1000 ex_lookup_frame,
     trace := [(Sys_read 3 0x1000 44, \<lparr>sys_ret = 44, sys_errno = 0, sys_data = ex_lookup_frame\<rparr>)]\<rparr>"

lemma ex_device_read: "rsi_read_request ex_device 3 0x1000 44 ex_world = Done 44 ex_read_world"
  by (simp add: rsi_read_request_def sys_read_def bindM_def syscall_def Let_def ex_device_def ex_read_world_def ex_world_def)

lemma ex_read_request: "mem ex_read_world 0x2000 = Some (Request ex_request0)"
proof -
  have "0x2000 \<noteq> (0x1000 :: ptr) + of_nat i" if "i < length ex_lookup_frame" for i
    using that ptr_offset_inj [of "0x1000" i "0x1000"] by (auto simp: ex_lookup_frame_length)
  then show ?thesis by (simp add: ex_read_world_def put_bytes_other)
qed

lemma ex_device_parse_returns: "rsi_parse_request ex_device 0x1000 44 0x2000 ex_read_world \<noteq> Undef"
proof -
  have "header_parser_checks ex_device"
    using ex_env_header by (simp add: header_parser_checks_def ex_device_def)
  moreover have "read_bytes (mem ex_read_world) 0x1000 44 = Some ex_lookup_frame"
    using read_put_bytes [of ex_lookup_frame ex_heap "0x1000"] by (simp add: ex_read_world_def ex_lookup_frame_length)
  then have "call_contract (mem ex_read_world) (Parse_request 0x1000 44 0x2000)"
    using ex_read_request by (simp add: request_at_def)
  ultimately show ?thesis using parse_returns [of ex_device ex_read_world "0x1000" 44 "0x2000"] by auto
qed

lemma ex_device_parse:
  "\<exists>r. rsi_parse_request ex_device 0x1000 44 0x2000 ex_read_world = Done 0 (ex_read_world\<lparr>mem := (mem ex_read_world)(0x2000 \<mapsto> Request r)\<rparr>) \<and>
    request_id r = 7 \<and> op_code r = 1"
  using received_request [OF ex_device_documented _ ex_device_read _ _ ex_read_request] ex_device_parse_returns
  by (auto simp: ex_read_world_def ex_header_anywhere)

lemma ex_device_round: "\<exists>s'. round ex_device 3 0x1000 44 0x2000 ex_world s'"
proof -
  obtain r where p: "rsi_parse_request ex_device 0x1000 44 0x2000 ex_read_world =
      Done 0 (ex_read_world\<lparr>mem := (mem ex_read_world)(0x2000 \<mapsto> Request r)\<rparr>)" and r: "request_id r = 7" "op_code r = 1"
    using ex_device_parse by blast
  let ?s = "ex_read_world\<lparr>mem := (mem ex_read_world)(0x2000 \<mapsto> Request r)\<rparr>"
  let ?f = "response_frame 7 0x8001 5 []"
  have "answers ex_env ?f (7, 1)" by (simp add: answers_response_frame)
  then have "sys_ret (kernel ex_device (trace ?s) (Sys_write 3 ?f)) = int (length ?f)"
    by (simp add: ex_device_def ex_read_world_def in_flight_def ex_header_anywhere)
  then have "\<exists>s4. rsi_respond_status ex_device 3 0x2000 5 ?s = Done 0 s4"
    using respond_status_eq [of "0x2000" ?s r ex_device 3 5] r wpD [OF wp_write_frame [of ex_device 3 ?f ?s]]
    by (auto simp: status_allowed_def sent_def)
  then show ?thesis
    using round.status [OF ex_device_read _ ex_read_request, of ?s ?s] p by (auto simp: handled_def)
qed

theorem rounds_answer_everything_witness:
  "\<exists>s'. round ex_device 3 0x1000 44 0x2000 ex_world s' \<and> exchanges ex_device 3 (trace s') \<and> in_flight ex_device 3 (trace s') = {}"
proof -
  obtain s' where s': "round ex_device 3 0x1000 44 0x2000 ex_world s'" using ex_device_round by blast
  then have "(round ex_device 3 0x1000 44 0x2000)\<^sup>*\<^sup>* ex_world s'" by (rule r_into_rtranclp)
  from rounds_answer_everything [OF ex_device_env(1) ex_device_documented _ _ this] s'
  show ?thesis by auto
qed

lemma empty_lookup_reply:
  "lookup_valid h ((NULL, 0, []), (NULL, 0, []))" "lookup_ok E ((NULL, 0, []), (NULL, 0, []))"
  "length (lookup_body h ((NULL, 0, []), (NULL, 0, []))) = 8"
  by (simp_all add: lookup_valid_def path_block_valid_def path_array_def metadata_block_valid_def metadata_array_def
      carray_def lookup_ok_def metadata_covers_def nonnull_def lookup_body_def block_bytes_def)

theorem answer_accepted_iff_in_flight_witness:
  "\<exists>s s'. in_flight ex_device 3 (trace s) = {(7, 1)} \<and>
    respond ex_device 3 0x2000 (Reply_lookup ((NULL, 0, []), (NULL, 0, []))) s = Done 0 s' \<and>
    in_flight ex_device 3 (trace s') = {}"
proof -
  obtain r :: rsi_request where r: "request_id r = 7" "op_code r = 1" using ex_device_parse by metis
  let ?s = "ex_read_world\<lparr>mem := (mem ex_read_world)(0x2000 \<mapsto> Request r)\<rparr>"
  have q: "in_flight ex_device 3 (trace ?s) = {(7, 1)}"
    by (simp add: ex_read_world_def in_flight_def ex_header_anywhere)
  with answer_accepted_iff_in_flight [OF ex_device_env ex_device_documented ex_device_codes, of "0x2000" ?s r
      "Reply_lookup ((NULL, 0, []), (NULL, 0, []))" 3] r
  have "\<exists>s'. respond ex_device 3 0x2000 (Reply_lookup ((NULL, 0, []), (NULL, 0, []))) ?s = Done 0 s' \<and>
      in_flight ex_device 3 (trace s') = {}"
    by (simp add: empty_lookup_reply)
  with q show ?thesis by blast
qed

end
