(* ===== verification/Server.thy ===== *)
theory Server
  imports Serve
begin

text \<open>
  A server with any number of requests in progress. It receives requests into request structs of
  its own, works on them in any order, and answers each when it likes, with a payload or a
  status; calls may fail and be tried again. The state is the world and the set of structs that
  hold a request still to be answered. Against the documented device no request is lost, and at
  any moment all of them can be answered, even when memory has run out.
\<close>

section \<open>Steps\<close>

definition keeps :: "ptr set \<Rightarrow> world \<Rightarrow> world \<Rightarrow> bool" where
  "keeps Q s s' \<longleftrightarrow> (\<forall>q \<in> Q. mem s' q = mem s q)"

text \<open>
  A received request is parsed into a free struct, whatever the parser returns; a read that
  returns no request (end of file, a buffer that is too small) changes nothing. Between the calls
  that use the descriptor the server computes and decodes, without touching the structs that hold
  requests. An answer that returned 0 releases the struct.
\<close>

inductive serve :: "env \<Rightarrow> c_int \<Rightarrow> world \<times> ptr set \<Rightarrow> world \<times> ptr set \<Rightarrow> bool" for E fd where
  receive: "p \<noteq> NULL \<Longrightarrow> req \<noteq> NULL \<Longrightarrow> req \<notin> Q \<Longrightarrow> rsi_read_request E fd p cap s = Done n s1 \<Longrightarrow> 0 < n \<Longrightarrow>
    keeps Q s s1 \<Longrightarrow> mem s1 req = Some (Request old) \<Longrightarrow> rsi_parse_request E p (of_int n) req s1 = Done x s2 \<Longrightarrow>
    serve E fd (s, Q) (s2, insert req Q)"
| idle: "p \<noteq> NULL \<Longrightarrow> rsi_read_request E fd p cap s = Done n s1 \<Longrightarrow> n \<le> 0 \<Longrightarrow> keeps Q s s1 \<Longrightarrow>
    serve E fd (s, Q) (s1, Q)"
| work: "trace s' = trace s \<Longrightarrow> keeps Q s s' \<Longrightarrow> serve E fd (s, Q) (s', Q)"
| reply: "req \<in> Q \<Longrightarrow> reply_valid (mem s) a \<Longrightarrow> respond E fd req a s = Done x s' \<Longrightarrow>
    serve E fd (s, Q) (s', if x = 0 then Q - {req} else Q)"
| status: "req \<in> Q \<Longrightarrow> rsi_respond_status E fd req st s = Done x s' \<Longrightarrow>
    serve E fd (s, Q) (s', if x = 0 then Q - {req} else Q)"

section \<open>No request is lost\<close>

text \<open>The requests the structs hold.\<close>

definition held :: "world \<Rightarrow> ptr set \<Rightarrow> (u64 \<times> u16) set" where
  "held s Q = {k. \<exists>q \<in> Q. \<exists>r. mem s q = Some (Request r) \<and> k = (request_id r, op_code r)}"

definition served :: "env \<Rightarrow> c_int \<Rightarrow> world \<times> ptr set \<Rightarrow> bool" where
  "served E fd = (\<lambda>(s, Q). in_flight E fd (trace s) \<subseteq> held s Q \<and>
     (\<forall>q \<in> Q. q \<noteq> NULL \<and> (\<exists>r. mem s q = Some (Request r))))"

lemma servedD: "served E fd (s, Q) \<Longrightarrow> q \<in> Q \<Longrightarrow> q \<noteq> NULL \<and> (\<exists>r. mem s q = Some (Request r))"
  by (auto simp: served_def)

lemma served_step:
  assumes "served E fd (s, Q)" "keeps Q s s'" "in_flight E fd (trace s') \<subseteq> in_flight E fd (trace s)"
  shows "served E fd (s', Q)"
proof -
  have "held s' Q = held s Q" using assms(2) by (simp add: held_def keeps_def)
  with assms show ?thesis by (auto simp: served_def keeps_def)
qed

text \<open>A response that was accepted removes its request from those in flight, and any other response none.\<close>

lemma served_answer:
  assumes "served E fd (s, Q)" "mem s req = Some (Request r)" "mem s' = mem s"
    and "trace s' = trace s \<or> (\<exists>f sr. trace s' = trace s @ [(Sys_write fd f, sr)])" "x = 0 \<Longrightarrow> answered E fd r s s'"
  shows "served E fd (s', if x = 0 then Q - {req} else Q)"
proof (cases "x = 0")
  case False
  have "in_flight E fd (trace s') \<subseteq> in_flight E fd (trace s)" using assms(4) by (auto split: if_splits)
  with served_step [OF assms(1)] assms(3) False show ?thesis by (simp add: keeps_def)
next
  case True
  from assms(5) [OF this] have "in_flight E fd (trace s') \<subseteq> in_flight E fd (trace s) - {(request_id r, op_code r)}"
    by (auto simp: answered_def)
  moreover have "held s Q - {(request_id r, op_code r)} \<subseteq> held s' (Q - {req})"
    using assms(2,3) by (auto simp: held_def)
  ultimately show ?thesis using assms(1,3) True by (auto simp: served_def)
qed

lemma respond_status_trace:
  assumes "req \<noteq> NULL" "mem s req = Some (Request r)" "rsi_respond_status E fd req st s = Done x s'"
  shows "mem s' = mem s \<and> ticks s' = ticks s \<and> (trace s' = trace s \<or> (\<exists>f sr. trace s' = trace s @ [(Sys_write fd f, sr)]))"
  using assms(3) unfolding respond_status_eq [OF assms(1,2)]
  by (auto simp: write_frame_def bindM_def syscall_def Let_def ret_def set_errno_def fail_errno_eq
      split: option.splits if_splits)

lemma serve_served:
  assumes "try_extend_appends E" "source_device E fd" "serve E fd (s, Q) (s', Q')" "served E fd (s, Q)"
  shows "served E fd (s', Q')"
  using assms(3)
proof cases
  case (receive p req cap n s1 old x)
  obtain r h sr where r: "s' = s1\<lparr>mem := (mem s1)(req \<mapsto> Request r)\<rparr>" "trace s1 = trace s @ [(Sys_read fd p cap, sr)]"
    "parse_rsi_request_header E \<lparr>as_ptr = p, bytes_of = sys_data sr\<rparr> = Some h"
    "request_id r = hd_request_id h" "op_code r = hd_op_code h"
    using received_request [OF assms(2) receive(2,5,6,3,8)] receive(9) by fastforce
  have "in_flight E fd (trace s') \<subseteq> insert (request_id r, op_code r) (in_flight E fd (trace s))"
    using r by (auto split: if_splits)
  moreover have "held s' Q' = insert (request_id r, op_code r) (held s Q)"
    using receive(1,4,7) r(1) unfolding held_def keeps_def by auto
  ultimately show ?thesis using assms(4) receive r(1) by (auto simp: served_def keeps_def)
next
  case (idle p cap n)
  have "in_flight E fd (trace s') = in_flight E fd (trace s)"
    using idle(2-4) by (auto simp: rsi_read_request_def sys_read_def bindM_def syscall_def Let_def)
  with served_step [OF assms(4)] idle show ?thesis by simp
next
  case work
  with served_step [OF assms(4)] show ?thesis by simp
next
  case (reply req a x)
  from servedD [OF assms(4) reply(2)] obtain r where r: "mem s req = Some (Request r)" by blast
  obtain y t where "respond E fd req a s = Done y t" "mem t = mem s"
    "trace t = trace s \<or> (\<exists>f sr. trace t = trace s @ [(Sys_write fd f, sr)])"
    using any.run_total [OF assms(1) reply(3), of req r fd] r by auto
  with served_answer [OF assms(4) r, of s' x] respond_answered [OF assms(1) r reply(3)] reply(1,4)
  show ?thesis by auto
next
  case (status req st x)
  from servedD [OF assms(4) status(2)] obtain r where r: "req \<noteq> NULL" "mem s req = Some (Request r)" by blast
  with served_answer [OF assms(4) r(2), of s' x] respond_status_trace [OF r status(3)]
    respond_status_answered [OF r] status(1,3)
  show ?thesis by auto
qed

lemma serves_served:
  assumes "try_extend_appends E" "source_device E fd" "(serve E fd)\<^sup>*\<^sup>* t t'" "served E fd t"
  shows "served E fd t'"
  using assms(3,4)
proof induction
  case (step t' t'')
  then show ?case using serve_served [OF assms(1,2)] by (cases t'; cases t'') auto
qed simp

lemma served_start: "in_flight E fd (trace s) = {} \<Longrightarrow> served E fd (s, {})"
  by (simp add: served_def)

text \<open>
  C30. A server that has several requests in progress, answers them in any order and tries
  failed calls again loses none: in every state it can reach, each request the device has handed
  out and not seen answered is held by a request struct the server has not released. So when it
  holds no struct, nothing is left unanswered.
\<close>

theorem server_loses_no_request:
  assumes "try_extend_appends E" "source_device E fd" "in_flight E fd (trace s0) = {}"
    and "(serve E fd)\<^sup>*\<^sup>* (s0, {}) (s, Q)"
  shows "in_flight E fd (trace s) \<subseteq> held s Q \<and> (Q = {} \<longrightarrow> in_flight E fd (trace s) = {})"
proof -
  have "in_flight E fd (trace s) \<subseteq> held s Q"
    using serves_served [OF assms(1,2,4) served_start [OF assms(3)]] by (simp add: served_def)
  then show ?thesis by (auto simp: held_def)
qed

section \<open>Everything can be answered\<close>

lemma finite_in_flight: "finite (in_flight E fd tr)"
proof (induction tr rule: rev_induct)
  case (snoc e tr)
  then show ?case by (cases "(E, fd, e, in_flight E fd tr)" rule: flight.cases) (auto split: option.splits)
qed simp

text \<open>An error status answers any request in flight, and needs no memory.\<close>

lemma error_status_accepted:
  assumes "source_device E fd" "response_codes_inj E" "parse_rsi_status E st = Some e" "e \<noteq> StatusOk"
    and "req \<noteq> NULL" "mem s req = Some (Request r)" "(request_id r, op_code r) \<in> in_flight E fd (trace s)"
    and "rsi_response_op_code E (op_code r) \<noteq> None"
  shows "\<exists>s'. rsi_respond_status E fd req st s = Done 0 s' \<and>
    in_flight E fd (trace s') = in_flight E fd (trace s) - {(request_id r, op_code r)}"
proof -
  obtain resp_op where op: "rsi_response_op_code E (op_code r) = Some resp_op" using assms(8) by auto
  let ?f = "response_frame (request_id r) resp_op st []"
  have eq: "rsi_respond_status E fd req st s = write_frame E fd ?f s"
    using respond_status_eq [OF assms(5,6), of E fd st] op assms(3,4) by (simp add: status_allowed_def)
  obtain x s' where w: "write_frame E fd ?f s = Done x s'" "sent E fd ?f s x s'"
    using wpD [OF wp_write_frame [of E fd ?f s]] by blast
  have "x = 0 \<and> in_flight E fd (trace s') = in_flight E fd (trace s) - {(request_id r, op_code r)}"
    using sent_to_device [OF assms(1,2) op _ _ w(2)] assms(3,7) by simp
  with w(1) eq show ?thesis by auto
qed

lemma drain:
  assumes "try_extend_appends E" "source_device E fd" "response_codes_inj E"
    and "parse_rsi_status E st = Some e" "e \<noteq> StatusOk"
    and "served E fd (s, Q)" "\<forall>k \<in> in_flight E fd (trace s). rsi_response_op_code E (snd k) \<noteq> None"
    and "card (in_flight E fd (trace s)) = n"
  shows "\<exists>s' Q'. (serve E fd ^^ n) (s, Q) (s', Q') \<and> in_flight E fd (trace s') = {} \<and> Q' \<subseteq> Q \<and>
    mem s' = mem s \<and> ticks s' = ticks s"
  using assms(6-8)
proof (induction n arbitrary: s Q)
  case 0
  then show ?case by (auto simp: finite_in_flight)
next
  case (Suc n)
  from Suc(4) have "in_flight E fd (trace s) \<noteq> {}" by (metis card.empty Zero_not_Suc)
  then obtain k where k: "k \<in> in_flight E fd (trace s)" by blast
  with Suc(2) obtain q r where q: "q \<in> Q" "q \<noteq> NULL" "mem s q = Some (Request r)" "k = (request_id r, op_code r)"
    by (fastforce simp: served_def held_def)
  obtain s1 where s1: "rsi_respond_status E fd q st s = Done 0 s1"
    "in_flight E fd (trace s1) = in_flight E fd (trace s) - {k}"
    using error_status_accepted [OF assms(2-5) q(2,3)] k q(4) Suc(3) by fastforce
  have step: "serve E fd (s, Q) (s1, Q - {q})" using serve.status [OF q(1) s1(1)] by simp
  have "card (in_flight E fd (trace s1)) = n" using Suc(4) s1(2) k finite_in_flight by simp
  then obtain s' Q' where "(serve E fd ^^ n) (s1, Q - {q}) (s', Q')" "in_flight E fd (trace s') = {}" "Q' \<subseteq> Q - {q}"
    "mem s' = mem s1" "ticks s' = ticks s1"
    using Suc(1) [of s1 "Q - {q}"] serve_served [OF assms(1,2) step Suc(2)] Suc(3) s1(2) by auto
  moreover have "mem s1 = mem s" "ticks s1 = ticks s" using respond_status_trace [OF q(2,3) s1(1)] by simp_all
  ultimately show ?case using relpowp_Suc_I2 [where P = "serve E fd", OF step] by fastforce
qed

text \<open>
  C31. Whatever has happened to the server, memory exhausted included, it can answer everything:
  from every state it can reach, as many calls of \<open>rsi_respond_status\<close> with an error status as
  there are requests in flight are accepted and leave none in flight, without an allocation and
  without a change of memory.
\<close>

theorem server_can_drain:
  assumes "try_extend_appends E" "source_device E fd" "response_codes_inj E"
    and "in_flight E fd (trace s0) = {}" "(serve E fd)\<^sup>*\<^sup>* (s0, {}) (s, Q)"
    and "\<forall>k \<in> in_flight E fd (trace s). rsi_response_op_code E (snd k) \<noteq> None"
    and "parse_rsi_status E st = Some e" "e \<noteq> StatusOk"
  shows "\<exists>s' Q'. (serve E fd ^^ card (in_flight E fd (trace s))) (s, Q) (s', Q') \<and>
    in_flight E fd (trace s') = {} \<and> Q' \<subseteq> Q \<and> mem s' = mem s \<and> ticks s' = ticks s"
  by (rule drain [OF assms(1-3,7,8) serves_served [OF assms(1,2,5) served_start [OF assms(4)]] assms(6) refl])

section \<open>An instance\<close>

text \<open>The example device, with the request it hands out received and parsed.\<close>

lemma ex_device_received:
  "\<exists>s. (serve ex_device 3)\<^sup>*\<^sup>* (ex_world, {}) (s, {0x2000}) \<and> in_flight ex_device 3 (trace s) = {(7, 1)}"
proof -
  obtain r where p: "rsi_parse_request ex_device 0x1000 44 0x2000 ex_read_world =
      Done 0 (ex_read_world\<lparr>mem := (mem ex_read_world)(0x2000 \<mapsto> Request r)\<rparr>)"
    using ex_device_parse by blast
  then have "serve ex_device 3 (ex_world, {}) (ex_read_world\<lparr>mem := (mem ex_read_world)(0x2000 \<mapsto> Request r)\<rparr>, {0x2000})"
    using serve.receive [OF _ _ _ ex_device_read _ _ ex_read_request, of "{}"] by (simp add: keeps_def)
  moreover have "in_flight ex_device 3 (trace (ex_read_world\<lparr>mem := (mem ex_read_world)(0x2000 \<mapsto> Request r)\<rparr>)) = {(7, 1)}"
    by (simp add: ex_read_world_def in_flight_def ex_header_anywhere)
  ultimately show ?thesis by blast
qed

lemma ex_world_in_flight: "in_flight ex_device 3 (trace ex_world) = {}"
  by (simp add: ex_world_def)

theorem server_loses_no_request_witness:
  "\<exists>s. in_flight ex_device 3 (trace s) = {(7, 1)} \<and> in_flight ex_device 3 (trace s) \<subseteq> held s {0x2000}"
  using ex_device_received server_loses_no_request [OF ex_device_env(1) ex_device_documented ex_world_in_flight] by blast

theorem server_can_drain_witness:
  "\<exists>s s' Q'. in_flight ex_device 3 (trace s) = {(7, 1)} \<and> serve ex_device 3 (s, {0x2000}) (s', Q') \<and>
    in_flight ex_device 3 (trace s') = {}"
proof -
  obtain s where s: "(serve ex_device 3)\<^sup>*\<^sup>* (ex_world, {}) (s, {0x2000})" "in_flight ex_device 3 (trace s) = {(7, 1)}"
    using ex_device_received by blast
  have st: "parse_rsi_status ex_device 5 = Some (StatusOther 5)" by simp
  have ops: "\<forall>k \<in> in_flight ex_device 3 (trace s). rsi_response_op_code ex_device (snd k) \<noteq> None"
    unfolding s(2) by simp
  from server_can_drain [OF ex_device_env(1) ex_device_documented ex_device_codes ex_world_in_flight s(1) ops st]
  obtain s' Q' where "(serve ex_device 3 ^^ card (in_flight ex_device 3 (trace s))) (s, {0x2000}) (s', Q')"
    "in_flight ex_device 3 (trace s') = {}" by auto
  then have "serve ex_device 3 (s, {0x2000}) (s', Q')" "in_flight ex_device 3 (trace s') = {}"
    unfolding s(2) by (simp_all add: eq_OO)
  with s(2) show ?thesis by blast
qed

end
