(* ===== verification/Cost.thy ===== *)
theory Cost
  imports Calls
begin

text \<open>
  How often the library asks the allocator. The world counts the requests; a small logic of
  bounds, with one rule per construct of the machine, adds them up along the code. Receiving,
  parsing, decoding and status responses never allocate, registration allocates once, and a
  payload response makes a number of requests linear in the number of entries it is given.
\<close>

section \<open>Bounds on allocator requests\<close>

text \<open>
  \<open>costs h n m Q\<close>: run in memory \<open>h\<close>, the computation leaves memory as it is, makes at most
  \<open>n\<close> allocator requests, and if it returns, returns a value with \<open>Q\<close>.
\<close>

definition costs :: "heap \<Rightarrow> nat \<Rightarrow> 'a M \<Rightarrow> ('a \<Rightarrow> bool) \<Rightarrow> bool" where
  "costs h n m Q \<longleftrightarrow> (\<forall>s x s'. mem s = h \<longrightarrow> m s = Done x s' \<longrightarrow> mem s' = h \<and> ticks s' \<le> ticks s + n \<and> Q x)"

abbreviation any_result :: "'a \<Rightarrow> bool" where
  "any_result \<equiv> \<lambda>_. True"

lemma costsD: "costs h n m Q \<Longrightarrow> mem s = h \<Longrightarrow> m s = Done x s' \<Longrightarrow> mem s' = h \<and> ticks s' \<le> ticks s + n \<and> Q x"
  unfolding costs_def by blast

lemma costs_weaken:
  assumes "costs h n m Q" "n \<le> n'" "\<And>x. Q x \<Longrightarrow> Q' x"
  shows "costs h n' m Q'"
  unfolding costs_def
proof (intro allI impI)
  fix s x s' assume "mem s = h" "m s = Done x s'"
  from costsD [OF assms(1) this] assms(2,3) show "mem s' = h \<and> ticks s' \<le> ticks s + n' \<and> Q' x" by auto
qed

lemma costs_le: "costs h n m Q \<Longrightarrow> n \<le> n' \<Longrightarrow> costs h n' m Q"
  by (rule costs_weaken)

lemma costs_ret: "Q x \<Longrightarrow> costs h n (ret x) Q"
  by (simp add: costs_def ret_def)

lemma costs_bind:
  assumes "costs h a m R" "\<And>x. R x \<Longrightarrow> costs h b (f x) Q"
  shows "costs h (a + b) (bindM m f) Q"
  unfolding costs_def bindM_def
proof (intro allI impI)
  fix s x s' assume s: "mem s = h" and "(case m s of Done x s' \<Rightarrow> f x s' | Undef \<Rightarrow> Undef | Abort \<Rightarrow> Abort) = Done x s'"
  then obtain y t where m: "m s = Done y t" and f: "f y t = Done x s'" by (auto split: outcome.splits)
  from costsD [OF assms(1) s m] have y: "mem t = h" "ticks t \<le> ticks s + a" "R y" by simp_all
  from costsD [OF assms(2) [OF y(3)] y(1) f] y(2)
  show "mem s' = h \<and> ticks s' \<le> ticks s + (a + b) \<and> Q x" by simp
qed

lemma costs_then: "costs h a m R \<Longrightarrow> (\<And>x. R x \<Longrightarrow> costs h 0 (f x) Q) \<Longrightarrow> costs h a (bindM m f) Q"
  using costs_bind [of h a m R 0 f Q] by simp

lemma costs_tryM:
  assumes "costs h a m R" "\<And>x. R (Ok x) \<Longrightarrow> costs h b (f x) Q" "\<And>e. R (Err e) \<Longrightarrow> Q (Err e)"
  shows "costs h (a + b) (tryM m f) Q"
  unfolding tryM_def
  by (rule costs_bind [OF assms(1)]) (use assms(2,3) in \<open>auto intro: costs_ret split: result.splits\<close>)

lemma costs_try_then:
  "costs h a m R \<Longrightarrow> (\<And>x. R (Ok x) \<Longrightarrow> costs h 0 (f x) Q) \<Longrightarrow> (\<And>e. R (Err e) \<Longrightarrow> Q (Err e)) \<Longrightarrow> costs h a (tryM m f) Q"
  using costs_tryM [of h a m R 0 f Q] by simp

lemma costs_if: "(b \<Longrightarrow> costs h n m Q) \<Longrightarrow> (\<not> b \<Longrightarrow> costs h n m' Q) \<Longrightarrow> costs h n (if b then m else m') Q"
  by simp

text \<open>
  The same rules without results: applied from the outside in, they compute a bound from the code.
\<close>

named_theorems bounds

lemma costs_ret_any [bounds]: "costs h 0 (ret x) any_result"
  by (simp add: costs_ret)

lemma costs_bind_any [bounds]:
  "costs h a m any_result \<Longrightarrow> (\<And>x. costs h b (f x) any_result) \<Longrightarrow> costs h (a + b) (bindM m f) any_result"
  by (rule costs_bind)

lemma costs_tryM_any [bounds]:
  "costs h a m any_result \<Longrightarrow> (\<And>x. costs h b (f x) any_result) \<Longrightarrow> costs h (a + b) (tryM m f) any_result"
  by (rule costs_tryM) auto

lemma costs_case_any [bounds]:
  assumes "\<And>x. costs h a (f x) any_result" "\<And>e. costs h b (g e) any_result"
  shows "costs h (max a b) (case r of Ok x \<Rightarrow> f x | Err e \<Rightarrow> g e) any_result"
  using costs_le [OF assms(1)] costs_le [OF assms(2)] by (cases r) simp_all

lemma costs_option_any [bounds]:
  assumes "\<And>x. costs h a (f x) any_result" "costs h b g any_result"
  shows "costs h (max a b) (case r of None \<Rightarrow> g | Some x \<Rightarrow> f x) any_result"
  using costs_le [OF assms(1)] costs_le [OF assms(2)] by (cases r) simp_all

lemma costs_if_any [bounds]:
  "costs h a m any_result \<Longrightarrow> costs h b m' any_result \<Longrightarrow> costs h (max a b) (if c then m else m') any_result"
  by (auto intro: costs_le)

text \<open>The steps that do not allocate.\<close>

lemma costs_deref: "(\<And>v. Option.bind (h p) prj = Some v \<Longrightarrow> Q v) \<Longrightarrow> costs h 0 (deref prj p) Q"
  by (auto simp: costs_def deref_def split: option.splits)

lemma costs_deref_any [bounds]: "costs h 0 (deref prj p) any_result"
  by (rule costs_deref) simp

lemma costs_from_raw_parts [bounds]: "costs h 0 (from_raw_parts p n) any_result"
  by (auto simp: costs_def from_raw_parts_def split: option.splits)

lemma costs_slice: "costs h 0 (from_raw_parts p n) (\<lambda>b. length (bytes_of b) = n)"
  by (auto simp: costs_def from_raw_parts_def dest: read_bytes_length split: option.splits)

lemma costs_fail_errno [bounds]: "costs h 0 (fail_errno e) any_result"
  by (simp add: costs_def fail_errno_eq)

lemma costs_set_errno [bounds]: "costs h 0 (set_errno e) any_result"
  by (simp add: costs_def set_errno_def)

lemma costs_panic [bounds]: "costs h 0 panic Q"
  by (simp add: costs_def panic_def abort_def)

lemma costs_syscall [bounds]: "costs h 0 (syscall E c) any_result"
  by (simp add: costs_def syscall_def Let_def)

lemma costs_tick [bounds]: "costs h 1 tick any_result"
  by (simp add: costs_def tick_def)

text \<open>A loop costs the sum of its iterations.\<close>

lemma costs_for_in:
  assumes "I 0 a" "\<And>i a. i < length xs \<Longrightarrow> I i a \<Longrightarrow>
      costs h (c (xs ! i)) (body (xs ! i) a) (\<lambda>r. \<forall>a'. r = Ok a' \<longrightarrow> I (Suc i) a')"
  shows "costs h (sum_list (map c xs)) (for_in xs body a) any_result"
  using assms
proof (induction xs arbitrary: I a)
  case Nil
  then show ?case by (simp add: costs_ret)
next
  case (Cons x xs)
  have "costs h (sum_list (map c xs)) (for_in xs body a') any_result" if "I (Suc 0) a'" for a'
    by (rule Cons.IH [of "\<lambda>i. I (Suc i)"]) (use that Cons.prems(2) [of "Suc _"] in auto)
  with Cons.prems(1) Cons.prems(2) [of 0 a] show ?case
    by (auto intro!: costs_tryM)
qed

lemma costs_for_in_uniform [bounds]:
  assumes "\<And>x a. costs h k (body x a) any_result"
  shows "costs h (length xs * k) (for_in xs body a) any_result"
  using costs_for_in [of "\<lambda>_ _. True" a xs h "\<lambda>_. k" body] assms
  by (simp add: sum_list_triv)

section \<open>Vectors and the frame writer\<close>

lemma costs_try_reserve:
  "costs h 1 (try_reserve E n v) (\<lambda>r. \<forall>v'. r = Some v' \<longrightarrow> items v' = items v \<and> (length (items v) \<le> capacity v \<longrightarrow>
     length (items v) + n \<le> capacity v'))"
  unfolding try_reserve_def
  by (rule costs_if) (auto simp del: One_nat_def intro!: costs_ret costs_then [OF costs_tick] split: option.splits)

lemma costs_push_spare: "length (items v) < capacity v \<Longrightarrow> costs h 0 (vec_push E v x) (\<lambda>v'. v' = v\<lparr>items := items v @ [x]\<rparr>)"
  by (simp add: vec_push_def costs_ret)

lemma costs_push [bounds]: "costs h 1 (vec_push E v x) any_result"
  unfolding vec_push_def by (rule costs_le, (rule bounds)+) simp

lemma costs_guid_vec: "costs h 1 (guid_vec_with_capacity E n)
    (\<lambda>r. \<forall>v. r = Ok v \<longrightarrow> items v = [] \<and> n \<le> capacity v)"
  unfolding guid_vec_with_capacity_def
  by (rule costs_then [OF costs_try_reserve])
    (auto simp: vec_new_def intro!: costs_ret split: option.splits)

lemma costs_raw [bounds]: "costs h 1 (FrameWriter_raw E b w) any_result"
  unfolding FrameWriter_raw_def case_prod_unfold Let_def
  by (rule costs_le, (rule bounds)+) simp

lemma costs_put [bounds]:
  "costs h 1 (FrameWriter_u8 E x w) any_result" "costs h 1 (FrameWriter_u32 E y w) any_result"
  "costs h 1 (FrameWriter_u64 E z w) any_result" "costs h 1 (FrameWriter_guid E g w) any_result"
  "costs h 1 (new_writer E) any_result"
  by (simp_all only: put_defs new_writer_def costs_raw)

lemma costs_lpf [bounds]: "costs h 2 (FrameWriter_lpf E p len w) any_result"
  unfolding FrameWriter_lpf_def by (rule costs_le, (rule bounds)+) simp

lemma costs_finish_and_send [bounds]: "costs h 0 (finish_and_send E fd r w) any_result"
  unfolding finish_and_send_def finish_response_def put_response_header_def copy_from_slice_def write_frame_def Let_def
  by (rule costs_le, (rule bounds)+) simp

lemma costs_request [bounds]: "costs h 0 (require_response_req req op) any_result"
  unfolding require_response_req_def by (rule costs_le, (rule bounds)+) simp

section \<open>Encoders\<close>

lemma costs_path_block [bounds]: "costs h (1 + 5 * unat c) (encode_path_entry_block E p c w) any_result"
  unfolding encode_path_entry_block_def by (rule costs_le, (rule bounds)+) simp

lemma costs_metadata_block [bounds]: "costs h (1 + 6 * unat c) (encode_metadata_block E p c w) any_result"
  unfolding encode_metadata_block_def by (rule costs_le, (rule bounds)+) simp

lemma costs_values [bounds]: "costs h (8 * unat c) (encode_values E p c w) any_result"
  unfolding encode_values_def by (rule costs_le, (rule bounds)+) simp

lemma costs_blankets [bounds]: "costs h (3 * unat c) (encode_blankets E p c w) any_result"
  unfolding encode_blankets_def by (rule costs_le, (rule bounds)+) simp

section \<open>Checks\<close>

text \<open>A vector reserved up front is filled without further requests.\<close>

lemma costs_fill:
  assumes "items v = []" "length xs \<le> capacity v"
    and "\<And>x v. length (items v) < capacity v \<Longrightarrow> costs h 0 (body x v)
      (\<lambda>r. \<forall>v'. r = Ok v' \<longrightarrow> capacity v' = capacity v \<and> length (items v') = Suc (length (items v)))"
  shows "costs h 0 (for_in xs body v) any_result"
proof -
  have "costs h (sum_list (map (\<lambda>_. 0) xs)) (for_in xs body v) any_result"
    by (rule costs_for_in [where I = "\<lambda>i v'. capacity v' = capacity v \<and> length (items v') = i"])
      (use assms in \<open>auto intro!: costs_weaken [OF assms(3)]\<close>)
  then show ?thesis by (simp add: sum_list_triv)
qed

lemma costs_metadata_set [bounds]: "costs h 1 (metadata_guid_set E p c) any_result"
proof -
  have fill: "costs h 0 (for_in [0..<unat c] (\<lambda>i guids.
      bindM (deref as_KeyMetadata (ptr_add sizeof_rsi_key_metadata p i)) (\<lambda>m.
      bindM (vec_push E guids (km_guid m)) (\<lambda>guids. ret (Ok guids)))) v) any_result"
    if "items v = [] \<and> unat c \<le> capacity v" for v
    by (rule costs_fill)
      (use that in \<open>auto intro!: costs_then [OF costs_deref_any] costs_then [OF costs_push_spare] costs_ret\<close>)
  show ?thesis
    unfolding metadata_guid_set_def case_prod_unfold
    by (rule costs_le, rule costs_tryM_any, rule bounds, rule costs_tryM [OF costs_guid_vec], rule costs_tryM_any,
      rule fill, simp, (rule bounds)+) simp_all
qed

lemma length_chunks: "length (chunks_exact_16 bs) = length bs div 16"
  by (induction bs rule: chunks_exact_16.induct) (subst chunks_exact_16.simps, auto simp: le_div_geq)

lemma costs_orphans [bounds]: "costs h 1 (orphaned_guid_bytes E p c) any_result"
proof -
  have fill: "costs h 0 (for_in (chunks_exact_16 bs) (\<lambda>guid guids.
      bindM (vec_push E guids guid) (\<lambda>guids. ret (Ok guids))) v) any_result"
    if "items v = [] \<and> unat c \<le> capacity v" "length bs = unat c * 16" for v bs
    by (rule costs_fill) (use that in \<open>auto simp: length_chunks intro!: costs_then [OF costs_push_spare] costs_ret\<close>)
  have body: "costs h 1 (bindM (from_raw_parts p (unat c * 16)) (\<lambda>bytes.
      tryM (guid_vec_with_capacity E (unat c)) (\<lambda>guids.
      tryM (for_in (chunks_exact_16 (bytes_of bytes)) (\<lambda>guid guids.
          bindM (vec_push E guids guid) (\<lambda>guids. ret (Ok guids))) guids) (\<lambda>guids.
      case snd (validate_unique_nonzero_guids (items guids)) of
        Ok _ \<Rightarrow> ret (Ok (bytes_of bytes)) | Err e \<Rightarrow> ret (Err e))))) any_result"
    by (rule costs_le, rule costs_bind [OF costs_slice], rule costs_tryM [OF costs_guid_vec], rule costs_tryM_any,
      rule fill, simp, simp, (rule bounds)+) simp_all
  show ?thesis
    unfolding orphaned_guid_bytes_def case_prod_unfold checked_mul_usize_def
    using body by (auto intro!: costs_ret simp del: One_nat_def)
qed

lemma costs_push_guid [bounds]: "costs h 1 (push_guid E v g) any_result"
proof (cases "length (items v) = capacity v")
  case True
  have "costs h 1 (bindM (try_reserve E 1 v) (\<lambda>r. case r of Some v \<Rightarrow> ret (Ok v) | None \<Rightarrow> ret (Err ENOMEM)))
      (\<lambda>r. \<forall>v'. r = Ok v' \<longrightarrow> length (items v') < capacity v')"
  proof (rule costs_then [OF costs_try_reserve])
    fix r assume "\<forall>v'. r = Some v' \<longrightarrow> items v' = items v \<and>
      (length (items v) \<le> capacity v \<longrightarrow> length (items v) + 1 \<le> capacity v')"
    with True show "costs h 0 (case r of Some v \<Rightarrow> ret (Ok v) | None \<Rightarrow> ret (Err ENOMEM))
        (\<lambda>r. \<forall>v'. r = Ok v' \<longrightarrow> length (items v') < capacity v')"
      by (cases r) (auto intro: costs_ret)
  qed
  then show ?thesis
    unfolding push_guid_def if_P [OF True]
    by (rule costs_try_then) (simp_all add: costs_then [OF costs_push_spare] costs_ret)
next
  case False
  show ?thesis
    unfolding push_guid_def if_not_P [OF False] by (rule costs_le, (rule bounds)+) simp
qed

lemma costs_collect [bounds]: "costs h 1 (collect_target E e v) any_result"
  unfolding collect_target_def by (rule costs_le, (rule bounds)+) simp

lemma costs_lookup_targets [bounds]: "costs h (unat c) (lookup_target_guid_set E p c) any_result"
  unfolding lookup_target_guid_set_def by (rule costs_le, (rule bounds)+) simp

lemma costs_validate_lookup [bounds]: "costs h (unat c + 1) (validate_lookup_metadata E p c q d) any_result"
  unfolding validate_lookup_metadata_def by (rule costs_le, (rule bounds)+) simp

section \<open>Children\<close>

definition entry_total :: "(rsi_child_entry \<times> rsi_path_entry list) list \<Rightarrow> nat" where
  "entry_total cs = sum_list (map (\<lambda>(c, es). length es) cs)"

lemma child_at:
  assumes "child_array h (p, n, cs)" "nonnull p n" "i < unat n"
    and "Option.bind (h (ptr_add sizeof_rsi_child_entry p i)) as_ChildEntry = Some c"
  shows "unat (ch_entry_count c) = length (snd (cs ! i))"
proof -
  have arr: "carray as_ChildEntry sizeof_rsi_child_entry h p n (map fst cs)"
    and paths: "list_all (\<lambda>(c, es). path_array h (ch_entries c, ch_entry_count c, es)) cs"
    using assms(1) by (simp_all add: child_array_def)
  have len: "length cs = unat n" using carray_length [OF arr] by simp
  have "p \<noteq> NULL" using assms(2,3) by (auto simp: nonnull_def)
  then have "array_at as_ChildEntry sizeof_rsi_child_entry h p (map fst cs)" using arr by (simp add: carray_def)
  from array_at_nth [OF this, of i] assms(3,4) len have "c = fst (cs ! i)" by auto
  moreover have "path_array h (ch_entries (fst (cs ! i)), ch_entry_count (fst (cs ! i)), snd (cs ! i))"
    using paths assms(3) len by (auto simp: list_all_length case_prod_unfold)
  ultimately show ?thesis by (auto simp: path_array_def dest: carray_length)
qed

text \<open>A loop over the children whose body is linear in the entries of the child.\<close>

lemma costs_children_loop:
  assumes "child_array h (p, n, cs)" "nonnull p n"
    and "\<And>c a. costs h (k + m * unat (ch_entry_count c)) (body c a) any_result"
  shows "costs h (k * unat n + m * entry_total cs) (for_in [0..<unat n] (\<lambda>i a.
    bindM (deref as_ChildEntry (ptr_add sizeof_rsi_child_entry p i)) (\<lambda>c. body c a)) a0) any_result"
proof -
  let ?c = "\<lambda>i. k + m * length (snd (cs ! i))"
  have len: "length cs = unat n" using assms(1) by (auto simp: child_array_def dest: carray_length)
  have "costs h (?c i) (bindM (deref as_ChildEntry (ptr_add sizeof_rsi_child_entry p i)) (\<lambda>c. body c a)) any_result"
    if "i < unat n" for i a
    by (rule costs_le [OF costs_bind [OF costs_deref [where Q = "\<lambda>c. unat (ch_entry_count c) = length (snd (cs ! i))"]
        costs_le [OF assms(3)]]])
      (use child_at [OF assms(1,2) that] in auto)
  then have "costs h (sum_list (map ?c [0..<unat n])) (for_in [0..<unat n] (\<lambda>i a.
      bindM (deref as_ChildEntry (ptr_add sizeof_rsi_child_entry p i)) (\<lambda>c. body c a)) a0) any_result"
    by (intro costs_for_in [where I = "\<lambda>_ _. True"]) auto
  moreover have "sum_list (map ?c [0..<unat n]) = k * unat n + m * entry_total cs"
  proof -
    have "map (\<lambda>i. length (snd (cs ! i))) [0..<unat n] = map (\<lambda>(c, es). length es) cs"
      by (rule nth_equalityI) (auto simp: len case_prod_unfold)
    then show ?thesis
      by (simp add: entry_total_def sum_list_addf sum_list_triv sum_list_const_mult flip: len)
  qed
  ultimately show ?thesis by simp
qed

lemma costs_encode_children:
  assumes "child_array h (p, n, cs)" "nonnull p n"
  shows "costs h (3 * unat n + 5 * entry_total cs) (encode_children E p n w) any_result"
  unfolding encode_children_def
  by (rule costs_children_loop [OF assms]) (rule costs_le, (rule bounds)+, simp)

lemma costs_children_targets:
  assumes "child_array h (p, n, cs)"
  shows "costs h (entry_total cs) (enum_children_target_guid_set E p n) (\<lambda>r. (\<exists>v. r = Ok v) \<longrightarrow> nonnull p n)"
proof -
  have "costs h (0 * unat n + 1 * entry_total cs) (for_in [0..<unat n] (\<lambda>i guids.
      bindM (deref as_ChildEntry (ptr_add sizeof_rsi_child_entry p i)) (\<lambda>child.
      tryM (ret (require_array (ch_entries child) (ch_entry_count child))) (\<lambda>_.
      for_in [0..<unat (ch_entry_count child)] (\<lambda>j guids.
        bindM (deref as_PathEntry (ptr_add sizeof_rsi_path_entry (ch_entries child) j)) (\<lambda>entry.
        collect_target E entry guids)) guids))) vec_new) any_result" if "nonnull p n"
    by (rule costs_children_loop [OF assms that]) (rule costs_le, (rule bounds)+, simp)
  then have loop: "nonnull p n \<Longrightarrow> costs h (entry_total cs) (tryM (for_in [0..<unat n] (\<lambda>i guids.
      bindM (deref as_ChildEntry (ptr_add sizeof_rsi_child_entry p i)) (\<lambda>child.
      tryM (ret (require_array (ch_entries child) (ch_entry_count child))) (\<lambda>_.
      for_in [0..<unat (ch_entry_count child)] (\<lambda>j guids.
        bindM (deref as_PathEntry (ptr_add sizeof_rsi_path_entry (ch_entries child) j)) (\<lambda>entry.
        collect_target E entry guids)) guids))) vec_new) (\<lambda>guids.
      ret (Ok (guids\<lparr>items := sort_dedup_guids (items guids)\<rparr>)))) (\<lambda>r. (\<exists>v. r = Ok v) \<longrightarrow> nonnull p n)"
    by (intro costs_try_then [where R = any_result]) (auto intro: costs_ret)
  show ?thesis
    unfolding enum_children_target_guid_set_def
    by (rule costs_le [OF costs_tryM [OF costs_ret [where Q = "\<lambda>r. r = require_array p n" and n = 0] loop]])
      (auto simp: require_array_eq split: if_splits)
qed

section \<open>The responders\<close>

text \<open>The bound for each reply, in the number of entries the caller passes.\<close>

fun reply_allocs :: "reply \<Rightarrow> nat" where
  "reply_allocs (Reply_lookup ((p, c, es), (q, d, ms))) = 4 + 6 * length es + 6 * length ms"
| "reply_allocs (Reply_delete_layer (p, c, gs)) = 4"
| "reply_allocs (Reply_enum_children ((p, n, cs), (q, d, ms))) =
     4 + 3 * length cs + 6 * entry_total cs + 6 * length ms"
| "reply_allocs (Reply_read_key a) = 9"
| "reply_allocs (Reply_query_values ((p, c, es), (q, d, bs))) = 3 + 8 * length es + 3 * length bs"

lemma costs_respond_lookup: "costs h (4 + 6 * unat c + 6 * unat d) (rsi_respond_lookup E fd req p c q d) any_result"
  unfolding rsi_respond_lookup_def by (rule costs_le, (rule bounds)+) simp

lemma costs_respond_delete_layer: "costs h 4 (rsi_respond_delete_layer E fd req p c) any_result"
  unfolding rsi_respond_delete_layer_def by (rule costs_le, (rule bounds)+) simp

lemma costs_respond_read_key: "costs h 9 (rsi_respond_read_key E fd req name nl parent sd sl vol lnk lwt) any_result"
  unfolding rsi_respond_read_key_def by (rule costs_le, (rule bounds)+) simp

lemma costs_respond_query_values: "costs h (3 + 8 * unat c + 3 * unat d) (rsi_respond_query_values E fd req p c q d) any_result"
  unfolding rsi_respond_query_values_def by (rule costs_le, (rule bounds)+) simp

lemma costs_validate_children:
  assumes "child_array h (p, n, cs)"
  shows "costs h (entry_total cs + 1) (validate_enum_children_metadata E p n q d) (\<lambda>r. (\<exists>v. r = Ok v) \<longrightarrow> nonnull p n)"
  unfolding validate_enum_children_metadata_def
  by (rule costs_tryM [OF costs_children_targets [OF assms] costs_try_then [OF costs_metadata_set]])
    (auto intro: costs_ret)

lemma costs_checked:
  assumes "costs h a chk (\<lambda>r. (\<exists>v. r = Ok v) \<longrightarrow> P)" "P \<Longrightarrow> costs h b k any_result"
  shows "costs h (a + b) (bindM chk (\<lambda>r. case r of Ok _ \<Rightarrow> k | Err e \<Rightarrow> fail_errno e)) any_result"
proof (rule costs_bind [OF assms(1)])
  fix r :: "'a result" assume "(\<exists>v. r = Ok v) \<longrightarrow> P"
  then show "costs h b (case r of Ok _ \<Rightarrow> k | Err e \<Rightarrow> fail_errno e) any_result"
    using assms(2) costs_le [OF costs_fail_errno] by (cases r) auto
qed

lemma costs_respond_enum_children:
  assumes "child_array h (p, n, cs)"
  shows "costs h (4 + 3 * unat n + 6 * entry_total cs + 6 * unat d) (rsi_respond_enum_children E fd req p n q d) any_result"
proof -
  have rest: "costs h (3 + 3 * unat n + 5 * entry_total cs + 6 * unat d) (bindM (new_writer E) (\<lambda>w.
      bindM (FrameWriter_u32 E n w) (\<lambda>w. bindM (encode_children E p n w) (\<lambda>r. case r of
          Err e \<Rightarrow> fail_errno e
        | Ok w \<Rightarrow> bindM (encode_metadata_block E q d w) (\<lambda>r. case r of
            Err e \<Rightarrow> fail_errno e | Ok w \<Rightarrow> finish_and_send E fd r' w))))) any_result" if "nonnull p n" for r'
    by (rule costs_le, (rule bounds costs_encode_children [OF assms that])+) simp
  show ?thesis
    unfolding rsi_respond_enum_children_def
    by (rule costs_le [OF costs_bind_any [OF costs_request costs_case_any
        [OF costs_checked [OF costs_validate_children [OF assms] rest] costs_fail_errno]]]) auto
qed

lemma costs_respond:
  assumes "reply_valid h a"
  shows "costs h (reply_allocs a) (respond E fd req a) any_result"
proof (cases a)
  case (Reply_lookup x)
  obtain p c es q d ms where x: "x = ((p, c, es), (q, d, ms))" by (metis prod.exhaust)
  with assms Reply_lookup have "length es = unat c" "length ms = unat d"
    by (auto simp: lookup_valid_def path_block_valid_def path_array_def metadata_block_valid_def metadata_array_def
        dest: carray_length)
  then show ?thesis using costs_respond_lookup [of h c d] by (simp add: Reply_lookup x)
next
  case (Reply_delete_layer x)
  then show ?thesis using costs_respond_delete_layer by (cases x) simp
next
  case (Reply_enum_children x)
  obtain p n cs q d ms where x: "x = ((p, n, cs), (q, d, ms))" by (metis prod.exhaust)
  with assms Reply_enum_children have arr: "child_array h (p, n, cs)" "length ms = unat d"
    by (auto simp: enum_children_valid_def child_block_valid_def metadata_block_valid_def metadata_array_def
        dest: carray_length)
  moreover have "length cs = unat n" using arr(1) by (auto simp: child_array_def dest: carray_length)
  ultimately show ?thesis using costs_respond_enum_children [OF arr(1), of d] by (simp add: Reply_enum_children x)
next
  case (Reply_read_key x)
  then show ?thesis
    using costs_respond_read_key unfolding Reply_read_key respond_dispatch reply_allocs.simps case_prod_unfold by blast
next
  case (Reply_query_values x)
  obtain p c es q d bs where x: "x = ((p, c, es), (q, d, bs))" by (metis prod.exhaust)
  with assms Reply_query_values have "length es = unat c" "length bs = unat d"
    by (auto simp: query_values_valid_def value_block_valid_def blanket_block_valid_def dest: carray_length)
  then show ?thesis using costs_respond_query_values [of h c d] by (simp add: Reply_query_values x)
qed

section \<open>All calls\<close>

fun call_allocs :: "call \<Rightarrow> nat" where
  "call_allocs (Respond fd req a) = reply_allocs a"
| "call_allocs (Register hives n max_sequence) = 1"
| "call_allocs _ = 0"

lemma register_outcome_ticks: "register_outcome E args h s = Done x s' \<Longrightarrow> ticks s' = ticks s"
  by (auto simp: register_outcome_def Let_def split: if_splits)

text \<open>
  C34. Allocation bounds. Under its contract a call asks the allocator at most \<open>call_allocs c\<close>
  times: never for \<open>rsi_read_request\<close>, \<open>rsi_parse_request\<close>, the 18 decoders,
  \<open>rsi_write_response\<close> and \<open>rsi_respond_status\<close> (they work in place), at most once for
  \<open>rsi_register\<close>, at most 4 and 9 times for DELETE_LAYER and READ_KEY whatever the sizes, and
  linearly many times in the number of entries for the other payload responses.
\<close>

theorem calls_allocate_bounded:
  assumes "call_contract (mem s) c" "run_call E c s = Done x s'"
  shows "ticks s' \<le> ticks s + call_allocs c"
proof (cases c)
  case (Respond fd req a)
  with assms have "reply_valid (mem s) a" "respond E fd req a s = Done x s'" by simp_all
  from costsD [OF costs_respond [OF this(1)] refl this(2)] Respond show ?thesis by simp
next
  case (Register hives n max_sequence)
  show ?thesis
  proof (cases "n = 0 \<or> hives = NULL")
    case True
    with assms Register show ?thesis by (auto simp: register_guard)
  next
    case False
    with assms Register obtain hs where "hive_array (mem s) hives n hs" by auto
    from register_eq [OF _ _ this, of E max_sequence] False assms(2) Register show ?thesis
      by (auto split: option.splits dest: register_outcome_ticks)
  qed
next
  case (Parse_request frame len out)
  obtain old bs where "out \<noteq> NULL \<longrightarrow> mem s out = Some (Request old)"
    "frame \<noteq> NULL \<longrightarrow> read_bytes (mem s) frame (unat len) = Some bs"
    using assms(1) Parse_request by (auto simp: request_at_def)
  from rsi_parse_request_eq [OF this, of E] assms(2) Parse_request show ?thesis
    by (auto split: if_splits option.splits)
next
  case (Decode op req out)
  with assms(1) have "request_valid (mem s) req" "out = NULL \<or> (\<exists>c. mem s out = Some c \<and> out_typed op c)" by simp_all
  from decoders.dec_eq [OF this, of E] assms(2) Decode show ?thesis
    by (auto split: if_splits option.splits)
next
  case (Respond_status fd req st)
  have "costs (mem s) 0 (rsi_respond_status E fd req st) any_result"
    unfolding rsi_respond_status_def build_status_frame_def put_response_header_def copy_from_slice_def
      write_frame_def Let_def
    by (rule costs_le, (rule bounds)+) simp
  from costsD [OF this refl] assms(2) Respond_status show ?thesis by auto
next
  case (Read_request fd p cap)
  with assms(2) show ?thesis by (auto simp: rsi_read_request_def sys_read_def bindM_def syscall_def Let_def)
next
  case (Write_response fd p n)
  have "costs (mem s) 0 (rsi_write_response E fd p n) any_result"
    unfolding rsi_write_response_def by (rule costs_le, (rule bounds)+) simp
  from costsD [OF this refl] assms(2) Write_response show ?thesis by auto
qed

theorem calls_allocate_bounded_witness:
  "\<exists>s'. run_call ex_env (Respond 3 0x100 (Reply_lookup ex_lookup_args)) ex_rworld = Done 0 s' \<and> ticks s' \<le> 22"
proof -
  have "call_contract (mem ex_rworld) (Respond 3 0x100 (Reply_lookup ex_lookup_args))"
    using ex_lookup_valid by (simp add: request_at_def)
  from calls_allocate_bounded [OF this] ex_lookup_sent show ?thesis by (fastforce simp: ex_rworld_def)
qed

end
