(* ===== verification/Headers.thy ===== *)
theory Headers
  imports Layout "HOL-Library.Multiset"
begin

text \<open>
  The shipped C headers \<open>include/rsi/source.h\<close>, \<open>request.h\<close> and \<open>response.h\<close>, the
  declarations of the Rust sources they describe, and the comparison that
  \<open>tools/verify-abi.sh\<close> makes between them: signatures, struct names, sizes, alignments,
  field names, field offsets and sizes, together with the committed snapshot
  \<open>abi/rsi-abi.h\<close>. A C caller that includes the
  headers and the library agree on every call and on every byte of every struct.
\<close>

section \<open>Declarations\<close>

text \<open>The types the headers use; the flag of a pointer says whether it is to \<open>const\<close>.\<close>

datatype c_ty =
    C_int | C_uint8 | C_uint16 | C_uint32 | C_uint64 | C_size_t | C_ssize_t
  | C_void | C_struct string | C_ptr bool c_ty | C_array c_ty nat

text \<open>The types the exported Rust items use; the flag of a pointer distinguishes \<open>*const\<close> from \<open>*mut\<close>.\<close>

datatype rust_ty =
    R_c_int | R_u8 | R_u16 | R_u32 | R_u64 | R_usize | R_ssize_t
  | R_c_void | R_struct string | R_ptr bool rust_ty | R_array rust_ty nat

text \<open>A struct with its fields, or a function with its result and parameter types.\<close>

datatype 'ty decl =
    Struct string "(string \<times> 'ty) list"
  | Fn string 'ty "'ty list"

section \<open>The headers\<close>

definition source_h :: "c_ty decl list" where
  "source_h =
     [Struct ''rsi_hive''
        [(''name'', C_ptr True C_void), (''name_len'', C_uint32), (''flags'', C_uint32),
         (''root_guid'', C_array C_uint8 16), (''scope_guid'', C_array C_uint8 16)],
      Fn ''rsi_register'' C_int
        [C_ptr True (C_struct ''rsi_hive''), C_uint32, C_uint64]]"

definition request_h :: "c_ty decl list" where
  "request_h =
     [Struct ''rsi_request''
        [(''request_id'', C_uint64), (''txn_id'', C_uint64), (''payload'', C_ptr True C_void),
         (''payload_len'', C_uint32), (''op_code'', C_uint16)],
      Fn ''rsi_read_request'' C_ssize_t
        [C_int, C_ptr False C_void, C_size_t],
      Fn ''rsi_parse_request'' C_int
        [C_ptr True C_void, C_size_t, C_ptr False (C_struct ''rsi_request'')],
      Struct ''rsi_lookup''
        [(''parent_guid'', C_array C_uint8 16), (''child_name'', C_ptr True C_void),
         (''child_name_len'', C_uint32)],
      Fn ''rsi_request_lookup'' C_int
        [C_ptr True (C_struct ''rsi_request''), C_ptr False (C_struct ''rsi_lookup'')],
      Struct ''rsi_create_entry''
        [(''parent_guid'', C_array C_uint8 16), (''child_guid'', C_array C_uint8 16),
         (''child_name'', C_ptr True C_void), (''child_name_len'', C_uint32),
         (''layer_name'', C_ptr True C_void), (''layer_name_len'', C_uint32),
         (''sequence'', C_uint64)],
      Fn ''rsi_request_create_entry'' C_int
        [C_ptr True (C_struct ''rsi_request''), C_ptr False (C_struct ''rsi_create_entry'')],
      Struct ''rsi_hide_entry''
        [(''parent_guid'', C_array C_uint8 16), (''child_name'', C_ptr True C_void),
         (''child_name_len'', C_uint32), (''layer_name'', C_ptr True C_void),
         (''layer_name_len'', C_uint32), (''sequence'', C_uint64)],
      Fn ''rsi_request_hide_entry'' C_int
        [C_ptr True (C_struct ''rsi_request''), C_ptr False (C_struct ''rsi_hide_entry'')],
      Struct ''rsi_delete_entry''
        [(''parent_guid'', C_array C_uint8 16), (''child_name'', C_ptr True C_void),
         (''child_name_len'', C_uint32), (''layer_name'', C_ptr True C_void),
         (''layer_name_len'', C_uint32)],
      Fn ''rsi_request_delete_entry'' C_int
        [C_ptr True (C_struct ''rsi_request''), C_ptr False (C_struct ''rsi_delete_entry'')],
      Struct ''rsi_enum_children''
        [(''parent_guid'', C_array C_uint8 16)],
      Fn ''rsi_request_enum_children'' C_int
        [C_ptr True (C_struct ''rsi_request''), C_ptr False (C_struct ''rsi_enum_children'')],
      Struct ''rsi_create_key''
        [(''guid'', C_array C_uint8 16), (''parent_guid'', C_array C_uint8 16),
         (''name'', C_ptr True C_void), (''name_len'', C_uint32), (''sd'', C_ptr True C_void),
         (''sd_len'', C_uint32), (''volatile_key'', C_uint8), (''symlink'', C_uint8)],
      Fn ''rsi_request_create_key'' C_int
        [C_ptr True (C_struct ''rsi_request''), C_ptr False (C_struct ''rsi_create_key'')],
      Struct ''rsi_key_guid''
        [(''guid'', C_array C_uint8 16)],
      Fn ''rsi_request_read_key'' C_int
        [C_ptr True (C_struct ''rsi_request''), C_ptr False (C_struct ''rsi_key_guid'')],
      Fn ''rsi_request_drop_key'' C_int
        [C_ptr True (C_struct ''rsi_request''), C_ptr False (C_struct ''rsi_key_guid'')],
      Struct ''rsi_write_key''
        [(''guid'', C_array C_uint8 16), (''field_mask'', C_uint32),
         (''sd'', C_ptr True C_void), (''sd_len'', C_uint32), (''last_write_time'', C_uint64)],
      Fn ''rsi_request_write_key'' C_int
        [C_ptr True (C_struct ''rsi_request''), C_ptr False (C_struct ''rsi_write_key'')],
      Struct ''rsi_query_values''
        [(''guid'', C_array C_uint8 16), (''value_name'', C_ptr True C_void),
         (''value_name_len'', C_uint32), (''query_all'', C_uint8)],
      Fn ''rsi_request_query_values'' C_int
        [C_ptr True (C_struct ''rsi_request''), C_ptr False (C_struct ''rsi_query_values'')],
      Struct ''rsi_set_value''
        [(''guid'', C_array C_uint8 16), (''value_name'', C_ptr True C_void),
         (''value_name_len'', C_uint32), (''layer_name'', C_ptr True C_void),
         (''layer_name_len'', C_uint32), (''value_type'', C_uint32),
         (''data'', C_ptr True C_void), (''data_len'', C_uint32), (''sequence'', C_uint64),
         (''expected_sequence'', C_uint64)],
      Fn ''rsi_request_set_value'' C_int
        [C_ptr True (C_struct ''rsi_request''), C_ptr False (C_struct ''rsi_set_value'')],
      Struct ''rsi_delete_value_entry''
        [(''guid'', C_array C_uint8 16), (''value_name'', C_ptr True C_void),
         (''value_name_len'', C_uint32), (''layer_name'', C_ptr True C_void),
         (''layer_name_len'', C_uint32)],
      Fn ''rsi_request_delete_value_entry'' C_int
        [C_ptr True (C_struct ''rsi_request''),
         C_ptr False (C_struct ''rsi_delete_value_entry'')],
      Struct ''rsi_set_blanket_tombstone''
        [(''guid'', C_array C_uint8 16), (''layer_name'', C_ptr True C_void),
         (''layer_name_len'', C_uint32), (''set'', C_uint8), (''sequence'', C_uint64)],
      Fn ''rsi_request_set_blanket_tombstone'' C_int
        [C_ptr True (C_struct ''rsi_request''),
         C_ptr False (C_struct ''rsi_set_blanket_tombstone'')],
      Struct ''rsi_begin_transaction''
        [(''transaction_id'', C_uint64), (''mode'', C_uint32)],
      Fn ''rsi_request_begin_transaction'' C_int
        [C_ptr True (C_struct ''rsi_request''), C_ptr False (C_struct ''rsi_begin_transaction'')],
      Struct ''rsi_transaction''
        [(''transaction_id'', C_uint64)],
      Fn ''rsi_request_commit_transaction'' C_int
        [C_ptr True (C_struct ''rsi_request''), C_ptr False (C_struct ''rsi_transaction'')],
      Fn ''rsi_request_abort_transaction'' C_int
        [C_ptr True (C_struct ''rsi_request''), C_ptr False (C_struct ''rsi_transaction'')],
      Struct ''rsi_name''
        [(''name'', C_ptr True C_void), (''name_len'', C_uint32)],
      Fn ''rsi_request_delete_layer'' C_int
        [C_ptr True (C_struct ''rsi_request''), C_ptr False (C_struct ''rsi_name'')],
      Fn ''rsi_request_flush'' C_int
        [C_ptr True (C_struct ''rsi_request''), C_ptr False (C_struct ''rsi_name'')]]"

definition response_h :: "c_ty decl list" where
  "response_h =
     [Fn ''rsi_write_response'' C_ssize_t
        [C_int, C_ptr True C_void, C_size_t],
      Fn ''rsi_respond_status'' C_int
        [C_int, C_ptr True (C_struct ''rsi_request''), C_uint32],
      Struct ''rsi_path_entry''
        [(''layer'', C_ptr True C_void), (''layer_len'', C_uint32), (''target_type'', C_uint8),
         (''target_guid'', C_array C_uint8 16), (''sequence'', C_uint64)],
      Struct ''rsi_key_metadata''
        [(''guid'', C_array C_uint8 16), (''sd'', C_ptr True C_void), (''sd_len'', C_uint32),
         (''volatile_key'', C_uint8), (''symlink'', C_uint8), (''last_write_time'', C_uint64)],
      Fn ''rsi_respond_lookup'' C_int
        [C_int, C_ptr True (C_struct ''rsi_request''),
         C_ptr True (C_struct ''rsi_path_entry''), C_uint32,
         C_ptr True (C_struct ''rsi_key_metadata''), C_uint32],
      Fn ''rsi_respond_delete_layer'' C_int
        [C_int, C_ptr True (C_struct ''rsi_request''), C_ptr True C_uint8, C_uint32],
      Struct ''rsi_child_entry''
        [(''child_name'', C_ptr True C_void), (''child_name_len'', C_uint32),
         (''entries'', C_ptr True (C_struct ''rsi_path_entry'')), (''entry_count'', C_uint32)],
      Fn ''rsi_respond_enum_children'' C_int
        [C_int, C_ptr True (C_struct ''rsi_request''),
         C_ptr True (C_struct ''rsi_child_entry''), C_uint32,
         C_ptr True (C_struct ''rsi_key_metadata''), C_uint32],
      Fn ''rsi_respond_read_key'' C_int
        [C_int, C_ptr True (C_struct ''rsi_request''), C_ptr True C_void, C_uint32,
         C_ptr True C_uint8, C_ptr True C_void, C_uint32, C_uint8, C_uint8, C_uint64],
      Struct ''rsi_value_entry''
        [(''value_name'', C_ptr True C_void), (''value_name_len'', C_uint32),
         (''layer_name'', C_ptr True C_void), (''layer_name_len'', C_uint32),
         (''value_type'', C_uint32), (''data'', C_ptr True C_void), (''data_len'', C_uint32),
         (''sequence'', C_uint64)],
      Struct ''rsi_blanket_entry''
        [(''layer_name'', C_ptr True C_void), (''layer_name_len'', C_uint32),
         (''sequence'', C_uint64)],
      Fn ''rsi_respond_query_values'' C_int
        [C_int, C_ptr True (C_struct ''rsi_request''),
         C_ptr True (C_struct ''rsi_value_entry''), C_uint32,
         C_ptr True (C_struct ''rsi_blanket_entry''), C_uint32]]"

definition rsi_headers :: "c_ty decl list" where
  "rsi_headers = source_h @ request_h @ response_h"

section \<open>The Rust items\<close>

definition rsi_hive_decl :: "rust_ty decl" where
  "rsi_hive_decl = Struct ''rsi_hive''
    [(''name'', R_ptr True R_c_void), (''name_len'', R_u32), (''flags'', R_u32),
     (''root_guid'', R_array R_u8 16), (''scope_guid'', R_array R_u8 16)]"

definition rsi_register_sig :: "rust_ty decl" where
  "rsi_register_sig = Fn ''rsi_register'' R_c_int
    [R_ptr True (R_struct ''rsi_hive''), R_u32, R_u64]"

definition rsi_request_decl :: "rust_ty decl" where
  "rsi_request_decl = Struct ''rsi_request''
    [(''request_id'', R_u64), (''txn_id'', R_u64), (''payload'', R_ptr True R_c_void),
     (''payload_len'', R_u32), (''op_code'', R_u16)]"

definition rsi_read_request_sig :: "rust_ty decl" where
  "rsi_read_request_sig = Fn ''rsi_read_request'' R_ssize_t
    [R_c_int, R_ptr False R_c_void, R_usize]"

definition rsi_parse_request_sig :: "rust_ty decl" where
  "rsi_parse_request_sig = Fn ''rsi_parse_request'' R_c_int
    [R_ptr True R_c_void, R_usize, R_ptr False (R_struct ''rsi_request'')]"

definition rsi_lookup_decl :: "rust_ty decl" where
  "rsi_lookup_decl = Struct ''rsi_lookup''
    [(''parent_guid'', R_array R_u8 16), (''child_name'', R_ptr True R_c_void),
     (''child_name_len'', R_u32)]"

definition rsi_request_lookup_sig :: "rust_ty decl" where
  "rsi_request_lookup_sig = Fn ''rsi_request_lookup'' R_c_int
    [R_ptr True (R_struct ''rsi_request''), R_ptr False (R_struct ''rsi_lookup'')]"

definition rsi_create_entry_decl :: "rust_ty decl" where
  "rsi_create_entry_decl = Struct ''rsi_create_entry''
    [(''parent_guid'', R_array R_u8 16), (''child_guid'', R_array R_u8 16),
     (''child_name'', R_ptr True R_c_void), (''child_name_len'', R_u32),
     (''layer_name'', R_ptr True R_c_void), (''layer_name_len'', R_u32), (''sequence'', R_u64)]"

definition rsi_request_create_entry_sig :: "rust_ty decl" where
  "rsi_request_create_entry_sig = Fn ''rsi_request_create_entry'' R_c_int
    [R_ptr True (R_struct ''rsi_request''), R_ptr False (R_struct ''rsi_create_entry'')]"

definition rsi_hide_entry_decl :: "rust_ty decl" where
  "rsi_hide_entry_decl = Struct ''rsi_hide_entry''
    [(''parent_guid'', R_array R_u8 16), (''child_name'', R_ptr True R_c_void),
     (''child_name_len'', R_u32), (''layer_name'', R_ptr True R_c_void),
     (''layer_name_len'', R_u32), (''sequence'', R_u64)]"

definition rsi_request_hide_entry_sig :: "rust_ty decl" where
  "rsi_request_hide_entry_sig = Fn ''rsi_request_hide_entry'' R_c_int
    [R_ptr True (R_struct ''rsi_request''), R_ptr False (R_struct ''rsi_hide_entry'')]"

definition rsi_delete_entry_decl :: "rust_ty decl" where
  "rsi_delete_entry_decl = Struct ''rsi_delete_entry''
    [(''parent_guid'', R_array R_u8 16), (''child_name'', R_ptr True R_c_void),
     (''child_name_len'', R_u32), (''layer_name'', R_ptr True R_c_void),
     (''layer_name_len'', R_u32)]"

definition rsi_request_delete_entry_sig :: "rust_ty decl" where
  "rsi_request_delete_entry_sig = Fn ''rsi_request_delete_entry'' R_c_int
    [R_ptr True (R_struct ''rsi_request''), R_ptr False (R_struct ''rsi_delete_entry'')]"

definition rsi_enum_children_decl :: "rust_ty decl" where
  "rsi_enum_children_decl = Struct ''rsi_enum_children''
    [(''parent_guid'', R_array R_u8 16)]"

definition rsi_request_enum_children_sig :: "rust_ty decl" where
  "rsi_request_enum_children_sig = Fn ''rsi_request_enum_children'' R_c_int
    [R_ptr True (R_struct ''rsi_request''), R_ptr False (R_struct ''rsi_enum_children'')]"

definition rsi_create_key_decl :: "rust_ty decl" where
  "rsi_create_key_decl = Struct ''rsi_create_key''
    [(''guid'', R_array R_u8 16), (''parent_guid'', R_array R_u8 16),
     (''name'', R_ptr True R_c_void), (''name_len'', R_u32), (''sd'', R_ptr True R_c_void),
     (''sd_len'', R_u32), (''volatile_key'', R_u8), (''symlink'', R_u8)]"

definition rsi_request_create_key_sig :: "rust_ty decl" where
  "rsi_request_create_key_sig = Fn ''rsi_request_create_key'' R_c_int
    [R_ptr True (R_struct ''rsi_request''), R_ptr False (R_struct ''rsi_create_key'')]"

definition rsi_key_guid_decl :: "rust_ty decl" where
  "rsi_key_guid_decl = Struct ''rsi_key_guid''
    [(''guid'', R_array R_u8 16)]"

definition rsi_request_read_key_sig :: "rust_ty decl" where
  "rsi_request_read_key_sig = Fn ''rsi_request_read_key'' R_c_int
    [R_ptr True (R_struct ''rsi_request''), R_ptr False (R_struct ''rsi_key_guid'')]"

definition rsi_request_drop_key_sig :: "rust_ty decl" where
  "rsi_request_drop_key_sig = Fn ''rsi_request_drop_key'' R_c_int
    [R_ptr True (R_struct ''rsi_request''), R_ptr False (R_struct ''rsi_key_guid'')]"

definition rsi_write_key_decl :: "rust_ty decl" where
  "rsi_write_key_decl = Struct ''rsi_write_key''
    [(''guid'', R_array R_u8 16), (''field_mask'', R_u32), (''sd'', R_ptr True R_c_void),
     (''sd_len'', R_u32), (''last_write_time'', R_u64)]"

definition rsi_request_write_key_sig :: "rust_ty decl" where
  "rsi_request_write_key_sig = Fn ''rsi_request_write_key'' R_c_int
    [R_ptr True (R_struct ''rsi_request''), R_ptr False (R_struct ''rsi_write_key'')]"

definition rsi_query_values_decl :: "rust_ty decl" where
  "rsi_query_values_decl = Struct ''rsi_query_values''
    [(''guid'', R_array R_u8 16), (''value_name'', R_ptr True R_c_void),
     (''value_name_len'', R_u32), (''query_all'', R_u8)]"

definition rsi_request_query_values_sig :: "rust_ty decl" where
  "rsi_request_query_values_sig = Fn ''rsi_request_query_values'' R_c_int
    [R_ptr True (R_struct ''rsi_request''), R_ptr False (R_struct ''rsi_query_values'')]"

definition rsi_set_value_decl :: "rust_ty decl" where
  "rsi_set_value_decl = Struct ''rsi_set_value''
    [(''guid'', R_array R_u8 16), (''value_name'', R_ptr True R_c_void),
     (''value_name_len'', R_u32), (''layer_name'', R_ptr True R_c_void),
     (''layer_name_len'', R_u32), (''value_type'', R_u32), (''data'', R_ptr True R_c_void),
     (''data_len'', R_u32), (''sequence'', R_u64), (''expected_sequence'', R_u64)]"

definition rsi_request_set_value_sig :: "rust_ty decl" where
  "rsi_request_set_value_sig = Fn ''rsi_request_set_value'' R_c_int
    [R_ptr True (R_struct ''rsi_request''), R_ptr False (R_struct ''rsi_set_value'')]"

definition rsi_delete_value_entry_decl :: "rust_ty decl" where
  "rsi_delete_value_entry_decl = Struct ''rsi_delete_value_entry''
    [(''guid'', R_array R_u8 16), (''value_name'', R_ptr True R_c_void),
     (''value_name_len'', R_u32), (''layer_name'', R_ptr True R_c_void),
     (''layer_name_len'', R_u32)]"

definition rsi_request_delete_value_entry_sig :: "rust_ty decl" where
  "rsi_request_delete_value_entry_sig = Fn ''rsi_request_delete_value_entry'' R_c_int
    [R_ptr True (R_struct ''rsi_request''), R_ptr False (R_struct ''rsi_delete_value_entry'')]"

definition rsi_set_blanket_tombstone_decl :: "rust_ty decl" where
  "rsi_set_blanket_tombstone_decl = Struct ''rsi_set_blanket_tombstone''
    [(''guid'', R_array R_u8 16), (''layer_name'', R_ptr True R_c_void),
     (''layer_name_len'', R_u32), (''set'', R_u8), (''sequence'', R_u64)]"

definition rsi_request_set_blanket_tombstone_sig :: "rust_ty decl" where
  "rsi_request_set_blanket_tombstone_sig = Fn ''rsi_request_set_blanket_tombstone'' R_c_int
    [R_ptr True (R_struct ''rsi_request''), R_ptr False (R_struct ''rsi_set_blanket_tombstone'')]"

definition rsi_begin_transaction_decl :: "rust_ty decl" where
  "rsi_begin_transaction_decl = Struct ''rsi_begin_transaction''
    [(''transaction_id'', R_u64), (''mode'', R_u32)]"

definition rsi_request_begin_transaction_sig :: "rust_ty decl" where
  "rsi_request_begin_transaction_sig = Fn ''rsi_request_begin_transaction'' R_c_int
    [R_ptr True (R_struct ''rsi_request''), R_ptr False (R_struct ''rsi_begin_transaction'')]"

definition rsi_transaction_decl :: "rust_ty decl" where
  "rsi_transaction_decl = Struct ''rsi_transaction''
    [(''transaction_id'', R_u64)]"

definition rsi_request_commit_transaction_sig :: "rust_ty decl" where
  "rsi_request_commit_transaction_sig = Fn ''rsi_request_commit_transaction'' R_c_int
    [R_ptr True (R_struct ''rsi_request''), R_ptr False (R_struct ''rsi_transaction'')]"

definition rsi_request_abort_transaction_sig :: "rust_ty decl" where
  "rsi_request_abort_transaction_sig = Fn ''rsi_request_abort_transaction'' R_c_int
    [R_ptr True (R_struct ''rsi_request''), R_ptr False (R_struct ''rsi_transaction'')]"

definition rsi_name_decl :: "rust_ty decl" where
  "rsi_name_decl = Struct ''rsi_name''
    [(''name'', R_ptr True R_c_void), (''name_len'', R_u32)]"

definition rsi_request_delete_layer_sig :: "rust_ty decl" where
  "rsi_request_delete_layer_sig = Fn ''rsi_request_delete_layer'' R_c_int
    [R_ptr True (R_struct ''rsi_request''), R_ptr False (R_struct ''rsi_name'')]"

definition rsi_request_flush_sig :: "rust_ty decl" where
  "rsi_request_flush_sig = Fn ''rsi_request_flush'' R_c_int
    [R_ptr True (R_struct ''rsi_request''), R_ptr False (R_struct ''rsi_name'')]"

definition rsi_write_response_sig :: "rust_ty decl" where
  "rsi_write_response_sig = Fn ''rsi_write_response'' R_ssize_t
    [R_c_int, R_ptr True R_c_void, R_usize]"

definition rsi_respond_status_sig :: "rust_ty decl" where
  "rsi_respond_status_sig = Fn ''rsi_respond_status'' R_c_int
    [R_c_int, R_ptr True (R_struct ''rsi_request''), R_u32]"

definition rsi_path_entry_decl :: "rust_ty decl" where
  "rsi_path_entry_decl = Struct ''rsi_path_entry''
    [(''layer'', R_ptr True R_c_void), (''layer_len'', R_u32), (''target_type'', R_u8),
     (''target_guid'', R_array R_u8 16), (''sequence'', R_u64)]"

definition rsi_key_metadata_decl :: "rust_ty decl" where
  "rsi_key_metadata_decl = Struct ''rsi_key_metadata''
    [(''guid'', R_array R_u8 16), (''sd'', R_ptr True R_c_void), (''sd_len'', R_u32),
     (''volatile_key'', R_u8), (''symlink'', R_u8), (''last_write_time'', R_u64)]"

definition rsi_respond_lookup_sig :: "rust_ty decl" where
  "rsi_respond_lookup_sig = Fn ''rsi_respond_lookup'' R_c_int
    [R_c_int, R_ptr True (R_struct ''rsi_request''), R_ptr True (R_struct ''rsi_path_entry''),
     R_u32, R_ptr True (R_struct ''rsi_key_metadata''), R_u32]"

definition rsi_respond_delete_layer_sig :: "rust_ty decl" where
  "rsi_respond_delete_layer_sig = Fn ''rsi_respond_delete_layer'' R_c_int
    [R_c_int, R_ptr True (R_struct ''rsi_request''), R_ptr True R_u8, R_u32]"

definition rsi_child_entry_decl :: "rust_ty decl" where
  "rsi_child_entry_decl = Struct ''rsi_child_entry''
    [(''child_name'', R_ptr True R_c_void), (''child_name_len'', R_u32),
     (''entries'', R_ptr True (R_struct ''rsi_path_entry'')), (''entry_count'', R_u32)]"

definition rsi_respond_enum_children_sig :: "rust_ty decl" where
  "rsi_respond_enum_children_sig = Fn ''rsi_respond_enum_children'' R_c_int
    [R_c_int, R_ptr True (R_struct ''rsi_request''), R_ptr True (R_struct ''rsi_child_entry''),
     R_u32, R_ptr True (R_struct ''rsi_key_metadata''), R_u32]"

definition rsi_respond_read_key_sig :: "rust_ty decl" where
  "rsi_respond_read_key_sig = Fn ''rsi_respond_read_key'' R_c_int
    [R_c_int, R_ptr True (R_struct ''rsi_request''), R_ptr True R_c_void, R_u32,
     R_ptr True R_u8, R_ptr True R_c_void, R_u32, R_u8, R_u8, R_u64]"

definition rsi_value_entry_decl :: "rust_ty decl" where
  "rsi_value_entry_decl = Struct ''rsi_value_entry''
    [(''value_name'', R_ptr True R_c_void), (''value_name_len'', R_u32),
     (''layer_name'', R_ptr True R_c_void), (''layer_name_len'', R_u32),
     (''value_type'', R_u32), (''data'', R_ptr True R_c_void), (''data_len'', R_u32),
     (''sequence'', R_u64)]"

definition rsi_blanket_entry_decl :: "rust_ty decl" where
  "rsi_blanket_entry_decl = Struct ''rsi_blanket_entry''
    [(''layer_name'', R_ptr True R_c_void), (''layer_name_len'', R_u32), (''sequence'', R_u64)]"

definition rsi_respond_query_values_sig :: "rust_ty decl" where
  "rsi_respond_query_values_sig = Fn ''rsi_respond_query_values'' R_c_int
    [R_c_int, R_ptr True (R_struct ''rsi_request''), R_ptr True (R_struct ''rsi_value_entry''),
     R_u32, R_ptr True (R_struct ''rsi_blanket_entry''), R_u32]"

definition rust_items :: "rust_ty decl list" where
  "rust_items =
     [rsi_hive_decl, rsi_register_sig, rsi_request_decl, rsi_read_request_sig,
      rsi_parse_request_sig, rsi_lookup_decl, rsi_request_lookup_sig, rsi_create_entry_decl,
      rsi_request_create_entry_sig, rsi_hide_entry_decl, rsi_request_hide_entry_sig,
      rsi_delete_entry_decl, rsi_request_delete_entry_sig, rsi_enum_children_decl,
      rsi_request_enum_children_sig, rsi_create_key_decl, rsi_request_create_key_sig,
      rsi_key_guid_decl, rsi_request_read_key_sig, rsi_request_drop_key_sig,
      rsi_write_key_decl, rsi_request_write_key_sig, rsi_query_values_decl,
      rsi_request_query_values_sig, rsi_set_value_decl, rsi_request_set_value_sig,
      rsi_delete_value_entry_decl, rsi_request_delete_value_entry_sig,
      rsi_set_blanket_tombstone_decl, rsi_request_set_blanket_tombstone_sig,
      rsi_begin_transaction_decl, rsi_request_begin_transaction_sig, rsi_transaction_decl,
      rsi_request_commit_transaction_sig, rsi_request_abort_transaction_sig, rsi_name_decl,
      rsi_request_delete_layer_sig, rsi_request_flush_sig, rsi_write_response_sig,
      rsi_respond_status_sig, rsi_path_entry_decl, rsi_key_metadata_decl,
      rsi_respond_lookup_sig, rsi_respond_delete_layer_sig, rsi_child_entry_decl,
      rsi_respond_enum_children_sig, rsi_respond_read_key_sig, rsi_value_entry_decl,
      rsi_blanket_entry_decl, rsi_respond_query_values_sig]"

text \<open>
  The C type that a Rust type of an \<open>extern "C"\<close> signature or a \<open>repr(C)\<close> struct stands for, a rule
  of the language on this target, and the declarations the Rust items amount to in C.
\<close>

fun ffi_ty :: "rust_ty \<Rightarrow> c_ty" where
  "ffi_ty R_c_int = C_int"
| "ffi_ty R_u8 = C_uint8"
| "ffi_ty R_u16 = C_uint16"
| "ffi_ty R_u32 = C_uint32"
| "ffi_ty R_u64 = C_uint64"
| "ffi_ty R_usize = C_size_t"
| "ffi_ty R_ssize_t = C_ssize_t"
| "ffi_ty R_c_void = C_void"
| "ffi_ty (R_struct n) = C_struct n"
| "ffi_ty (R_ptr c t) = C_ptr c (ffi_ty t)"
| "ffi_ty (R_array t n) = C_array (ffi_ty t) n"

definition rust_abi :: "c_ty decl list" where
  "rust_abi = map (map_decl ffi_ty) rust_items"

section \<open>The committed snapshot\<close>

text \<open>\<open>abi/rsi-abi.h\<close>, in the order of the file.\<close>

definition rsi_abi_structs :: "c_ty decl list" where
  "rsi_abi_structs =
     [Struct ''rsi_request''
        [(''request_id'', C_uint64), (''txn_id'', C_uint64), (''payload'', C_ptr True C_void),
         (''payload_len'', C_uint32), (''op_code'', C_uint16)],
      Struct ''rsi_hive''
        [(''name'', C_ptr True C_void), (''name_len'', C_uint32), (''flags'', C_uint32),
         (''root_guid'', C_array C_uint8 16), (''scope_guid'', C_array C_uint8 16)],
      Struct ''rsi_transaction''
        [(''transaction_id'', C_uint64)],
      Struct ''rsi_begin_transaction''
        [(''transaction_id'', C_uint64), (''mode'', C_uint32)],
      Struct ''rsi_create_entry''
        [(''parent_guid'', C_array C_uint8 16), (''child_guid'', C_array C_uint8 16),
         (''child_name'', C_ptr True C_void), (''child_name_len'', C_uint32),
         (''layer_name'', C_ptr True C_void), (''layer_name_len'', C_uint32),
         (''sequence'', C_uint64)],
      Struct ''rsi_create_key''
        [(''guid'', C_array C_uint8 16), (''parent_guid'', C_array C_uint8 16),
         (''name'', C_ptr True C_void), (''name_len'', C_uint32), (''sd'', C_ptr True C_void),
         (''sd_len'', C_uint32), (''volatile_key'', C_uint8), (''symlink'', C_uint8)],
      Struct ''rsi_delete_entry''
        [(''parent_guid'', C_array C_uint8 16), (''child_name'', C_ptr True C_void),
         (''child_name_len'', C_uint32), (''layer_name'', C_ptr True C_void),
         (''layer_name_len'', C_uint32)],
      Struct ''rsi_name''
        [(''name'', C_ptr True C_void), (''name_len'', C_uint32)],
      Struct ''rsi_delete_value_entry''
        [(''guid'', C_array C_uint8 16), (''value_name'', C_ptr True C_void),
         (''value_name_len'', C_uint32), (''layer_name'', C_ptr True C_void),
         (''layer_name_len'', C_uint32)],
      Struct ''rsi_key_guid''
        [(''guid'', C_array C_uint8 16)],
      Struct ''rsi_enum_children''
        [(''parent_guid'', C_array C_uint8 16)],
      Struct ''rsi_hide_entry''
        [(''parent_guid'', C_array C_uint8 16), (''child_name'', C_ptr True C_void),
         (''child_name_len'', C_uint32), (''layer_name'', C_ptr True C_void),
         (''layer_name_len'', C_uint32), (''sequence'', C_uint64)],
      Struct ''rsi_lookup''
        [(''parent_guid'', C_array C_uint8 16), (''child_name'', C_ptr True C_void),
         (''child_name_len'', C_uint32)],
      Struct ''rsi_query_values''
        [(''guid'', C_array C_uint8 16), (''value_name'', C_ptr True C_void),
         (''value_name_len'', C_uint32), (''query_all'', C_uint8)],
      Struct ''rsi_set_blanket_tombstone''
        [(''guid'', C_array C_uint8 16), (''layer_name'', C_ptr True C_void),
         (''layer_name_len'', C_uint32), (''set'', C_uint8), (''sequence'', C_uint64)],
      Struct ''rsi_set_value''
        [(''guid'', C_array C_uint8 16), (''value_name'', C_ptr True C_void),
         (''value_name_len'', C_uint32), (''layer_name'', C_ptr True C_void),
         (''layer_name_len'', C_uint32), (''value_type'', C_uint32),
         (''data'', C_ptr True C_void), (''data_len'', C_uint32), (''sequence'', C_uint64),
         (''expected_sequence'', C_uint64)],
      Struct ''rsi_write_key''
        [(''guid'', C_array C_uint8 16), (''field_mask'', C_uint32),
         (''sd'', C_ptr True C_void), (''sd_len'', C_uint32), (''last_write_time'', C_uint64)],
      Struct ''rsi_path_entry''
        [(''layer'', C_ptr True C_void), (''layer_len'', C_uint32), (''target_type'', C_uint8),
         (''target_guid'', C_array C_uint8 16), (''sequence'', C_uint64)],
      Struct ''rsi_child_entry''
        [(''child_name'', C_ptr True C_void), (''child_name_len'', C_uint32),
         (''entries'', C_ptr True (C_struct ''rsi_path_entry'')), (''entry_count'', C_uint32)],
      Struct ''rsi_key_metadata''
        [(''guid'', C_array C_uint8 16), (''sd'', C_ptr True C_void), (''sd_len'', C_uint32),
         (''volatile_key'', C_uint8), (''symlink'', C_uint8), (''last_write_time'', C_uint64)],
      Struct ''rsi_value_entry''
        [(''value_name'', C_ptr True C_void), (''value_name_len'', C_uint32),
         (''layer_name'', C_ptr True C_void), (''layer_name_len'', C_uint32),
         (''value_type'', C_uint32), (''data'', C_ptr True C_void), (''data_len'', C_uint32),
         (''sequence'', C_uint64)],
      Struct ''rsi_blanket_entry''
        [(''layer_name'', C_ptr True C_void), (''layer_name_len'', C_uint32),
         (''sequence'', C_uint64)]]"

definition rsi_abi_prototypes :: "c_ty decl list" where
  "rsi_abi_prototypes =
     [Fn ''rsi_parse_request'' C_int
        [C_ptr True C_void, C_size_t, C_ptr False (C_struct ''rsi_request'')],
      Fn ''rsi_read_request'' C_ssize_t
        [C_int, C_ptr False C_void, C_size_t],
      Fn ''rsi_register'' C_int
        [C_ptr True (C_struct ''rsi_hive''), C_uint32, C_uint64],
      Fn ''rsi_request_abort_transaction'' C_int
        [C_ptr True (C_struct ''rsi_request''), C_ptr False (C_struct ''rsi_transaction'')],
      Fn ''rsi_request_begin_transaction'' C_int
        [C_ptr True (C_struct ''rsi_request''), C_ptr False (C_struct ''rsi_begin_transaction'')],
      Fn ''rsi_request_commit_transaction'' C_int
        [C_ptr True (C_struct ''rsi_request''), C_ptr False (C_struct ''rsi_transaction'')],
      Fn ''rsi_request_create_entry'' C_int
        [C_ptr True (C_struct ''rsi_request''), C_ptr False (C_struct ''rsi_create_entry'')],
      Fn ''rsi_request_create_key'' C_int
        [C_ptr True (C_struct ''rsi_request''), C_ptr False (C_struct ''rsi_create_key'')],
      Fn ''rsi_request_delete_entry'' C_int
        [C_ptr True (C_struct ''rsi_request''), C_ptr False (C_struct ''rsi_delete_entry'')],
      Fn ''rsi_request_delete_layer'' C_int
        [C_ptr True (C_struct ''rsi_request''), C_ptr False (C_struct ''rsi_name'')],
      Fn ''rsi_request_delete_value_entry'' C_int
        [C_ptr True (C_struct ''rsi_request''),
         C_ptr False (C_struct ''rsi_delete_value_entry'')],
      Fn ''rsi_request_drop_key'' C_int
        [C_ptr True (C_struct ''rsi_request''), C_ptr False (C_struct ''rsi_key_guid'')],
      Fn ''rsi_request_enum_children'' C_int
        [C_ptr True (C_struct ''rsi_request''), C_ptr False (C_struct ''rsi_enum_children'')],
      Fn ''rsi_request_flush'' C_int
        [C_ptr True (C_struct ''rsi_request''), C_ptr False (C_struct ''rsi_name'')],
      Fn ''rsi_request_hide_entry'' C_int
        [C_ptr True (C_struct ''rsi_request''), C_ptr False (C_struct ''rsi_hide_entry'')],
      Fn ''rsi_request_lookup'' C_int
        [C_ptr True (C_struct ''rsi_request''), C_ptr False (C_struct ''rsi_lookup'')],
      Fn ''rsi_request_query_values'' C_int
        [C_ptr True (C_struct ''rsi_request''), C_ptr False (C_struct ''rsi_query_values'')],
      Fn ''rsi_request_read_key'' C_int
        [C_ptr True (C_struct ''rsi_request''), C_ptr False (C_struct ''rsi_key_guid'')],
      Fn ''rsi_request_set_blanket_tombstone'' C_int
        [C_ptr True (C_struct ''rsi_request''),
         C_ptr False (C_struct ''rsi_set_blanket_tombstone'')],
      Fn ''rsi_request_set_value'' C_int
        [C_ptr True (C_struct ''rsi_request''), C_ptr False (C_struct ''rsi_set_value'')],
      Fn ''rsi_request_write_key'' C_int
        [C_ptr True (C_struct ''rsi_request''), C_ptr False (C_struct ''rsi_write_key'')],
      Fn ''rsi_respond_delete_layer'' C_int
        [C_int, C_ptr True (C_struct ''rsi_request''), C_ptr True C_uint8, C_uint32],
      Fn ''rsi_respond_enum_children'' C_int
        [C_int, C_ptr True (C_struct ''rsi_request''),
         C_ptr True (C_struct ''rsi_child_entry''), C_uint32,
         C_ptr True (C_struct ''rsi_key_metadata''), C_uint32],
      Fn ''rsi_respond_lookup'' C_int
        [C_int, C_ptr True (C_struct ''rsi_request''),
         C_ptr True (C_struct ''rsi_path_entry''), C_uint32,
         C_ptr True (C_struct ''rsi_key_metadata''), C_uint32],
      Fn ''rsi_respond_query_values'' C_int
        [C_int, C_ptr True (C_struct ''rsi_request''),
         C_ptr True (C_struct ''rsi_value_entry''), C_uint32,
         C_ptr True (C_struct ''rsi_blanket_entry''), C_uint32],
      Fn ''rsi_respond_read_key'' C_int
        [C_int, C_ptr True (C_struct ''rsi_request''), C_ptr True C_void, C_uint32,
         C_ptr True C_uint8, C_ptr True C_void, C_uint32, C_uint8, C_uint8, C_uint64],
      Fn ''rsi_respond_status'' C_int
        [C_int, C_ptr True (C_struct ''rsi_request''), C_uint32],
      Fn ''rsi_write_response'' C_ssize_t
        [C_int, C_ptr True C_void, C_size_t]]"

definition rsi_abi_h :: "c_ty decl list" where
  "rsi_abi_h = rsi_abi_structs @ rsi_abi_prototypes"

section \<open>The comparison of \<open>verify-abi.sh\<close>\<close>

text \<open>\<open>sizeof\<close> and \<open>_Alignof\<close> on the 64-bit target.\<close>

fun c_layout :: "c_ty \<Rightarrow> nat \<times> nat" where
  "c_layout C_int = (4, 4)"
| "c_layout C_uint8 = (1, 1)"
| "c_layout C_uint16 = (2, 2)"
| "c_layout C_uint32 = (4, 4)"
| "c_layout C_uint64 = (8, 8)"
| "c_layout C_size_t = (8, 8)"
| "c_layout C_ssize_t = (8, 8)"
| "c_layout (C_ptr _ _) = (8, 8)"
| "c_layout (C_array t n) = (n * fst (c_layout t), snd (c_layout t))"
| "c_layout C_void = (0, 1)"
| "c_layout (C_struct _) = (0, 1)"

definition decl_align :: "c_ty list \<Rightarrow> nat" where
  "decl_align ts = foldr (\<lambda>t. max (snd (c_layout t))) ts 1"

text \<open>The lists the script prints and compares, as association lists.\<close>

fun signatures :: "c_ty decl list \<Rightarrow> (string \<times> c_ty \<times> c_ty list) list" where
  "signatures [] = []"
| "signatures (Fn n r ts # ds) = (n, r, ts) # signatures ds"
| "signatures (Struct n fs # ds) = signatures ds"

fun structs :: "c_ty decl list \<Rightarrow> (string \<times> nat \<times> nat) list" where
  "structs [] = []"
| "structs (Struct n fs # ds) = (n, c_sizeof (map (c_layout \<circ> snd) fs), decl_align (map snd fs)) # structs ds"
| "structs (Fn n r ts # ds) = structs ds"

definition places :: "string \<Rightarrow> (string \<times> c_ty) list \<Rightarrow> ((string \<times> string) \<times> nat \<times> nat) list" where
  "places n fs = map2 (\<lambda>(f, t) off. ((n, f), off, fst (c_layout t))) fs (c_offsets 0 (map (c_layout \<circ> snd) fs))"

fun field_places :: "c_ty decl list \<Rightarrow> ((string \<times> string) \<times> nat \<times> nat) list" where
  "field_places [] = []"
| "field_places (Struct n fs # ds) = places n fs @ field_places ds"
| "field_places (Fn n r ts # ds) = field_places ds"

text \<open>
  Steps 3 and 4 of the script. Step 5 compares data symbols, of which neither side has any; the
  other steps run cbindgen, the compilers and the linker.
\<close>

definition verify_abi :: "c_ty decl list \<Rightarrow> c_ty decl list \<Rightarrow> bool" where
  "verify_abi hand snap \<longleftrightarrow>
     set (signatures hand) = set (signatures snap) \<and>
     set (map fst (structs hand)) = set (map fst (structs snap)) \<and>
     set (structs hand) = set (structs snap) \<and>
     set (map fst (field_places hand)) = set (map fst (field_places snap)) \<and>
     set (field_places hand) = set (field_places snap)"

section \<open>What a successful comparison means\<close>

text \<open>No name is declared twice.\<close>

definition unambiguous :: "c_ty decl list \<Rightarrow> bool" where
  "unambiguous ds \<longleftrightarrow> distinct (map fst (signatures ds)) \<and> distinct (map fst (structs ds)) \<and>
     distinct (map fst (field_places ds))"

lemma verify_abi_sound:
  assumes "verify_abi hand snap" "unambiguous hand" "unambiguous snap"
  shows "map_of (signatures hand) = map_of (signatures snap)" "map_of (structs hand) = map_of (structs snap)"
    "map_of (field_places hand) = map_of (field_places snap)"
  using assms by (simp_all add: verify_abi_def unambiguous_def map_of_inject_set)

text \<open>
  The structs of the model and their names, in the order of the headers; the kernel's own structs
  are not in the headers.
\<close>

definition public_structs :: "(string \<times> c_type) list" where
  "public_structs =
     [(''rsi_hive'', T_Hive), (''rsi_request'', T_Request), (''rsi_lookup'', T_Lookup),
      (''rsi_create_entry'', T_CreateEntry), (''rsi_hide_entry'', T_HideEntry), (''rsi_delete_entry'', T_DeleteEntry),
      (''rsi_enum_children'', T_EnumChildren), (''rsi_create_key'', T_CreateKey), (''rsi_key_guid'', T_KeyGuid),
      (''rsi_write_key'', T_WriteKey), (''rsi_query_values'', T_QueryValues), (''rsi_set_value'', T_SetValue),
      (''rsi_delete_value_entry'', T_DeleteValueEntry), (''rsi_set_blanket_tombstone'', T_SetBlanketTombstone),
      (''rsi_begin_transaction'', T_BeginTransaction), (''rsi_transaction'', T_Transaction), (''rsi_name'', T_Name),
      (''rsi_path_entry'', T_PathEntry), (''rsi_key_metadata'', T_KeyMetadata), (''rsi_child_entry'', T_ChildEntry),
      (''rsi_value_entry'', T_ValueEntry), (''rsi_blanket_entry'', T_BlanketEntry)]"

text \<open>Name, size, alignment and the offsets and sizes of the fields a struct declaration gives are the model's.\<close>

fun struct_decls :: "c_ty decl list \<Rightarrow> (string \<times> (string \<times> c_ty) list) list" where
  "struct_decls [] = []"
| "struct_decls (Struct n fs # ds) = (n, fs) # struct_decls ds"
| "struct_decls (Fn n r ts # ds) = struct_decls ds"

definition declares :: "string \<times> (string \<times> c_ty) list \<Rightarrow> string \<times> c_type \<Rightarrow> bool" where
  "declares = (\<lambda>(n, fs) (n', t). n = n' \<and>
     map snd (places n fs) = zip (offsets (struct_layout t)) (map prim_size (struct_layout t)) \<and>
     c_sizeof (map (c_layout \<circ> snd) fs) = struct_size (struct_layout t) \<and>
     decl_align (map snd fs) = struct_align (struct_layout t))"

lemmas header_defs = rsi_headers_def source_h_def request_h_def response_h_def

lemmas rust_defs = rust_items_def
  rsi_hive_decl_def rsi_register_sig_def rsi_request_decl_def rsi_read_request_sig_def rsi_parse_request_sig_def
  rsi_lookup_decl_def rsi_request_lookup_sig_def rsi_create_entry_decl_def rsi_request_create_entry_sig_def
  rsi_hide_entry_decl_def rsi_request_hide_entry_sig_def rsi_delete_entry_decl_def
  rsi_request_delete_entry_sig_def rsi_enum_children_decl_def rsi_request_enum_children_sig_def
  rsi_create_key_decl_def rsi_request_create_key_sig_def rsi_key_guid_decl_def rsi_request_read_key_sig_def
  rsi_request_drop_key_sig_def rsi_write_key_decl_def rsi_request_write_key_sig_def rsi_query_values_decl_def
  rsi_request_query_values_sig_def rsi_set_value_decl_def rsi_request_set_value_sig_def
  rsi_delete_value_entry_decl_def rsi_request_delete_value_entry_sig_def rsi_set_blanket_tombstone_decl_def
  rsi_request_set_blanket_tombstone_sig_def rsi_begin_transaction_decl_def rsi_request_begin_transaction_sig_def
  rsi_transaction_decl_def rsi_request_commit_transaction_sig_def rsi_request_abort_transaction_sig_def
  rsi_name_decl_def rsi_request_delete_layer_sig_def rsi_request_flush_sig_def rsi_write_response_sig_def
  rsi_respond_status_sig_def rsi_path_entry_decl_def rsi_key_metadata_decl_def rsi_respond_lookup_sig_def
  rsi_respond_delete_layer_sig_def rsi_child_entry_decl_def rsi_respond_enum_children_sig_def
  rsi_respond_read_key_sig_def rsi_value_entry_decl_def rsi_blanket_entry_decl_def
  rsi_respond_query_values_sig_def

text \<open>Declaration by declaration, the headers are what \<open>cbindgen\<close> makes of the Rust items.\<close>

lemma rsi_headers_rust_abi: "rsi_headers = rust_abi"
  by (simp add: header_defs rust_abi_def rust_defs)

lemma rsi_headers_signatures: "distinct (map fst (signatures rsi_headers))"
  by (simp add: header_defs)

lemma rsi_headers_structs: "distinct (map fst (structs rsi_headers))"
  by (simp add: header_defs)

text \<open>Fields are distinct when structs and the fields of each struct are.\<close>

definition own_fields_distinct :: "c_ty decl \<Rightarrow> bool" where
  "own_fields_distinct d = (case d of Struct n fs \<Rightarrow> distinct (map fst fs) | Fn n r ts \<Rightarrow> True)"

lemma length_c_offsets: "length (c_offsets n ls) = length ls"
  by (induction n ls rule: c_offsets.induct) simp_all

lemma map_fst_places: "map fst (places n fs) = map (\<lambda>(f, t). (n, f)) fs"
proof -
  have "map (\<lambda>(x, off). (n, fst x)) (zip fs os) = map (\<lambda>(f, t). (n, f)) fs" if "length os = length fs" for os :: "nat list"
    using that by (induction fs os rule: list_induct2') auto
  from this [of "c_offsets 0 (map (c_layout \<circ> snd) fs)"] show ?thesis
    by (simp add: places_def length_c_offsets comp_def case_prod_unfold)
qed

lemma places_struct: "((n, f), x) \<in> set (places m fs) \<Longrightarrow> n = m"
  by (auto simp: places_def)

lemma field_places_struct: "((n, f), x) \<in> set (field_places ds) \<Longrightarrow> n \<in> set (map fst (structs ds))"
  by (induction ds rule: field_places.induct) (auto dest: places_struct)

lemma field_places_distinct:
  assumes "distinct (map fst (structs ds))" "list_all own_fields_distinct ds"
  shows "distinct (map fst (field_places ds))"
  using assms
proof (induction ds rule: field_places.induct)
  case (2 n fs ds)
  have "distinct (map (Pair n) (map fst fs))"
    using 2(3) by (simp only: distinct_map [of "Pair n"]) (simp add: own_fields_distinct_def inj_on_def)
  moreover have "map fst (places n fs) = map (Pair n) (map fst fs)"
    by (simp add: map_fst_places case_prod_unfold comp_def)
  moreover have "(n, f) \<notin> fst ` set (field_places ds)" for f
    using field_places_struct [of n f _ ds] 2(2) by fastforce
  ultimately show ?case using 2 by auto
qed simp_all

lemma rsi_headers_fields: "list_all own_fields_distinct rsi_headers"
  by (simp add: header_defs own_fields_distinct_def)

lemma rsi_headers_unambiguous: "unambiguous rsi_headers"
  unfolding unambiguous_def
  by (intro conjI rsi_headers_signatures rsi_headers_structs field_places_distinct rsi_headers_fields)

lemma rsi_headers_declare: "list_all2 declares (struct_decls rsi_headers) public_structs"
  by (simp add: header_defs public_structs_def declares_def places_def
      offsets_def struct_size_def struct_align_def layout_defs decl_align_def c_sizeof_def align_up_def)

text \<open>The committed snapshot has the declarations of the Rust items in another order.\<close>

definition abi_order :: "nat list" where
  "abi_order = [2, 0, 32, 30, 7, 15, 11, 35, 26, 17, 13, 9, 5, 22, 28, 24, 20, 40, 44, 41, 47, 48, 4, 3, 1,
     34, 31, 33, 8, 16, 12, 36, 27, 19, 14, 37, 10, 6, 23, 18, 29, 25, 21, 43, 45, 42, 49, 46, 39, 38]"

lemma rsi_abi_h_nth: "rsi_abi_h = map ((!) rust_abi) abi_order"
  by code_simp

lemma mset_map_nth: "mset is = mset [0..<length xs] \<Longrightarrow> mset (map ((!) xs) is) = mset xs"
proof -
  assume "mset is = mset [0..<length xs]"
  then have "mset (map ((!) xs) is) = image_mset ((!) xs) (mset [0..<length xs])" by simp
  also have "\<dots> = mset (map ((!) xs) [0..<length xs])" by (simp only: mset_map)
  finally show ?thesis by (simp only: map_nth)
qed

lemma abi_order_perm: "sort abi_order = [0..<50]"
  by code_simp

lemma length_rust_abi: "length rust_abi = 50"
  by (simp add: rust_abi_def rust_items_def)

lemma mset_rsi_abi_h: "mset rsi_abi_h = mset rust_abi"
proof -
  have "mset abi_order = mset [0..<length rust_abi]"
    using abi_order_perm length_rust_abi by (metis mset_sort)
  then show ?thesis unfolding rsi_abi_h_nth by (rule mset_map_nth)
qed

text \<open>What the comparison looks at does not depend on the order of the declarations.\<close>

lemma set_signatures: "(n, r, ts) \<in> set (signatures ds) \<longleftrightarrow> Fn n r ts \<in> set ds"
  by (induction ds rule: signatures.induct) auto

lemma set_struct_decls: "(n, fs) \<in> set (struct_decls ds) \<longleftrightarrow> Struct n fs \<in> set ds"
  by (induction ds rule: struct_decls.induct) auto

lemma set_structs:
  "set (structs ds) = (\<lambda>(n, fs). (n, c_sizeof (map (c_layout \<circ> snd) fs), decl_align (map snd fs))) ` set (struct_decls ds)"
  by (induction ds rule: structs.induct) (simp_all add: comp_def)

lemma set_field_places: "set (field_places ds) = (\<Union>(n, fs) \<in> set (struct_decls ds). set (places n fs))"
  by (induction ds rule: field_places.induct) simp_all

lemma verify_abi_set:
  assumes "set snap = set hand"
  shows "verify_abi hand snap"
proof -
  have "set (signatures hand) = set (signatures snap)"
    using assms by (auto simp: set_signatures)
  moreover have "set (struct_decls hand) = set (struct_decls snap)"
    using assms by (auto simp: set_struct_decls)
  then have "set (structs hand) = set (structs snap)" "set (field_places hand) = set (field_places snap)"
    by (simp_all only: set_structs set_field_places)
  ultimately show ?thesis by (simp add: verify_abi_def)
qed

text \<open>
  The hand-written headers declare what the Rust sources implement: the committed snapshot
  \<open>abi/rsi-abi.h\<close> has exactly the declarations of the Rust items, the comparison of
  \<open>tools/verify-abi.sh\<close> between headers and snapshot succeeds, and the names, offsets, sizes and
  alignments a C caller computes from the headers are the \<open>repr(C)\<close> layout on which the typed
  memory of the model rests.
\<close>

lemma headers_match_rust_abi:
  "mset rsi_abi_h = mset rust_abi" "verify_abi rsi_headers rsi_abi_h"
  "map_of (signatures rsi_headers) = map_of (signatures rust_abi)"
  "map_of (field_places rsi_headers) = map_of (field_places rust_abi)"
  "list_all2 declares (struct_decls rsi_headers) public_structs"
proof -
  show "mset rsi_abi_h = mset rust_abi" by (rule mset_rsi_abi_h)
  have "set rsi_abi_h = set rsi_headers"
    using mset_rsi_abi_h rsi_headers_rust_abi by (metis set_mset_mset)
  then show "verify_abi rsi_headers rsi_abi_h" by (rule verify_abi_set)
  have "verify_abi rsi_headers rust_abi" "unambiguous rust_abi"
    using verify_abi_set [of rust_abi rsi_headers] rsi_headers_unambiguous by (simp_all add: rsi_headers_rust_abi)
  with verify_abi_sound [OF this(1) rsi_headers_unambiguous]
  show "map_of (signatures rsi_headers) = map_of (signatures rust_abi)"
    "map_of (field_places rsi_headers) = map_of (field_places rust_abi)" by blast+
  show "list_all2 declares (struct_decls rsi_headers) public_structs" by (rule rsi_headers_declare)
qed

end
