(* ===== verification/Crate.thy ===== *)
theory Crate
  imports Machine
begin

text \<open>
  The crate root \<open>src/src/lib.rs\<close> and the build script \<open>src/build.rs\<close>: the assembler stub for
  the unwinder's personality routine, with the bytes it assembles to, its symbol and what it
  returns, and the linker argument that names the shared object. The panic handler is
  \<open>panic\<close> of \<open>Machine\<close>.
\<close>

section \<open>The personality stub\<close>

text \<open>The directives and instructions of the \<open>global_asm!\<close> block.\<close>

datatype asm =
    Hidden string | Globl string | Type_function string | Label string | Size_to_here string
  | Endbr64 | Mov_eax u32 | Ret

definition personality_asm :: "asm list" where
  "personality_asm =
     [Hidden ''rust_eh_personality'',
      Globl ''rust_eh_personality'',
      Type_function ''rust_eh_personality'',
      Label ''rust_eh_personality'',
      Endbr64,
      Mov_eax 3,
      Ret,
      Size_to_here ''rust_eh_personality'']"

text \<open>The x86-64 encoding of the instructions; directives emit no code.\<close>

fun encode :: "asm \<Rightarrow> u8 list" where
  "encode Endbr64 = [0xF3, 0x0F, 0x1E, 0xFA]"
| "encode (Mov_eax n) = 0xB8 # le32 n"
| "encode Ret = [0xC3]"
| "encode _ = []"

definition text_bytes :: "asm list \<Rightarrow> u8 list" where
  "text_bytes = concat \<circ> map encode"

text \<open>A symbol: where it is defined, if it is, its size, and the attributes the directives set.\<close>

record symbol =
  sym_value :: "nat option"
  sym_size :: nat
  sym_global :: bool
  sym_hidden :: bool
  sym_function :: bool

type_synonym symbols = "string \<Rightarrow> symbol"

definition undefined_symbol :: symbol where
  "undefined_symbol = \<lparr>sym_value = None, sym_size = 0, sym_global = False, sym_hidden = False, sym_function = False\<rparr>"

text \<open>One pass of the assembler, with the location counter \<open>n\<close>.\<close>

fun assemble :: "nat \<Rightarrow> asm list \<Rightarrow> symbols \<Rightarrow> symbols" where
  "assemble n [] T = T"
| "assemble n (Hidden x # is) T = assemble n is (T(x := T x\<lparr>sym_hidden := True\<rparr>))"
| "assemble n (Globl x # is) T = assemble n is (T(x := T x\<lparr>sym_global := True\<rparr>))"
| "assemble n (Type_function x # is) T = assemble n is (T(x := T x\<lparr>sym_function := True\<rparr>))"
| "assemble n (Label x # is) T = assemble n is (T(x := T x\<lparr>sym_value := Some n\<rparr>))"
| "assemble n (Size_to_here x # is) T =
     assemble n is (T(x := T x\<lparr>sym_size := n - (case sym_value (T x) of Some v \<Rightarrow> v | None \<Rightarrow> n)\<rparr>))"
| "assemble n (i # is) T = assemble (n + length (encode i)) is T"

text \<open>
  The symbol is defined, so that references inside the library resolve to it, and hidden, so that
  it is not part of what the library exports.
\<close>

lemma assemble_personality:
  "assemble 0 personality_asm T = T(''rust_eh_personality'' :=
     \<lparr>sym_value = Some 0, sym_size = 10, sym_global = True, sym_hidden = True, sym_function = True\<rparr>)"
  by (cases "T ''rust_eh_personality''") (simp add: personality_asm_def)

section \<open>Running the stub\<close>

text \<open>The part of the processor the stub uses: the program counter, \<open>eax\<close>, and the stack of return addresses.\<close>

record cpu =
  cpu_pc :: nat
  cpu_eax :: u32
  cpu_stack :: "nat list"

text \<open>
  Fetch, decode and execute one instruction of the bytes at the program counter; \<open>endbr64\<close> only
  marks a branch target.
\<close>

definition cpu_step :: "u8 list \<Rightarrow> cpu \<Rightarrow> cpu option" where
  "cpu_step code c =
     (let bs = drop (cpu_pc c) code in
      if take 4 bs = [0xF3, 0x0F, 0x1E, 0xFA] then Some (c\<lparr>cpu_pc := cpu_pc c + 4\<rparr>)
      else if take 1 bs = [0xB8] \<and> 5 \<le> length bs
      then Some (c\<lparr>cpu_pc := cpu_pc c + 5, cpu_eax := from_le (take 4 (drop 1 bs))\<rparr>)
      else if take 1 bs = [0xC3]
      then (case cpu_stack c of r # rs \<Rightarrow> Some (c\<lparr>cpu_pc := r, cpu_stack := rs\<rparr>) | [] \<Rightarrow> None)
      else None)"

fun cpu_run :: "nat \<Rightarrow> u8 list \<Rightarrow> cpu \<Rightarrow> cpu option" where
  "cpu_run 0 code c = Some c"
| "cpu_run (Suc k) code c = Option.bind (cpu_step code c) (cpu_run k code)"

text \<open>The code of the unwinder for a fatal error in the search phase, \<open>_URC_FATAL_PHASE1_ERROR\<close>.\<close>

definition URC_FATAL_PHASE1_ERROR :: u32 where
  "URC_FATAL_PHASE1_ERROR = 3"

lemma personality_bytes: "text_bytes personality_asm = [0xF3, 0x0F, 0x1E, 0xFA, 0xB8, 3, 0, 0, 0, 0xC3]"
  by code_simp

lemma from_le_3: "from_le [3, 0, 0, 0] = (3 :: u32)"
  by code_simp

text \<open>
  Called at its symbol with any register contents, the stub returns to its caller in three steps
  with the fatal code, which stops an unwinder from passing through the library.
\<close>

lemma personality_returns_fatal:
  assumes "sym_value (assemble 0 personality_asm T ''rust_eh_personality'') = Some pc"
  shows "cpu_run 3 (text_bytes personality_asm) \<lparr>cpu_pc = pc, cpu_eax = a, cpu_stack = r # rs\<rparr> =
    Some \<lparr>cpu_pc = r, cpu_eax = URC_FATAL_PHASE1_ERROR, cpu_stack = rs\<rparr>"
  using assms unfolding numeral_3_eq_3
  by (simp add: assemble_personality personality_bytes cpu_step_def Let_def from_le_3
      URC_FATAL_PHASE1_ERROR_def)

section \<open>The build script\<close>

text \<open>The lines \<open>main\<close> of \<open>build.rs\<close> prints for cargo.\<close>

definition build_main :: "string list" where
  "build_main =
     [''cargo:rustc-cdylib-link-arg=-Wl,-soname,librsi.so.0'',
      ''cargo:rerun-if-changed=build.rs'']"

definition strip_prefix :: "'a list \<Rightarrow> 'a list \<Rightarrow> 'a list option" where
  "strip_prefix p xs = (if take (length p) xs = p then Some (drop (length p) xs) else None)"

fun split_at :: "'a \<Rightarrow> 'a list \<Rightarrow> 'a list list" where
  "split_at c [] = [[]]"
| "split_at c (x # xs) = (if x = c then [] # split_at c xs
     else case split_at c xs of y # ys \<Rightarrow> (x # y) # ys | [] \<Rightarrow> [[x]])"

text \<open>
  Cargo passes the link arguments of the build script to the compiler driver, which hands the
  comma-separated words of \<open>-Wl,...\<close> to the linker; the word after \<open>-soname\<close> is the name the
  shared object carries.
\<close>

definition linker_words :: "string list \<Rightarrow> string list" where
  "linker_words out =
     concat (map (split_at CHR '','')
       (List.map_filter (strip_prefix ''-Wl,'')
         (List.map_filter (strip_prefix ''cargo:rustc-cdylib-link-arg='') out)))"

fun soname :: "string list \<Rightarrow> string option" where
  "soname (x # y # ws) = (if x = ''-soname'' then Some y else soname (y # ws))"
| "soname _ = None"

lemma librsi_soname: "soname (linker_words build_main) = Some ''librsi.so.0''"
  by code_simp

end
