(* ===== verification/Tests.thy ===== *)
theory Tests
  imports Protocol Source_Correct Layout
begin

text \<open>
  The crate's own unit tests (the \<open>tests\<close> modules of \<open>response.rs\<close>, \<open>source.rs\<close> and
  \<open>request.rs\<close>) as definitions that run the model on the test's data and evaluate its
  assertions: all tests that use librsi alone. They validate the definitions against what the
  authors expect of the code, and they are proved to pass for every allocator that does not run
  out of memory, every kernel and every uapi and lcs-core with the documented constants. The
  tests that build requests with lcs-core are in \<open>Request_Tests\<close>, those that parse responses with
  it in \<open>Response_Tests\<close>.
\<close>

section \<open>Running a test\<close>

text \<open>The addresses of the local variables a test takes a pointer to.\<close>

abbreviation req_p :: ptr where "req_p \<equiv> 0x100"
abbreviation layer_p :: ptr where "layer_p \<equiv> 0x200"
abbreviation name_p :: ptr where "name_p \<equiv> 0x300"
abbreviation entries_p :: ptr where "entries_p \<equiv> 0x1000"
abbreviation children_p :: ptr where "children_p \<equiv> 0x1800"
abbreviation metadata_p :: ptr where "metadata_p \<equiv> 0x2000"
abbreviation guids_p :: ptr where "guids_p \<equiv> 0x3000"
abbreviation parent_p :: ptr where "parent_p \<equiv> 0x4000"

definition test_world :: "heap \<Rightarrow> world" where
  "test_world h = \<lparr>mem = h, errno = 0, trace = [], ticks = 0\<rparr>"

text \<open>\<open>assert_eq!(r, -1); assert_eq!(get_errno(), e);\<close>\<close>

definition fails_with :: "c_int \<Rightarrow> heap \<Rightarrow> c_int M \<Rightarrow> bool" where
  "fails_with e h m = (case m (test_world h) of Done r s \<Rightarrow> r = -1 \<and> errno s = e | _ \<Rightarrow> False)"

text \<open>A byte string literal \<open>b"..."\<close> and an array literal \<open>[b; 16]\<close>.\<close>

definition bstr :: "string \<Rightarrow> u8 list" where
  "bstr s = map of_char s"

definition fill :: "u8 \<Rightarrow> guid" where
  "fill b = guid_of (replicate 16 b)"

definition fake_request :: "u32 \<Rightarrow> u64 \<Rightarrow> rsi_request" where
  "fake_request op rid =
     \<lparr>request_id = rid, txn_id = 0, payload = NULL, payload_len = 0, op_code = ucast op\<rparr>"

definition request_local :: "rsi_request \<Rightarrow> heap" where
  "request_local req = [req_p \<mapsto> Request req]"

text \<open>What the tests rely on: memory is available, and the documented constants.\<close>

definition test_env :: "env \<Rightarrow> bool" where
  "test_env E \<longleftrightarrow> try_extend_appends E \<and> \<not> may_oom E \<and> op_codes_distinct E \<and> header_parser_checks E \<and>
     RSI_PATH_TARGET_GUID E \<noteq> RSI_PATH_TARGET_HIDDEN E \<and>
     RSI_PATH_TARGET_GUID E < 0xFF \<and> RSI_PATH_TARGET_HIDDEN E < 0xFF \<and>
     RSI_REQUEST_HEADER_SIZE E = 22 \<and>
     parse_rsi_status E (RSI_OK E) = Some StatusOk \<and> parse_rsi_status E 0xFFFFFFFF = None \<and>
     rsi_response_op_code E (ucast (code_of E RSI_LOOKUP)) \<noteq> None \<and>
     rsi_request_has_status_only_response E (ucast (code_of E RSI_LOOKUP)) = Some False"

section \<open>response.rs: frames\<close>

definition status_frame_layout :: "env \<Rightarrow> u32 \<Rightarrow> bool" where
  "status_frame_layout E response_bit =
     (let resp_op = ucast (code_of E RSI_LOOKUP OR response_bit) :: u16 in
      case build_status_frame 0x1122334455667788 resp_op (RSI_OK E) (test_world Map.empty) of
        Done f s \<Rightarrow> from_le (take 4 f) = (18 :: u32) \<and>
          from_le (take 8 (drop 4 f)) = (0x1122334455667788 :: u64) \<and>
          from_le (take 2 (drop 12 f)) = resp_op \<and>
          from_le (take 4 (drop 14 f)) = RSI_OK E
      | _ \<Rightarrow> False)"

definition empty_lookup_response_frame_has_expected_len :: "env \<Rightarrow> bool" where
  "empty_lookup_response_frame_has_expected_len E =
     (let req = fake_request (code_of E RSI_LOOKUP) 1 in
      case (bindM (new_writer E) (\<lambda>w.
        tryM (encode_path_entry_block E NULL 0 w) (\<lambda>w.
        tryM (encode_metadata_block E NULL 0 w) (\<lambda>w.
        finish_response E req w)))) (test_world Map.empty) of
        Done (Ok frame) s \<Rightarrow> length frame = 26
      | _ \<Rightarrow> False)"

definition sticky_oom_returns_enomem :: "env \<Rightarrow> bool" where
  "sticky_oom_returns_enomem E =
     (let req = fake_request (code_of E RSI_LOOKUP) 1 in
      case (bindM (new_writer E) (\<lambda>w. finish_response E req (w\<lparr>oom := True\<rparr>))) (test_world Map.empty) of
        Done r s \<Rightarrow> r = Err ENOMEM
      | _ \<Rightarrow> False)"

section \<open>response.rs: refused arguments\<close>

definition payload_response_rejects_wrong_request_op :: "env \<Rightarrow> bool" where
  "payload_response_rejects_wrong_request_op E =
     (let req = fake_request (code_of E RSI_LOOKUP) 1;
          parent = guid_bytes (fill 0x33) in
      fails_with EINVAL (put_bytes (request_local req) parent_p parent)
        (rsi_respond_read_key E (-1) req_p NULL 0 parent_p NULL 0 0 0 0))"

definition payload_response_rejects_null_array_with_count :: "env \<Rightarrow> bool" where
  "payload_response_rejects_null_array_with_count E =
     (let req = fake_request (code_of E RSI_LOOKUP) 1 in
      fails_with EINVAL (request_local req) (rsi_respond_lookup E (-1) req_p NULL 1 NULL 0))"

text \<open>The struct literals the tests use: an entry of a layer, bare metadata, a child.\<close>

definition test_entry :: "u8 list \<Rightarrow> u8 \<Rightarrow> guid \<Rightarrow> rsi_path_entry" where
  "test_entry layer target_type target_guid =
     \<lparr>pe_layer = layer_p, pe_layer_len = of_nat (length layer), pe_target_type = target_type,
      pe_target_guid = target_guid, pe_sequence = 1\<rparr>"

definition test_metadata :: "guid \<Rightarrow> rsi_key_metadata" where
  "test_metadata g =
     \<lparr>km_guid = g, km_sd = NULL, km_sd_len = 0, km_volatile_key = 0, km_symlink = 0, km_last_write_time = 0\<rparr>"

definition test_child :: "u8 list \<Rightarrow> ptr \<Rightarrow> u32 \<Rightarrow> rsi_child_entry" where
  "test_child child_name entries entry_count =
     \<lparr>ch_child_name = name_p, ch_child_name_len = of_nat (length child_name), ch_entries = entries,
      ch_entry_count = entry_count\<rparr>"

text \<open>The locals of the LOOKUP and ENUM_CHILDREN tests.\<close>

definition lookup_locals :: "rsi_request \<Rightarrow> u8 list \<Rightarrow> rsi_path_entry list \<Rightarrow> rsi_key_metadata list \<Rightarrow> heap" where
  "lookup_locals req layer entries metadata =
     put_cells KeyMetadata sizeof_rsi_key_metadata
       (put_cells PathEntry sizeof_rsi_path_entry
         (put_bytes (request_local req) layer_p layer) entries_p entries) metadata_p metadata"

definition enum_locals :: "rsi_request \<Rightarrow> u8 list \<Rightarrow> u8 list \<Rightarrow> rsi_path_entry list \<Rightarrow> rsi_child_entry list \<Rightarrow>
    rsi_key_metadata list \<Rightarrow> heap" where
  "enum_locals req child_name layer entries children metadata =
     put_bytes (put_cells ChildEntry sizeof_rsi_child_entry
       (lookup_locals req layer entries metadata) children_p children) name_p child_name"

definition lookup_response_rejects_missing_metadata :: "env \<Rightarrow> bool" where
  "lookup_response_rejects_missing_metadata E =
     (let req = fake_request (code_of E RSI_LOOKUP) 1;
          layer = bstr ''base'';
          entries = [test_entry layer (ucast (RSI_PATH_TARGET_GUID E)) (fill 0x10)] in
      fails_with EINVAL (lookup_locals req layer entries [])
        (rsi_respond_lookup E (-1) req_p entries_p (of_nat (length entries)) NULL 0))"

definition lookup_response_rejects_duplicate_metadata :: "env \<Rightarrow> bool" where
  "lookup_response_rejects_duplicate_metadata E =
     (let req = fake_request (code_of E RSI_LOOKUP) 1;
          layer = bstr ''base'';
          entries = [test_entry layer (ucast (RSI_PATH_TARGET_GUID E)) (fill 0x10)];
          metadata = [test_metadata (fill 0x10), test_metadata (fill 0x10)] in
      fails_with EINVAL (lookup_locals req layer entries metadata)
        (rsi_respond_lookup E (-1) req_p entries_p (of_nat (length entries)) metadata_p (of_nat (length metadata))))"

definition lookup_response_rejects_unreferenced_metadata :: "env \<Rightarrow> bool" where
  "lookup_response_rejects_unreferenced_metadata E =
     (let req = fake_request (code_of E RSI_LOOKUP) 1;
          layer = bstr ''base'';
          entries = [test_entry layer (ucast (RSI_PATH_TARGET_GUID E)) (fill 0x10)];
          metadata = [test_metadata (fill 0x10), test_metadata (fill 0x20)] in
      fails_with EINVAL (lookup_locals req layer entries metadata)
        (rsi_respond_lookup E (-1) req_p entries_p (of_nat (length entries)) metadata_p (of_nat (length metadata))))"

definition enum_children_response_rejects_missing_metadata :: "env \<Rightarrow> bool" where
  "enum_children_response_rejects_missing_metadata E =
     (let req = fake_request (code_of E RSI_ENUM_CHILDREN) 1;
          child_name = bstr ''Child''; layer = bstr ''base'';
          entries = [test_entry layer (ucast (RSI_PATH_TARGET_GUID E)) (fill 0x30)];
          children = [test_child child_name entries_p (of_nat (length entries))] in
      fails_with EINVAL (enum_locals req child_name layer entries children [])
        (rsi_respond_enum_children E (-1) req_p children_p (of_nat (length children)) NULL 0))"

definition enum_children_response_rejects_duplicate_metadata :: "env \<Rightarrow> bool" where
  "enum_children_response_rejects_duplicate_metadata E =
     (let req = fake_request (code_of E RSI_ENUM_CHILDREN) 1;
          child_name = bstr ''Child''; layer = bstr ''base'';
          entries = [test_entry layer (ucast (RSI_PATH_TARGET_GUID E)) (fill 0x30)];
          children = [test_child child_name entries_p (of_nat (length entries))];
          metadata = [test_metadata (fill 0x30), test_metadata (fill 0x30)] in
      fails_with EINVAL (enum_locals req child_name layer entries children metadata)
        (rsi_respond_enum_children E (-1) req_p children_p (of_nat (length children))
           metadata_p (of_nat (length metadata))))"

definition enum_children_response_rejects_unreferenced_metadata :: "env \<Rightarrow> bool" where
  "enum_children_response_rejects_unreferenced_metadata E =
     (let req = fake_request (code_of E RSI_ENUM_CHILDREN) 1;
          child_name = bstr ''Child''; layer = bstr ''base'';
          entries = [test_entry layer (ucast (RSI_PATH_TARGET_GUID E)) (fill 0x30)];
          children = [test_child child_name entries_p (of_nat (length entries))];
          metadata = [test_metadata (fill 0x30), test_metadata (fill 0x40)] in
      fails_with EINVAL (enum_locals req child_name layer entries children metadata)
        (rsi_respond_enum_children E (-1) req_p children_p (of_nat (length children))
           metadata_p (of_nat (length metadata))))"

definition enum_children_response_rejects_null_child_entries_with_count :: "env \<Rightarrow> bool" where
  "enum_children_response_rejects_null_child_entries_with_count E =
     (let req = fake_request (code_of E RSI_ENUM_CHILDREN) 1;
          child_name = bstr ''Child'';
          children = [test_child child_name NULL 1] in
      fails_with EINVAL (enum_locals req child_name [] [] children [])
        (rsi_respond_enum_children E (-1) req_p children_p (of_nat (length children)) NULL 0))"

definition read_key_response_rejects_null_parent_guid :: "env \<Rightarrow> bool" where
  "read_key_response_rejects_null_parent_guid E =
     (let req = fake_request (code_of E RSI_READ_KEY) 1 in
      fails_with EINVAL (request_local req)
        (rsi_respond_read_key E (-1) req_p NULL 0 NULL NULL 0 0 0 0))"

definition delete_layer_response_rejects_nil_orphan_guid :: "env \<Rightarrow> bool" where
  "delete_layer_response_rejects_nil_orphan_guid E =
     (let req = fake_request (code_of E RSI_DELETE_LAYER) 1;
          guids = replicate 16 0 in
      fails_with EINVAL (put_bytes (request_local req) guids_p guids)
        (rsi_respond_delete_layer E (-1) req_p guids_p 1))"

definition delete_layer_response_rejects_duplicate_orphan_guid :: "env \<Rightarrow> bool" where
  "delete_layer_response_rejects_duplicate_orphan_guid E =
     (let req = fake_request (code_of E RSI_DELETE_LAYER) 1;
          guids = replicate 16 0x10 @ replicate 16 0x10 in
      fails_with EINVAL (put_bytes (request_local req) guids_p guids)
        (rsi_respond_delete_layer E (-1) req_p guids_p 2))"

definition status_response_rejects_ok_for_payload_op :: "env \<Rightarrow> bool" where
  "status_response_rejects_ok_for_payload_op E =
     (let req = fake_request (code_of E RSI_LOOKUP) 1 in
      fails_with EINVAL (request_local req) (rsi_respond_status E (-1) req_p (RSI_OK E)))"

definition status_response_rejects_unknown_status :: "env \<Rightarrow> bool" where
  "status_response_rejects_unknown_status E =
     (let req = fake_request (code_of E RSI_FLUSH) 1 in
      fails_with EINVAL (request_local req) (rsi_respond_status E (-1) req_p 0xFFFFFFFF))"

definition read_key_response_rejects_invalid_booleans :: "env \<Rightarrow> bool" where
  "read_key_response_rejects_invalid_booleans E =
     (let req = fake_request (code_of E RSI_READ_KEY) 1;
          parent = guid_bytes (fill 0x33) in
      fails_with EINVAL (put_bytes (request_local req) parent_p parent)
        (rsi_respond_read_key E (-1) req_p NULL 0 parent_p NULL 0 2 0 0))"

definition lookup_response_rejects_invalid_target_type :: "env \<Rightarrow> bool" where
  "lookup_response_rejects_invalid_target_type E =
     (let req = fake_request (code_of E RSI_LOOKUP) 1;
          layer = bstr ''base'';
          entries = [test_entry layer 0xFF (fill 0x10)] in
      fails_with EINVAL (lookup_locals req layer entries [])
        (rsi_respond_lookup E (-1) req_p entries_p (of_nat (length entries)) NULL 0))"

definition lookup_response_rejects_hidden_with_nonzero_guid :: "env \<Rightarrow> bool" where
  "lookup_response_rejects_hidden_with_nonzero_guid E =
     (let req = fake_request (code_of E RSI_LOOKUP) 1;
          layer = bstr ''mask'';
          entries = [test_entry layer (ucast (RSI_PATH_TARGET_HIDDEN E)) (fill 0x10)] in
      fails_with EINVAL (lookup_locals req layer entries [])
        (rsi_respond_lookup E (-1) req_p entries_p (of_nat (length entries)) NULL 0))"

section \<open>source.rs\<close>

definition struct_sizes_pinned :: bool where
  "struct_sizes_pinned \<longleftrightarrow>
     struct_size reg_src_register_args_layout = 24 \<and> struct_size reg_src_hive_entry_layout = 56"

definition marshal_hive_packs_fields :: "u32 \<Rightarrow> ptr \<Rightarrow> bool" where
  "marshal_hive_packs_fields hive_private name =
     (let root = fill 0x11; scope = fill 0x22;
          h = \<lparr>hv_name = name, hv_name_len = of_nat (length (bstr ''Machine'')), hv_flags = hive_private,
               hv_root_guid = root, hv_scope_guid = scope\<rparr>;
          e = marshal_hive h in
      re_name_len e = 7 \<and> re_name_ptr e = name \<and> re_flags e = hive_private \<and>
      re_root_guid e = root \<and> re_scope_guid e = scope \<and> re_pad0 e = 0 \<and> re_pad1 e = 0)"

definition marshal_hive_global_is_zero_scope :: "ptr \<Rightarrow> bool" where
  "marshal_hive_global_is_zero_scope name =
     (let h = \<lparr>hv_name = name, hv_name_len = of_nat (length (bstr ''Users'')), hv_flags = 0,
               hv_root_guid = fill 1, hv_scope_guid = fill 0\<rparr>;
          e = marshal_hive h in
      re_flags e = 0 \<and> re_scope_guid e = fill 0)"

definition register_rejects_zero_hives :: "env \<Rightarrow> bool" where
  "register_rejects_zero_hives E = fails_with EINVAL Map.empty (rsi_register E NULL 0 0)"

section \<open>request.rs\<close>

definition short_frame_is_ebadmsg :: "env \<Rightarrow> bool" where
  "short_frame_is_ebadmsg E =
     (let frame = replicate 4 0 in
      fails_with EBADMSG (put_bytes (request_local (fake_request 0 0)) name_p frame)
        (rsi_parse_request E name_p (of_nat (length frame)) req_p))"

section \<open>Evaluating the tests\<close>

lemma test_world_simps [simp]:
  "mem (test_world h) = h" "trace (test_world h) = []"
  by (simp_all add: test_world_def)

lemma fake_request_simps [simp]:
  "op_code (fake_request op rid) = ucast op" "request_id (fake_request op rid) = rid"
  by (simp_all add: fake_request_def)

lemma fill_inject [simp]: "fill a = fill b \<longleftrightarrow> a = b" "fill a = nil_guid \<longleftrightarrow> a = 0" "nil_guid = fill a \<longleftrightarrow> a = 0"
  by (auto simp: fill_def guid_eq_iff numeral_eq_Suc)

lemma fails_with_wp: "wp m (\<lambda>r s'. r = -1 \<and> errno s' = e) (test_world h) \<Longrightarrow> fails_with e h m"
  by (auto simp: fails_with_def wp_iff)

text \<open>A responder called with unacceptable arguments fails with \<open>EINVAL\<close>.\<close>

lemma respond_fails:
  assumes "test_env E" "h req_p = Some (Request r)" "op_code r = ucast (code_of E (reply_op a))"
    and "reply_valid h a" "\<not> reply_ok E a"
  shows "fails_with EINVAL h (respond E fd req_p a)"
  using any.refused [of E req_p "test_world h" r a fd] assms
  by (intro fails_with_wp) (auto simp: test_env_def elim: wp_mono)

lemma ucast_u8_u32:
  assumes "(x :: u32) < 0xFF"
  shows "ucast (ucast x :: u8) = x"
proof -
  have "unat x < 256" using assms by (simp add: word_less_nat_alt)
  then have "unat (ucast (ucast x :: u8) :: u32) = unat x" by (simp add: unsigned_ucast_eq unsigned_take_bit_eq take_bit_nat_eq_self)
  then show ?thesis by (simp only: word_unat_eq_iff)
qed

lemma test_env_targets:
  assumes "test_env E"
  shows "is_guid_target E (ucast (RSI_PATH_TARGET_GUID E))" "\<not> is_guid_target E (ucast (RSI_PATH_TARGET_HIDDEN E))"
    "\<not> is_guid_target E 0xFF" "ucast (0xFF :: u8) \<noteq> RSI_PATH_TARGET_HIDDEN E"
  using assms by (auto simp: test_env_def is_guid_target_def ucast_u8_u32)

lemma read_bytes_numeral: "read_bytes h p (numeral k) =
    (case Option.bind (h p) as_Byte of
       Some b \<Rightarrow> map_option ((#) b) (read_bytes h (p + 1) (pred_numeral k)) | None \<Rightarrow> None)"
  by (simp add: numeral_eq_Suc)

lemmas valid_defs = lookup_valid_def enum_children_valid_def read_key_valid_def delete_layer_valid_def
  path_block_valid_def metadata_block_valid_def child_block_valid_def path_array_def metadata_array_def child_array_def
  carray_def array_at_def ptr_add_def sizeof_eqs lpf_valid_def upt_rec cell_simps read_bytes_numeral

lemmas local_defs = lookup_locals_def enum_locals_def request_local_def test_entry_def test_metadata_def
  test_child_def bstr_def

lemmas ok_defs = lookup_ok_def enum_children_ok_def read_key_ok_def delete_layer_ok_def metadata_covers_def
  path_entry_ok_def path_target_ok_def child_entry_ok_def orphans_ok_def nonnull_def flag_ok_def

lemma lookup_response_rejects:
  assumes "test_env E"
  shows "lookup_response_rejects_missing_metadata E" "lookup_response_rejects_duplicate_metadata E"
    "lookup_response_rejects_unreferenced_metadata E" "payload_response_rejects_null_array_with_count E"
    "lookup_response_rejects_invalid_target_type E" "lookup_response_rejects_hidden_with_nonzero_guid E"
proof -
  let ?g = "ucast (RSI_PATH_TARGET_GUID E) :: u8" and ?r = "fake_request (code_of E RSI_LOOKUP) 1"
  let ?b = "bstr ''base''" and ?m = test_metadata
  note rej = respond_fails [OF assms, where a = "Reply_lookup _" and r = ?r and fd = "-1"]
  show "lookup_response_rejects_missing_metadata E"
    unfolding lookup_response_rejects_missing_metadata_def Let_def
    using rej [of "lookup_locals ?r ?b [test_entry ?b ?g (fill 0x10)] []"
        "((entries_p, 1, [test_entry ?b ?g (fill 0x10)]), (NULL, 0, []))"] test_env_targets [OF assms]
    by (simp add: valid_defs local_defs ok_defs)
  show "lookup_response_rejects_duplicate_metadata E"
    unfolding lookup_response_rejects_duplicate_metadata_def Let_def
    using rej [of "lookup_locals ?r ?b [test_entry ?b ?g (fill 0x10)] [?m (fill 0x10), ?m (fill 0x10)]"
        "((entries_p, 1, [test_entry ?b ?g (fill 0x10)]), (metadata_p, 2, [?m (fill 0x10), ?m (fill 0x10)]))"]
    by (simp add: valid_defs local_defs ok_defs)
  show "lookup_response_rejects_unreferenced_metadata E"
    unfolding lookup_response_rejects_unreferenced_metadata_def Let_def
    using rej [of "lookup_locals ?r ?b [test_entry ?b ?g (fill 0x10)] [?m (fill 0x10), ?m (fill 0x20)]"
        "((entries_p, 1, [test_entry ?b ?g (fill 0x10)]), (metadata_p, 2, [?m (fill 0x10), ?m (fill 0x20)]))"]
      test_env_targets [OF assms]
    by (simp add: valid_defs local_defs ok_defs)
  show "payload_response_rejects_null_array_with_count E"
    unfolding payload_response_rejects_null_array_with_count_def Let_def
    using rej [of "request_local ?r" "((NULL, 1, [test_entry [] 0 nil_guid]), (NULL, 0, []))"]
    by (simp add: valid_defs local_defs ok_defs)
  show "lookup_response_rejects_invalid_target_type E"
    unfolding lookup_response_rejects_invalid_target_type_def Let_def
    using rej [of "lookup_locals ?r ?b [test_entry ?b 0xFF (fill 0x10)] []"
        "((entries_p, 1, [test_entry ?b 0xFF (fill 0x10)]), (NULL, 0, []))"] test_env_targets [OF assms]
    by (simp add: valid_defs local_defs ok_defs)
  show "lookup_response_rejects_hidden_with_nonzero_guid E"
    unfolding lookup_response_rejects_hidden_with_nonzero_guid_def Let_def
    using rej [of "lookup_locals ?r (bstr ''mask'') [test_entry (bstr ''mask'') (ucast (RSI_PATH_TARGET_HIDDEN E)) (fill 0x10)] []"
        "((entries_p, 1, [test_entry (bstr ''mask'') (ucast (RSI_PATH_TARGET_HIDDEN E)) (fill 0x10)]), (NULL, 0, []))"]
      test_env_targets [OF assms]
    by (simp add: valid_defs local_defs ok_defs)
qed

lemma enum_children_response_rejects:
  assumes "test_env E"
  shows "enum_children_response_rejects_missing_metadata E" "enum_children_response_rejects_duplicate_metadata E"
    "enum_children_response_rejects_unreferenced_metadata E"
    "enum_children_response_rejects_null_child_entries_with_count E"
proof -
  let ?g = "ucast (RSI_PATH_TARGET_GUID E) :: u8" and ?r = "fake_request (code_of E RSI_ENUM_CHILDREN) 1"
  let ?b = "bstr ''base''" and ?n = "bstr ''Child''" and ?m = test_metadata
  let ?es = "[test_entry ?b ?g (fill 0x30)]" and ?c = "test_child ?n entries_p 1"
  note rej = respond_fails [OF assms, where a = "Reply_enum_children _" and r = ?r and fd = "-1"]
  show "enum_children_response_rejects_missing_metadata E"
    unfolding enum_children_response_rejects_missing_metadata_def Let_def
    using rej [of "enum_locals ?r ?n ?b ?es [?c] []" "((children_p, 1, [(?c, ?es)]), (NULL, 0, []))"]
      test_env_targets [OF assms]
    by (simp add: valid_defs local_defs ok_defs)
  show "enum_children_response_rejects_duplicate_metadata E"
    unfolding enum_children_response_rejects_duplicate_metadata_def Let_def
    using rej [of "enum_locals ?r ?n ?b ?es [?c] [?m (fill 0x30), ?m (fill 0x30)]"
        "((children_p, 1, [(?c, ?es)]), (metadata_p, 2, [?m (fill 0x30), ?m (fill 0x30)]))"]
    by (simp add: valid_defs local_defs ok_defs)
  show "enum_children_response_rejects_unreferenced_metadata E"
    unfolding enum_children_response_rejects_unreferenced_metadata_def Let_def
    using rej [of "enum_locals ?r ?n ?b ?es [?c] [?m (fill 0x30), ?m (fill 0x40)]"
        "((children_p, 1, [(?c, ?es)]), (metadata_p, 2, [?m (fill 0x30), ?m (fill 0x40)]))"]
      test_env_targets [OF assms]
    by (simp add: valid_defs local_defs ok_defs)
  show "enum_children_response_rejects_null_child_entries_with_count E"
    unfolding enum_children_response_rejects_null_child_entries_with_count_def Let_def
    using rej [of "enum_locals ?r ?n [] [] [test_child ?n NULL 1] []"
        "((children_p, 1, [(test_child ?n NULL 1, [test_entry [] 0 nil_guid])]), (NULL, 0, []))"]
    by (simp add: valid_defs local_defs ok_defs)
qed

lemma request_local_bytes:
  assumes "0 < d" "d < 2 ^ 32" "length bs < 2 ^ 32"
  shows "put_bytes (request_local r) (req_p + of_nat d) bs req_p = Some (Request r)"
proof -
  have "req_p \<noteq> req_p + of_nat d + of_nat i" if "i < length bs" for i
    using that assms ptr_offset_inj [of 0 "d + i" req_p] by (simp add: add.assoc)
  then show ?thesis by (subst put_bytes_other) (auto simp: request_local_def)
qed

lemma byte_locals:
  "length bs < 2 ^ 32 \<Longrightarrow> put_bytes (request_local r) parent_p bs req_p = Some (Request r)"
  "length bs < 2 ^ 32 \<Longrightarrow> put_bytes (request_local r) guids_p bs req_p = Some (Request r)"
  using request_local_bytes [of "0x3F00"] request_local_bytes [of "0x2F00"] by simp_all

lemma bytes_read: "length bs = n \<Longrightarrow> n < 2 ^ 32 \<Longrightarrow> read_bytes (put_bytes h p bs) p n = Some bs"
  using read_put_bytes [of bs h p] by simp

lemma read_key_response_rejects:
  assumes "test_env E"
  shows "payload_response_rejects_wrong_request_op E" "read_key_response_rejects_null_parent_guid E"
    "read_key_response_rejects_invalid_booleans E"
proof -
  have op: "ucast (code_of E RSI_LOOKUP) \<noteq> (ucast (code_of E RSI_READ_KEY) :: u16)"
    using assms by (auto simp: test_env_def op_codes_distinct_def dest: injD)
  show "payload_response_rejects_wrong_request_op E"
    unfolding payload_response_rejects_wrong_request_op_def Let_def fails_with_def
    using read_key.other_request [where req = req_p and a = "(NULL, 0, parent_p, NULL, 0, 0, 0, 0)", OF _ _ , of
        "test_world (put_bytes (request_local (fake_request (code_of E RSI_LOOKUP) 1)) parent_p (guid_bytes (fill 0x33)))"
        "fake_request (code_of E RSI_LOOKUP) 1" E "-1"] op
    by (simp add: byte_locals)
  note rej = respond_fails [OF assms, where a = "Reply_read_key _" and r = "fake_request (code_of E RSI_READ_KEY) 1"
      and fd = "-1"]
  show "read_key_response_rejects_null_parent_guid E"
    unfolding read_key_response_rejects_null_parent_guid_def Let_def
    using rej [of "request_local (fake_request (code_of E RSI_READ_KEY) 1)" "(NULL, 0, NULL, NULL, 0, 0, 0, 0)"]
    by (simp add: valid_defs local_defs ok_defs)
  show "read_key_response_rejects_invalid_booleans E"
    unfolding read_key_response_rejects_invalid_booleans_def Let_def
    using rej [of "put_bytes (request_local (fake_request (code_of E RSI_READ_KEY) 1)) parent_p (guid_bytes (fill 0x33))"
        "(NULL, 0, parent_p, NULL, 0, 2, 0, 0)"]
    by (simp add: read_key_valid_def lpf_valid_def ok_defs byte_locals bytes_read)
qed

lemma delete_layer_response_rejects:
  assumes "test_env E"
  shows "delete_layer_response_rejects_nil_orphan_guid E" "delete_layer_response_rejects_duplicate_orphan_guid E"
proof -
  note rej = respond_fails [OF assms, where a = "Reply_delete_layer _" and fd = "-1"
      and r = "fake_request (code_of E RSI_DELETE_LAYER) 1"]
  show "delete_layer_response_rejects_nil_orphan_guid E"
    unfolding delete_layer_response_rejects_nil_orphan_guid_def Let_def
    using rej [of "put_bytes (request_local (fake_request (code_of E RSI_DELETE_LAYER) 1)) guids_p (replicate 16 0)"
        "(guids_p, 1, [nil_guid])"]
    by (simp add: delete_layer_valid_def ok_defs byte_locals bytes_read)
  show "delete_layer_response_rejects_duplicate_orphan_guid E"
    unfolding delete_layer_response_rejects_duplicate_orphan_guid_def Let_def
    using rej [of "put_bytes (request_local (fake_request (code_of E RSI_DELETE_LAYER) 1)) guids_p
          (replicate 16 0x10 @ replicate 16 0x10)" "(guids_p, 2, [fill 0x10, fill 0x10])"]
    by (simp add: delete_layer_valid_def ok_defs byte_locals bytes_read fill_def)
qed

lemma status_response_rejects:
  assumes "test_env E"
  shows "status_response_rejects_ok_for_payload_op E" "status_response_rejects_unknown_status E"
proof -
  have rej: "fails_with EINVAL (request_local r) (rsi_respond_status E (-1) req_p st)"
    if "\<not> status_allowed E (op_code r) st" for r st
    using that respond_status_eq [of req_p "test_world (request_local r)" r E "-1" st]
    by (simp add: fails_with_def request_local_def split: option.splits)
  show "status_response_rejects_ok_for_payload_op E" "status_response_rejects_unknown_status E"
    unfolding status_response_rejects_ok_for_payload_op_def status_response_rejects_unknown_status_def Let_def
    using assms by (auto simp: test_env_def status_allowed_def intro!: rej)
qed

section \<open>All pass\<close>

lemma status_frame_layout_passes: "status_frame_layout E response_bit"
  by (simp add: status_frame_layout_def build_status_frame_eq ret_def response_frame_def response_header_def Let_def)

lemma wp_new_writer:
  assumes "try_extend_appends E" "\<And>w s'. quiet s s' \<Longrightarrow> written E w (replicate 18 0) \<Longrightarrow> Q w s'"
  shows "wp (new_writer E) Q s"
  unfolding new_writer_def
  by (rule writer.wp_put [OF assms(1), where xs = "[]"])
    (use assms(2) in \<open>auto simp: written_iff FrameWriter_new_def STATUS_FRAME_LEN_def\<close>)

lemma empty_lookup_passes:
  assumes "test_env E"
  shows "empty_lookup_response_frame_has_expected_len E"
proof -
  let ?req = "fake_request (code_of E RSI_LOOKUP) 1"
  have E: "try_extend_appends E" "\<not> extend_refuses E"
    using assms by (simp_all add: test_env_def may_oom_def)
  obtain resp_op where op: "rsi_response_op_code E (ucast (code_of E RSI_LOOKUP)) = Some resp_op"
    using assms by (auto simp: test_env_def)
  have valid: "path_block_valid Map.empty (NULL, 0, [])" "metadata_block_valid Map.empty (NULL, 0, [])"
    by (simp_all add: valid_defs)
  have fin: "finish_response E ?req w = ret (Ok (response_frame 1 resp_op (RSI_OK E) (le32 0 @ le32 0)))"
    if "written E w (replicate 18 0 @ le32 0 @ le32 0)" for w
    using that [unfolded written_iff] E(2) finish_response_eq [of w "le32 0 @ le32 0" E ?req] op
    by (simp split: if_splits)
  have "wp (bindM (new_writer E) (\<lambda>w. tryM (encode_path_entry_block E NULL 0 w) (\<lambda>w.
      tryM (encode_metadata_block E NULL 0 w) (\<lambda>w. finish_response E ?req w))))
      (\<lambda>r s. \<exists>frame. r = Ok frame \<and> length frame = 26) (test_world Map.empty)"
    unfolding wp_bindM wp_tryM
    by (rule wp_new_writer [OF E(1)], rule encodesD [OF encodes_path_entry_block [OF E(1) valid(1)]])
      (auto simp: quiet_def nonnull_def block_bytes_def fin wp_simps
        intro!: encodesD [OF encodes_metadata_block [OF E(1) valid(2)]])
  then show ?thesis
    unfolding empty_lookup_response_frame_has_expected_len_def Let_def by (auto dest!: wpD)
qed

lemma sticky_oom_passes:
  assumes "test_env E"
  shows "sticky_oom_returns_enomem E"
proof -
  let ?req = "fake_request (code_of E RSI_LOOKUP) 1"
  have "wp (bindM (new_writer E) (\<lambda>w. finish_response E ?req (w\<lparr>oom := True\<rparr>))) (\<lambda>r s. r = Err ENOMEM)
      (test_world Map.empty)"
    unfolding wp_bindM using assms
    by (intro wp_new_writer) (auto simp: test_env_def finish_response_def wp_simps)
  then show ?thesis unfolding sticky_oom_returns_enomem_def Let_def by (auto dest!: wpD)
qed

lemma source_tests_pass:
  "struct_sizes_pinned" "marshal_hive_packs_fields hive_private name" "marshal_hive_global_is_zero_scope name"
  "register_rejects_zero_hives E"
  by (simp_all add: struct_sizes_pinned_def layout_defs struct_size_def c_sizeof_def align_up_def
      marshal_hive_packs_fields_def marshal_hive_global_is_zero_scope_def marshal_hive_def bstr_def
      register_rejects_zero_hives_def fails_with_def register_guard)

lemma short_frame_passes:
  assumes "test_env E"
  shows "short_frame_is_ebadmsg E"
proof -
  let ?r = "fake_request 0 0" and ?f = "replicate 4 (0 :: u8)"
  let ?h = "put_bytes (request_local ?r) name_p ?f"
  have "22 \<le> length (bytes_of f)" if "parse_rsi_request_header E f = Some h" for f h
    using assms that by (auto simp: test_env_def header_parser_checks_def)
  from this [of "\<lparr>as_ptr = name_p, bytes_of = ?f\<rparr>"]
  have "parse_rsi_request_header E \<lparr>as_ptr = name_p, bytes_of = ?f\<rparr> = None" by fastforce
  moreover have "?h req_p = Some (Request ?r)" using request_local_bytes [of "0x200" ?f ?r] by simp
  moreover have "read_bytes ?h name_p 4 = Some ?f" by (rule bytes_read) simp_all
  ultimately show ?thesis
    using rsi_parse_request_eq [of req_p "test_world ?h" ?r name_p 4 ?f E]
    by (simp add: short_frame_is_ebadmsg_def fails_with_def)
qed

text \<open>
  C27. The crate's unit tests pass in the model: every test of \<open>response.rs\<close>, \<open>source.rs\<close> and
  \<open>request.rs\<close> that needs nothing but librsi (frame layouts, the sticky out-of-memory latch,
  the refusal of every kind of bad argument, hive marshalling, a short frame) succeeds for
  every allocator that does not run out of memory, every kernel, and every value of the external
  constants and parsers with the documented properties.
\<close>

theorem unit_tests_pass:
  assumes "test_env E"
  shows "status_frame_layout E response_bit \<and> empty_lookup_response_frame_has_expected_len E \<and>
    sticky_oom_returns_enomem E \<and> payload_response_rejects_wrong_request_op E \<and>
    payload_response_rejects_null_array_with_count E \<and> lookup_response_rejects_missing_metadata E \<and>
    lookup_response_rejects_duplicate_metadata E \<and> lookup_response_rejects_unreferenced_metadata E \<and>
    enum_children_response_rejects_missing_metadata E \<and> enum_children_response_rejects_duplicate_metadata E \<and>
    enum_children_response_rejects_unreferenced_metadata E \<and>
    enum_children_response_rejects_null_child_entries_with_count E \<and>
    read_key_response_rejects_null_parent_guid E \<and> delete_layer_response_rejects_nil_orphan_guid E \<and>
    delete_layer_response_rejects_duplicate_orphan_guid E \<and> status_response_rejects_ok_for_payload_op E \<and>
    status_response_rejects_unknown_status E \<and> read_key_response_rejects_invalid_booleans E \<and>
    lookup_response_rejects_invalid_target_type E \<and> lookup_response_rejects_hidden_with_nonzero_guid E \<and>
    struct_sizes_pinned \<and> marshal_hive_packs_fields hive_private name \<and> marshal_hive_global_is_zero_scope name \<and>
    register_rejects_zero_hives E \<and> short_frame_is_ebadmsg E"
  by (intro conjI status_frame_layout_passes empty_lookup_passes sticky_oom_passes lookup_response_rejects
      enum_children_response_rejects read_key_response_rejects delete_layer_response_rejects status_response_rejects
      source_tests_pass short_frame_passes assms)

lemma ex_test_env: "test_env ex_env"
  using ex_env_try_extend ex_env_no_oom ex_env_op_codes ex_env_header
  by (simp add: test_env_def ex_payload_op_def)

theorem unit_tests_pass_witness:
  "lookup_response_rejects_missing_metadata ex_env \<and> short_frame_is_ebadmsg ex_env \<and> status_frame_layout ex_env 0x8000"
  using unit_tests_pass [OF ex_test_env] by blast

end
