(* ===== verification/Message.thy ===== *)
theory Message
  imports Request_Correct
begin

text \<open>
  Requests as abstract messages. A message is what a request says, independent of memory:
  GUIDs, byte strings, numbers and flags. \<open>msg_of\<close> is the message lcs-core's parser finds in
  a payload, \<open>view\<close> the message a C struct and the memory its pointers refer to denote. The
  decoders are a refinement: the struct they fill denotes the message that was parsed.
\<close>

section \<open>Messages\<close>

datatype message =
    Msg_lookup guid "u8 list"
  | Msg_create_entry guid "u8 list" "u8 list" guid u64
  | Msg_hide_entry guid "u8 list" "u8 list" u64
  | Msg_delete_entry guid "u8 list" "u8 list"
  | Msg_enum_children guid
  | Msg_create_key guid "u8 list" guid "u8 list" bool bool
  | Msg_read_key guid
  | Msg_drop_key guid
  | Msg_write_key guid u32 "u8 list option" u64
  | Msg_query_values guid "u8 list" bool
  | Msg_set_value guid "u8 list" "u8 list" u32 "u8 list" u64 u64
  | Msg_delete_value_entry guid "u8 list" "u8 list"
  | Msg_set_blanket_tombstone guid "u8 list" bool u64
  | Msg_begin_transaction u64 u32
  | Msg_commit_transaction u64
  | Msg_abort_transaction u64
  | Msg_delete_layer "u8 list"
  | Msg_flush "u8 list"

fun msg_op :: "message \<Rightarrow> rsi_op" where
  "msg_op (Msg_lookup _ _) = RSI_LOOKUP"
| "msg_op (Msg_create_entry _ _ _ _ _) = RSI_CREATE_ENTRY"
| "msg_op (Msg_hide_entry _ _ _ _) = RSI_HIDE_ENTRY"
| "msg_op (Msg_delete_entry _ _ _) = RSI_DELETE_ENTRY"
| "msg_op (Msg_enum_children _) = RSI_ENUM_CHILDREN"
| "msg_op (Msg_create_key _ _ _ _ _ _) = RSI_CREATE_KEY"
| "msg_op (Msg_read_key _) = RSI_READ_KEY"
| "msg_op (Msg_drop_key _) = RSI_DROP_KEY"
| "msg_op (Msg_write_key _ _ _ _) = RSI_WRITE_KEY"
| "msg_op (Msg_query_values _ _ _) = RSI_QUERY_VALUES"
| "msg_op (Msg_set_value _ _ _ _ _ _ _) = RSI_SET_VALUE"
| "msg_op (Msg_delete_value_entry _ _ _) = RSI_DELETE_VALUE_ENTRY"
| "msg_op (Msg_set_blanket_tombstone _ _ _ _) = RSI_SET_BLANKET_TOMBSTONE"
| "msg_op (Msg_begin_transaction _ _) = RSI_BEGIN_TRANSACTION"
| "msg_op (Msg_commit_transaction _) = RSI_COMMIT_TRANSACTION"
| "msg_op (Msg_abort_transaction _) = RSI_ABORT_TRANSACTION"
| "msg_op (Msg_delete_layer _) = RSI_DELETE_LAYER"
| "msg_op (Msg_flush _) = RSI_FLUSH"

section \<open>The message lcs-core parses\<close>

abbreviation field_bytes :: "RsiLengthPrefixedField \<Rightarrow> u8 list" where
  "field_bytes f \<equiv> bytes_of (field_data f)"

text \<open>An absent time of WRITE_KEY is 0; the field mask says whether it is present.\<close>

fun msg_of :: "env \<Rightarrow> rsi_op \<Rightarrow> slice \<Rightarrow> message option" where
  "msg_of E RSI_LOOKUP p = map_option (\<lambda>v. Msg_lookup (plk_parent_guid v) (field_bytes (plk_child_name v)))
     (parse_rsi_lookup_request_payload E p)"
| "msg_of E RSI_CREATE_ENTRY p = map_option (\<lambda>v. Msg_create_entry (pce_parent_guid v) (field_bytes (pce_child_name v))
     (field_bytes (pce_layer_name v)) (pce_child_guid v) (pce_sequence v)) (parse_rsi_create_entry_request_payload E p)"
| "msg_of E RSI_HIDE_ENTRY p = map_option (\<lambda>v. Msg_hide_entry (phe_parent_guid v) (field_bytes (phe_child_name v))
     (field_bytes (phe_layer_name v)) (phe_sequence v)) (parse_rsi_hide_entry_request_payload E p)"
| "msg_of E RSI_DELETE_ENTRY p = map_option (\<lambda>v. Msg_delete_entry (pde_parent_guid v) (field_bytes (pde_child_name v))
     (field_bytes (pde_layer_name v))) (parse_rsi_delete_entry_request_payload E p)"
| "msg_of E RSI_ENUM_CHILDREN p = map_option (\<lambda>v. Msg_enum_children (pec_parent_guid v))
     (parse_rsi_enum_children_request_payload E p)"
| "msg_of E RSI_CREATE_KEY p = map_option (\<lambda>v. Msg_create_key (pck_guid v) (field_bytes (pck_name v)) (pck_parent_guid v)
     (field_bytes (pck_sd v)) (pck_volatile v) (pck_symlink v)) (parse_rsi_create_key_request_payload E p)"
| "msg_of E RSI_READ_KEY p = map_option (\<lambda>v. Msg_read_key (pkg_guid v)) (parse_rsi_read_key_request_payload E p)"
| "msg_of E RSI_DROP_KEY p = map_option (\<lambda>v. Msg_drop_key (pkg_guid v)) (parse_rsi_drop_key_request_payload E p)"
| "msg_of E RSI_WRITE_KEY p = map_option (\<lambda>v. Msg_write_key (pwk_guid v) (pwk_field_mask v)
     (map_option field_bytes (pwk_sd v))
     (case pwk_last_write_time v of Some t \<Rightarrow> t | None \<Rightarrow> 0)) (parse_rsi_write_key_request_payload E p)"
| "msg_of E RSI_QUERY_VALUES p = map_option (\<lambda>v. Msg_query_values (pqv_guid v) (field_bytes (pqv_value_name v))
     (pqv_query_all v)) (parse_rsi_query_values_request_payload E p)"
| "msg_of E RSI_SET_VALUE p = map_option (\<lambda>v. Msg_set_value (psv_guid v) (field_bytes (psv_value_name v))
     (field_bytes (psv_layer_name v)) (psv_value_type v) (field_bytes (psv_data v)) (psv_sequence v)
     (psv_expected_sequence v)) (parse_rsi_set_value_request_payload E p)"
| "msg_of E RSI_DELETE_VALUE_ENTRY p = map_option (\<lambda>v. Msg_delete_value_entry (pdv_guid v)
     (field_bytes (pdv_value_name v)) (field_bytes (pdv_layer_name v))) (parse_rsi_delete_value_entry_request_payload E p)"
| "msg_of E RSI_SET_BLANKET_TOMBSTONE p = map_option (\<lambda>v. Msg_set_blanket_tombstone (pbt_guid v)
     (field_bytes (pbt_layer_name v)) (pbt_set v) (pbt_sequence v)) (parse_rsi_set_blanket_tombstone_request_payload E p)"
| "msg_of E RSI_BEGIN_TRANSACTION p = map_option (\<lambda>v. Msg_begin_transaction (pbx_transaction_id v)
     (txn_mode_code E (pbx_mode v))) (parse_rsi_begin_transaction_request_payload E p)"
| "msg_of E RSI_COMMIT_TRANSACTION p = map_option (\<lambda>v. Msg_commit_transaction (ptx_transaction_id v))
     (parse_rsi_commit_transaction_request_payload E p)"
| "msg_of E RSI_ABORT_TRANSACTION p = map_option (\<lambda>v. Msg_abort_transaction (ptx_transaction_id v))
     (parse_rsi_abort_transaction_request_payload E p)"
| "msg_of E RSI_DELETE_LAYER p = map_option (\<lambda>v. Msg_delete_layer (field_bytes (pnm_name v)))
     (parse_rsi_delete_layer_request_payload E p)"
| "msg_of E RSI_FLUSH p = map_option (\<lambda>v. Msg_flush (field_bytes (pnm_name v))) (parse_rsi_flush_request_payload E p)"

section \<open>The message a C struct denotes\<close>

definition c_bytes :: "heap \<Rightarrow> ptr \<Rightarrow> u32 \<Rightarrow> u8 list option" where
  "c_bytes h p n = read_bytes h p (unat n)"

definition c_bool :: "u8 \<Rightarrow> bool option" where
  "c_bool x = (if x = 0 then Some False else if x = 1 then Some True else None)"

text \<open>An optional byte string: (NULL, 0) when absent.\<close>

definition c_optional :: "heap \<Rightarrow> ptr \<Rightarrow> u32 \<Rightarrow> u8 list option option" where
  "c_optional h p n =
     (if p = NULL then if n = 0 then Some None else None else map_option Some (c_bytes h p n))"

fun view :: "heap \<Rightarrow> rsi_op \<Rightarrow> cell \<Rightarrow> message option" where
  "view h RSI_LOOKUP c = Option.bind (as_Lookup c) (\<lambda>r.
     map_option (Msg_lookup (lk_parent_guid r))
     (c_bytes h (lk_child_name r) (lk_child_name_len r)))"
| "view h RSI_CREATE_ENTRY c = Option.bind (as_CreateEntry c) (\<lambda>r.
     Option.bind (c_bytes h (ce_child_name r) (ce_child_name_len r)) (\<lambda>name.
     Option.bind (c_bytes h (ce_layer_name r) (ce_layer_name_len r)) (\<lambda>layer.
     Some (Msg_create_entry (ce_parent_guid r) name layer (ce_child_guid r) (ce_sequence r)))))"
| "view h RSI_HIDE_ENTRY c = Option.bind (as_HideEntry c) (\<lambda>r.
     Option.bind (c_bytes h (he_child_name r) (he_child_name_len r)) (\<lambda>name.
     Option.bind (c_bytes h (he_layer_name r) (he_layer_name_len r)) (\<lambda>layer.
     Some (Msg_hide_entry (he_parent_guid r) name layer (he_sequence r)))))"
| "view h RSI_DELETE_ENTRY c = Option.bind (as_DeleteEntry c) (\<lambda>r.
     Option.bind (c_bytes h (de_child_name r) (de_child_name_len r)) (\<lambda>name.
     Option.bind (c_bytes h (de_layer_name r) (de_layer_name_len r)) (\<lambda>layer.
     Some (Msg_delete_entry (de_parent_guid r) name layer))))"
| "view h RSI_ENUM_CHILDREN c = Option.bind (as_EnumChildren c) (\<lambda>r.
     Some (Msg_enum_children (ec_parent_guid r)))"
| "view h RSI_CREATE_KEY c = Option.bind (as_CreateKey c) (\<lambda>r.
     Option.bind (c_bytes h (ck_name r) (ck_name_len r)) (\<lambda>name.
     Option.bind (c_bytes h (ck_sd r) (ck_sd_len r)) (\<lambda>sd.
     Option.bind (c_bool (ck_volatile_key r)) (\<lambda>v.
     Option.bind (c_bool (ck_symlink r)) (\<lambda>l.
     Some (Msg_create_key (ck_guid r) name (ck_parent_guid r) sd v l))))))"
| "view h RSI_READ_KEY c = Option.bind (as_KeyGuid c) (\<lambda>r.
     Some (Msg_read_key (kg_guid r)))"
| "view h RSI_DROP_KEY c = Option.bind (as_KeyGuid c) (\<lambda>r.
     Some (Msg_drop_key (kg_guid r)))"
| "view h RSI_WRITE_KEY c = Option.bind (as_WriteKey c) (\<lambda>r.
     Option.bind (c_optional h (wk_sd r) (wk_sd_len r)) (\<lambda>sd.
     Some (Msg_write_key (wk_guid r) (wk_field_mask r) sd (wk_last_write_time r))))"
| "view h RSI_QUERY_VALUES c = Option.bind (as_QueryValues c) (\<lambda>r.
     Option.bind (c_bytes h (qv_value_name r) (qv_value_name_len r)) (\<lambda>name.
     Option.bind (c_bool (qv_query_all r)) (\<lambda>q. Some (Msg_query_values (qv_guid r) name q))))"
| "view h RSI_SET_VALUE c = Option.bind (as_SetValue c) (\<lambda>r.
     Option.bind (c_bytes h (sv_value_name r) (sv_value_name_len r)) (\<lambda>name.
     Option.bind (c_bytes h (sv_layer_name r) (sv_layer_name_len r)) (\<lambda>layer.
     Option.bind (c_bytes h (sv_data r) (sv_data_len r)) (\<lambda>data.
     Some (Msg_set_value (sv_guid r) name layer (sv_value_type r) data (sv_sequence r) (sv_expected_sequence r))))))"
| "view h RSI_DELETE_VALUE_ENTRY c = Option.bind (as_DeleteValueEntry c) (\<lambda>r.
     Option.bind (c_bytes h (dv_value_name r) (dv_value_name_len r)) (\<lambda>name.
     Option.bind (c_bytes h (dv_layer_name r) (dv_layer_name_len r)) (\<lambda>layer.
     Some (Msg_delete_value_entry (dv_guid r) name layer))))"
| "view h RSI_SET_BLANKET_TOMBSTONE c = Option.bind (as_SetBlanketTombstone c) (\<lambda>r.
     Option.bind (c_bytes h (bt_layer_name r) (bt_layer_name_len r)) (\<lambda>layer.
     Option.bind (c_bool (bt_set r)) (\<lambda>b. Some (Msg_set_blanket_tombstone (bt_guid r) layer b (bt_sequence r)))))"
| "view h RSI_BEGIN_TRANSACTION c = Option.bind (as_BeginTransaction c) (\<lambda>r.
     Some (Msg_begin_transaction (bx_transaction_id r) (bx_mode r)))"
| "view h RSI_COMMIT_TRANSACTION c = Option.bind (as_Transaction c) (\<lambda>r.
     Some (Msg_commit_transaction (tx_transaction_id r)))"
| "view h RSI_ABORT_TRANSACTION c = Option.bind (as_Transaction c) (\<lambda>r.
     Some (Msg_abort_transaction (tx_transaction_id r)))"
| "view h RSI_DELETE_LAYER c = Option.bind (as_Name c) (\<lambda>r.
     map_option Msg_delete_layer (c_bytes h (nm_name r) (nm_name_len r)))"
| "view h RSI_FLUSH c = Option.bind (as_Name c) (\<lambda>r.
     map_option Msg_flush (c_bytes h (nm_name r) (nm_name_len r)))"

section \<open>Refinement\<close>

lemma c_bool_of_bool [simp]: "c_bool (of_bool b) = Some b"
  by (simp add: c_bool_def)

lemma msg_of_op: "msg_of E op p = Some m \<Longrightarrow> msg_op m = op"
  by (cases op) auto

text \<open>A decoded struct whose fields are readable denotes the parsed message.\<close>

lemma view_decoded:
  assumes "decoded op E p c = Some c'"
    and "\<forall>f \<in> set (parsed_fields op E p). read_bytes h (fst (lpf f)) (unat (snd (lpf f))) = Some (field_bytes f)"
    and "\<And>v f. parse_rsi_write_key_request_payload E p = Some v \<Longrightarrow> pwk_sd v = Some f \<Longrightarrow> as_ptr (field_data f) \<noteq> NULL"
  shows "view h op c' = msg_of E op p"
proof (cases "op = RSI_WRITE_KEY")
  case True
  with assms(1) obtain v y where "parse_rsi_write_key_request_payload E p = Some v" "c' = WriteKey (out_write_key v y)"
    by (auto simp: Option.bind_eq_Some_conv cell_simps)
  with True assms(2,3) show ?thesis
    by (cases "pwk_sd v") (simp_all add: out_write_key_fields c_bytes_def c_optional_def lpf_def)
next
  case False
  with assms(1,2) show ?thesis
    by (cases op) (auto simp: out_defs c_bytes_def Let_def lpf_def Option.bind_eq_Some_conv cell_simps)
qed

text \<open>A field borrowed from a slice that does not wrap around the address space is not NULL.\<close>

lemma borrows_nonnull:
  assumes "borrows_from p f" "as_ptr p \<noteq> NULL" "unat (as_ptr p) + length (bytes_of p) < 2 ^ 64"
  shows "as_ptr (field_data f) \<noteq> NULL"
proof -
  obtain i where i: "i \<le> length (bytes_of p)" "as_ptr (field_data f) = as_ptr p + of_nat i"
    using assms(1) unfolding borrows_from_def by blast
  have "unat (as_ptr p + of_nat i) = unat (of_nat (unat (as_ptr p) + i) :: ptr)" by simp
  also have "\<dots> = unat (as_ptr p) + i" using assms(3) i(1) by (intro unat_of_nat_u64) simp
  finally show ?thesis using i(2) assms(2) by (metis add_is_0 unat_eq_zero)
qed

lemma decoded_msg_of: "out_typed op c \<Longrightarrow> decoded op E p c = None \<longleftrightarrow> msg_of E op p = None"
  by (cases op) auto

text \<open>
  C15. The decoders refine the reading of messages: for a request of the decoder's op whose payload
  is readable, the decoder returns 0 exactly when lcs-core parses a message out of the payload,
  and then the struct in \<open>*out\<close>, together with the memory its pointers refer to, denotes exactly
  that message: every GUID, number and flag, and every name or data field byte for byte.
\<close>

theorem decoders_refine_messages:
  assumes "parsers_borrow E" "req \<noteq> NULL" "mem s req = Some (Request r)" "op_code r = ucast (code_of E op)"
    and "payload r \<noteq> NULL" "read_bytes (mem s) (payload r) (unat (payload_len r)) = Some bs"
    and "unat (payload r) + unat (payload_len r) < 2 ^ 64"
    and "out \<noteq> NULL" "mem s out = Some c" "out_typed op c"
  shows "case msg_of E op \<lparr>as_ptr = payload r, bytes_of = bs\<rparr> of
      None \<Rightarrow> decoder_of op E req out s = Done (-1) (s\<lparr>errno := EBADMSG\<rparr>)
    | Some m \<Rightarrow> \<exists>c'. decoder_of op E req out s = Done 0 (s\<lparr>mem := (mem s)(out \<mapsto> c')\<rparr>) \<and>
        view ((mem s)(out \<mapsto> c')) op c' = Some m"
proof -
  let ?p = "\<lparr>as_ptr = payload r, bytes_of = bs\<rparr>"
  have p: "payload_for E (mem s) req (code_of E op) = Some ?p" and valid: "request_valid (mem s) req"
    using assms(2-6) by (simp_all add: payload_for_def request_valid_def)
  have eq: "decoder_of op E req out s = (case decoded op E ?p c of
      None \<Rightarrow> Done (-1) (s\<lparr>errno := EBADMSG\<rparr>) | Some c' \<Rightarrow> Done 0 (s\<lparr>mem := (mem s)(out \<mapsto> c')\<rparr>))"
    using decoders.dec_eq [OF valid, of out op E] assms(8-10) p by simp
  show ?thesis
  proof (cases "decoded op E ?p c")
    case None
    with eq decoded_msg_of [OF assms(10), of E ?p] show ?thesis by simp
  next
    case (Some c')
    have "view ((mem s)(out \<mapsto> c')) op c' = msg_of E op ?p"
    proof (rule view_decoded [OF Some])
      show "\<forall>f \<in> set (parsed_fields op E ?p).
          read_bytes ((mem s)(out \<mapsto> c')) (fst (lpf f)) (unat (snd (lpf f))) = Some (field_bytes f)"
        using parsed_fields_readable [OF assms(1-3,5) p] read_bytes_upd [of "mem s" out c] assms(9)
          out_typed_not_Byte [OF assms(10)] by simp
      show "as_ptr (field_data f) \<noteq> NULL"
        if "parse_rsi_write_key_request_payload E ?p = Some v" "pwk_sd v = Some f" for v f
        using that assms(1) borrows_nonnull [of ?p f] assms(5,7) read_bytes_length [OF assms(6)]
        by (auto simp: parsers_borrow_def)
    qed
    moreover have "msg_of E op ?p \<noteq> None" using Some decoded_msg_of [OF assms(10), of E ?p] by simp
    ultimately show ?thesis using eq Some by auto
  qed
qed

theorem decoders_refine_messages_witness:
  "\<exists>c'. decoder_of RSI_LOOKUP ex_env 0x4000 0x3000 ex_world = Done 0 (ex_world\<lparr>mem := ex_heap(0x3000 \<mapsto> c')\<rparr>) \<and>
     view (ex_heap(0x3000 \<mapsto> c')) RSI_LOOKUP c' = Some (Msg_lookup (guid_of (replicate 16 0xAB)) [0x61, 0x62])"
  using decoders_refine_messages [OF ex_env_borrows, where req = "0x4000" and s = ex_world and op = RSI_LOOKUP
      and r = "\<lparr>request_id = 7, txn_id = 3, payload = 0x1016, payload_len = 22, op_code = 1\<rparr>"
      and out = "0x3000" and bs = ex_lookup_payload] ex_payload_read
  by (simp add: ex_lookup_parsed)

end
