(* ===== verification/Request_Tests.thy ===== *)
theory Request_Tests
  imports Tests Message
begin

text \<open>
  The round-trip tests of \<open>request.rs\<close>: a frame built by lcs-core is parsed and decoded
  through the C interface and every field is compared. lcs-core's builders
  \<open>write_rsi_*_request_frame\<close> are a parameter \<open>W\<close> of the tests, which stands for the builder
  of each kind of message; what the tests rely on is that lcs-core's own parsers accept what its
  builders wrote, for the test's own messages.
\<close>

section \<open>Running a round trip\<close>

type_synonym builder = "u64 \<Rightarrow> u64 \<Rightarrow> message \<Rightarrow> u8 list option"

abbreviation out_p :: ptr where "out_p \<equiv> 0x800"
abbreviation frame_p :: ptr where "frame_p \<equiv> 0x10000"

text \<open>\<open>core::mem::zeroed\<close> for the \<open>out\<close> struct of each decoder.\<close>

fun zeroed :: "rsi_op \<Rightarrow> cell" where
  "zeroed RSI_LOOKUP = Lookup \<lparr>lk_parent_guid = nil_guid, lk_child_name = NULL, lk_child_name_len = 0\<rparr>"
| "zeroed RSI_CREATE_ENTRY = CreateEntry \<lparr>ce_parent_guid = nil_guid, ce_child_guid = nil_guid,
     ce_child_name = NULL, ce_child_name_len = 0, ce_layer_name = NULL, ce_layer_name_len = 0, ce_sequence = 0\<rparr>"
| "zeroed RSI_HIDE_ENTRY = HideEntry \<lparr>he_parent_guid = nil_guid, he_child_name = NULL,
     he_child_name_len = 0, he_layer_name = NULL, he_layer_name_len = 0, he_sequence = 0\<rparr>"
| "zeroed RSI_DELETE_ENTRY = DeleteEntry \<lparr>de_parent_guid = nil_guid, de_child_name = NULL,
     de_child_name_len = 0, de_layer_name = NULL, de_layer_name_len = 0\<rparr>"
| "zeroed RSI_ENUM_CHILDREN = EnumChildren \<lparr>ec_parent_guid = nil_guid\<rparr>"
| "zeroed RSI_CREATE_KEY = CreateKey \<lparr>ck_guid = nil_guid, ck_parent_guid = nil_guid, ck_name = NULL,
     ck_name_len = 0, ck_sd = NULL, ck_sd_len = 0, ck_volatile_key = 0, ck_symlink = 0\<rparr>"
| "zeroed RSI_READ_KEY = KeyGuid \<lparr>kg_guid = nil_guid\<rparr>"
| "zeroed RSI_DROP_KEY = KeyGuid \<lparr>kg_guid = nil_guid\<rparr>"
| "zeroed RSI_WRITE_KEY = WriteKey \<lparr>wk_guid = nil_guid, wk_field_mask = 0, wk_sd = NULL, wk_sd_len = 0,
     wk_last_write_time = 0\<rparr>"
| "zeroed RSI_QUERY_VALUES = QueryValues \<lparr>qv_guid = nil_guid, qv_value_name = NULL,
     qv_value_name_len = 0, qv_query_all = 0\<rparr>"
| "zeroed RSI_SET_VALUE = SetValue \<lparr>sv_guid = nil_guid, sv_value_name = NULL, sv_value_name_len = 0,
     sv_layer_name = NULL, sv_layer_name_len = 0, sv_value_type = 0, sv_data = NULL, sv_data_len = 0, sv_sequence = 0, sv_expected_sequence = 0\<rparr>"
| "zeroed RSI_DELETE_VALUE_ENTRY = DeleteValueEntry \<lparr>dv_guid = nil_guid, dv_value_name = NULL,
     dv_value_name_len = 0, dv_layer_name = NULL, dv_layer_name_len = 0\<rparr>"
| "zeroed RSI_SET_BLANKET_TOMBSTONE = SetBlanketTombstone \<lparr>bt_guid = nil_guid, bt_layer_name = NULL,
     bt_layer_name_len = 0, bt_set = 0, bt_sequence = 0\<rparr>"
| "zeroed RSI_BEGIN_TRANSACTION = BeginTransaction \<lparr>bx_transaction_id = 0, bx_mode = 0\<rparr>"
| "zeroed RSI_COMMIT_TRANSACTION = Transaction \<lparr>tx_transaction_id = 0\<rparr>"
| "zeroed RSI_ABORT_TRANSACTION = Transaction \<lparr>tx_transaction_id = 0\<rparr>"
| "zeroed RSI_DELETE_LAYER = Name \<lparr>nm_name = NULL, nm_name_len = 0\<rparr>"
| "zeroed RSI_FLUSH = Name \<lparr>nm_name = NULL, nm_name_len = 0\<rparr>"
text \<open>\<open>parse\<close>: the frame, a zeroed request and the \<open>out\<close> struct are locals; the request is filled.\<close>

definition frame_locals :: "u8 list \<Rightarrow> cell \<Rightarrow> heap" where
  "frame_locals frame out = (put_bytes Map.empty frame_p frame)(req_p \<mapsto> Request (fake_request 0 0), out_p \<mapsto> out)"

definition parse :: "env \<Rightarrow> u8 list \<Rightarrow> cell \<Rightarrow> (rsi_request \<times> world) option" where
  "parse E frame out =
     (case rsi_parse_request E frame_p (of_nat (length frame)) req_p (test_world (frame_locals frame out)) of
        Done rc s \<Rightarrow> if rc = 0 then map_option (\<lambda>req. (req, s)) (Option.bind (mem s req_p) as_Request) else None
      | _ \<Rightarrow> None)"

text \<open>\<open>field_bytes(ptr, len) == bytes\<close>\<close>

definition field_is :: "heap \<Rightarrow> ptr \<Rightarrow> u32 \<Rightarrow> u8 list \<Rightarrow> bool" where
  "field_is h p n bs \<longleftrightarrow> read_bytes h p (unat n) = Some bs"

text \<open>
  Build (\<open>unwrap\<close>), parse, decode into a zeroed struct (\<open>assert_eq!(rc, 0)\<close>), then check the
  request and the struct.
\<close>

definition roundtrip :: "env \<Rightarrow> u8 list option \<Rightarrow> rsi_op \<Rightarrow> (rsi_request \<Rightarrow> cell \<Rightarrow> heap \<Rightarrow> bool) \<Rightarrow> bool" where
  "roundtrip E built op check =
     (case Option.bind built (\<lambda>frame. parse E frame (zeroed op)) of
        None \<Rightarrow> False
      | Some (req, s) \<Rightarrow>
          (case decoder_of op E req_p out_p s of
             Done rc s' \<Rightarrow> rc = 0 \<and> (case mem s' out_p of Some c \<Rightarrow> check req c (mem s') | None \<Rightarrow> False)
           | _ \<Rightarrow> False))"

section \<open>The tests\<close>

definition lookup_roundtrips :: "env \<Rightarrow> builder \<Rightarrow> bool" where
  "lookup_roundtrips E W =
     roundtrip E (W 7 3 (Msg_lookup (fill 0xAB) (bstr ''Software''))) RSI_LOOKUP
       (\<lambda>req c h. request_id req = 7 \<and> txn_id req = 3 \<and> (case c of Lookup out \<Rightarrow>
          lk_parent_guid out = fill 0xAB \<and> field_is h (lk_child_name out) (lk_child_name_len out) (bstr ''Software'')
        | _ \<Rightarrow> False))"

definition set_value_roundtrips :: "env \<Rightarrow> builder \<Rightarrow> bool" where
  "set_value_roundtrips E W =
     roundtrip E (W 9 0 (Msg_set_value (fill 1) (bstr ''Color'') (bstr ''base'') 3 [0xDE, 0xAD, 0xBE, 0xEF] 42 100))
       RSI_SET_VALUE (\<lambda>req c h. case c of SetValue out \<Rightarrow> sv_guid out = fill 1 \<and>
          field_is h (sv_value_name out) (sv_value_name_len out) (bstr ''Color'') \<and>
          field_is h (sv_layer_name out) (sv_layer_name_len out) (bstr ''base'') \<and> sv_value_type out = 3 \<and>
          field_is h (sv_data out) (sv_data_len out) [0xDE, 0xAD, 0xBE, 0xEF] \<and>
          sv_sequence out = 42 \<and> sv_expected_sequence out = 100
        | _ \<Rightarrow> False)"

text \<open>
  The builder of WRITE_KEY takes two optional fields; the masks are lcs-core's constants
  \<open>RSI_WRITE_KEY_FIELD_SD\<close> and \<open>RSI_WRITE_KEY_FIELD_LAST_WRITE_TIME\<close>.
\<close>

definition write_key_message :: "u32 \<Rightarrow> u32 \<Rightarrow> guid \<Rightarrow> u8 list option \<Rightarrow> u64 option \<Rightarrow> message" where
  "write_key_message f_sd f_time g sd time = Msg_write_key g
     ((if sd = None then 0 else f_sd) OR (if time = None then 0 else f_time))
     sd (case time of Some t \<Rightarrow> t | None \<Rightarrow> 0)"

definition write_key_options_roundtrip :: "env \<Rightarrow> builder \<Rightarrow> u32 \<Rightarrow> u32 \<Rightarrow> bool" where
  "write_key_options_roundtrip E W f_sd f_time \<longleftrightarrow>
     roundtrip E (W 1 0 (write_key_message f_sd f_time (fill 2) (Some [0x11, 0x22, 0x33]) None)) RSI_WRITE_KEY
       (\<lambda>req c h. case c of WriteKey out \<Rightarrow> wk_field_mask out = f_sd \<and>
          field_is h (wk_sd out) (wk_sd_len out) [0x11, 0x22, 0x33] \<and> wk_last_write_time out = 0 \<and>
          wk_field_mask out AND f_time = 0
        | _ \<Rightarrow> False) \<and>
     roundtrip E (W 2 0 (write_key_message f_sd f_time (fill 3) None (Some 0x1122334455667788))) RSI_WRITE_KEY
       (\<lambda>req c h. case c of WriteKey out \<Rightarrow> wk_field_mask out = f_time \<and> wk_sd out = NULL \<and> wk_sd_len out = 0 \<and>
          wk_last_write_time out = 0x1122334455667788
        | _ \<Rightarrow> False) \<and>
     roundtrip E (W 3 0 (write_key_message f_sd f_time (fill 4) (Some [0x44, 0x55]) (Some 0x8877665544332211))) RSI_WRITE_KEY
       (\<lambda>req c h. case c of WriteKey out \<Rightarrow> wk_field_mask out = f_sd OR f_time \<and>
          field_is h (wk_sd out) (wk_sd_len out) [0x44, 0x55] \<and> wk_last_write_time out = 0x8877665544332211
        | _ \<Rightarrow> False)"

definition begin_transaction_roundtrips :: "env \<Rightarrow> builder \<Rightarrow> bool" where
  "begin_transaction_roundtrips E W \<longleftrightarrow>
     roundtrip E (W 5 0 (Msg_begin_transaction 99 (txn_mode_code E ReadOnly))) RSI_BEGIN_TRANSACTION
       (\<lambda>req c h. case c of BeginTransaction out \<Rightarrow> bx_transaction_id out = 99 \<and> bx_mode out = 1 | _ \<Rightarrow> False) \<and>
     roundtrip E (W 6 0 (Msg_begin_transaction 100 (txn_mode_code E ReadWrite))) RSI_BEGIN_TRANSACTION
       (\<lambda>req c h. case c of BeginTransaction out \<Rightarrow> bx_transaction_id out = 100 \<and> bx_mode out = 0 | _ \<Rightarrow> False)"

definition entry_request_decoders_roundtrip :: "env \<Rightarrow> builder \<Rightarrow> bool" where
  "entry_request_decoders_roundtrip E W \<longleftrightarrow>
     roundtrip E (W 10 4 (Msg_create_entry (fill 0x10) (bstr ''Child'') (bstr ''base'') (fill 0x11) 55)) RSI_CREATE_ENTRY
       (\<lambda>req c h. case c of CreateEntry out \<Rightarrow> ce_parent_guid out = fill 0x10 \<and> ce_child_guid out = fill 0x11 \<and>
          field_is h (ce_child_name out) (ce_child_name_len out) (bstr ''Child'') \<and>
          field_is h (ce_layer_name out) (ce_layer_name_len out) (bstr ''base'') \<and> ce_sequence out = 55
        | _ \<Rightarrow> False) \<and>
     roundtrip E (W 11 4 (Msg_hide_entry (fill 0x20) (bstr ''Hidden'') (bstr ''mask'') 56)) RSI_HIDE_ENTRY
       (\<lambda>req c h. case c of HideEntry out \<Rightarrow> he_parent_guid out = fill 0x20 \<and>
          field_is h (he_child_name out) (he_child_name_len out) (bstr ''Hidden'') \<and>
          field_is h (he_layer_name out) (he_layer_name_len out) (bstr ''mask'') \<and> he_sequence out = 56
        | _ \<Rightarrow> False) \<and>
     roundtrip E (W 12 4 (Msg_delete_entry (fill 0x30) (bstr ''Dead'') (bstr ''overlay''))) RSI_DELETE_ENTRY
       (\<lambda>req c h. case c of DeleteEntry out \<Rightarrow> de_parent_guid out = fill 0x30 \<and>
          field_is h (de_child_name out) (de_child_name_len out) (bstr ''Dead'') \<and>
          field_is h (de_layer_name out) (de_layer_name_len out) (bstr ''overlay'')
        | _ \<Rightarrow> False) \<and>
     roundtrip E (W 13 4 (Msg_enum_children (fill 0x40))) RSI_ENUM_CHILDREN
       (\<lambda>req c h. case c of EnumChildren out \<Rightarrow> ec_parent_guid out = fill 0x40 | _ \<Rightarrow> False)"

definition key_request_decoders_roundtrip :: "env \<Rightarrow> builder \<Rightarrow> bool" where
  "key_request_decoders_roundtrip E W \<longleftrightarrow>
     roundtrip E (W 14 4 (Msg_create_key (fill 0x50) (bstr ''Key'') (fill 0x51) [0xAA, 0xBB] True False)) RSI_CREATE_KEY
       (\<lambda>req c h. case c of CreateKey out \<Rightarrow> ck_guid out = fill 0x50 \<and> ck_parent_guid out = fill 0x51 \<and>
          field_is h (ck_name out) (ck_name_len out) (bstr ''Key'') \<and>
          field_is h (ck_sd out) (ck_sd_len out) [0xAA, 0xBB] \<and> ck_volatile_key out = 1 \<and> ck_symlink out = 0
        | _ \<Rightarrow> False) \<and>
     roundtrip E (W 24 4 (Msg_create_key (fill 0x52) (bstr ''Link'') (fill 0x53) [0xCC] False True)) RSI_CREATE_KEY
       (\<lambda>req c h. case c of CreateKey out \<Rightarrow>
          field_is h (ck_name out) (ck_name_len out) (bstr ''Link'') \<and>
          field_is h (ck_sd out) (ck_sd_len out) [0xCC] \<and> ck_volatile_key out = 0 \<and> ck_symlink out = 1
        | _ \<Rightarrow> False) \<and>
     roundtrip E (W 15 4 (Msg_read_key (fill 0x60))) RSI_READ_KEY
       (\<lambda>req c h. case c of KeyGuid out \<Rightarrow> kg_guid out = fill 0x60 | _ \<Rightarrow> False) \<and>
     roundtrip E (W 16 4 (Msg_drop_key (fill 0x61))) RSI_DROP_KEY
       (\<lambda>req c h. case c of KeyGuid out \<Rightarrow> kg_guid out = fill 0x61 | _ \<Rightarrow> False)"

definition value_request_decoders_roundtrip :: "env \<Rightarrow> builder \<Rightarrow> bool" where
  "value_request_decoders_roundtrip E W \<longleftrightarrow>
     roundtrip E (W 17 4 (Msg_query_values (fill 0x70) (bstr ''Value'') False)) RSI_QUERY_VALUES
       (\<lambda>req c h. case c of QueryValues out \<Rightarrow> qv_guid out = fill 0x70 \<and>
          field_is h (qv_value_name out) (qv_value_name_len out) (bstr ''Value'') \<and> qv_query_all out = 0
        | _ \<Rightarrow> False) \<and>
     roundtrip E (W 25 4 (Msg_query_values (fill 0x71) [] True)) RSI_QUERY_VALUES
       (\<lambda>req c h. case c of QueryValues out \<Rightarrow> qv_guid out = fill 0x71 \<and> qv_value_name_len out = 0 \<and>
          qv_query_all out = 1
        | _ \<Rightarrow> False) \<and>
     roundtrip E (W 18 4 (Msg_delete_value_entry (fill 0x80) (bstr ''Value'') (bstr ''base''))) RSI_DELETE_VALUE_ENTRY
       (\<lambda>req c h. case c of DeleteValueEntry out \<Rightarrow> dv_guid out = fill 0x80 \<and>
          field_is h (dv_value_name out) (dv_value_name_len out) (bstr ''Value'') \<and>
          field_is h (dv_layer_name out) (dv_layer_name_len out) (bstr ''base'')
        | _ \<Rightarrow> False) \<and>
     roundtrip E (W 19 4 (Msg_set_blanket_tombstone (fill 0x90) (bstr ''mask'') True 57)) RSI_SET_BLANKET_TOMBSTONE
       (\<lambda>req c h. case c of SetBlanketTombstone out \<Rightarrow> bt_guid out = fill 0x90 \<and>
          field_is h (bt_layer_name out) (bt_layer_name_len out) (bstr ''mask'') \<and> bt_set out = 1 \<and> bt_sequence out = 57
        | _ \<Rightarrow> False) \<and>
     roundtrip E (W 26 4 (Msg_set_blanket_tombstone (fill 0x91) (bstr ''mask'') False 58)) RSI_SET_BLANKET_TOMBSTONE
       (\<lambda>req c h. case c of SetBlanketTombstone out \<Rightarrow> bt_guid out = fill 0x91 \<and>
          field_is h (bt_layer_name out) (bt_layer_name_len out) (bstr ''mask'') \<and> bt_set out = 0 \<and> bt_sequence out = 58
        | _ \<Rightarrow> False)"

definition transaction_and_name_request_decoders_roundtrip :: "env \<Rightarrow> builder \<Rightarrow> bool" where
  "transaction_and_name_request_decoders_roundtrip E W \<longleftrightarrow>
     roundtrip E (W 20 4 (Msg_commit_transaction 0x1234)) RSI_COMMIT_TRANSACTION
       (\<lambda>req c h. case c of Transaction out \<Rightarrow> tx_transaction_id out = 0x1234 | _ \<Rightarrow> False) \<and>
     roundtrip E (W 21 4 (Msg_abort_transaction 0x5678)) RSI_ABORT_TRANSACTION
       (\<lambda>req c h. case c of Transaction out \<Rightarrow> tx_transaction_id out = 0x5678 | _ \<Rightarrow> False) \<and>
     roundtrip E (W 22 4 (Msg_delete_layer (bstr ''overlay''))) RSI_DELETE_LAYER
       (\<lambda>req c h. case c of Name out \<Rightarrow> field_is h (nm_name out) (nm_name_len out) (bstr ''overlay'') | _ \<Rightarrow> False) \<and>
     roundtrip E (W 23 4 (Msg_flush (bstr ''Machine''))) RSI_FLUSH
       (\<lambda>req c h. case c of Name out \<Rightarrow> field_is h (nm_name out) (nm_name_len out) (bstr ''Machine'') | _ \<Rightarrow> False)"

definition mismatched_decoder_is_einval :: "env \<Rightarrow> builder \<Rightarrow> bool" where
  "mismatched_decoder_is_einval E W =
     (case Option.bind (W 7 3 (Msg_lookup (fill 0xAB) (bstr ''Software''))) (\<lambda>frame. parse E frame (zeroed RSI_READ_KEY)) of
        None \<Rightarrow> False
      | Some (req, s) \<Rightarrow>
          (case rsi_request_read_key E req_p out_p s of
             Done rc s' \<Rightarrow> rc = -1 \<and> errno s' = EINVAL
           | _ \<Rightarrow> False))"

section \<open>What the tests rely on\<close>

text \<open>lcs-core reads the frame, at its address, as the message it was built from.\<close>

definition reads :: "env \<Rightarrow> u64 \<Rightarrow> u64 \<Rightarrow> message \<Rightarrow> u8 list \<Rightarrow> bool" where
  "reads E rid txn m frame \<longleftrightarrow> 22 \<le> length frame \<and> length frame < 2 ^ 32 \<and>
     parse_rsi_request_header E \<lparr>as_ptr = frame_p, bytes_of = frame\<rparr> =
       Some \<lparr>hd_request_id = rid, hd_txn_id = txn, hd_op_code = ucast (code_of E (msg_op m))\<rparr> \<and>
     msg_of E (msg_op m) \<lparr>as_ptr = frame_p + 22, bytes_of = drop 22 frame\<rparr> = Some m"

definition built_ok :: "env \<Rightarrow> builder \<Rightarrow> u64 \<times> u64 \<times> message \<Rightarrow> bool" where
  "built_ok E W = (\<lambda>(rid, txn, m). case W rid txn m of None \<Rightarrow> False | Some frame \<Rightarrow> reads E rid txn m frame)"

text \<open>The messages the tests build.\<close>

definition test_requests :: "env \<Rightarrow> u32 \<Rightarrow> u32 \<Rightarrow> (u64 \<times> u64 \<times> message) list" where
  "test_requests E f_sd f_time =
     [(7, 3, Msg_lookup (fill 0xAB) (bstr ''Software'')),
      (9, 0, Msg_set_value (fill 1) (bstr ''Color'') (bstr ''base'') 3 [0xDE, 0xAD, 0xBE, 0xEF] 42 100),
      (1, 0, write_key_message f_sd f_time (fill 2) (Some [0x11, 0x22, 0x33]) None),
      (2, 0, write_key_message f_sd f_time (fill 3) None (Some 0x1122334455667788)),
      (3, 0, write_key_message f_sd f_time (fill 4) (Some [0x44, 0x55]) (Some 0x8877665544332211)),
      (5, 0, Msg_begin_transaction 99 (txn_mode_code E ReadOnly)),
      (6, 0, Msg_begin_transaction 100 (txn_mode_code E ReadWrite)),
      (10, 4, Msg_create_entry (fill 0x10) (bstr ''Child'') (bstr ''base'') (fill 0x11) 55),
      (11, 4, Msg_hide_entry (fill 0x20) (bstr ''Hidden'') (bstr ''mask'') 56),
      (12, 4, Msg_delete_entry (fill 0x30) (bstr ''Dead'') (bstr ''overlay'')),
      (13, 4, Msg_enum_children (fill 0x40)),
      (14, 4, Msg_create_key (fill 0x50) (bstr ''Key'') (fill 0x51) [0xAA, 0xBB] True False),
      (24, 4, Msg_create_key (fill 0x52) (bstr ''Link'') (fill 0x53) [0xCC] False True),
      (15, 4, Msg_read_key (fill 0x60)),
      (16, 4, Msg_drop_key (fill 0x61)),
      (17, 4, Msg_query_values (fill 0x70) (bstr ''Value'') False),
      (25, 4, Msg_query_values (fill 0x71) [] True),
      (18, 4, Msg_delete_value_entry (fill 0x80) (bstr ''Value'') (bstr ''base'')),
      (19, 4, Msg_set_blanket_tombstone (fill 0x90) (bstr ''mask'') True 57),
      (26, 4, Msg_set_blanket_tombstone (fill 0x91) (bstr ''mask'') False 58),
      (20, 4, Msg_commit_transaction 0x1234),
      (21, 4, Msg_abort_transaction 0x5678),
      (22, 4, Msg_delete_layer (bstr ''overlay'')),
      (23, 4, Msg_flush (bstr ''Machine''))]"

text \<open>lcs-core's builders and parsers agree on those, its parsers borrow, its constants are as documented.\<close>

definition lcs_agrees :: "env \<Rightarrow> builder \<Rightarrow> u32 \<Rightarrow> u32 \<Rightarrow> bool" where
  "lcs_agrees E W f_sd f_time \<longleftrightarrow> parsers_borrow E \<and> op_codes_distinct E \<and> RSI_REQUEST_HEADER_SIZE E = 22 \<and>
     txn_mode_code E ReadOnly = 1 \<and> txn_mode_code E ReadWrite = 0 \<and> f_sd AND f_time = 0 \<and>
     list_all (built_ok E W) (test_requests E f_sd f_time)"

section \<open>The round trip in general\<close>

lemma frame_locals_read:
  assumes "length frame < 2 ^ 32"
  shows "read_bytes (frame_locals frame out) frame_p (length frame) = Some frame"
proof -
  have "frame_p + of_nat i \<noteq> req_p" "frame_p + of_nat i \<noteq> out_p" if "i < length frame" for i
    using that assms ptr_offset_inj [of "0xFF00 + i" 0 req_p] ptr_offset_inj [of "0xF800 + i" 0 out_p]
    by (simp_all add: add.assoc [symmetric])
  then have "read_bytes (frame_locals frame out) frame_p (length frame) =
      read_bytes (put_bytes Map.empty frame_p frame) frame_p (length frame)"
    by (intro read_bytes_cong) (auto simp: frame_locals_def)
  then show ?thesis using read_put_bytes [of frame] assms by simp
qed

lemma parse_built:
  assumes "reads E rid txn m frame" "RSI_REQUEST_HEADER_SIZE E = 22"
  shows "\<exists>req. parse E frame out = Some (req, test_world ((frame_locals frame out)(req_p \<mapsto> Request req))) \<and>
    request_id req = rid \<and> txn_id req = txn \<and> op_code req = ucast (code_of E (msg_op m)) \<and>
    payload req = frame_p + 22 \<and> unat (payload_len req) = length frame - 22 \<and>
    read_bytes ((frame_locals frame out)(req_p \<mapsto> Request req)) (frame_p + 22) (length frame - 22) = Some (drop 22 frame)"
proof -
  let ?h = "frame_locals frame out" and ?len = "of_nat (length frame) :: u64"
  let ?req = "\<lparr>request_id = rid, txn_id = txn, payload = frame_p + 22, payload_len = ucast (?len - 22),
    op_code = ucast (code_of E (msg_op m))\<rparr>"
  have n: "22 \<le> length frame" "length frame < 2 ^ 32" using assms(1) by (simp_all add: reads_def)
  then have len: "unat ?len = length frame" by (intro unat_of_nat_u64) simp
  have req: "?h req_p = Some (Request (fake_request 0 0))" by (simp add: frame_locals_def)
  have rd: "read_bytes ?h frame_p (unat ?len) = Some frame" using frame_locals_read [OF n(2)] len by simp
  have "rsi_parse_request E frame_p ?len req_p (test_world ?h) = Done 0 (test_world (?h(req_p \<mapsto> Request ?req)))"
    using rsi_parse_request_eq [of req_p "test_world ?h" "fake_request 0 0" frame_p ?len frame E] req rd assms
    by (simp add: reads_def test_world_def len)
  moreover have "unat (payload_len ?req) = length frame - 22"
    using n len by (simp add: unat_ucast_u64_u32 unat_sub word_le_nat_alt)
  moreover have "read_bytes ?h (frame_p + of_nat 22) (length frame - 22) = Some (drop 22 frame)"
    using read_bytes_sub [OF rd, of 22 "length frame - 22"] n len by simp
  then have "read_bytes (?h(req_p \<mapsto> Request ?req)) (frame_p + 22) (length frame - 22) = Some (drop 22 frame)"
    using read_bytes_upd [of ?h req_p] req by (simp add: as_Byte_def)
  ultimately show ?thesis by (auto simp: parse_def)
qed

lemma zeroed_typed: "out_typed op (zeroed op)"
  by (cases op) simp_all

text \<open>A built message comes out of parsing and decoding as that message.\<close>

lemma roundtripI:
  assumes "lcs_agrees E W f_sd f_time" "(rid, txn, m) \<in> set (test_requests E f_sd f_time)" "op = msg_op m"
    and "\<And>req c h. request_id req = rid \<Longrightarrow> txn_id req = txn \<Longrightarrow> view h op c = Some m \<Longrightarrow> check req c h"
  shows "roundtrip E (W rid txn m) op check"
proof -
  obtain frame where w: "W rid txn m = Some frame" and rd: "reads E rid txn m frame"
    using assms(1,2) by (fastforce simp: lcs_agrees_def list_all_iff built_ok_def split: option.splits)
  have E: "parsers_borrow E" "RSI_REQUEST_HEADER_SIZE E = 22" using assms(1) by (simp_all add: lcs_agrees_def)
  obtain req where req: "parse E frame (zeroed op) = Some (req, test_world ((frame_locals frame (zeroed op))(req_p \<mapsto> Request req)))"
    and r: "request_id req = rid" "txn_id req = txn" "op_code req = ucast (code_of E op)" "payload req = frame_p + 22"
      "unat (payload_len req) = length frame - 22"
      "read_bytes ((frame_locals frame (zeroed op))(req_p \<mapsto> Request req)) (frame_p + 22) (length frame - 22) = Some (drop 22 frame)"
    using parse_built [OF rd E(2), of "zeroed op"] unfolding assms(3) by blast
  let ?s = "test_world ((frame_locals frame (zeroed op))(req_p \<mapsto> Request req))"
  have "length frame < 2 ^ 32" using rd by (simp add: reads_def)
  then have wrap: "unat (payload req) + unat (payload_len req) < 2 ^ 64" using r(4,5) by simp
  have "msg_of E op \<lparr>as_ptr = payload req, bytes_of = drop 22 frame\<rparr> = Some m"
    using rd r(4) by (simp add: reads_def assms(3))
  moreover have "mem ?s out_p = Some (zeroed op)" by (simp add: frame_locals_def)
  ultimately obtain c' where "decoder_of op E req_p out_p ?s = Done 0 (?s\<lparr>mem := (mem ?s)(out_p \<mapsto> c')\<rparr>)"
    and "view ((mem ?s)(out_p \<mapsto> c')) op c' = Some m"
    using decoders_refine_messages [OF E(1) _ _ _ _ _ wrap, of req_p ?s op "drop 22 frame" out_p "zeroed op"] r
      zeroed_typed [of op] by auto
  then show ?thesis using assms(4) r(1,2) by (simp add: roundtrip_def w req)
qed

section \<open>All pass\<close>

lemmas test_messages = test_requests_def view.simps Option.bind_eq_Some_conv cell_simps c_bytes_def c_optional_def
  c_bool_def field_is_def write_key_message_def

lemma request_roundtrips_pass:
  assumes "lcs_agrees E W f_sd f_time"
  shows "lookup_roundtrips E W" "set_value_roundtrips E W" "begin_transaction_roundtrips E W"
    "write_key_options_roundtrip E W f_sd f_time"
  using assms
  unfolding lookup_roundtrips_def set_value_roundtrips_def begin_transaction_roundtrips_def write_key_options_roundtrip_def
  by (intro conjI roundtripI [OF assms]; auto simp: test_messages lcs_agrees_def split: if_splits)+

lemma read_bytes_empty: "read_bytes h p (unat n) = Some [] \<Longrightarrow> (n :: u32) = 0"
  using read_bytes_length [of h p "unat n" "[]"] by (simp add: unat_eq_zero)

lemma decoder_groups_pass:
  assumes "lcs_agrees E W f_sd f_time"
  shows "entry_request_decoders_roundtrip E W" "key_request_decoders_roundtrip E W"
    "value_request_decoders_roundtrip E W" "transaction_and_name_request_decoders_roundtrip E W"
  unfolding entry_request_decoders_roundtrip_def key_request_decoders_roundtrip_def
    value_request_decoders_roundtrip_def transaction_and_name_request_decoders_roundtrip_def
  by (intro conjI roundtripI [OF assms]; auto simp: test_messages dest: read_bytes_empty split: if_splits)+

lemma mismatched_decoder_passes:
  assumes "lcs_agrees E W f_sd f_time"
  shows "mismatched_decoder_is_einval E W"
proof -
  let ?m = "Msg_lookup (fill 0xAB) (bstr ''Software'')"
  have E: "op_codes_distinct E" "RSI_REQUEST_HEADER_SIZE E = 22" "built_ok E W (7, 3, ?m)"
    using assms by (simp_all add: lcs_agrees_def test_requests_def)
  then obtain frame where w: "W 7 3 ?m = Some frame" and rd: "reads E 7 3 ?m frame"
    by (auto simp: built_ok_def split: option.splits)
  obtain req where p: "parse E frame (zeroed RSI_READ_KEY) =
      Some (req, test_world ((frame_locals frame (zeroed RSI_READ_KEY))(req_p \<mapsto> Request req)))"
    and "op_code req = ucast (code_of E RSI_LOOKUP)"
    using parse_built [OF rd E(2), of "zeroed RSI_READ_KEY"] by auto
  with E(1) have "op_code req \<noteq> ucast (code_of E RSI_READ_KEY)"
    by (auto simp: op_codes_distinct_def dest: injD)
  with decoders.dec_wrong_op [of req_p "test_world ((frame_locals frame (zeroed RSI_READ_KEY))(req_p \<mapsto> Request req))" req E
      RSI_READ_KEY out_p]
  show ?thesis by (simp add: mismatched_decoder_is_einval_def w p del: zeroed.simps)
qed

text \<open>
  C26. The round-trip tests of \<open>request.rs\<close> pass: for every lcs-core whose parsers read back the
  messages its builders wrote in the tests, each of the 18 decoders, called through the C
  interface on the parsed frame, fills its struct with the values the frame was built from, names
  and data byte for byte, absent WRITE_KEY fields as NULL or 0, and the decoder of another op
  refuses the frame with \<open>EINVAL\<close>.
\<close>

theorem request_tests_pass:
  assumes "lcs_agrees E W f_sd f_time"
  shows "lookup_roundtrips E W \<and> set_value_roundtrips E W \<and> write_key_options_roundtrip E W f_sd f_time \<and>
    begin_transaction_roundtrips E W \<and> entry_request_decoders_roundtrip E W \<and> key_request_decoders_roundtrip E W \<and>
    value_request_decoders_roundtrip E W \<and> transaction_and_name_request_decoders_roundtrip E W \<and>
    mismatched_decoder_is_einval E W"
  by (intro conjI request_roundtrips_pass [OF assms] decoder_groups_pass [OF assms] mismatched_decoder_passes [OF assms])

section \<open>An lcs-core that agrees\<close>

text \<open>
  A concrete builder and parsers for all 18 messages, little-endian with length-prefixed fields,
  on which the assumptions of the tests hold.
\<close>

definition guid_at :: "slice \<Rightarrow> nat \<Rightarrow> guid" where
  "guid_at p i = guid_of (take 16 (drop i (bytes_of p)))"

definition bool_at :: "slice \<Rightarrow> nat \<Rightarrow> bool" where
  "bool_at p i = (take 1 (drop i (bytes_of p)) = [1])"

definition put_lpf :: "u8 list \<Rightarrow> u8 list" where
  "put_lpf bs = le32 (of_nat (length bs)) @ bs"

definition put_bool :: "bool \<Rightarrow> u8 list" where
  "put_bool b = [if b then 1 else 0]"

fun ex_payload :: "message \<Rightarrow> u8 list" where
  "ex_payload (Msg_lookup g n) = guid_bytes g @ put_lpf n"
| "ex_payload (Msg_create_entry g n l c s) = guid_bytes g @ put_lpf n @ put_lpf l @ guid_bytes c @ le64 s"
| "ex_payload (Msg_hide_entry g n l s) = guid_bytes g @ put_lpf n @ put_lpf l @ le64 s"
| "ex_payload (Msg_delete_entry g n l) = guid_bytes g @ put_lpf n @ put_lpf l"
| "ex_payload (Msg_enum_children g) = guid_bytes g"
| "ex_payload (Msg_create_key g n c sd v l) = guid_bytes g @ put_lpf n @ guid_bytes c @ put_lpf sd @ put_bool v @ put_bool l"
| "ex_payload (Msg_read_key g) = guid_bytes g"
| "ex_payload (Msg_drop_key g) = guid_bytes g"
| "ex_payload (Msg_write_key g k sd t) = guid_bytes g @ le32 k @ (case sd of Some bs \<Rightarrow> put_lpf bs | None \<Rightarrow> []) @ le64 t"
| "ex_payload (Msg_query_values g n q) = guid_bytes g @ put_lpf n @ put_bool q"
| "ex_payload (Msg_set_value g n l k d s x) = guid_bytes g @ put_lpf n @ put_lpf l @ le32 k @ put_lpf d @ le64 s @ le64 x"
| "ex_payload (Msg_delete_value_entry g n l) = guid_bytes g @ put_lpf n @ put_lpf l"
| "ex_payload (Msg_set_blanket_tombstone g l b s) = guid_bytes g @ put_lpf l @ put_bool b @ le64 s"
| "ex_payload (Msg_begin_transaction i k) = le64 i @ le32 k"
| "ex_payload (Msg_commit_transaction i) = le64 i"
| "ex_payload (Msg_abort_transaction i) = le64 i"
| "ex_payload (Msg_delete_layer n) = put_lpf n"
| "ex_payload (Msg_flush n) = put_lpf n"

definition ex_build :: builder where
  "ex_build rid txn m = Some (le32 (of_nat (22 + length (ex_payload m))) @ le64 rid @
     le16 (ucast (ex_code (msg_op m))) @ le64 txn @ ex_payload m)"

definition two_fields :: "slice \<Rightarrow> (RsiLengthPrefixedField \<times> RsiLengthPrefixedField \<times> nat) option" where
  "two_fields p = Option.bind (field_at p 16) (\<lambda>(a, i). Option.bind (field_at p i) (\<lambda>(b, j). Some (a, b, j)))"

definition ex_lcs :: env where
  "ex_lcs = ex_env\<lparr>
     parse_rsi_create_entry_request_payload := (\<lambda>p. map_option (\<lambda>(a, b, j). \<lparr>pce_parent_guid = guid_at p 0,
       pce_child_guid = guid_at p j, pce_child_name = a, pce_layer_name = b, pce_sequence = u64_at p (j + 16)\<rparr>) (two_fields p)),
     parse_rsi_hide_entry_request_payload := (\<lambda>p. map_option (\<lambda>(a, b, j). \<lparr>phe_parent_guid = guid_at p 0,
       phe_child_name = a, phe_layer_name = b, phe_sequence = u64_at p j\<rparr>) (two_fields p)),
     parse_rsi_delete_entry_request_payload := (\<lambda>p. map_option (\<lambda>(a, b, j). \<lparr>pde_parent_guid = guid_at p 0,
       pde_child_name = a, pde_layer_name = b\<rparr>) (two_fields p)),
     parse_rsi_enum_children_request_payload := (\<lambda>p. Some \<lparr>pec_parent_guid = guid_at p 0\<rparr>),
     parse_rsi_create_key_request_payload := (\<lambda>p. Option.bind (field_at p 16) (\<lambda>(a, i).
       map_option (\<lambda>(b, j). \<lparr>pck_guid = guid_at p 0, pck_parent_guid = guid_at p i, pck_name = a, pck_sd = b,
         pck_volatile = bool_at p j, pck_symlink = bool_at p (j + 1)\<rparr>) (field_at p (i + 16)))),
     parse_rsi_write_key_request_payload := (\<lambda>p. let k = u32_at p 16 in
       if k AND 1 = 0 then Some \<lparr>pwk_guid = guid_at p 0, pwk_field_mask = k, pwk_sd = None, pwk_last_write_time = Some (u64_at p 20)\<rparr>
       else map_option (\<lambda>(a, i). \<lparr>pwk_guid = guid_at p 0, pwk_field_mask = k, pwk_sd = Some a,
         pwk_last_write_time = (if k AND 2 = 0 then None else Some (u64_at p i))\<rparr>) (field_at p 20)),
     parse_rsi_query_values_request_payload := (\<lambda>p. map_option (\<lambda>(a, i). \<lparr>pqv_guid = guid_at p 0, pqv_value_name = a,
       pqv_query_all = bool_at p i\<rparr>) (field_at p 16)),
     parse_rsi_delete_value_entry_request_payload := (\<lambda>p. map_option (\<lambda>(a, b, j). \<lparr>pdv_guid = guid_at p 0,
       pdv_value_name = a, pdv_layer_name = b\<rparr>) (two_fields p)),
     parse_rsi_set_blanket_tombstone_request_payload := (\<lambda>p. map_option (\<lambda>(a, i). \<lparr>pbt_guid = guid_at p 0,
       pbt_layer_name = a, pbt_set = bool_at p i, pbt_sequence = u64_at p (i + 1)\<rparr>) (field_at p 16)),
     parse_rsi_begin_transaction_request_payload := (\<lambda>p. Some \<lparr>pbx_transaction_id = u64_at p 0,
       pbx_mode = (if u32_at p 8 = 0 then ReadWrite else ReadOnly)\<rparr>),
     parse_rsi_commit_transaction_request_payload := (\<lambda>p. Some \<lparr>ptx_transaction_id = u64_at p 0\<rparr>),
     parse_rsi_abort_transaction_request_payload := (\<lambda>p. Some \<lparr>ptx_transaction_id = u64_at p 0\<rparr>)\<rparr>"

text \<open>The agreement with a small bound on the frame, which evaluates.\<close>

definition built_small :: "env \<Rightarrow> builder \<Rightarrow> u64 \<times> u64 \<times> message \<Rightarrow> bool" where
  "built_small E W = (\<lambda>(rid, txn, m). case W rid txn m of None \<Rightarrow> False | Some frame \<Rightarrow>
     22 \<le> length frame \<and> length frame \<le> 200 \<and>
     parse_rsi_request_header E \<lparr>as_ptr = frame_p, bytes_of = frame\<rparr> =
       Some \<lparr>hd_request_id = rid, hd_txn_id = txn, hd_op_code = ucast (code_of E (msg_op m))\<rparr> \<and>
     msg_of E (msg_op m) \<lparr>as_ptr = frame_p + 22, bytes_of = drop 22 frame\<rparr> = Some m)"

lemma built_small_ok: "built_small E W r \<Longrightarrow> built_ok E W r"
  by (auto simp: built_small_def built_ok_def reads_def split: option.splits)

lemma ex_built_a: "list_all (built_small ex_lcs ex_build) (take 6 (drop 0 (test_requests ex_lcs 1 2)))"
  by code_simp

lemma ex_built_b: "list_all (built_small ex_lcs ex_build) (take 6 (drop 6 (test_requests ex_lcs 1 2)))"
  by code_simp

lemma ex_built_c: "list_all (built_small ex_lcs ex_build) (take 6 (drop 12 (test_requests ex_lcs 1 2)))"
  by code_simp

lemma ex_built_d: "list_all (built_small ex_lcs ex_build) (take 6 (drop 18 (test_requests ex_lcs 1 2)))"
  by code_simp

lemma ex_built: "list_all (built_ok ex_lcs ex_build) (test_requests ex_lcs 1 2)"
proof -
  let ?rs = "test_requests ex_lcs 1 2"
  have "?rs = take 6 (drop 0 ?rs) @ take 6 (drop 6 ?rs) @ take 6 (drop 12 ?rs) @ take 6 (drop 18 ?rs)"
    by (simp add: test_requests_def)
  then have "list_all (built_small ex_lcs ex_build) ?rs"
    using ex_built_a ex_built_b ex_built_c ex_built_d by (metis list_all_append)
  then show ?thesis using built_small_ok by (auto simp: list_all_iff)
qed

lemma two_fields_borrow: "two_fields p = Some (a, b, j) \<Longrightarrow> borrows_from p a \<and> borrows_from p b"
  by (auto simp: two_fields_def Option.bind_eq_Some_conv dest: field_at_borrows)

lemma ex_lcs_borrows: "parsers_borrow ex_lcs"
  using ex_env_borrows
  by (auto simp: parsers_borrow_def ex_lcs_def Let_def Option.bind_eq_Some_conv dest!: field_at_borrows two_fields_borrow
      split: if_splits)

lemma ex_lcs_agrees: "lcs_agrees ex_lcs ex_build 1 2"
  using ex_built ex_lcs_borrows ex_env_op_codes by (simp add: lcs_agrees_def ex_lcs_def op_codes_distinct_def)

theorem request_tests_pass_witness:
  "lookup_roundtrips ex_lcs ex_build \<and> write_key_options_roundtrip ex_lcs ex_build 1 2 \<and>
   transaction_and_name_request_decoders_roundtrip ex_lcs ex_build"
  using request_tests_pass [OF ex_lcs_agrees] by blast

end
