(* ===== verification/Response_Tests.thy ===== *)
theory Response_Tests
  imports Request_Tests
begin

text \<open>
  The round-trip tests of \<open>response.rs\<close>: a responder writes into a pipe, a second thread drains
  the pipe in chunks, and lcs-core's response parsers read the collected bytes. The pipe is
  modelled with its chunking and its failures; lcs-core's response side is a parameter \<open>L\<close> about
  which nothing is assumed. What is proved is what the tests decide: each passes exactly when
  lcs-core reads one particular frame, written down in the wire format of \<open>Wire\<close>, as the test
  expects.
\<close>

section \<open>A pipe and its reader\<close>





text \<open>The bytes the kernel took from the writes to a descriptor.\<close>

fun written_to :: "c_int \<Rightarrow> systrace \<Rightarrow> u8 list" where
  "written_to fd [] = []"
| "written_to fd ((Sys_write fd' bs, r) # tr) =
     (if fd' = fd then take (nat (sys_ret r)) bs else []) @ written_to fd tr"
| "written_to fd (_ # tr) = written_to fd tr"


section \<open>What lcs-core returns\<close>









section \<open>The tests\<close>



























section \<open>The pipe delivers\<close>

lemma written_to_append [simp]: "written_to fd (tr @ tr') = written_to fd tr @ written_to fd tr'"
  by (induction fd tr rule: written_to.induct) simp_all




section \<open>The frames of the tests\<close>















section \<open>Running the tests\<close>


















subsection \<open>An instance\<close>


















end
