(* ===== verification/Spec2Isabelle.thy ===== *)
theory Spec2Isabelle
  imports Server Cost Headers Crate Response_Tests
begin

text \<open>
  \<^bold>\<open>librsi: a verification development.\<close>

  librsi is the C ABI library a registry source links against. It registers a process as the
  backend of some registry hives, splits and decodes the framed requests the kernel sends on
  the source descriptor, and builds and sends the framed responses. It keeps no state of its
  own between calls; its state is the caller's memory, \<open>errno\<close>, the descriptors, and the heap
  buffers of one call.

  \<^bold>\<open>Parts and theories.\<close>

  \<^item> \<open>Prelude\<close>: machine types, \<open>errno\<close> values, \<open>Result\<close>, little-endian byte strings.
  \<^item> \<open>Guid\<close>: 16-byte GUIDs with their byte-wise order; \<open>sort_unstable\<close>, \<open>dedup\<close>,
    \<open>windows(2)\<close>, \<open>chunks_exact(16)\<close>.
  \<^item> \<open>Abi\<close>: every \<open>repr(C)\<close> struct of \<open>src/src/{request,response,source}.rs\<close> as a record, their
    sizes by the C layout rules, and a typed memory (a map from addresses to cells, one cell
    for a byte or a struct) with byte ranges and arrays.
  \<^item> \<open>External\<close>: what is not in the repository, as the fields of a record \<open>env\<close> every definition
    takes: the constants of peios-uapi, the parsers and status vocabulary of lcs-core,
    \<open>try_extend\<close> of peios-cabi, the allocator and the kernel, with the documented behaviour the
    code relies on as named predicates. \<open>Instances\<close> gives one concrete environment.
  \<^item> \<open>Machine\<close>: computations over the world (memory, \<open>errno\<close>, system-call trace, allocator
    requests) with three outcomes, a result, undefined behaviour, or abort; the \<open>?\<close> operator,
    loops, \<open>Vec\<close>; the weakest-precondition rules. A proved \<open>wp\<close> excludes undefined behaviour
    (a read of memory that is not there, pointer arithmetic that leaves its slice) and abort (a
    panic, an integer underflow, an infallible allocation that fails).
  \<^item> \<open>Request\<close> (request.rs): \<open>rsi_read_request\<close>, \<open>rsi_parse_request\<close>, the guard
    \<open>req_payload_for\<close>, the macro \<open>req_payload_and_out!\<close> and the 18 decoders. The locale
    \<open>op_decoder\<close> is their common contract, interpreted on all of them through the table
    \<open>decoder_of\<close>.
  \<^item> \<open>Validate\<close> (response.rs, first part): the NULL, boolean and target checks, GUID vectors,
    \<open>validate_lookup_metadata\<close>, \<open>validate_enum_children_metadata\<close>, \<open>orphaned_guid_bytes\<close>,
    \<open>require_response_req\<close>, \<open>validate_status_response\<close>. Locales \<open>guid_collector\<close> and
    \<open>cover_check\<close>.
  \<^item> \<open>Writer\<close> (response.rs, second part): headers, \<open>write_frame\<close>, status frames,
    \<open>rsi_write_response\<close>, \<open>rsi_respond_status\<close>, \<open>FrameWriter\<close>, \<open>finish_response\<close>,
    \<open>finish_and_send\<close>. The writer is used through the locale \<open>byte_sink\<close>.
  \<^item> \<open>Respond\<close> (response.rs, third part): the block encoders and the five payload responders,
    with the byte strings they are to produce; \<open>Reply\<close>: the locale \<open>payload_responder\<close>, their
    contract, and its five interpretations; \<open>Wire\<close>: the abstract grammar of the payloads (the
    locale \<open>codec\<close>) and, as the locale \<open>readable_responder\<close>, that a sent frame is read back.
  \<^item> \<open>Source\<close> (source.rs): \<open>marshal_hive\<close> and \<open>rsi_register\<close>.
  \<^item> \<open>Request_Correct\<close>, \<open>Frame_Correct\<close>, \<open>Respond_Correct\<close>, \<open>Source_Correct\<close>: the properties of
    each part, each with an instance on concrete data; \<open>Message\<close>: requests as abstract messages,
    which the decoders refine; \<open>Protocol\<close>: the five responders as one operation on a type
    \<open>reply\<close>.
  \<^item> \<open>Layout\<close>: the \<open>repr(C)\<close> offsets of every struct and the byte memory the typed cells stand
    for.
  \<^item> \<open>Calls\<close>: the exported functions as one datatype with a contract each, the inductive
    relation \<open>call_effect\<close> of what any of them may do, and the properties all share; \<open>Session\<close>:
    a step relation of a process that calls the library, with the invariants of its reachable
    states.
  \<^item> \<open>Serve\<close>: the library against the source device as \<open>docs/design-notes.md\<close> documents it: the
    requests in flight, and the rounds (receive, parse, answer) of a server; \<open>Server\<close>: a server
    with several requests in progress, as a step relation.
  \<^item> \<open>Cost\<close>: a logic of bounds on the number of allocator requests, and a bound for every
    exported function.
  \<^item> \<open>Crate\<close> (lib.rs, build.rs): the assembler stub for the unwinder, assembled and run, its
    symbol, and the soname the build script sets.
  \<^item> \<open>Headers\<close>: \<open>include/rsi/source.h\<close>, \<open>request.h\<close> and \<open>response.h\<close>, the Rust items they
    declare, the committed snapshot \<open>abi/rsi-abi.h\<close>, and the comparison of
    \<open>tools/verify-abi.sh\<close> between them.
  \<^item> \<open>Tests\<close>, \<open>Request_Tests\<close>, \<open>Response_Tests\<close>: the crate's unit tests as definitions that run
    the model; that they pass, and for the round trips of responses through a pipe and its reader
    thread, what they decide about lcs-core.
  \<^item> This theory: the properties that span parts.

  \<^bold>\<open>What is shown.\<close> Under the documented pointer contracts every exported function returns: no
  undefined behaviour, panic or abort, for any pattern of allocation failures and any kernel
  answers, and at most three system calls; \<open>rsi_parse_request\<close> relies for this on the length check
  of lcs-core's header parser. Each theorem fixes the complete behaviour: result,
  \<open>errno\<close>, memory and system calls on every branch. A call stores only where it was told to,
  keeps the type of every cell, and fails with the documented \<open>errno\<close> values. Decoders refuse
  requests of another op and overwrite the whole out struct; the struct denotes exactly the
  message lcs-core parsed, through pointers that stay inside the payload. Responders send at
  most one frame; acceptance is characterised exactly (metadata covers the GUID targets once
  each, orphans nonzero and unique, booleans, NULL rules), and a frame that was sent reads back
  as the caller's data under the request's id. Registration leaks no descriptor, keeps the
  \<open>errno\<close> of a refused registration across \<open>close\<close>, and shows the kernel exactly the hives.
  In every state a process can reach by calling the library, all frames written were acceptable
  in form or passed on unchanged by \<open>rsi_write_response\<close>, and the open descriptors are those
  handed to the caller. Typed memory is
  justified by the layouts: bytes and types determine the cells, and assigning a struct's fields
  at their offsets is the store of one cell; the shipped headers declare the same signatures and
  the same struct layouts as the Rust items. A \<open>write\<close> is accepted by the device exactly when the
  request it answers is in flight, and a sequence of rounds answers each request it received, in
  order, and leaves none in flight. A server that works on many requests at once, in any order and
  with failures, loses none, and from any state it reaches can answer all of them with status
  responses, which need no memory. Receiving, parsing, decoding and status responses do not
  allocate; a payload response makes a number of requests linear in its entries. The crate's tests
  pass in the model; the round-trip tests of responses pass exactly when lcs-core reads six
  frames that are written down.

  \<^bold>\<open>Bounds.\<close> Counts and lengths keep their 32 bits, pointers and \<open>usize\<close> 64 bits; frames
  of \<open>2^32\<close> bytes or more are the \<open>EOVERFLOW\<close> branch. All loops are over lists of the length
  the count gives, so there is no fuel. The payload view of \<open>rsi_parse_request\<close> is exact for
  payloads shorter than \<open>2^32\<close>; beyond that the cast to \<open>u32\<close> truncates, as the model shows.

  \<^bold>\<open>Hypotheses.\<close> \<open>try_extend_appends\<close> (an extension that succeeds appends), \<open>header_parser_checks\<close>
  (the minimum length the header parser documents), \<open>parsers_borrow\<close> (parsed fields point into
  the payload), \<open>op_codes_distinct\<close>, that \<open>open\<close> returns a descriptor that is not open, that
  \<open>read\<close> delivers no more than it was asked for, and that a vector's buffer is unused memory.
  The tests assume the constants they name (\<open>test_env\<close>) and that lcs-core's parsers read back
  what its builders wrote for the tests' own messages (\<open>lcs_agrees\<close>); the response round trips
  also that the pipe delivers what was written (\<open>pipe_works\<close>) and the constants of
  \<open>response_env\<close>, and nothing about lcs-core's response parsers. \<open>Serve\<close> assumes the documented device (\<open>source_device\<close>) and that
  different ops have different response codes (\<open>response_codes_inj\<close>). Nothing is assumed about
  the order or number of allocation failures.

  \<^bold>\<open>Not modelled.\<close> In \<open>src/src/lib.rs\<close> the static that installs the allocator (the allocator is
  peios-cabi code and a parameter; the panic handler is the outcome \<open>Abort\<close>); of the ABI tooling,
  running cbindgen, compiling the headers and inspecting the shared object; deallocation, which in Rust follows from scope and has no effect the
  library observes; calls of several threads that overlap in time (the library has no shared
  state; a call is one step of \<open>Session\<close> and \<open>Server\<close>).
\<close>

section \<open>One endpoint\<close>

text \<open>
  Every payload responder, on every readable reply value and on a request pointer that is
  NULL or readable: the call returns 0 or -1 without undefined behaviour or abort, leaves memory
  as it was and makes at most one system call, a \<open>write\<close> to the given descriptor.
\<close>

theorem respond_at_most_one_write:
  assumes "try_extend_appends E" "reply_valid (mem s) a" "req \<noteq> NULL \<longrightarrow> mem s req = Some (Request r)"
  shows "\<exists>x s'. respond E fd req a s = Done x s' \<and> x \<in> {0, -1} \<and> mem s' = mem s \<and>
    (trace s' = trace s \<or> (\<exists>frame sr. trace s' = trace s @ [(Sys_write fd frame, sr)]))"
  using assms by (rule any.run_total)

theorem respond_at_most_one_write_witness:
  "\<exists>x s'. respond ex_env 3 0x100 (Reply_lookup ex_lookup_args) ex_rworld = Done x s' \<and> x \<in> {0, -1} \<and>
    mem s' = ex_rheap \<and> (trace s' = [] \<or> (\<exists>frame sr. trace s' = [(Sys_write 3 frame, sr)]))"
  using respond_at_most_one_write [OF ex_env_try_extend, where s = ex_rworld and a = "Reply_lookup ex_lookup_args"
      and req = "0x100" and r = "ex_req 1" and fd = 3]
  by (simp add: ex_lookup_valid)

text \<open>
  With memory available, an acceptable reply to a request of its op is delivered: exactly
  one \<open>write\<close> of the complete frame is made, and its outcome is what the caller is told. No
  other failure is possible.
\<close>

theorem respond_delivers:
  assumes "try_extend_appends E" "\<not> may_oom E" "req \<noteq> NULL" "mem s req = Some (Request r)"
    and "op_code r = ucast (code_of E (reply_op a))" "reply_valid (mem s) a" "reply_ok E a"
    and "rsi_response_op_code E (op_code r) = Some resp_op" "18 + length (reply_body (mem s) a) < 2 ^ 32"
  shows "wp (respond E fd req a)
    (sent E fd (response_frame (request_id r) resp_op (RSI_OK E) (reply_body (mem s) a)) s) s"
  using assms by (rule any.delivered)

theorem respond_delivers_witness:
  "\<exists>s'. respond ex_env 3 0x180 (Reply_enum_children ex_enum_args) ex_rworld = Done 0 s' \<and>
    map fst (trace s') = [Sys_write 3 (response_frame 7 0x8005 0 (enum_children_body ex_rheap ex_enum_args))]"
  using wpD [OF respond_delivers [OF ex_env_try_extend ex_env_no_oom, where s = ex_rworld
      and a = "Reply_enum_children ex_enum_args" and req = "0x180" and r = "ex_req 5" and fd = 3 and resp_op = "0x8005"]]
  by (auto simp: ex_enum_valid ex_enum_ok sent_def)

text \<open>
  With memory available, an unacceptable reply is refused with \<open>EINVAL\<close>, and nothing is
  written and nothing changed: the request can still be answered.
\<close>

theorem respond_refuses:
  assumes "try_extend_appends E" "\<not> may_oom E" "req \<noteq> NULL" "mem s req = Some (Request r)"
    and "op_code r = ucast (code_of E (reply_op a))" "reply_valid (mem s) a" "\<not> reply_ok E a"
  shows "wp (respond E fd req a) (\<lambda>x s'. x = -1 \<and> errno s' = EINVAL \<and> trace s' = trace s \<and> mem s' = mem s) s"
  using assms by (rule any.refused)

theorem respond_refuses_witness:
  "\<exists>s'. respond ex_env 3 0x100 (Reply_lookup ((0x1000, 2, [ex_path1, ex_path2]), (NULL, 0, []))) ex_rworld = Done (-1) s' \<and>
    errno s' = EINVAL \<and> trace s' = []"
proof -
  have "lookup_valid ex_rheap ((0x1000, 2, [ex_path1, ex_path2]), (NULL, 0, []))"
    using ex_paths_valid by (simp add: lookup_valid_def metadata_block_valid_def metadata_array_def carray_def)
  moreover have "\<not> lookup_ok ex_env ((0x1000, 2, [ex_path1, ex_path2]), (NULL, 0, []))"
    using ex_paths_ok by (simp add: lookup_ok_def metadata_covers_def)
  ultimately show ?thesis
    using wpD [OF respond_refuses [OF ex_env_try_extend ex_env_no_oom, where s = ex_rworld
        and a = "Reply_lookup ((0x1000, 2, [ex_path1, ex_path2]), (NULL, 0, []))" and req = "0x100" and r = "ex_req 1" and fd = 3]]
    by auto
qed

section \<open>From request to response\<close>

text \<open>
  A request that a decoder accepted can only be answered by the responder of the same op:
  after \<open>decoder_of op\<close> returned 0, every reply of another op is refused with \<open>EINVAL\<close> without
  any system call.
\<close>

theorem decoded_request_other_reply_refused:
  assumes "op_codes_distinct E" "request_valid (mem s) req" "mem s req = Some (Request r)"
    and "out = NULL \<or> (\<exists>c. mem s out = Some c \<and> out_typed op c)" "decoder_of op E req out s = Done 0 s'"
    and "reply_op a \<noteq> op"
  shows "respond E fd req a s' = Done (-1) (s'\<lparr>errno := EINVAL\<rparr>)"
proof -
  note dec = decoded_request_op [OF assms(2-5)]
  have "op_code r \<noteq> ucast (code_of E (reply_op a))"
    using assms(1,6) dec(2) by (auto simp: op_codes_distinct_def dest: injD)
  then show ?thesis by (rule any.other_request [OF dec(1,3)])
qed

theorem decoded_request_other_reply_refused_witness:
  "\<exists>s'. decoder_of RSI_LOOKUP ex_env 0x4000 0x3000 ex_world = Done 0 s' \<and>
    respond ex_env 3 0x4000 (Reply_query_values ((NULL, 0, []), (NULL, 0, []))) s' = Done (-1) (s'\<lparr>errno := EINVAL\<rparr>)"
  using decoded_request_other_reply_refused [OF ex_env_op_codes, where s = ex_world and req = "0x4000" and out = "0x3000"
      and r = "\<lparr>request_id = 7, txn_id = 3, payload = 0x1016, payload_len = 22, op_code = 1\<rparr>"
      and a = "Reply_query_values ((NULL, 0, []), (NULL, 0, []))" and fd = 3, OF _ _ _ ex_lookup_decode]
    ex_request_valid ex_lookup_decode
  by simp

text \<open>
  Parsing a frame and answering it with a status echoes the frame's header: the response
  carries the request id of the frame and the response op-code of the frame's op-code,
  whatever else the frame holds, and the only system call is that one \<open>write\<close>.
\<close>

theorem parse_then_status_echoes:
  assumes "req \<noteq> NULL" "mem s req = Some (Request old)"
    and "frame \<noteq> NULL" "read_bytes (mem s) frame (unat len) = Some bs"
    and "parse_rsi_request_header E \<lparr>as_ptr = frame, bytes_of = bs\<rparr> = Some h"
    and "rsi_response_op_code E (hd_op_code h) = Some resp_op" "status_allowed E (hd_op_code h) status"
    and "bindM (rsi_parse_request E frame len req) (\<lambda>_. rsi_respond_status E fd req status) s = Done 0 s'"
  shows "\<exists>reply sr. trace s' = trace s @ [(Sys_write fd reply, sr)] \<and> length reply = 18 \<and>
    dec_frame reply = Some (hd_request_id h, resp_op, status, [])"
proof -
  obtain r where r: "request_id r = hd_request_id h" "op_code r = hd_op_code h"
    and parse: "rsi_parse_request E frame len req s = Done 0 (s\<lparr>mem := (mem s)(req \<mapsto> Request r)\<rparr>)"
    using parse_stores [OF assms(1-5)] assms(8) by (force simp: bindM_def)
  let ?s = "s\<lparr>mem := (mem s)(req \<mapsto> Request r)\<rparr>" and ?f = "response_frame (request_id r) resp_op status []"
  have "write_frame E fd ?f ?s = Done 0 s'"
    using assms(6-8) r respond_status_eq [OF assms(1), of ?s r E fd status] by (simp add: bindM_def parse)
  then have "sent E fd ?f ?s 0 s'"
    using wp_write_frame [of E fd ?f ?s] by (simp add: wp_Done)
  then show ?thesis
    using dec_frame_response [of "[]" "request_id r" resp_op status] r by (auto simp: sent_def split: if_splits)
qed

theorem parse_then_status_echoes_witness:
  "\<exists>s' reply sr. bindM (rsi_parse_request ex_env 0x1000 44 0x2000) (\<lambda>_. rsi_respond_status ex_env 3 0x2000 5) ex_world =
      Done 0 s' \<and> trace s' = [(Sys_write 3 reply, sr)] \<and> dec_frame reply = Some (7, 0x8001, 5, [])"
proof -
  have read: "read_bytes (mem ex_world) 0x1000 (unat (44 :: u64)) = Some ex_lookup_frame"
    using ex_frame_read by simp
  obtain s' where s': "bindM (rsi_parse_request ex_env 0x1000 44 0x2000) (\<lambda>_. rsi_respond_status ex_env 3 0x2000 5) ex_world = Done 0 s'"
    using rsi_parse_request_eq [of "0x2000" ex_world ex_request0 "0x1000" 44 ex_lookup_frame ex_env] read
    by (simp add: bindM_def ex_frame_header respond_status_eq status_allowed_def write_frame_exact_ok)
  from parse_then_status_echoes [OF _ _ _ read _ _ _ s', where old = ex_request0
      and h = "\<lparr>hd_request_id = 7, hd_txn_id = 3, hd_op_code = 1\<rparr>" and resp_op = "0x8001"] s' show ?thesis
    by (auto simp: ex_frame_header status_allowed_def)
qed

text \<open>
  C1. Serving one payload-bearing request end to end: parse the frame, decode it with the
  decoder of \<open>op\<close>, answer it. If all three calls succeed, then the reply was one for \<open>op\<close>, the
  arguments were acceptable, and the only system call was one \<open>write\<close> of a frame that reads
  back as the request id of the frame, the response op-code of its op-code, \<open>RSI_OK\<close> and the
  payload of the reply.
\<close>

theorem serve_request_end_to_end:
  assumes "try_extend_appends E" "op_codes_distinct E"
    and "req \<noteq> NULL" "mem s req = Some (Request old)"
    and "frame \<noteq> NULL" "read_bytes (mem s) frame (unat len) = Some bs"
    and "rsi_parse_request E frame len req s = Done 0 s1"
    and "request_valid (mem s1) req" "out = NULL \<or> (\<exists>c. mem s1 out = Some c \<and> out_typed op c)"
    and "decoder_of op E req out s1 = Done 0 s2"
    and "reply_valid (mem s2) a" "respond E fd req a s2 = Done 0 s3"
  shows "\<exists>h resp_op reply sr. parse_rsi_request_header E \<lparr>as_ptr = frame, bytes_of = bs\<rparr> = Some h \<and>
    hd_op_code h = ucast (code_of E op) \<and> reply_op a = op \<and> reply_ok E a \<and>
    rsi_response_op_code E (hd_op_code h) = Some resp_op \<and> trace s3 = trace s @ [(Sys_write fd reply, sr)] \<and>
    dec_frame reply = Some (hd_request_id h, resp_op, RSI_OK E, reply_body (mem s2) a)"
proof -
  obtain h r where h: "parse_rsi_request_header E \<lparr>as_ptr = frame, bytes_of = bs\<rparr> = Some h"
    and r: "request_id r = hd_request_id h" "op_code r = hd_op_code h"
    and s1: "s1 = s\<lparr>mem := (mem s)(req \<mapsto> Request r)\<rparr>"
    using parse_accepted [OF assms(3-7)] by blast
  have "mem s1 req = Some (Request r)" by (simp add: s1)
  note dec = decoded_request_op [OF assms(8) this assms(9,10)]
  from dec(3) have "req \<noteq> NULL \<longrightarrow> mem s2 req = Some (Request r)" by blast
  note sound = any.success_sound [OF assms(1,11) this assms(12)]
  have "reply_op a = op"
    using sound dec(2) assms(2) by (auto simp: op_codes_distinct_def dest: injD)
  with sound h r dec(2,4) s1 show ?thesis using dec_frame_response by fastforce
qed

text \<open>A run of the three calls on the example LOOKUP frame, answered with nothing found.\<close>

definition ex_served :: rsi_request where
  "ex_served = \<lparr>request_id = 7, txn_id = 3, payload = 0x1016, payload_len = 22, op_code = 1\<rparr>"

abbreviation ex_empty :: reply where
  "ex_empty \<equiv> Reply_lookup ((NULL, 0, []), (NULL, 0, []))"

lemma ex_empty_reply:
  "lookup_valid h ((NULL, 0, []), (NULL, 0, []))" "lookup_ok ex_env ((NULL, 0, []), (NULL, 0, []))"
  "lookup_body h ((NULL, 0, []), (NULL, 0, [])) = replicate 8 0"
  by (simp_all add: lookup_valid_def path_block_valid_def path_array_def metadata_block_valid_def metadata_array_def
      carray_def lookup_ok_def metadata_covers_def nonnull_def lookup_body_def block_bytes_def le_bytes_def upt_rec
      numeral_eq_Suc)

lemma ex_served_read: "read_bytes (ex_heap(0x2000 \<mapsto> Request ex_served)) 0x1016 22 = Some ex_lookup_payload"
  using read_bytes_upd [where h = ex_heap and q = "0x2000" and c = "Request ex_request0"
      and c' = "Request ex_served" and p = "0x1016" and n = 22] ex_payload_read
  by (simp add: as_Byte_def)

definition ex_parsed_world :: world where
  "ex_parsed_world = ex_world\<lparr>mem := ex_heap(0x2000 \<mapsto> Request ex_served)\<rparr>"

definition ex_decoded_world :: world where
  "ex_decoded_world = ex_world\<lparr>mem := ex_heap(0x2000 \<mapsto> Request ex_served, 0x3000 \<mapsto> Lookup
     \<lparr>lk_parent_guid = guid_of (replicate 16 0xAB), lk_child_name = 0x102A, lk_child_name_len = 2\<rparr>)\<rparr>"

lemma ex_run_parse: "rsi_parse_request ex_env 0x1000 44 0x2000 ex_world = Done 0 ex_parsed_world"
  using rsi_parse_request_eq [of "0x2000" ex_world ex_request0 "0x1000" 44 ex_lookup_frame ex_env] ex_frame_read
  by (simp add: ex_frame_header ex_parsed_world_def ex_served_def)

lemma ex_parsed_valid: "request_valid (mem ex_parsed_world) 0x2000"
  using ex_served_read by (simp add: request_valid_def ex_parsed_world_def ex_served_def)

lemma ex_parsed_out: "mem ex_parsed_world 0x3000 =
    Some (Lookup \<lparr>lk_parent_guid = nil_guid, lk_child_name = NULL, lk_child_name_len = 0\<rparr>)"
  by (simp add: ex_parsed_world_def)

lemma ex_run_decode: "decoder_of RSI_LOOKUP ex_env 0x2000 0x3000 ex_parsed_world = Done 0 ex_decoded_world"
proof -
  have "payload_for ex_env (mem ex_parsed_world) 0x2000 1 = Some \<lparr>as_ptr = 0x1016, bytes_of = ex_lookup_payload\<rparr>"
    using ex_served_read by (simp add: payload_for_def ex_parsed_world_def ex_served_def)
  then show ?thesis
    using decoders.dec_eq [where s = ex_parsed_world and req = "0x2000" and out = "0x3000" and op = RSI_LOOKUP
        and E = ex_env] ex_parsed_valid ex_parsed_out
    by (simp add: ex_lookup_parsed out_lookup_def lpf_def) (simp add: ex_parsed_world_def ex_decoded_world_def)
qed

lemma ex_run_respond: "\<exists>s3. respond ex_env 3 0x2000 ex_empty ex_decoded_world = Done 0 s3"
proof -
  have "mem ex_decoded_world 0x2000 = Some (Request ex_served)" by (simp add: ex_decoded_world_def)
  from any.delivered [OF ex_env_try_extend ex_env_no_oom _ this, where a = ex_empty and resp_op = "0x8001" and fd = 3]
  have "wp (respond ex_env 3 0x2000 ex_empty)
      (sent ex_env 3 (response_frame 7 0x8001 0 (replicate 8 0)) ex_decoded_world) ex_decoded_world"
    by (simp add: ex_served_def ex_empty_reply)
  then show ?thesis by (auto dest!: wpD simp: sent_def)
qed

theorem serve_request_end_to_end_witness:
  "\<exists>s3 reply sr. rsi_parse_request ex_env 0x1000 44 0x2000 ex_world = Done 0 ex_parsed_world \<and>
    decoder_of RSI_LOOKUP ex_env 0x2000 0x3000 ex_parsed_world = Done 0 ex_decoded_world \<and>
    respond ex_env 3 0x2000 ex_empty ex_decoded_world = Done 0 s3 \<and>
    trace s3 = [(Sys_write 3 reply, sr)] \<and> dec_frame reply = Some (7, 0x8001, 0, replicate 8 0)"
proof -
  have read: "read_bytes (mem ex_world) 0x1000 (unat (44 :: u64)) = Some ex_lookup_frame"
    using ex_frame_read by simp
  have out: "0x3000 = NULL \<or> (\<exists>c. mem ex_parsed_world 0x3000 = Some c \<and> out_typed RSI_LOOKUP c)"
    by (simp add: ex_parsed_out)
  obtain s3 where s3: "respond ex_env 3 0x2000 ex_empty ex_decoded_world = Done 0 s3"
    using ex_run_respond by blast
  from serve_request_end_to_end [OF ex_env_try_extend ex_env_op_codes _ _ _ read ex_run_parse ex_parsed_valid out
      ex_run_decode _ s3, of ex_request0]
  show ?thesis using ex_run_parse ex_run_decode s3 by (simp add: ex_empty_reply ex_frame_header)
qed

end
